(* ===== verification/Prelude.thy ===== *)
theory Prelude
  imports Main "HOL-Library.Word" "HOL-Library.Sublist" "HOL-Library.Char_ord"
begin

text \<open>
  What every component shares: Go's machine integer, the outcome of a Go call (a returned value
  or a run-time panic), the state-passing type of a call that talks to the outside world, and the
  facts that let the simplifier run such calls.

  A Go function with results \<open>(a, b, error)\<close> is modelled with exactly that tuple as its value, an
  absent error being \<^const>\<open>None\<close>; the world \<open>'w\<close> (the remote Confluence instance, the network and
  the HTTP response cache) is threaded through explicitly.
\<close>

named_theorems io_simps \<open>unfolding a state-passing call\<close>
named_theorems dec_simps \<open>running a JSON decoder on a concrete document\<close>

section \<open>Machine integers\<close>

text \<open>Go's \<open>int\<close> is 64 bits wide on the platforms the connector is built for.\<close>

type_synonym goint = "64 word"

definition max_int64 :: int where "max_int64 = 9223372036854775807"
definition min_int64 :: int where "min_int64 = -9223372036854775808"

definition in_int64 :: "int \<Rightarrow> bool" where
  "in_int64 i \<longleftrightarrow> min_int64 \<le> i \<and> i \<le> max_int64"

lemma sint_goint_bounds: "min_int64 \<le> sint (x :: goint) \<and> sint x \<le> max_int64"
  using sint_range_size [of x] by (simp add: min_int64_def max_int64_def word_size)

lemma sint_in_int64 [simp]: "in_int64 (sint (x :: goint))"
  by (simp add: in_int64_def sint_goint_bounds)

lemma sint_of_int_in_int64:
  "in_int64 i \<Longrightarrow> sint (word_of_int i :: goint) = i"
  by (simp add: in_int64_def min_int64_def max_int64_def sint_sbintrunc' signed_take_bit_int_eq_self)

section \<open>Calls that may panic and talk to the world\<close>

datatype 'a go = Ret 'a | Panic string

type_synonym ('w, 'a) io = "'w \<Rightarrow> 'a go \<times> 'w"

definition ret :: "'a \<Rightarrow> ('w, 'a) io" where
  "ret a = (\<lambda>w. (Ret a, w))"

definition panic :: "string \<Rightarrow> ('w, 'a) io" where
  "panic msg = (\<lambda>w. (Panic msg, w))"

definition bindIO :: "('w, 'a) io \<Rightarrow> ('a \<Rightarrow> ('w, 'b) io) \<Rightarrow> ('w, 'b) io" where
  "bindIO m f = (\<lambda>w. case m w of (Ret a, w') \<Rightarrow> f a w' | (Panic p, w') \<Rightarrow> (Panic p, w'))"

text \<open>Reading a field through a pointer panics when the pointer is nil.\<close>

definition deref :: "'a option \<Rightarrow> ('a \<Rightarrow> ('w, 'b) io) \<Rightarrow> ('w, 'b) io" where
  "deref p f = (case p of None \<Rightarrow> panic ''nil pointer dereference'' | Some a \<Rightarrow> f a)"

lemma ret_apply [io_simps, simp]: "ret a w = (Ret a, w)"
  by (simp add: ret_def)

lemma panic_apply [io_simps, simp]: "panic p w = (Panic p, w)"
  by (simp add: panic_def)

lemma bindIO_apply [io_simps]:
  "bindIO m f w = (case m w of (Ret a, w') \<Rightarrow> f a w' | (Panic p, w') \<Rightarrow> (Panic p, w'))"
  by (simp add: bindIO_def)

lemma bindIO_ret [simp]: "bindIO (ret a) f = f a"
  by (simp add: bindIO_def fun_eq_iff)

lemma bindIO_panic [simp]: "bindIO (panic p) f = panic p"
  by (simp add: bindIO_def fun_eq_iff)

lemma bindIO_assoc: "bindIO (bindIO m f) g = bindIO m (\<lambda>a. bindIO (f a) g)"
  by (simp add: bindIO_def fun_eq_iff split: go.splits prod.splits)

lemma bindIO_Ret: "m w = (Ret a, w') \<Longrightarrow> bindIO m f w = f a w'"
  by (simp add: bindIO_def)

lemma deref_Some [simp]: "deref (Some a) f = f a"
  by (simp add: deref_def)

lemma deref_None [simp]: "deref None f = panic ''nil pointer dereference''"
  by (simp add: deref_def)

text \<open>A call that ends normally did not end in a panic.\<close>

definition returns :: "'a go \<times> 'w \<Rightarrow> bool" where
  "returns r \<longleftrightarrow> (case fst r of Ret _ \<Rightarrow> True | Panic _ \<Rightarrow> False)"

lemma returns_iff: "returns r \<longleftrightarrow> (\<exists>a w. r = (Ret a, w))"
  by (cases r) (auto simp: returns_def split: go.splits)

section \<open>Lists and options\<close>

lemma find_append:
  "find P (xs @ ys) = (case find P xs of None \<Rightarrow> find P ys | Some x \<Rightarrow> Some x)"
  by (induction xs) auto

text \<open>A loop that converts the elements of a slice and returns at the first error.\<close>

fun try_map :: "('a \<Rightarrow> 'e + 'b) \<Rightarrow> 'a list \<Rightarrow> 'e + 'b list" where
  "try_map f [] = Inr []"
| "try_map f (x # xs) =
     (case f x of Inl e \<Rightarrow> Inl e
      | Inr y \<Rightarrow> (case try_map f xs of Inl e \<Rightarrow> Inl e | Inr ys \<Rightarrow> Inr (y # ys)))"

lemma try_map_Inr: "\<forall>x \<in> set xs. f x = Inr (g x) \<Longrightarrow> try_map f xs = Inr (map g xs)"
  by (induction xs) simp_all

lemma try_map_all:
  "try_map f xs = Inr ys \<Longrightarrow> (\<And>x y. f x = Inr y \<Longrightarrow> P y) \<Longrightarrow> list_all P ys"
  by (induction xs arbitrary: ys) (auto split: sum.splits)

section \<open>Codecs\<close>

text \<open>
  What every textual encoding of the program promises: on the values it is used for, decoding gives
  back what was encoded. A page codec never encodes a value as the empty token, which means the end
  of a listing.
\<close>

locale codec =
  fixes encode :: "'a \<Rightarrow> string"
    and decode :: "string \<Rightarrow> 'a option"
    and ok :: "'a \<Rightarrow> bool"
  assumes decode_encode: "ok x \<Longrightarrow> decode (encode x) = Some x"
begin

lemma encode_eq_iff: "ok x \<Longrightarrow> ok y \<Longrightarrow> encode x = encode y \<longleftrightarrow> x = y"
  using decode_encode by (metis option.inject)

lemma encode_map_eq_iff:
  "list_all ok xs \<Longrightarrow> list_all ok ys \<Longrightarrow> map encode xs = map encode ys \<longleftrightarrow> xs = ys"
proof (induction xs arbitrary: ys)
  case (Cons x xs)
  then show ?case by (cases ys) (auto simp: encode_eq_iff)
qed auto

end

locale page_codec = codec +
  assumes encode_nonempty: "ok x \<Longrightarrow> encode x \<noteq> []"
begin

lemma next_token_fresh: "ok x \<Longrightarrow> ok y \<Longrightarrow> x \<noteq> y \<Longrightarrow> encode y \<noteq> [] \<and> encode y \<noteq> encode x"
  by (simp add: encode_nonempty encode_eq_iff)

end

end
