(* ===== verification/GoStrings.thy ===== *)
theory GoStrings
  imports Prelude
begin

text \<open>
  The parts of Go's \<open>strings\<close>, \<open>strconv\<close> and \<open>unicode/utf8\<close> packages that the connector uses.
  A Go string is a sequence of bytes, which is what HOL's \<^typ>\<open>string\<close> is.
\<close>

section \<open>Bytes\<close>

abbreviation byte_of :: "char \<Rightarrow> nat" where "byte_of c \<equiv> of_char c"

definition is_digit :: "char \<Rightarrow> bool" where
  "is_digit c \<longleftrightarrow> 48 \<le> byte_of c \<and> byte_of c \<le> 57"

definition is_lower :: "char \<Rightarrow> bool" where
  "is_lower c \<longleftrightarrow> 97 \<le> byte_of c \<and> byte_of c \<le> 122"

definition is_upper :: "char \<Rightarrow> bool" where
  "is_upper c \<longleftrightarrow> 65 \<le> byte_of c \<and> byte_of c \<le> 90"

definition lower :: "char \<Rightarrow> char" where
  "lower c = (if is_upper c then char_of (byte_of c + 32) else c)"

definition upper :: "char \<Rightarrow> char" where
  "upper c = (if is_lower c then char_of (byte_of c - 32) else c)"

definition to_lower :: "string \<Rightarrow> string" where "to_lower s = map lower s"

definition is_space :: "char \<Rightarrow> bool" where
  "is_space c \<longleftrightarrow> byte_of c \<in> {9, 10, 11, 12, 13, 32}"

definition trim_space :: "string \<Rightarrow> string" where
  "trim_space s = rev (dropWhile is_space (rev (dropWhile is_space s)))"

section \<open>Cut, Split, Contains\<close>

text \<open>\<open>strings.Cut\<close> for a one-byte separator: before, after, found.\<close>

fun cut :: "char \<Rightarrow> string \<Rightarrow> string \<times> string \<times> bool" where
  "cut c [] = ([], [], False)"
| "cut c (x # xs) =
     (if x = c then ([], xs, True)
      else (case cut c xs of (b, a, f) \<Rightarrow> (x # b, a, f)))"

text \<open>The same at the last occurrence (\<open>strings.LastIndex\<close>).\<close>

definition cut_last :: "char \<Rightarrow> string \<Rightarrow> string \<times> string \<times> bool" where
  "cut_last c s = (case cut c (rev s) of (b, a, f) \<Rightarrow>
     if f then (rev a, rev b, True) else (s, [], False))"

text \<open>\<open>strings.Split\<close> for a one-byte separator; the result is never empty.\<close>

fun split_str :: "char \<Rightarrow> string \<Rightarrow> string list" where
  "split_str c [] = [[]]"
| "split_str c (x # xs) =
     (if x = c then [] # split_str c xs
      else (case split_str c xs of [] \<Rightarrow> [[x]] | p # ps \<Rightarrow> (x # p) # ps))"

definition contains_str :: "string \<Rightarrow> string \<Rightarrow> bool" where
  "contains_str s sub = list_ex (prefix sub) (suffixes s)"

definition single_quoted :: "string \<Rightarrow> string" where
  "single_quoted s = CHR 0x27 # s @ [CHR 0x27]"

lemma split_str_nonempty [simp]: "split_str c s \<noteq> []"
  by (induction s) (auto split: list.splits)

lemma split_str_no_sep: "c \<notin> set s \<Longrightarrow> split_str c s = [s]"
  by (induction s) auto

lemma split_str_append: "c \<notin> set s \<Longrightarrow> split_str c (s @ c # t) = s # split_str c t"
  by (induction s) (auto split: list.splits)

lemma length_split_str: "length (split_str c s) = Suc (count_list s c)"
proof (induction s)
  case (Cons x xs)
  then show ?case by (cases "split_str c xs") auto
qed simp

lemma cut_no_sep: "c \<notin> set s \<Longrightarrow> cut c s = (s, [], False)"
  by (induction s) auto

lemma cut_append: "c \<notin> set s \<Longrightarrow> cut c (s @ c # t) = (s, t, True)"
  by (induction s) auto

section \<open>Decimal numbers\<close>

definition digit_char :: "nat \<Rightarrow> char" where "digit_char n = char_of (48 + n)"

definition digit_val :: "char \<Rightarrow> nat" where "digit_val c = byte_of c - 48"

fun nat_digits :: "nat \<Rightarrow> string" where
  "nat_digits n = (if n < 10 then [digit_char n] else nat_digits (n div 10) @ [digit_char (n mod 10)])"

declare nat_digits.simps [simp del]

definition itoa_int :: "int \<Rightarrow> string" where
  "itoa_int i = (if i < 0 then CHR ''-'' # nat_digits (nat (- i)) else nat_digits (nat i))"

text \<open>\<open>strconv.Itoa\<close>.\<close>

definition itoa :: "goint \<Rightarrow> string" where "itoa x = itoa_int (sint x)"

definition digits_val :: "string \<Rightarrow> nat" where
  "digits_val s = foldl (\<lambda>n c. 10 * n + digit_val c) 0 s"

definition unsigned_val :: "string \<Rightarrow> nat option" where
  "unsigned_val s = (if s \<noteq> [] \<and> list_all is_digit s then Some (digits_val s) else None)"

text \<open>\<open>strconv.ParseInt(s, 10, 64)\<close>: an optional sign, at least one digit, 64-bit range.\<close>

definition parse_int :: "string \<Rightarrow> int option" where
  "parse_int s =
     (let signed = (case s of [] \<Rightarrow> None
          | c # cs \<Rightarrow>
             if c = CHR ''-'' then map_option (\<lambda>n. - int n) (unsigned_val cs)
             else if c = CHR ''+'' then map_option int (unsigned_val cs)
             else map_option int (unsigned_val s))
      in case signed of None \<Rightarrow> None | Some i \<Rightarrow> if in_int64 i then Some i else None)"

text \<open>\<open>strconv.Atoi\<close>, \<^const>\<open>None\<close> being its error.\<close>

definition atoi :: "string \<Rightarrow> goint option" where
  "atoi s = map_option word_of_int (parse_int s)"

lemma byte_of_digit_char: "n < 10 \<Longrightarrow> byte_of (digit_char n) = 48 + n"
  by (simp add: digit_char_def)

lemma is_digit_digit_char [simp]: "n < 10 \<Longrightarrow> is_digit (digit_char n)"
  by (simp add: is_digit_def byte_of_digit_char)

lemma digit_val_digit_char [simp]: "n < 10 \<Longrightarrow> digit_val (digit_char n) = n"
  by (simp add: digit_val_def byte_of_digit_char)

lemma nat_digits_nonempty [simp]: "nat_digits n \<noteq> []"
  by (subst nat_digits.simps) simp

lemma nat_digits_digits: "list_all is_digit (nat_digits n)"
proof (induction n rule: nat_digits.induct)
  case (1 n)
  then show ?case by (subst nat_digits.simps) auto
qed

lemma digits_val_append: "digits_val (s @ [c]) = 10 * digits_val s + digit_val c"
  by (simp add: digits_val_def)

lemma digits_val_nat_digits: "digits_val (nat_digits n) = n"
proof (induction n rule: nat_digits.induct)
  case (1 n)
  show ?case
  proof (cases "n < 10")
    case True
    then show ?thesis by (subst nat_digits.simps) (simp add: digits_val_def)
  next
    case False
    then show ?thesis
      using "1.IH" by (subst nat_digits.simps) (simp add: digits_val_append)
  qed
qed

lemma unsigned_val_nat_digits [simp]: "unsigned_val (nat_digits n) = Some n"
  by (simp add: unsigned_val_def nat_digits_digits digits_val_nat_digits)

lemma is_digit_not_sign: "is_digit c \<Longrightarrow> c \<noteq> CHR ''-'' \<and> c \<noteq> CHR ''+''"
  by (auto simp: is_digit_def)

lemma nat_digits_head:
  obtains c cs where "nat_digits n = c # cs" "is_digit c"
  using nat_digits_digits [of n] nat_digits_nonempty [of n]
  by (cases "nat_digits n") auto

lemma parse_int_itoa_int: "in_int64 i \<Longrightarrow> parse_int (itoa_int i) = Some i"
proof (cases "i < 0")
  case True
  then show "in_int64 i \<Longrightarrow> ?thesis" by (simp add: itoa_int_def parse_int_def)
next
  case False
  obtain c cs where d: "nat_digits (nat i) = c # cs" "is_digit c"
    by (rule nat_digits_head)
  then have "unsigned_val (c # cs) = Some (nat i)"
    using unsigned_val_nat_digits [of "nat i"] by simp
  with d False show "in_int64 i \<Longrightarrow> ?thesis"
    by (simp add: itoa_int_def parse_int_def is_digit_not_sign)
qed

lemma atoi_itoa [simp]: "atoi (itoa x) = Some x"
  by (simp add: atoi_def itoa_def parse_int_itoa_int)

lemma itoa_nonempty [simp]: "itoa x \<noteq> []"
  by (simp add: itoa_def itoa_int_def)

lemma itoa_inj: "itoa x = itoa y \<longleftrightarrow> x = y"
  by (metis atoi_itoa option.inject)

lemma itoa_chars: "c \<in> set (itoa x) \<Longrightarrow> is_digit c \<or> c = CHR ''-''"
  using nat_digits_digits by (auto simp: itoa_def itoa_int_def list_all_iff split: if_splits)

section \<open>UTF-8\<close>

definition cont_byte :: "char \<Rightarrow> bool" where
  "cont_byte c \<longleftrightarrow> 128 \<le> byte_of c \<and> byte_of c \<le> 191"

definition byte_in :: "nat \<Rightarrow> nat \<Rightarrow> char \<Rightarrow> bool" where
  "byte_in lo hi c \<longleftrightarrow> lo \<le> byte_of c \<and> byte_of c \<le> hi"

text \<open>
  \<open>utf8.DecodeRune\<close> on a string whose first byte is not ASCII: the number of bytes of the leading
  rune, 0 when the bytes are not valid UTF-8.
\<close>

definition rune2 :: "char \<Rightarrow> char \<Rightarrow> bool" where
  "rune2 b0 b1 \<longleftrightarrow> byte_in 194 223 b0 \<and> cont_byte b1"

definition rune3 :: "char \<Rightarrow> char \<Rightarrow> char \<Rightarrow> bool" where
  "rune3 b0 b1 b2 \<longleftrightarrow>
     byte_in 224 239 b0 \<and>
     byte_in (if byte_of b0 = 224 then 160 else 128) (if byte_of b0 = 237 then 159 else 191) b1 \<and>
     cont_byte b2"

definition rune4 :: "char \<Rightarrow> char \<Rightarrow> char \<Rightarrow> char \<Rightarrow> bool" where
  "rune4 b0 b1 b2 b3 \<longleftrightarrow>
     byte_in 240 244 b0 \<and>
     byte_in (if byte_of b0 = 240 then 144 else 128) (if byte_of b0 = 244 then 143 else 191) b1 \<and>
     cont_byte b2 \<and> cont_byte b3"

fun rune_len :: "string \<Rightarrow> nat" where
  "rune_len (b0 # b1 # b2 # b3 # bs) =
     (if rune2 b0 b1 then 2 else if rune3 b0 b1 b2 then 3
      else if rune4 b0 b1 b2 b3 then 4 else 0)"
| "rune_len [b0, b1, b2] = (if rune2 b0 b1 then 2 else if rune3 b0 b1 b2 then 3 else 0)"
| "rune_len [b0, b1] = (if rune2 b0 b1 then 2 else 0)"
| "rune_len [b0] = 0"
| "rune_len [] = 0"

definition is_ascii :: "char \<Rightarrow> bool" where "is_ascii c \<longleftrightarrow> byte_of c < 128"

text \<open>\<open>utf8.AppendRune\<close> for a code point below \<open>0x110000\<close>.\<close>

definition utf8_encode :: "nat \<Rightarrow> string" where
  "utf8_encode r =
     (if r < 128 then [char_of r]
      else if r < 2048 then [char_of (192 + r div 64), char_of (128 + r mod 64)]
      else if r < 65536 then
        [char_of (224 + r div 4096), char_of (128 + (r div 64) mod 64), char_of (128 + r mod 64)]
      else
        [char_of (240 + r div 262144), char_of (128 + (r div 4096) mod 64),
         char_of (128 + (r div 64) mod 64), char_of (128 + r mod 64)])"

text \<open>The replacement character \<open>U+FFFD\<close>.\<close>

definition rune_error :: string where
  "rune_error = [CHR 0xEF, CHR 0xBF, CHR 0xBD]"

fun valid_utf8 :: "string \<Rightarrow> bool" where
  "valid_utf8 [] = True"
| "valid_utf8 (c # cs) =
     (if is_ascii c then valid_utf8 cs
      else rune_len (c # cs) \<noteq> 0 \<and> valid_utf8 (drop (rune_len (c # cs) - 1) cs))"

lemma rune2_high: "rune2 a b \<Longrightarrow> 128 \<le> byte_of a \<and> 128 \<le> byte_of b"
  by (simp add: rune2_def byte_in_def cont_byte_def)

lemma rune3_high: "rune3 a b c \<Longrightarrow> 128 \<le> byte_of a \<and> 128 \<le> byte_of b \<and> 128 \<le> byte_of c"
  by (simp add: rune3_def byte_in_def cont_byte_def split: if_splits)

lemma rune4_high:
  "rune4 a b c d \<Longrightarrow> 128 \<le> byte_of a \<and> 128 \<le> byte_of b \<and> 128 \<le> byte_of c \<and> 128 \<le> byte_of d"
  by (simp add: rune4_def byte_in_def cont_byte_def split: if_splits)

lemma rune_len_bounds: "rune_len s \<noteq> 0 \<Longrightarrow> 2 \<le> rune_len s \<and> rune_len s \<le> length s"
  by (cases s rule: rune_len.cases) (simp_all split: if_splits)

lemma rune_len_append: "rune_len s \<noteq> 0 \<Longrightarrow> rune_len (s @ t) = rune_len s"
proof (cases s rule: rune_len.cases)
  case (2 b0 b1 b2)
  then show "rune_len s \<noteq> 0 \<Longrightarrow> ?thesis" by (cases t) (simp_all split: if_splits)
next
  case (3 b0 b1)
  then show "rune_len s \<noteq> 0 \<Longrightarrow> ?thesis"
    by (cases t rule: rune_len.cases) (simp_all split: if_splits)
qed simp_all

lemma rune_len_take: "rune_len s \<noteq> 0 \<Longrightarrow> rune_len (take (rune_len s) s) = rune_len s"
  by (cases s rule: rune_len.cases) (simp_all split: if_splits)

lemma valid_utf8_ascii: "list_all is_ascii s \<Longrightarrow> valid_utf8 s"
  by (induction s) auto

lemma itoa_ascii: "list_all is_ascii (itoa x)"
  unfolding list_all_iff
proof
  fix c assume "c \<in> set (itoa x)"
  then have "is_digit c \<or> c = CHR ''-''" by (rule itoa_chars)
  then show "is_ascii c" by (auto simp: is_digit_def is_ascii_def)
qed

end
