(* ===== verification/GoUrl.thy ===== *)
theory GoUrl
  imports GoStrings "HOL-Library.AList" "HOL-Library.List_Lexorder"
    "HOL-Library.Multiset"
begin

text \<open>
  The parts of Go's \<open>net/url\<close> that the client is built on: percent-encoding in its several modes,
  \<open>url.Values\<close>, \<open>url.Parse\<close>, \<open>ResolveReference\<close> and \<open>String\<close>. The definitions follow the
  standard library function by function. Not covered: a host that is a bracketed IP literal (refused
  here) and the fields of \<open>url.Error\<close> beside its cause.
\<close>

section \<open>Percent-encoding\<close>

datatype encoding =
  EncodePath | EncodePathSegment | EncodeHost | EncodeUserPassword | EncodeQueryComponent
| EncodeFragment

definition is_alnum :: "char \<Rightarrow> bool" where
  "is_alnum c \<longleftrightarrow> is_lower c \<or> is_upper c \<or> is_digit c"

definition shouldEscape :: "char \<Rightarrow> encoding \<Rightarrow> bool" where
  "shouldEscape c mode =
     (if is_alnum c then False
      else if mode = EncodeHost \<and> c \<in> set ''!$&()*+,;=:[]<>'' \<union> {CHR 0x27, CHR 0x22} then False
      else if c \<in> set ''-_.~'' then False
      else if c \<in> set ''$&+,/:;=?@'' \<and> mode \<noteq> EncodeHost then
        (case mode of
           EncodePath \<Rightarrow> c = CHR ''?''
         | EncodePathSegment \<Rightarrow> c \<in> set ''/;,?''
         | EncodeUserPassword \<Rightarrow> c \<in> set ''@/?:''
         | EncodeQueryComponent \<Rightarrow> True
         | EncodeFragment \<Rightarrow> False
         | EncodeHost \<Rightarrow> True)
      else if mode = EncodeFragment \<and> c \<in> set ''!()*'' then False
      else True)"

definition hex_char :: "nat \<Rightarrow> char" where
  "hex_char n = (if n < 10 then char_of (48 + n) else char_of (55 + n))"

definition is_hex :: "char \<Rightarrow> bool" where
  "is_hex c \<longleftrightarrow> is_digit c \<or> byte_in 97 102 c \<or> byte_in 65 70 c"

definition unhex :: "char \<Rightarrow> nat" where
  "unhex c = (if is_digit c then byte_of c - 48
              else if byte_in 97 102 c then byte_of c - 87 else byte_of c - 55)"

definition escape_char :: "encoding \<Rightarrow> char \<Rightarrow> string" where
  "escape_char mode c =
     (if c = CHR '' '' \<and> mode = EncodeQueryComponent then ''+''
      else if shouldEscape c mode
        then [CHR ''%'', hex_char (byte_of c div 16), hex_char (byte_of c mod 16)]
      else [c])"

definition escape :: "encoding \<Rightarrow> string \<Rightarrow> string" where
  "escape mode s = concat (map (escape_char mode) s)"

datatype url_error =
  InvalidControlChar | MissingScheme | ColonInFirstSegment | EscapeError string
| InvalidHostError string | InvalidPort string | InvalidUserinfo | IPLiteral

fun unescape :: "encoding \<Rightarrow> string \<Rightarrow> url_error + string" where
  "unescape mode [] = Inr []"
| "unescape mode (c # cs) =
     (if c = CHR ''%'' then
        (case cs of
           a # b # cs' \<Rightarrow>
             if is_hex a \<and> is_hex b then
               (if mode = EncodeHost \<and> unhex a < 8 \<and> \<not> (a = CHR ''2'' \<and> b = CHR ''5'')
                then Inl (EscapeError [c, a, b])
                else map_sum id ((#) (char_of (16 * unhex a + unhex b))) (unescape mode cs'))
             else Inl (EscapeError (take 3 (c # cs)))
         | _ \<Rightarrow> Inl (EscapeError (take 3 (c # cs))))
      else if c = CHR ''+'' then
        map_sum id ((#) (if mode = EncodeQueryComponent then CHR '' '' else c)) (unescape mode cs)
      else if mode = EncodeHost \<and> is_ascii c \<and> shouldEscape c mode
        then Inl (InvalidHostError [c])
      else map_sum id ((#) c) (unescape mode cs))"

abbreviation QueryEscape :: "string \<Rightarrow> string" where "QueryEscape \<equiv> escape EncodeQueryComponent"
abbreviation QueryUnescape :: "string \<Rightarrow> url_error + string" where
  "QueryUnescape \<equiv> unescape EncodeQueryComponent"
abbreviation PathEscape :: "string \<Rightarrow> string" where "PathEscape \<equiv> escape EncodePathSegment"

section \<open>Query values\<close>

text \<open>\<open>url.Values\<close>: a map from keys to lists of values, as an association list with distinct keys.\<close>

type_synonym url_values = "(string \<times> string list) list"

definition values_get :: "url_values \<Rightarrow> string \<Rightarrow> string" where
  "values_get m k = (case map_of m k of Some (v # _) \<Rightarrow> v | _ \<Rightarrow> [])"

definition values_set :: "string \<Rightarrow> string \<Rightarrow> url_values \<Rightarrow> url_values" where
  "values_set k v m = AList.update k [v] m"

definition values_add :: "string \<Rightarrow> string \<Rightarrow> url_values \<Rightarrow> url_values" where
  "values_add k v m = AList.update k ((case map_of m k of None \<Rightarrow> [] | Some vs \<Rightarrow> vs) @ [v]) m"

definition add_pair :: "string \<Rightarrow> url_values \<Rightarrow> url_values" where
  "add_pair part m =
     (if CHR '';'' \<in> set part \<or> part = [] then m
      else case cut (CHR ''='') part of (k, v, _) \<Rightarrow>
        (case QueryUnescape k of Inl _ \<Rightarrow> m
         | Inr k' \<Rightarrow> (case QueryUnescape v of Inl _ \<Rightarrow> m | Inr v' \<Rightarrow> values_add k' v' m)))"

text \<open>\<open>URL.Query\<close>: malformed pairs are dropped without an error.\<close>

definition parse_query :: "string \<Rightarrow> url_values" where
  "parse_query q = fold add_pair (split_str (CHR ''&'') q) []"

fun join_with :: "char \<Rightarrow> string list \<Rightarrow> string" where
  "join_with c [] = []"
| "join_with c [s] = s"
| "join_with c (s # t # ts) = s @ c # join_with c (t # ts)"

definition encode_pair :: "string \<Rightarrow> string \<Rightarrow> string" where
  "encode_pair k v = QueryEscape k @ CHR ''='' # QueryEscape v"

definition encode_pairs :: "url_values \<Rightarrow> string list" where
  "encode_pairs m = concat (map (\<lambda>(k, vs). map (encode_pair k) vs) m)"

definition values_Encode :: "url_values \<Rightarrow> string" where
  "values_Encode m = join_with (CHR ''&'') (encode_pairs (sort_key fst m))"

section \<open>URLs\<close>

record url =
  Scheme :: string
  Opaque :: string
  User :: "(string \<times> string option) option"
  Host :: string
  Path :: string
  RawPath :: string
  OmitHost :: bool
  ForceQuery :: bool
  RawQuery :: string
  Fragment :: string
  RawFragment :: string

definition empty_url :: url where
  "empty_url = \<lparr>Scheme = [], Opaque = [], User = None, Host = [], Path = [], RawPath = [],
     OmitHost = False, ForceQuery = False, RawQuery = [], Fragment = [], RawFragment = []\<rparr>"

definition url_Query :: "url \<Rightarrow> url_values" where "url_Query u = parse_query (RawQuery u)"

definition setPath :: "string \<Rightarrow> url \<Rightarrow> url_error + url" where
  "setPath p u =
     (case unescape EncodePath p of Inl e \<Rightarrow> Inl e
      | Inr path \<Rightarrow>
          Inr (u\<lparr>Path := path, RawPath := (if escape EncodePath path = p then [] else p)\<rparr>))"

definition validEncoded :: "string \<Rightarrow> encoding \<Rightarrow> bool" where
  "validEncoded s mode =
     list_all (\<lambda>c. c \<in> set ''!$&()*+,;=:@[]%'' \<union> {CHR 0x27} \<or> \<not> shouldEscape c mode) s"

definition EscapedPath :: "url \<Rightarrow> string" where
  "EscapedPath u =
     (if RawPath u \<noteq> [] \<and> validEncoded (RawPath u) EncodePath \<and>
         unescape EncodePath (RawPath u) = Inr (Path u)
      then RawPath u
      else if Path u = ''*'' then ''*'' else escape EncodePath (Path u))"

definition setFragment :: "string \<Rightarrow> url \<Rightarrow> url_error + url" where
  "setFragment f u =
     (case unescape EncodeFragment f of Inl e \<Rightarrow> Inl e
      | Inr frag \<Rightarrow>
          Inr (u\<lparr>Fragment := frag,
                 RawFragment := (if escape EncodeFragment frag = f then [] else f)\<rparr>))"

definition EscapedFragment :: "url \<Rightarrow> string" where
  "EscapedFragment u =
     (if RawFragment u \<noteq> [] \<and> validEncoded (RawFragment u) EncodeFragment \<and>
         unescape EncodeFragment (RawFragment u) = Inr (Fragment u)
      then RawFragment u else escape EncodeFragment (Fragment u))"

subsection \<open>Parsing\<close>

text \<open>\<open>getScheme\<close>; the flag says that the scan is at the first byte.\<close>

fun scan_scheme :: "bool \<Rightarrow> string \<Rightarrow> url_error + (string \<times> string) option" where
  "scan_scheme first [] = Inr None"
| "scan_scheme first (c # cs) =
     (if is_lower c \<or> is_upper c \<or> (\<not> first \<and> (is_digit c \<or> c \<in> set ''+-.'')) then
        map_sum id (map_option (\<lambda>(s, r). (c # s, r))) (scan_scheme False cs)
      else if c = CHR '':'' then (if first then Inl MissingScheme else Inr (Some ([], cs)))
      else Inr None)"

definition getScheme :: "string \<Rightarrow> url_error + string \<times> string" where
  "getScheme s = map_sum id (\<lambda>r. case r of None \<Rightarrow> ([], s) | Some p \<Rightarrow> p) (scan_scheme True s)"

definition validOptionalPort :: "string \<Rightarrow> bool" where
  "validOptionalPort p = (case p of [] \<Rightarrow> True | c # cs \<Rightarrow> c = CHR '':'' \<and> list_all is_digit cs)"

definition parseHost :: "string \<Rightarrow> url_error + string" where
  "parseHost h =
     (if CHR ''['' \<in> set h then Inl IPLiteral
      else case cut_last (CHR '':'') h of (_, port, found) \<Rightarrow>
        if found \<and> \<not> validOptionalPort (CHR '':'' # port) then Inl (InvalidPort (CHR '':'' # port))
        else unescape EncodeHost h)"

definition validUserinfo :: "string \<Rightarrow> bool" where
  "validUserinfo s =
     list_all (\<lambda>c. is_alnum c \<or> c \<in> set ''-._:~!$&()*+,;=%@'' \<union> {CHR 0x27}) s"

definition parseAuthority ::
    "string \<Rightarrow> url_error + (string \<times> string option) option \<times> string" where
  "parseAuthority auth =
     (case cut_last (CHR ''@'') auth of (info, rest, found) \<Rightarrow>
        if \<not> found then map_sum id (\<lambda>h. (None, h)) (parseHost auth)
        else case parseHost rest of Inl e \<Rightarrow> Inl e
        | Inr h \<Rightarrow>
            if \<not> validUserinfo info then Inl InvalidUserinfo
            else (case cut (CHR '':'') info of (name, pw, has_pw) \<Rightarrow>
              (case unescape EncodeUserPassword name of Inl e \<Rightarrow> Inl e
               | Inr n \<Rightarrow>
                   if \<not> has_pw then Inr (Some (n, None), h)
                   else map_sum id (\<lambda>p. (Some (n, Some p), h)) (unescape EncodeUserPassword pw))))"

definition is_ctl :: "char \<Rightarrow> bool" where
  "is_ctl c \<longleftrightarrow> byte_of c < 32 \<or> byte_of c = 127"

definition split_query :: "string \<Rightarrow> string \<times> string \<times> bool" where
  "split_query rest =
     (if rest \<noteq> [] \<and> last rest = CHR ''?'' \<and> count_list rest (CHR ''?'') = 1
      then (butlast rest, [], True)
      else case cut (CHR ''?'') rest of (p, q, _) \<Rightarrow> (p, q, False))"

definition parse_authority_path :: "string \<Rightarrow> url \<Rightarrow> url_error + url" where
  "parse_authority_path rest u =
     (if \<not> (Scheme u = [] \<and> prefix ''///'' rest) \<and> prefix ''//'' rest then
        (case cut (CHR ''/'') (drop 2 rest) of (auth, path, found) \<Rightarrow>
           (case parseAuthority auth of Inl e \<Rightarrow> Inl e
            | Inr (usr, h) \<Rightarrow>
                setPath (if found then CHR ''/'' # path else []) (u\<lparr>User := usr, Host := h\<rparr>)))
      else setPath rest (u\<lparr>OmitHost := (Scheme u \<noteq> [] \<and> prefix ''/'' rest)\<rparr>))"

definition parse_no_fragment :: "string \<Rightarrow> url_error + url" where
  "parse_no_fragment s =
     (if list_ex is_ctl s then Inl InvalidControlChar
      else if s = ''*'' then Inr (empty_url\<lparr>Path := ''*''\<rparr>)
      else case getScheme s of Inl e \<Rightarrow> Inl e
      | Inr (scheme, rest0) \<Rightarrow>
         (case split_query rest0 of (rest, q, fq) \<Rightarrow>
           (let u = empty_url\<lparr>Scheme := to_lower scheme, RawQuery := q, ForceQuery := fq\<rparr> in
            if \<not> prefix ''/'' rest \<and> Scheme u \<noteq> [] then Inr (u\<lparr>Opaque := rest\<rparr>)
            else if \<not> prefix ''/'' rest \<and> CHR '':'' \<in> set (fst (cut (CHR ''/'') rest))
              then Inl ColonInFirstSegment
            else parse_authority_path rest u)))"

definition url_Parse :: "string \<Rightarrow> url_error + url" where
  "url_Parse s =
     (case cut (CHR ''#'') s of (u, frag, _) \<Rightarrow>
       (case parse_no_fragment u of Inl e \<Rightarrow> Inl e
        | Inr v \<Rightarrow> if frag = [] then Inr v else setFragment frag v))"

subsection \<open>Resolving a reference\<close>

text \<open>\<open>resolvePath\<close>: the loop over the segments, with the output built so far and its \<open>first\<close> flag.\<close>

fun resolve_segments :: "string list \<Rightarrow> string \<Rightarrow> bool \<Rightarrow> string" where
  "resolve_segments [] dst first = dst"
| "resolve_segments (e # es) dst first =
     (let (dst', first') =
        (if e = ''.'' then (dst, False)
         else if e = ''..'' then
           (case cut_last (CHR ''/'') (tl dst) of (b, _, found) \<Rightarrow>
              if found then (CHR ''/'' # b, first) else (''/'', True))
         else (if first then dst @ e else dst @ CHR ''/'' # e, False))
      in if es = [] \<and> (e = ''.'' \<or> e = ''..'') then dst' @ ''/''
         else resolve_segments es dst' first')"

definition resolvePath :: "string \<Rightarrow> string \<Rightarrow> string" where
  "resolvePath base ref =
     (let full =
        (if ref = [] then base
         else if hd ref \<noteq> CHR ''/'' then
           (case cut_last (CHR ''/'') base of (b, _, found) \<Rightarrow>
              (if found then b @ ''/'' else []) @ ref)
         else ref)
      in if full = [] then []
         else let r = resolve_segments (split_str (CHR ''/'') full) ''/'' True
              in if prefix ''//'' r then tl r else r)"

text \<open>An ignored error of \<open>setPath\<close> leaves the URL unchanged.\<close>

definition setPath_ignoring :: "string \<Rightarrow> url \<Rightarrow> url" where
  "setPath_ignoring p u = (case setPath p u of Inl _ \<Rightarrow> u | Inr v \<Rightarrow> v)"

definition ResolveReference :: "url \<Rightarrow> url \<Rightarrow> url" where
  "ResolveReference u ref =
     (let v = (if Scheme ref = [] then ref\<lparr>Scheme := Scheme u\<rparr> else ref) in
      if Scheme ref \<noteq> [] \<or> Host ref \<noteq> [] \<or> User ref \<noteq> None
        then setPath_ignoring (resolvePath (EscapedPath ref) []) v
      else if Opaque ref \<noteq> [] then v\<lparr>User := None, Host := [], Path := []\<rparr>
      else
        let v' = (if Path ref = [] \<and> \<not> ForceQuery ref \<and> RawQuery ref = []
                  then (let v1 = v\<lparr>RawQuery := RawQuery u\<rparr> in
                        if Fragment ref = []
                        then v1\<lparr>Fragment := Fragment u, RawFragment := RawFragment u\<rparr> else v1)
                  else v)
        in if Path ref = [] \<and> Opaque u \<noteq> []
           then v'\<lparr>Opaque := Opaque u, User := None, Host := [], Path := []\<rparr>
           else setPath_ignoring (resolvePath (EscapedPath u) (EscapedPath ref))
                  (v'\<lparr>Host := Host u, User := User u\<rparr>))"

subsection \<open>Printing\<close>

definition userinfo_String :: "string \<times> string option \<Rightarrow> string" where
  "userinfo_String ui =
     (case ui of (n, pw) \<Rightarrow> escape EncodeUserPassword n @
        (case pw of None \<Rightarrow> [] | Some p \<Rightarrow> CHR '':'' # escape EncodeUserPassword p))"

definition url_String :: "url \<Rightarrow> string" where
  "url_String u =
     (let sch = (if Scheme u = [] then [] else Scheme u @ '':'');
          body =
            (if Opaque u \<noteq> [] then Opaque u
             else
               let auth =
                     (if (Scheme u \<noteq> [] \<or> Host u \<noteq> [] \<or> User u \<noteq> None) \<and>
                         \<not> (OmitHost u \<and> Host u = [] \<and> User u = None)
                      then (if Host u \<noteq> [] \<or> Path u \<noteq> [] \<or> User u \<noteq> None then ''//'' else []) @
                           (case User u of None \<Rightarrow> [] | Some ui \<Rightarrow> userinfo_String ui @ ''@'') @
                           escape EncodeHost (Host u)
                      else []);
                   path = EscapedPath u;
                   slash = (if path \<noteq> [] \<and> hd path \<noteq> CHR ''/'' \<and> Host u \<noteq> [] then ''/'' else []);
                   dot = (if sch @ auth @ slash = [] \<and>
                             CHR '':'' \<in> set (fst (cut (CHR ''/'') path))
                          then ''./'' else [])
               in auth @ slash @ dot @ path)
      in sch @ body @
         (if ForceQuery u \<or> RawQuery u \<noteq> [] then CHR ''?'' # RawQuery u else []) @
         (if Fragment u \<noteq> [] then CHR ''#'' # EscapedFragment u else []))"

section \<open>Percent-encoding is undone by decoding\<close>


lemma hex_char_props: "n < 16 \<Longrightarrow> is_hex (hex_char n) \<and> unhex (hex_char n) = n"
  by (auto simp: is_hex_def hex_char_def unhex_def is_digit_def byte_in_def)

lemma byte_div_16: "byte_of c div 16 < 16"
proof -
  have "byte_of c < 256" by simp
  then show ?thesis by linarith
qed

lemma shouldEscape_percent: "mode \<noteq> EncodeHost \<Longrightarrow> shouldEscape (CHR ''%'') mode"
  by (cases mode) (simp_all add: shouldEscape_def is_alnum_def is_lower_def is_upper_def is_digit_def)

lemma shouldEscape_query:
  "shouldEscape c EncodeQueryComponent \<longleftrightarrow> \<not> is_alnum c \<and> c \<notin> set ''-_.~''"
  by (auto simp: shouldEscape_def)

lemma shouldEscape_segment:
  "shouldEscape c EncodePathSegment \<longleftrightarrow> \<not> is_alnum c \<and> c \<notin> set ''-_.~$&+:=@''"
  by (auto simp: shouldEscape_def)

lemma unescape_escape_char:
  assumes "mode \<noteq> EncodeHost"
  shows "unescape mode (escape_char mode c @ rest) = map_sum id ((#) c) (unescape mode rest)"
proof -
  have hx: "is_hex (hex_char (byte_of c div 16)) \<and> unhex (hex_char (byte_of c div 16)) = byte_of c div 16"
    by (rule hex_char_props [OF byte_div_16])
  have lx: "is_hex (hex_char (byte_of c mod 16)) \<and> unhex (hex_char (byte_of c mod 16)) = byte_of c mod 16"
    by (rule hex_char_props) simp
  have val: "char_of (16 * (byte_of c div 16) + byte_of c mod 16) = c"
    by simp
  show ?thesis
  proof (cases "shouldEscape c mode")
    case True
    then show ?thesis using assms hx lx val
      by (auto simp: escape_char_def)
  next
    case False
    have "c \<noteq> CHR ''%''" using False shouldEscape_percent [OF assms] by auto
    moreover have "c = CHR ''+'' \<Longrightarrow> mode \<noteq> EncodeQueryComponent"
      using False by (auto simp: shouldEscape_query is_alnum_def is_lower_def is_upper_def is_digit_def)
    ultimately show ?thesis using False assms by (auto simp: escape_char_def)
  qed
qed

lemma map_sum_id_id [simp]: "map_sum id id x = x"
  by (cases x) simp_all

lemma unescape_escape_append:
  "mode \<noteq> EncodeHost \<Longrightarrow>
   unescape mode (escape mode s @ rest) = map_sum id ((@) s) (unescape mode rest)"
proof (induction s)
  case Nil
  then show ?case by (cases "unescape mode rest") (simp_all add: escape_def)
next
  case (Cons c s)
  then show ?case
    by (cases "unescape mode rest")
      (simp_all add: escape_def unescape_escape_char)
qed

lemma unescape_escape: "mode \<noteq> EncodeHost \<Longrightarrow> unescape mode (escape mode s) = Inr s"
  using unescape_escape_append [of mode s "[]"] by simp

definition hex_byte :: "char \<Rightarrow> bool" where
  "hex_byte c \<longleftrightarrow> is_digit c \<or> byte_in 65 70 c"

lemma hex_char_byte: "n < 16 \<Longrightarrow> hex_byte (hex_char n)"
  by (auto simp: hex_byte_def hex_char_def is_digit_def byte_in_def)

lemma escape_chars:
  assumes "c \<in> set (escape mode s)"
  shows "c = CHR ''%'' \<or> hex_byte c \<or> (c = CHR ''+'' \<and> mode = EncodeQueryComponent) \<or>
         (\<not> shouldEscape c mode \<and> c \<in> set s)"
  using assms hex_char_byte [OF byte_div_16] hex_char_byte [of "byte_of x mod 16" for x]
  by (auto simp: escape_def escape_char_def split: if_splits)

lemma QueryEscape_safe:
  assumes "c \<in> set (QueryEscape s)"
  shows "is_alnum c \<or> c \<in> set ''-_.~%+''"
  using escape_chars [OF assms]
  by (auto simp: shouldEscape_query hex_byte_def is_alnum_def is_upper_def byte_in_def)

lemma PathEscape_safe:
  assumes "c \<in> set (PathEscape s)"
  shows "is_alnum c \<or> c \<in> set ''-_.~$&+:=@%''"
  using escape_chars [OF assms]
  by (auto simp: shouldEscape_segment hex_byte_def is_alnum_def is_upper_def byte_in_def)

section \<open>Query strings\<close>

text \<open>
  Encoding well-formed values and parsing them again gives back the same map; setting one key of a
  parsed query changes that key only.
\<close>


lemma split_str_join_with:
  "ss \<noteq> [] \<Longrightarrow> \<forall>s \<in> set ss. c \<notin> set s \<Longrightarrow> split_str c (join_with c ss) = ss"
  by (induction c ss rule: join_with.induct) (simp_all add: split_str_no_sep split_str_append)

lemma QueryEscape_not:
  "\<not> is_alnum c \<Longrightarrow> c \<notin> set ''-_.~%+'' \<Longrightarrow> c \<notin> set (QueryEscape s)"
  using QueryEscape_safe by blast

lemma special_not_alnum [simp]:
  "\<not> is_alnum (CHR ''&'')" "\<not> is_alnum (CHR '';'')" "\<not> is_alnum (CHR ''='')"
  "\<not> is_alnum (CHR ''/'')" "\<not> is_alnum (CHR ''?'')" "\<not> is_alnum (CHR ''#'')"
  by (simp_all add: is_alnum_def is_lower_def is_upper_def is_digit_def)

lemma add_pair_encode_pair: "add_pair (encode_pair k v) m = values_add k v m"
proof -
  have "CHR '';'' \<notin> set (encode_pair k v)"
    by (simp add: encode_pair_def QueryEscape_not)
  moreover have "cut (CHR ''='') (encode_pair k v) = (QueryEscape k, QueryEscape v, True)"
    by (simp add: encode_pair_def cut_append QueryEscape_not)
  ultimately show ?thesis
    by (simp add: add_pair_def unescape_escape) (simp add: encode_pair_def)
qed

lemma encode_pairs_no_amp: "s \<in> set (encode_pairs m) \<Longrightarrow> CHR ''&'' \<notin> set s"
  by (auto simp: encode_pairs_def encode_pair_def QueryEscape_not)

lemma fold_encode_pairs:
  "fold add_pair (encode_pairs l) m = fold (\<lambda>(k, vs). fold (values_add k) vs) l m"
proof (induction l arbitrary: m)
  case (Cons p l)
  obtain k vs where p: "p = (k, vs)" by (cases p)
  have "fold add_pair (map (encode_pair k) vs) m = fold (values_add k) vs m" for m
    by (induction vs arbitrary: m) (simp_all add: add_pair_encode_pair)
  with Cons show ?case by (simp add: encode_pairs_def p)
qed (simp add: encode_pairs_def)

lemma parse_query_join:
  "parse_query (join_with (CHR ''&'') (encode_pairs l))
   = fold (\<lambda>(k, vs). fold (values_add k) vs) l []"
proof (cases "encode_pairs l = []")
  case True
  then show ?thesis
    using fold_encode_pairs [of l "[]"] by (simp add: parse_query_def add_pair_def)
next
  case False
  then show ?thesis
    by (simp add: parse_query_def split_str_join_with encode_pairs_no_amp fold_encode_pairs)
qed

definition values_ok :: "url_values \<Rightarrow> bool" where
  "values_ok m \<longleftrightarrow> distinct (map fst m) \<and> [] \<notin> snd ` set m"

lemma map_of_values_add:
  "map_of (values_add k v m) = (map_of m)(k \<mapsto> (case map_of m k of None \<Rightarrow> [] | Some vs \<Rightarrow> vs) @ [v])"
  by (simp add: values_add_def update_conv')

lemma map_of_fold_values_add:
  "vs \<noteq> [] \<Longrightarrow> map_of (fold (values_add k) vs m)
     = (map_of m)(k \<mapsto> (case map_of m k of None \<Rightarrow> [] | Some us \<Rightarrow> us) @ vs)"
proof (induction vs arbitrary: m)
  case (Cons v vs)
  then show ?case
    by (cases "vs = []") (auto simp: map_of_values_add fun_eq_iff)
qed simp

lemma map_of_fold_pairs:
  "distinct (map fst l) \<Longrightarrow> [] \<notin> snd ` set l \<Longrightarrow> fst ` set l \<inter> dom (map_of m) = {} \<Longrightarrow>
   map_of (fold (\<lambda>(k, vs). fold (values_add k) vs) l m) = map_of m ++ map_of l"
proof (induction l arbitrary: m)
  case (Cons p l)
  obtain k vs where p: "p = (k, vs)" by (cases p)
  have vs: "vs \<noteq> []" using Cons.prems(2) p by auto
  have k: "map_of m k = None" using Cons.prems(3) p by auto
  have m': "map_of (fold (values_add k) vs m) = (map_of m)(k \<mapsto> vs)"
    using map_of_fold_values_add [OF vs] k by simp
  have "fst ` set l \<inter> dom (map_of (fold (values_add k) vs m)) = {}"
    unfolding m' using Cons.prems p by auto
  then have "map_of (fold (\<lambda>(k, vs). fold (values_add k) vs) l (fold (values_add k) vs m))
      = (map_of m)(k \<mapsto> vs) ++ map_of l"
    using Cons.prems p by (subst Cons.IH) (simp_all add: m')
  also have "\<dots> = map_of m ++ map_of (p # l)"
  proof -
    have "map_of l k = None" using Cons.prems p by (simp add: map_of_eq_None_iff)
    then show ?thesis by (simp add: p fun_eq_iff map_add_def split: option.split)
  qed
  finally show ?case by (simp only: p fold_simps split_conv)
qed simp

lemma map_of_parse_query_Encode:
  assumes "values_ok m"
  shows "map_of (parse_query (values_Encode m)) = map_of m"
proof -
  have d: "distinct (map fst (sort_key fst m))"
    using assms by (simp add: values_ok_def distinct_map inj_on_def)
  have "map_of (parse_query (values_Encode m)) = map_of (sort_key fst m)"
    using assms d
    by (simp add: values_Encode_def parse_query_join map_of_fold_pairs values_ok_def)
  also have "\<dots> = map_of m"
    using assms d by (subst map_of_inject_set) (simp_all add: values_ok_def)
  finally show ?thesis .
qed

lemma values_ok_Nil [simp]: "values_ok []"
  by (simp add: values_ok_def)

lemma snd_update: "snd ` set (AList.update k v m) \<subseteq> insert v (snd ` set m)"
  by (induction m) auto

lemma values_ok_set: "values_ok m \<Longrightarrow> values_ok (values_set k v m)"
  using snd_update [of k "[v]" m]
  by (auto simp: values_ok_def values_set_def distinct_update)

lemma values_ok_add: "values_ok m \<Longrightarrow> values_ok (values_add k v m)"
  using snd_update [of k "(case map_of m k of None \<Rightarrow> [] | Some vs \<Rightarrow> vs) @ [v]" m]
  by (auto simp: values_ok_def values_add_def distinct_update)

lemma values_ok_add_pair: "values_ok m \<Longrightarrow> values_ok (add_pair p m)"
  by (auto simp: add_pair_def values_ok_add split: sum.splits prod.splits)

lemma values_ok_fold: "values_ok m \<Longrightarrow> values_ok (fold add_pair ps m)"
  by (induction ps arbitrary: m) (simp_all add: values_ok_add_pair)

lemma values_ok_parse_query [simp]: "values_ok (parse_query q)"
  by (simp add: parse_query_def values_ok_fold)

lemma map_of_values_set [simp]: "map_of (values_set k v m) = (map_of m)(k \<mapsto> [v])"
  by (simp add: values_set_def update_conv')

lemma Encode_cong:
  assumes "values_ok m" "values_ok m'" "map_of m = map_of m'"
  shows "values_Encode m = values_Encode m'"
proof -
  have s: "set m = set m'" using assms by (simp add: values_ok_def map_of_inject_set)
  have d: "distinct m" "distinct m'" "inj_on fst (set m)"
    using assms by (simp_all add: values_ok_def distinct_map)
  then have "mset m = mset m'" using s by (simp add: set_eq_iff_mset_eq_distinct)
  then have "sort_key fst m = sort_key fst m'"
    using d by (intro sort_key_inj_key_eq) simp_all
  then show ?thesis by (simp add: values_Encode_def)
qed


end
