(* ===== verification/GoErrors.thy ===== *)
theory GoErrors
  imports GoUrl
begin

text \<open>
  Error values. A Go \<open>error\<close> is one of the ways the connector and the libraries under it build one:
  plain text, text wrapping a cause (\<open>fmt.Errorf\<close> with \<open>%w\<close> at the end,
  \<open>ErrWrap\<close>, or followed by more text, \<open>ErrWrapIn\<close>), a gRPC status (whose message may quote the text of
  another error, which is then not a cause), the client's own
  \<open>RequestError\<close>, and the errors of \<open>net/url\<close>, \<open>encoding/json\<close> and the transport.
\<close>

datatype grpc_code =
  Unknown | InvalidArgument | DeadlineExceeded | NotFound | AlreadyExists | PermissionDenied
| FailedPrecondition | Unimplemented | Internal | Unavailable | Unauthenticated

fun code_String :: "grpc_code \<Rightarrow> string" where
  "code_String Unknown = ''Unknown''"
| "code_String InvalidArgument = ''InvalidArgument''"
| "code_String DeadlineExceeded = ''DeadlineExceeded''"
| "code_String NotFound = ''NotFound''"
| "code_String AlreadyExists = ''AlreadyExists''"
| "code_String PermissionDenied = ''PermissionDenied''"
| "code_String FailedPrecondition = ''FailedPrecondition''"
| "code_String Unimplemented = ''Unimplemented''"
| "code_String Internal = ''Internal''"
| "code_String Unavailable = ''Unavailable''"
| "code_String Unauthenticated = ''Unauthenticated''"

text \<open>\<open>client.RequestError\<close>: an unrecoverable answer of the Confluence API.\<close>

record RequestError =
  re_Status :: int
  re_URL :: url
  re_Body :: string

datatype json_error = SyntaxError | UnmarshalTypeError string

datatype go_error =
  ErrText string
| ErrWrap string go_error
| ErrWrapIn string go_error string
| ErrStatus grpc_code string
| ErrStatusOf grpc_code string go_error
| ErrRequest RequestError
| ErrUrl url_error
| ErrJson json_error
| ErrTransport string
| ErrJoin "go_error list"

text \<open>\<open>(*RequestError).Error\<close>.\<close>

definition RequestError_Error :: "RequestError \<Rightarrow> string" where
  "RequestError_Error r =
     ''confluence-connector: request error. Status: '' @ itoa_int (re_Status r) @
     '', Url: '' @ url_String (re_URL r) @ '', Body: '' @ re_Body r"

text \<open>\<open>errors.As(err, &reqErr)\<close>: the first \<open>RequestError\<close> of the chain of causes.\<close>

fun as_RequestError :: "go_error \<Rightarrow> RequestError option"
  and as_RequestErrors :: "go_error list \<Rightarrow> RequestError option" where
  "as_RequestError (ErrRequest r) = Some r"
| "as_RequestError (ErrWrap _ e) = as_RequestError e"
| "as_RequestError (ErrWrapIn _ e _) = as_RequestError e"
| "as_RequestError (ErrJoin es) = as_RequestErrors es"
| "as_RequestError (ErrText _) = None"
| "as_RequestError (ErrStatus _ _) = None"
| "as_RequestError (ErrStatusOf _ _ _) = None"
| "as_RequestError (ErrUrl _) = None"
| "as_RequestError (ErrJson _) = None"
| "as_RequestError (ErrTransport _) = None"
| "as_RequestErrors [] = None"
| "as_RequestErrors (e # es) =
     (case as_RequestError e of None \<Rightarrow> as_RequestErrors es | Some r \<Rightarrow> Some r)"

text \<open>\<open>errors.As(err, &reqErr) && reqErr.Status == http.StatusNotFound\<close>.\<close>

definition is_not_found :: "go_error \<Rightarrow> bool" where
  "is_not_found e = (case as_RequestError e of None \<Rightarrow> False | Some r \<Rightarrow> re_Status r = 404)"

lemma is_not_found_wrap [simp]: "is_not_found (ErrWrap p e) = is_not_found e"
  by (simp add: is_not_found_def)

lemma is_not_found_simps [simp]:
  "is_not_found (ErrRequest r) \<longleftrightarrow> re_Status r = 404"
  "\<not> is_not_found (ErrStatus c s)" "\<not> is_not_found (ErrStatusOf c s e)" "\<not> is_not_found (ErrText s)" "\<not> is_not_found (ErrUrl u)"
  "\<not> is_not_found (ErrTransport s)" "\<not> is_not_found (ErrJson j)"
  by (simp_all add: is_not_found_def)

end
