(* ===== verification/Json.thy ===== *)
theory Json
  imports GoErrors
begin

text \<open>
  Go's \<open>encoding/json\<close> as the connector uses it: the syntax of RFC 8259 on bytes with Go's treatment
  of escapes, surrogates and invalid UTF-8, the encoder of \<open>json.Marshal\<close> (compact, HTML-escaping),
  and the decoder of \<open>json.Unmarshal\<close> into structs: fields matched by name, then by case folding,
  unknown keys ignored, \<open>null\<close> leaving a non-pointer alone, the first type error reported after the
  rest of the document was stored. The recursion of the parser is bounded by the length of its input.
  Not covered: the nesting limit of 10000, and a key repeated in one object whose value is an array
  (the second array replaces the first).
\<close>

section \<open>Values and their text\<close>

datatype json =
  JNull | JBool bool | JNum string | JStr string | JArr "json list" | JObj "(string \<times> json) list"

abbreviation quot :: char where "quot \<equiv> CHR 0x22"
abbreviation backslash :: char where "backslash \<equiv> CHR 0x5C"

subsection \<open>Strings\<close>

definition hex_val :: "string \<Rightarrow> nat" where
  "hex_val s = foldl (\<lambda>n c. 16 * n + unhex c) 0 s"

definition esc_char :: "char \<Rightarrow> char option" where
  "esc_char e =
     (if e = quot \<or> e = backslash \<or> e = CHR ''/'' then Some e
      else if e = CHR ''b'' then Some (CHR 0x08)
      else if e = CHR ''f'' then Some (CHR 0x0C)
      else if e = CHR ''n'' then Some (CHR 0x0A)
      else if e = CHR ''r'' then Some (CHR 0x0D)
      else if e = CHR ''t'' then Some (CHR 0x09)
      else None)"

definition is_surrogate :: "nat \<Rightarrow> bool" where
  "is_surrogate r \<longleftrightarrow> 0xD800 \<le> r \<and> r < 0xE000"

text \<open>The code point after a \<open>\u\<close>: four hexadecimal digits.\<close>

definition getu4 :: "string \<Rightarrow> nat option" where
  "getu4 s = (if 4 \<le> length s \<and> list_all is_hex (take 4 s) then Some (hex_val (take 4 s)) else None)"

definition low_surrogate :: "string \<Rightarrow> nat option" where
  "low_surrogate s =
     (if take 2 s = [backslash, CHR ''u''] then
        (case getu4 (drop 2 s) of
           Some r \<Rightarrow> if 0xDC00 \<le> r \<and> r < 0xE000 then Some r else None
         | None \<Rightarrow> None)
      else None)"

definition prepend :: "string \<Rightarrow> (string \<times> string) option \<Rightarrow> (string \<times> string) option" where
  "prepend p r = map_option (\<lambda>(s, rest). (p @ s, rest)) r"

lemma prepend_Some [simp]: "prepend p (Some (s, rest)) = Some (p @ s, rest)"
  by (simp add: prepend_def)

lemma prepend_None [simp]: "prepend p None = None"
  by (simp add: prepend_def)

lemma prepend_eq_Some:
  "prepend p r = Some (s, rest) \<longleftrightarrow> (\<exists>t. r = Some (t, rest) \<and> s = p @ t)"
  by (cases r) (auto simp: prepend_def)

text \<open>The bytes after the opening quote: the decoded string and what follows the closing quote.\<close>

function str_body :: "string \<Rightarrow> (string \<times> string) option" where
  "str_body [] = None"
| "str_body (c # cs) =
     (if c = quot then Some ([], cs)
      else if c = backslash then
        (case cs of [] \<Rightarrow> None
         | e # es \<Rightarrow>
             if e = CHR ''u'' then
               (case getu4 es of None \<Rightarrow> None
                | Some r \<Rightarrow>
                    if \<not> is_surrogate r then prepend (utf8_encode r) (str_body (drop 4 es))
                    else if r < 0xDC00 \<and> low_surrogate (drop 4 es) \<noteq> None then
                      prepend (utf8_encode (0x10000 + (r - 0xD800) * 0x400 +
                                 (the (low_surrogate (drop 4 es)) - 0xDC00)))
                              (str_body (drop 10 es))
                    else prepend rune_error (str_body (drop 4 es)))
             else (case esc_char e of None \<Rightarrow> None | Some d \<Rightarrow> prepend [d] (str_body es)))
      else if byte_of c < 32 then None
      else if is_ascii c then prepend [c] (str_body cs)
      else if rune_len (c # cs) = 0 then prepend rune_error (str_body cs)
      else prepend (take (rune_len (c # cs)) (c # cs)) (str_body (drop (rune_len (c # cs) - 1) cs)))"
  by pat_completeness auto
termination
  by (relation "measure length") auto

declare str_body.simps(2) [simp del]

definition enc_ascii :: "char \<Rightarrow> string" where
  "enc_ascii c =
     (if c = quot \<or> c = backslash then [backslash, c]
      else if c = CHR 0x08 then [backslash, CHR ''b'']
      else if c = CHR 0x0C then [backslash, CHR ''f'']
      else if c = CHR 0x0A then [backslash, CHR ''n'']
      else if c = CHR 0x0D then [backslash, CHR ''r'']
      else if c = CHR 0x09 then [backslash, CHR ''t'']
      else if byte_of c < 32 \<or> c \<in> set ''<>&'' then
        backslash # ''u00'' @ map lower [hex_char (byte_of c div 16), hex_char (byte_of c mod 16)]
      else [c])"

definition enc_rune :: "string \<Rightarrow> string" where
  "enc_rune r =
     (if r = [CHR 0xE2, CHR 0x80, CHR 0xA8] then backslash # ''u2028''
      else if r = [CHR 0xE2, CHR 0x80, CHR 0xA9] then backslash # ''u2029''
      else r)"

function enc_str :: "string \<Rightarrow> string" where
  "enc_str [] = []"
| "enc_str (c # cs) =
     (if is_ascii c then enc_ascii c @ enc_str cs
      else if rune_len (c # cs) = 0 then backslash # ''ufffd'' @ enc_str cs
      else enc_rune (take (rune_len (c # cs)) (c # cs)) @ enc_str (drop (rune_len (c # cs) - 1) cs))"
  by pat_completeness auto
termination
  by (relation "measure length") auto

declare enc_str.simps(2) [simp del]

subsection \<open>Documents\<close>

definition is_ws :: "char \<Rightarrow> bool" where "is_ws c \<longleftrightarrow> byte_of c \<in> {32, 9, 13, 10}"

definition skip_ws :: "string \<Rightarrow> string" where "skip_ws s = dropWhile is_ws s"

definition digits1 :: "string \<Rightarrow> (string \<times> string) option" where
  "digits1 s = (case takeWhile is_digit s of [] \<Rightarrow> None | ds \<Rightarrow> Some (ds, dropWhile is_digit s))"

definition int_part :: "string \<Rightarrow> (string \<times> string) option" where
  "int_part s = (case s of [] \<Rightarrow> None
     | c # cs \<Rightarrow> if c = CHR ''0'' then Some ([c], cs) else digits1 s)"

definition frac_part :: "string \<Rightarrow> (string \<times> string) option" where
  "frac_part s = (case s of [] \<Rightarrow> Some ([], [])
     | c # cs \<Rightarrow> if c = CHR ''.'' then prepend [c] (digits1 cs) else Some ([], s))"

definition exp_part :: "string \<Rightarrow> (string \<times> string) option" where
  "exp_part s = (case s of [] \<Rightarrow> Some ([], [])
     | c # cs \<Rightarrow>
         if c \<in> set ''eE'' then
           (case cs of [] \<Rightarrow> None
            | d # ds \<Rightarrow> if d \<in> set ''+-'' then prepend [c, d] (digits1 ds) else prepend [c] (digits1 cs))
         else Some ([], s))"

definition number :: "string \<Rightarrow> (string \<times> string) option" where
  "number s =
     (let (sign, s0) = (case s of [] \<Rightarrow> ([], []) | c # cs \<Rightarrow> if c = CHR ''-'' then ([c], cs) else ([], s))
      in Option.bind (int_part s0) (\<lambda>(i, s1).
         Option.bind (frac_part s1) (\<lambda>(f, s2).
         Option.bind (exp_part s2) (\<lambda>(e, s3). Some (sign @ i @ f @ e, s3)))))"

fun strip :: "string \<Rightarrow> string \<Rightarrow> string option" where
  "strip [] s = Some s"
| "strip (p # ps) [] = None"
| "strip (p # ps) (c # cs) = (if p = c then strip ps cs else None)"

fun parse_value :: "nat \<Rightarrow> string \<Rightarrow> (json \<times> string) option"
  and parse_elems :: "nat \<Rightarrow> string \<Rightarrow> (json list \<times> string) option"
  and parse_members :: "nat \<Rightarrow> string \<Rightarrow> ((string \<times> json) list \<times> string) option" where
  "parse_value 0 s = None"
| "parse_value (Suc n) s =
     (case skip_ws s of [] \<Rightarrow> None
      | c # cs \<Rightarrow>
          if c = CHR ''{'' then
            (case strip ''}'' (skip_ws cs) of
               Some r \<Rightarrow> Some (JObj [], r)
             | None \<Rightarrow> map_option (\<lambda>(ms, r). (JObj ms, r)) (parse_members n cs))
          else if c = CHR ''['' then
            (case strip '']'' (skip_ws cs) of
               Some r \<Rightarrow> Some (JArr [], r)
             | None \<Rightarrow> map_option (\<lambda>(js, r). (JArr js, r)) (parse_elems n cs))
          else if c = quot then map_option (\<lambda>(t, r). (JStr t, r)) (str_body cs)
          else if c = CHR ''t'' then map_option (\<lambda>r. (JBool True, r)) (strip ''rue'' cs)
          else if c = CHR ''f'' then map_option (\<lambda>r. (JBool False, r)) (strip ''alse'' cs)
          else if c = CHR ''n'' then map_option (\<lambda>r. (JNull, r)) (strip ''ull'' cs)
          else map_option (\<lambda>(t, r). (JNum t, r)) (number (c # cs)))"
| "parse_elems 0 s = None"
| "parse_elems (Suc n) s =
     (case parse_value n s of None \<Rightarrow> None
      | Some (j, r) \<Rightarrow>
          (case skip_ws r of [] \<Rightarrow> None
           | c # cs \<Rightarrow>
               if c = CHR '']'' then Some ([j], cs)
               else if c = CHR '','' then map_option (\<lambda>(js, r). (j # js, r)) (parse_elems n cs)
               else None))"
| "parse_members 0 s = None"
| "parse_members (Suc n) s =
     (case strip [quot] (skip_ws s) of None \<Rightarrow> None
      | Some s1 \<Rightarrow>
     (case str_body s1 of None \<Rightarrow> None
      | Some (k, s2) \<Rightarrow>
     (case strip '':'' (skip_ws s2) of None \<Rightarrow> None
      | Some s3 \<Rightarrow>
     (case parse_value n s3 of None \<Rightarrow> None
      | Some (j, r) \<Rightarrow>
          (case skip_ws r of [] \<Rightarrow> None
           | c # cs \<Rightarrow>
               if c = CHR ''}'' then Some ([(k, j)], cs)
               else if c = CHR '','' then map_option (\<lambda>(ms, r). ((k, j) # ms, r)) (parse_members n cs)
               else None)))))"

definition json_parse :: "string \<Rightarrow> json option" where
  "json_parse s = (case parse_value (Suc (2 * length s)) s of
     None \<Rightarrow> None | Some (j, r) \<Rightarrow> if skip_ws r = [] then Some j else None)"

definition print_str :: "string \<Rightarrow> string" where "print_str s = quot # enc_str s @ [quot]"

fun json_print :: "json \<Rightarrow> string"
  and print_elems :: "json list \<Rightarrow> string"
  and print_members :: "(string \<times> json) list \<Rightarrow> string" where
  "json_print JNull = ''null''"
| "json_print (JBool b) = (if b then ''true'' else ''false'')"
| "json_print (JNum t) = t"
| "json_print (JStr s) = print_str s"
| "json_print (JArr js) = ''['' @ print_elems js @ '']''"
| "json_print (JObj ms) = ''{'' @ print_members ms @ ''}''"
| "print_elems [] = []"
| "print_elems [j] = json_print j"
| "print_elems (j # k # ks) = json_print j @ '','' @ print_elems (k # ks)"
| "print_members [] = []"
| "print_members [(k, j)] = print_str k @ '':'' @ json_print j"
| "print_members ((k, j) # m # ms) = print_str k @ '':'' @ json_print j @ '','' @ print_members (m # ms)"

section \<open>Printing and parsing\<close>

text \<open>
  Whatever the encoder prints for a document of valid UTF-8 strings, the parser reads back.
\<close>


lemma lower_hex_char:
  "n < 16 \<Longrightarrow> is_hex (lower (hex_char n)) \<and> unhex (lower (hex_char n)) = n"
  by (auto simp: is_hex_def hex_char_def unhex_def is_digit_def byte_in_def lower_def is_upper_def)

lemma getu4_u00:
  "getu4 (''00'' @ map lower [hex_char (byte_of c div 16), hex_char (byte_of c mod 16)] @ rest)
   = Some (byte_of c)"
proof -
  have 1: "is_hex (lower (hex_char (byte_of c div 16)))"
    "unhex (lower (hex_char (byte_of c div 16))) = byte_of c div 16"
    using lower_hex_char [OF byte_div_16 [of c]] by auto
  have 2: "is_hex (lower (hex_char (byte_of c mod 16)))"
    "unhex (lower (hex_char (byte_of c mod 16))) = byte_of c mod 16"
    using lower_hex_char [of "byte_of c mod 16"] by auto
  have "is_hex (CHR ''0'')" "unhex (CHR ''0'') = 0"
    by (simp_all add: is_hex_def is_digit_def unhex_def)
  then show ?thesis by (simp add: getu4_def hex_val_def 1 2)
qed

lemma str_body_literal:
  "c \<noteq> quot \<Longrightarrow> c \<noteq> backslash \<Longrightarrow> 32 \<le> byte_of c \<Longrightarrow> is_ascii c \<Longrightarrow>
   str_body (c # cs) = prepend [c] (str_body cs)"
  by (simp add: str_body.simps)

lemma str_body_esc:
  "e \<noteq> CHR ''u'' \<Longrightarrow> esc_char e = Some d \<Longrightarrow>
   str_body (backslash # e # es) = prepend [d] (str_body es)"
  by (simp add: str_body.simps(2))

lemma str_body_u:
  "getu4 es = Some r \<Longrightarrow> \<not> is_surrogate r \<Longrightarrow>
   str_body (backslash # CHR ''u'' # es) = prepend (utf8_encode r) (str_body (drop 4 es))"
  by (simp add: str_body.simps(2))

lemma str_body_enc_ascii:
  assumes "is_ascii c"
  shows "str_body (enc_ascii c @ rest) = prepend [c] (str_body rest)"
proof (cases "byte_of c < 32 \<or> c \<in> set ''<>&''")
  case False
  then show ?thesis using assms
    by (auto simp: enc_ascii_def str_body_literal str_body_esc esc_char_def)
next
  case True
  have ns: "\<not> is_surrogate (byte_of c)" using assms by (simp add: is_surrogate_def is_ascii_def)
  have u: "utf8_encode (byte_of c) = [c]" using assms by (simp add: utf8_encode_def is_ascii_def)
  have "str_body (backslash # CHR ''u'' # ''00'' @
          map lower [hex_char (byte_of c div 16), hex_char (byte_of c mod 16)] @ rest)
        = prepend [c] (str_body rest)"
    using getu4_u00 [of c rest] by (subst str_body_u) (auto simp: ns u)
  with True show ?thesis
    by (auto simp: enc_ascii_def str_body_esc esc_char_def)
qed

lemma enc_rune_cases:
  "r = [CHR 0xE2, CHR 0x80, CHR 0xA8] \<or> r = [CHR 0xE2, CHR 0x80, CHR 0xA9] \<or> enc_rune r = r"
  by (simp add: enc_rune_def)

lemma utf8_line_separators:
  "utf8_encode 8232 = [CHR 0xE2, CHR 0x80, CHR 0xA8]"
  "utf8_encode 8233 = [CHR 0xE2, CHR 0x80, CHR 0xA9]"
  by (simp_all add: utf8_encode_def char_of_def bit_iff_odd)

lemma str_body_enc_rune:
  assumes "\<not> is_ascii c" "rune_len (c # cs) \<noteq> 0"
  shows "str_body (enc_rune (take (rune_len (c # cs)) (c # cs)) @ rest)
    = prepend (take (rune_len (c # cs)) (c # cs)) (str_body rest)"
proof -
  let ?n = "rune_len (c # cs)" and ?r = "take (rune_len (c # cs)) (c # cs)"
  have n: "2 \<le> ?n" "?n \<le> length (c # cs)" using rune_len_bounds [OF assms(2)] by auto
  consider (a) "?r = [CHR 0xE2, CHR 0x80, CHR 0xA8]" | (b) "?r = [CHR 0xE2, CHR 0x80, CHR 0xA9]"
    | (c) "enc_rune ?r = ?r"
    using enc_rune_cases by blast
  then show ?thesis
  proof cases
    case a
    then show ?thesis
      by (simp add: enc_rune_def str_body_u getu4_def hex_val_def is_hex_def unhex_def is_digit_def
          is_surrogate_def utf8_line_separators)
  next
    case b
    then show ?thesis
      by (simp add: enc_rune_def str_body_u getu4_def hex_val_def is_hex_def unhex_def is_digit_def
          is_surrogate_def utf8_line_separators)
  next
    case c
    obtain k where k: "?n = Suc k" using n by (cases ?n) auto
    have "rune_len (?r @ rest) = ?n"
    proof -
      have "rune_len ?r = ?n"
        by (rule rune_len_take [OF assms(2)])
      then show ?thesis using rune_len_append [of ?r rest] assms(2) by simp
    qed
    moreover have "?r = c # take k cs" by (simp add: k)
    moreover have "c \<noteq> quot" "c \<noteq> backslash" "\<not> byte_of c < 32"
      using assms(1) by (auto simp: is_ascii_def)
    moreover have "length (take k cs) = k" using n k by simp
    ultimately show ?thesis using assms c k
      by (simp add: str_body.simps(2))
  qed
qed


lemma str_body_enc_str:
  "valid_utf8 s \<Longrightarrow> str_body (enc_str s @ quot # rest) = Some (s, rest)"
proof (induction s rule: valid_utf8.induct)
  case 1
  then show ?case by (simp add: str_body.simps(2))
next
  case (2 c cs)
  show ?case
  proof (cases "is_ascii c")
    case True
    then show ?thesis using 2
      by (simp add: enc_str.simps(2) str_body_enc_ascii)
  next
    case False
    let ?n = "rune_len (c # cs)"
    have n: "?n \<noteq> 0" "valid_utf8 (drop (?n - 1) cs)" using "2.prems" False by auto
    have "take ?n (c # cs) @ drop (?n - 1) cs = c # cs"
      using rune_len_bounds [OF n(1)] by (cases ?n) auto
    then show ?thesis using "2.IH"(2) [OF False n(2)] False n
      by (simp add: enc_str.simps(2) str_body_enc_rune)
  qed
qed

lemma strip_append [simp]: "strip p (p @ s) = Some s"
  by (induction p) auto

lemma strip_one [simp]: "strip [c] (c # s) = Some s"
  by simp

lemma skip_ws_Nil [simp]: "skip_ws [] = []"
  by (simp add: skip_ws_def)

lemma skip_ws_simp [simp]: "\<not> is_ws c \<Longrightarrow> skip_ws (c # s) = c # s"
  by (simp add: skip_ws_def)

lemma punctuation_not_ws [simp]:
  "\<not> is_ws quot" "\<not> is_ws (CHR ''{'')" "\<not> is_ws (CHR ''}'')" "\<not> is_ws (CHR ''['')"
  "\<not> is_ws (CHR '']'')" "\<not> is_ws (CHR '','')" "\<not> is_ws (CHR '':'')" "\<not> is_ws (CHR ''n'')"
  "\<not> is_ws (CHR ''t'')" "\<not> is_ws (CHR ''f'')"
  by (simp_all add: is_ws_def)

text \<open>The documents the encoder is used on: no numbers, every string valid UTF-8.\<close>

fun plain :: "json \<Rightarrow> bool" where
  "plain JNull = True"
| "plain (JBool b) = True"
| "plain (JNum t) = False"
| "plain (JStr s) = valid_utf8 s"
| "plain (JArr js) = list_all plain js"
| "plain (JObj ms) = list_all (\<lambda>(k, j). valid_utf8 k \<and> plain j) ms"

lemma json_print_head:
  "plain j \<Longrightarrow> \<exists>c cs. json_print j = c # cs \<and> \<not> is_ws c \<and> c \<noteq> CHR ''}'' \<and> c \<noteq> CHR '']''"
  by (cases j) (auto simp: print_str_def)

lemma print_elems_head:
  "plain j \<Longrightarrow>
   \<exists>c cs. print_elems (j # js) = c # cs \<and> \<not> is_ws c \<and> c \<noteq> CHR '']''"
  using json_print_head [of j] by (cases js) auto

lemma print_members_head: "\<exists>cs. print_members (m # ms) = quot # cs"
  by (cases m; cases ms) (auto simp: print_str_def)

lemma parse_print:
  shows "plain j \<Longrightarrow> length (json_print j) \<le> n \<Longrightarrow>
      parse_value (Suc n) (json_print j @ rest) = Some (j, rest)"
  and "list_all plain js \<Longrightarrow> js \<noteq> [] \<Longrightarrow> length (print_elems js) < n \<Longrightarrow>
      parse_elems (Suc n) (print_elems js @ CHR '']'' # rest) = Some (js, rest)"
  and "list_all (\<lambda>(k, j). valid_utf8 k \<and> plain j) ms \<Longrightarrow> ms \<noteq> [] \<Longrightarrow> length (print_members ms) < n \<Longrightarrow>
      parse_members (Suc n) (print_members ms @ CHR ''}'' # rest) = Some (ms, rest)"
proof (induction j and js and ms arbitrary: n rest and n rest and n rest
    rule: json_print_print_elems_print_members.induct)
  case (4 s)
  then show ?case by (simp add: print_str_def str_body_enc_str)
next
  case (5 js)
  show ?case
  proof (cases js)
    case Nil
    then show ?thesis by simp
  next
    case (Cons k ks)
    obtain c cs where h: "print_elems js = c # cs" "\<not> is_ws c" "c \<noteq> CHR '']''"
      using print_elems_head 5(2) Cons by fastforce
    from 5(3) obtain m where m: "n = Suc m" "length (print_elems js) < m"
      by (cases n) auto
    have "parse_elems (Suc m) (print_elems js @ CHR '']'' # rest) = Some (js, rest)"
      using 5 m Cons by simp
    then show ?thesis using h m by simp
  qed
next
  case (6 ms)
  show ?case
  proof (cases ms)
    case Nil
    then show ?thesis by simp
  next
    case (Cons k ks)
    obtain cs where h: "print_members ms = quot # cs"
      using print_members_head Cons by blast
    from 6(3) obtain m where m: "n = Suc m" "length (print_members ms) < m"
      by (cases n) auto
    have "parse_members (Suc m) (print_members ms @ CHR ''}'' # rest) = Some (ms, rest)"
      using 6 m Cons by simp
    then show ?thesis using h m by simp
  qed
next
  case (8 j)
  then obtain m where "n = Suc m" by (cases n) auto
  with 8 show ?case by simp
next
  case (9 j k ks)
  then obtain m where m: "n = Suc m" by (cases n) auto
  with 9 show ?case by simp
next
  case (11 k j)
  then obtain m where "n = Suc m" by (cases n) auto
  with 11 show ?case by (simp add: print_str_def str_body_enc_str)
next
  case (12 k j m' ms)
  then obtain m where "n = Suc m" by (cases n) auto
  with 12 show ?case by (simp add: print_str_def str_body_enc_str)
qed simp_all

lemma json_parse_print: "plain j \<Longrightarrow> json_parse (json_print j) = Some j"
  using parse_print(1) [of j "2 * length (json_print j)" "[]"]
  by (simp add: json_parse_def del: parse_value.simps)


section \<open>The fuel of the parser\<close>


text \<open>
  The fuel of the parser is enough: with more than twice the length of the input, one unit more
  changes nothing, so \<open>json_parse\<close> fails on a malformed document only.
\<close>

lemma str_body_step:
  assumes "str_body (c # cs) = Some (t, r)"
  shows "r = cs \<or> (\<exists>u t'. suffix u cs \<and> str_body u = Some (t', r))"
proof (cases "c = backslash")
  case False
  with assms show ?thesis
    by (auto simp: str_body.simps(2) prepend_eq_Some suffix_drop split: if_splits)
next
  case True
  with assms obtain e es where cs: "cs = e # es" by (cases cs) (auto simp: str_body.simps(2))
  have suf: "suffix es cs" "suffix (drop k es) cs" for k
    by (simp_all add: cs suffix_ConsI suffix_drop)
  show ?thesis
  proof (cases "e = CHR ''u''")
    case False
    with assms True cs suf(1) show ?thesis
      by (auto simp: str_body.simps(2) prepend_eq_Some split: option.splits)
  next
    case u: True
    with assms True cs obtain k t' where "str_body (drop k es) = Some (t', r)"
      by (auto simp: str_body.simps(2) prepend_eq_Some split: option.splits if_splits)
    with suf(2) show ?thesis by blast
  qed
qed

lemma str_body_shorter: "str_body s = Some (t, r) \<Longrightarrow> length r < length s"
proof (induction "length s" arbitrary: s t rule: less_induct)
  case less
  then obtain c cs where s: "s = c # cs" by (cases s) auto
  from str_body_step [OF less.prems [unfolded s]]
  show ?case
  proof (elim disjE exE conjE)
    fix u t' assume "suffix u cs" "str_body u = Some (t', r)"
    moreover from this have "length u \<le> length cs" by (auto simp: suffix_def)
    ultimately show ?case using less.hyps [of u t'] s by simp
  qed (simp add: s)
qed

lemma strip_length: "strip p s = Some r \<Longrightarrow> length s = length p + length r"
  by (induction p s rule: strip.induct) (auto split: if_splits)

lemma skip_ws_length: "length (skip_ws s) \<le> length s"
  by (simp add: skip_ws_def length_dropWhile_le)

lemma skip_ws_Cons_length: "skip_ws s = c # cs \<Longrightarrow> length cs < length s"
  using skip_ws_length [of s] by simp

lemma digits1_shorter: "digits1 s = Some (t, r) \<Longrightarrow> length r < length s"
proof -
  assume "digits1 s = Some (t, r)"
  then have "takeWhile is_digit s \<noteq> []" "r = dropWhile is_digit s"
    by (auto simp: digits1_def split: list.splits)
  then show ?thesis
    using takeWhile_dropWhile_id [of is_digit s]
    by (metis length_append length_greater_0_conv less_add_same_cancel2)
qed

lemma number_shorter: "number s = Some (t, r) \<Longrightarrow> length r < length s"
proof -
  assume n: "number s = Some (t, r)"
  have i: "int_part s0 = Some (a, b) \<Longrightarrow> length b < length s0" for s0 a b
    by (auto simp: int_part_def split: list.splits if_splits dest: digits1_shorter)
  have f: "frac_part s0 = Some (a, b) \<Longrightarrow> length b \<le> length s0" for s0 a b
    by (fastforce simp: frac_part_def prepend_eq_Some split: list.splits if_splits dest: digits1_shorter)
  have e: "exp_part s0 = Some (a, b) \<Longrightarrow> length b \<le> length s0" for s0 a b
    by (fastforce simp: exp_part_def prepend_eq_Some split: list.splits if_splits dest: digits1_shorter)
  show ?thesis using n
    by (cases s)
      (fastforce simp: number_def bind_eq_Some_conv split: if_splits prod.splits dest: i f e)+
qed

lemma strip_skip_length:
  "strip [d] (skip_ws s) = Some r \<Longrightarrow> length r < length s"
  using strip_length [of "[d]" "skip_ws s" r] skip_ws_length [of s] by simp

declare parse_value.simps [simp del] parse_elems.simps [simp del] parse_members.simps [simp del]

lemma parse_shorter:
  shows "parse_value n s = Some (j, r) \<Longrightarrow> length r < length s"
  and "parse_elems n s = Some (js, r) \<Longrightarrow> length r < length s"
  and "parse_members n s = Some (ms, r) \<Longrightarrow> length r < length s"
proof (induction n s and n s and n s arbitrary: j r and js r and ms r
    rule: parse_value_parse_elems_parse_members.induct)
  case (2 n s)
  obtain c cs where s: "skip_ws s = c # cs" using "2.prems"
    by (cases "skip_ws s") (auto simp: parse_value.simps)
  have l: "length cs < length s" by (rule skip_ws_Cons_length [OF s])
  have st: "strip p cs = Some r' \<Longrightarrow> length r' < length s" for p r'
    using strip_length [of p cs r'] l by simp
  have nb: "number (c # cs) = Some (t, r') \<Longrightarrow> length r' < length s" for t r'
    using number_shorter [of "c # cs" t r'] l by simp
  have el: "length r' < length cs" if "c = CHR ''[''" "strip '']'' (skip_ws cs) = None"
    "parse_elems n cs = Some (a, r')" for a r'
    using "2.IH"(2) [OF s] that by simp
  have me: "length r' < length cs" if "c = CHR ''{''" "strip ''}'' (skip_ws cs) = None"
    "parse_members n cs = Some (a, r')" for a r'
    using "2.IH"(1) [OF s] that by simp
  note drop_one = less_trans [OF _ l]
  show ?case using "2.prems" s
    by (auto simp: parse_value.simps split: if_splits option.splits
        dest: st nb el me intro: drop_one strip_skip_length str_body_shorter)
next
  case (4 n s)
  from "4.prems" obtain j r' c cs where v: "parse_value n s = Some (j, r')" "skip_ws r' = c # cs"
    by (auto simp: parse_elems.simps split: option.splits list.splits)
  have "length cs < length s"
    using "4.IH"(1) [OF v(1)] skip_ws_Cons_length [OF v(2)] by simp
  moreover have "length r'' < length cs" if "c = CHR '',''" "parse_elems n cs = Some (a, r'')" for a r''
    using "4.IH"(2) [OF v(1) refl v(2)] that by simp
  ultimately show ?case using "4.prems" v
    by (fastforce simp: parse_elems.simps split: if_splits)
next
  case (6 n s)
  from "6.prems" obtain s1 k s2 s3 j r' c cs where v:
    "strip [quot] (skip_ws s) = Some s1" "str_body s1 = Some (k, s2)"
    "strip '':'' (skip_ws s2) = Some s3" "parse_value n s3 = Some (j, r')" "skip_ws r' = c # cs"
    by (auto simp: parse_members.simps split: option.splits list.splits)
  have "length cs < length s"
    using strip_skip_length [OF v(1)] str_body_shorter [OF v(2)] strip_skip_length [OF v(3)]
      "6.IH"(1) [OF v(1,2) refl v(3,4)] skip_ws_Cons_length [OF v(5)] by simp
  moreover have "length r'' < length cs" if "c = CHR '',''" "parse_members n cs = Some (a, r'')" for a r''
    using "6.IH"(2) [OF v(1,2) refl v(3,4) refl v(5)] that by simp
  ultimately show ?case using "6.prems" v
    by (fastforce simp: parse_members.simps split: if_splits)
qed (simp_all add: parse_value.simps parse_elems.simps parse_members.simps)

lemma parse_fuel_step:
  "(2 * length s < n \<longrightarrow> parse_value (Suc n) s = parse_value n s) \<and>
   (2 * length s + 1 < n \<longrightarrow> parse_elems (Suc n) s = parse_elems n s) \<and>
   (2 * length s < n \<longrightarrow> parse_members (Suc n) s = parse_members n s)"
proof (induction n arbitrary: s)
  case 0
  then show ?case by simp
next
  case (Suc n)
  have V: "parse_value (Suc (Suc n)) s = parse_value (Suc n) s" if "2 * length s < Suc n"
  proof (cases "skip_ws s")
    case Nil
    then show ?thesis by (simp add: parse_value.simps)
  next
    case (Cons c cs)
    have "length cs < length s" by (rule skip_ws_Cons_length [OF Cons])
    with that have "2 * length cs + 1 < n" by linarith
    with Suc.IH [of cs] show ?thesis
      by (simp add: parse_value.simps(2) Cons split: option.split)
  qed
  have E: "parse_elems (Suc (Suc n)) s = parse_elems (Suc n) s" if l: "2 * length s + 1 < Suc n"
  proof (cases "parse_value n s")
    case None
    then show ?thesis using Suc.IH [of s] l by (simp add: parse_elems.simps(2))
  next
    case (Some p)
    obtain j r where p: "p = (j, r)" by (cases p)
    have "parse_elems (Suc n) cs = parse_elems n cs" if "skip_ws r = c # cs" for c cs
      using Suc.IH [of cs] skip_ws_Cons_length [OF that] parse_shorter(1) [of n s j r] Some p l
      by simp
    then show ?thesis using Suc.IH [of s] l Some p
      by (auto simp: parse_elems.simps(2) split: list.splits)
  qed
  have M: "parse_members (Suc (Suc n)) s = parse_members (Suc n) s" if l: "2 * length s < Suc n"
  proof (cases "\<exists>s1 k s2 s3. strip [quot] (skip_ws s) = Some s1 \<and> str_body s1 = Some (k, s2) \<and>
      strip '':'' (skip_ws s2) = Some s3")
    case False
    then show ?thesis
      by (auto simp: parse_members.simps(2) split: option.splits)
  next
    case True
    then obtain s1 k s2 s3 where s: "strip [quot] (skip_ws s) = Some s1"
      "str_body s1 = Some (k, s2)" "strip '':'' (skip_ws s2) = Some s3" by blast
    have s3: "length s3 < length s"
      using strip_skip_length [OF s(1)] str_body_shorter [OF s(2)] strip_skip_length [OF s(3)]
      by simp
    have v: "parse_value (Suc n) s3 = parse_value n s3" using Suc.IH [of s3] s3 l by simp
    show ?thesis
    proof (cases "parse_value n s3")
      case None
      with s v show ?thesis by (simp add: parse_members.simps(2))
    next
      case (Some p)
      obtain j r where p: "p = (j, r)" by (cases p)
      have "parse_members (Suc n) cs = parse_members n cs" if "skip_ws r = c # cs" for c cs
        using Suc.IH [of cs] skip_ws_Cons_length [OF that] parse_shorter(1) [of n s3 j r] Some p s3 l
        by simp
      then show ?thesis using s v Some p
        by (simp add: parse_members.simps(2) [of "Suc n" s] parse_members.simps(2) [of n s]
            split: list.split)
    qed
  qed
  from V E M show ?case by blast
qed

lemma parse_fuel_enough:
  assumes "2 * length s < n"
  shows "parse_value n s = parse_value (Suc (2 * length s)) s"
  using assms
proof (induction n)
  case (Suc n)
  then show ?case
    using parse_fuel_step [of s n] by (cases "n = 2 * length s") auto
qed simp


end
