(* ===== verification/JsonDecode.thy ===== *)
theory JsonDecode
  imports Json
begin

text \<open>
  \<open>json.Unmarshal\<close> into a Go value. A decoder takes the parsed document and the current value of
  its target and gives the new value and the first type error; after a type error the rest of the
  document is still stored, as in Go.
\<close>

type_synonym 'r decoder = "json \<Rightarrow> 'r \<Rightarrow> 'r \<times> go_error option"

definition first_error :: "go_error option \<Rightarrow> go_error option \<Rightarrow> go_error option" where
  "first_error a b = (case a of None \<Rightarrow> b | Some e \<Rightarrow> Some e)"

definition type_error :: "string \<Rightarrow> go_error option" where
  "type_error t = Some (ErrJson (UnmarshalTypeError t))"

lemma first_error_None [simp]: "first_error None e = e"
  by (simp add: first_error_def)

lemma first_error_is_None [simp]: "first_error a b = None \<longleftrightarrow> a = None \<and> b = None"
  by (simp add: first_error_def split: option.split)

definition dec_string :: "string decoder" where
  "dec_string j cur = (case j of JStr s \<Rightarrow> (s, None) | JNull \<Rightarrow> (cur, None)
     | _ \<Rightarrow> (cur, type_error ''string''))"

definition dec_bool :: "bool decoder" where
  "dec_bool j cur = (case j of JBool b \<Rightarrow> (b, None) | JNull \<Rightarrow> (cur, None)
     | _ \<Rightarrow> (cur, type_error ''bool''))"

definition dec_int :: "goint decoder" where
  "dec_int j cur =
     (case j of
        JNum t \<Rightarrow> (case parse_int t of Some i \<Rightarrow> (word_of_int i, None) | None \<Rightarrow> (cur, type_error ''int''))
      | JNull \<Rightarrow> (cur, None)
      | _ \<Rightarrow> (cur, type_error ''int''))"

text \<open>
  A \<open>float64\<close> is kept as the literal it was written as. A literal is out of range when it rounds to a
  number beyond the largest finite one, that is when its absolute value is at least half a unit above it.
\<close>

definition exponent_val :: "string \<Rightarrow> int" where
  "exponent_val s =
     (case s of [] \<Rightarrow> 0
      | c # cs \<Rightarrow> if c = CHR ''-'' then - int (digits_val cs)
                  else if c = CHR ''+'' then int (digits_val cs) else int (digits_val s))"

definition float64_overflows :: "string \<Rightarrow> bool" where
  "float64_overflows t =
     (let s = (if prefix ''-'' t then tl t else t);
          mantissa = takeWhile (\<lambda>c. c \<noteq> CHR ''e'' \<and> c \<noteq> CHR ''E'') s;
          whole = takeWhile (\<lambda>c. c \<noteq> CHR ''.'') mantissa;
          frac = drop (Suc (length whole)) mantissa;
          e = exponent_val (drop (Suc (length mantissa)) s) - int (length frac)
      in (2 ^ 1024 - 2 ^ 970) * 10 ^ nat (- e) \<le> digits_val (whole @ frac) * 10 ^ nat e)"

definition dec_float :: "string decoder" where
  "dec_float j cur =
     (case j of
        JNum t \<Rightarrow> if float64_overflows t then (cur, type_error ''float64'') else (t, None)
      | JNull \<Rightarrow> (cur, None)
      | _ \<Rightarrow> (cur, type_error ''float64''))"

lemma dec_float_examples:
  "dec_float (JNum ''-1.25e3'') [] = (''-1.25e3'', None)" "dec_float (JNum ''17.9e307'') [] = (''17.9e307'', None)"
  "dec_float (JNum ''1.8E+308'') [] = ([], type_error ''float64'')"
  by (simp_all add: dec_float_def float64_overflows_def exponent_val_def digits_val_def digit_val_def)

fun dec_elems :: "'r \<Rightarrow> 'r decoder \<Rightarrow> json list \<Rightarrow> 'r list \<times> go_error option" where
  "dec_elems zero d [] = ([], None)"
| "dec_elems zero d (j # js) =
     (case d j zero of (x, e) \<Rightarrow> case dec_elems zero d js of (xs, es) \<Rightarrow> (x # xs, first_error e es))"

definition dec_slice :: "'r \<Rightarrow> 'r decoder \<Rightarrow> 'r list decoder" where
  "dec_slice zero d j cur =
     (case j of JArr js \<Rightarrow> dec_elems zero d js | JNull \<Rightarrow> ([], None)
      | _ \<Rightarrow> (cur, type_error ''slice''))"

text \<open>Key folding: ASCII letters to upper case, and the two non-ASCII runes that fold to ASCII.\<close>

fun fold_key :: "string \<Rightarrow> string" where
  "fold_key (a # b # c # cs) =
     (if [a, b, c] = [CHR 0xE2, CHR 0x84, CHR 0xAA] then CHR ''K'' # fold_key cs
      else if [a, b] = [CHR 0xC5, CHR 0xBF] then CHR ''S'' # fold_key (c # cs)
      else upper a # fold_key (b # c # cs))"
| "fold_key [a, b] = (if [a, b] = [CHR 0xC5, CHR 0xBF] then ''S'' else [upper a, upper b])"
| "fold_key [a] = [upper a]"
| "fold_key [] = []"

type_synonym 'r fields = "(string \<times> 'r decoder) list"

definition find_field :: "'r fields \<Rightarrow> string \<Rightarrow> 'r decoder option" where
  "find_field fs k =
     (case map_of fs k of Some d \<Rightarrow> Some d
      | None \<Rightarrow> map_of (map (\<lambda>(n, d). (fold_key n, d)) fs) (fold_key k))"

fun dec_members :: "'r fields \<Rightarrow> (string \<times> json) list \<Rightarrow> 'r \<Rightarrow> 'r \<times> go_error option" where
  "dec_members fs [] r = (r, None)"
| "dec_members fs ((k, j) # ms) r =
     (case (case find_field fs k of None \<Rightarrow> (r, None) | Some d \<Rightarrow> d j r) of
        (r', e) \<Rightarrow> case dec_members fs ms r' of (r'', es) \<Rightarrow> (r'', first_error e es))"

definition dec_struct :: "'r fields \<Rightarrow> 'r decoder" where
  "dec_struct fs j cur =
     (case j of JObj ms \<Rightarrow> dec_members fs ms cur | JNull \<Rightarrow> (cur, None)
      | _ \<Rightarrow> (cur, type_error ''struct''))"

definition field_dec :: "('r \<Rightarrow> 'f) \<Rightarrow> ('f \<Rightarrow> 'r \<Rightarrow> 'r) \<Rightarrow> 'f decoder \<Rightarrow> 'r decoder" where
  "field_dec getter setter d j r = (case d j (getter r) of (v, e) \<Rightarrow> (setter v r, e))"

text \<open>A pointer target: \<open>null\<close> makes it nil, anything else is decoded into a zero value.\<close>

definition dec_ptr :: "'r \<Rightarrow> 'r decoder \<Rightarrow> 'r option decoder" where
  "dec_ptr zero d j cur =
     (case j of JNull \<Rightarrow> (None, None)
      | _ \<Rightarrow> (case d j (case cur of None \<Rightarrow> zero | Some x \<Rightarrow> x) of (v, e) \<Rightarrow> (Some v, e)))"

text \<open>\<open>json.Unmarshal(body, &target)\<close>: a syntax error leaves the target alone.\<close>

definition json_Unmarshal :: "'r decoder \<Rightarrow> string \<Rightarrow> 'r \<Rightarrow> 'r \<times> go_error option" where
  "json_Unmarshal d body cur =
     (case json_parse body of None \<Rightarrow> (cur, Some (ErrJson SyntaxError)) | Some j \<Rightarrow> d j cur)"

text \<open>Members of a marshalled struct: \<open>omitempty\<close> drops an empty string.\<close>

definition member :: "string \<Rightarrow> string \<Rightarrow> (string \<times> json) list" where
  "member k s = [(k, JStr s)]"

definition member_omitempty :: "string \<Rightarrow> string \<Rightarrow> (string \<times> json) list" where
  "member_omitempty k s = (if s = [] then [] else [(k, JStr s)])"

lemma json_Unmarshal_print:
  "plain j \<Longrightarrow> json_Unmarshal d (json_print j) cur = d j cur"
  by (simp add: json_Unmarshal_def json_parse_print)

lemma dec_string_simps [simp, dec_simps]:
  "dec_string (JStr s) cur = (s, None)" "dec_string JNull cur = (cur, None)"
  by (simp_all add: dec_string_def)

lemma dec_bool_simps [simp, dec_simps]:
  "dec_bool (JBool b) cur = (b, None)" "dec_bool JNull cur = (cur, None)"
  by (simp_all add: dec_bool_def)

lemma dec_struct_simps [simp, dec_simps]:
  "dec_struct fs (JObj ms) cur = dec_members fs ms cur" "dec_struct fs JNull cur = (cur, None)"
  by (simp_all add: dec_struct_def)

lemma dec_slice_simps [simp, dec_simps]:
  "dec_slice z d (JArr js) cur = dec_elems z d js" "dec_slice z d JNull cur = ([], None)"
  by (simp_all add: dec_slice_def)

lemma dec_ptr_simps [simp, dec_simps]:
  "dec_ptr z d JNull cur = (None, None)"
  "dec_ptr z d (JObj ms) None = (case d (JObj ms) z of (v, e) \<Rightarrow> (Some v, e))"
  by (simp_all add: dec_ptr_def)

lemma dec_elems_map:
  "\<forall>x \<in> set xs. d (f x) z = (x, None) \<Longrightarrow> dec_elems z d (map f xs) = (xs, None)"
  by (induction xs) auto

end
