(* ===== verification/Models.thy ===== *)
theory Models
  imports JsonDecode
begin

text \<open>
  The wire types of the client (\<open>pkg/connector/client/models.go\<close>): each struct as a record, with its
  zero value and its decoder, and the JSON of the request bodies.
\<close>

section \<open>Links, users, groups\<close>

record ConfluenceLink =
  link_Base :: string
  link_Next :: string

definition zero_Link :: ConfluenceLink where
  "zero_Link = \<lparr>link_Base = [], link_Next = []\<rparr>"

definition dec_Link :: "ConfluenceLink decoder" where
  "dec_Link = dec_struct
     [(''base'', field_dec link_Base (\<lambda>v r. r\<lparr>link_Base := v\<rparr>) dec_string),
      (''next'', field_dec link_Next (\<lambda>v r. r\<lparr>link_Next := v\<rparr>) dec_string)]"

record ConfluenceOperation =
  op_Operation :: string
  op_TargetType :: string

definition zero_Operation :: ConfluenceOperation where
  "zero_Operation = \<lparr>op_Operation = [], op_TargetType = []\<rparr>"

definition dec_Operation :: "ConfluenceOperation decoder" where
  "dec_Operation = dec_struct
     [(''operation'', field_dec op_Operation (\<lambda>v r. r\<lparr>op_Operation := v\<rparr>) dec_string),
      (''targetType'', field_dec op_TargetType (\<lambda>v r. r\<lparr>op_TargetType := v\<rparr>) dec_string)]"

record ConfluenceUser =
  usr_AccountId :: string
  usr_AccountType :: string
  usr_DisplayName :: string
  usr_Email :: string
  usr_Operations :: "ConfluenceOperation list"

definition zero_User :: ConfluenceUser where
  "zero_User = \<lparr>usr_AccountId = [], usr_AccountType = [], usr_DisplayName = [], usr_Email = [],
     usr_Operations = []\<rparr>"

definition dec_User :: "ConfluenceUser decoder" where
  "dec_User = dec_struct
     [(''accountId'', field_dec usr_AccountId (\<lambda>v r. r\<lparr>usr_AccountId := v\<rparr>) dec_string),
      (''accountType'', field_dec usr_AccountType (\<lambda>v r. r\<lparr>usr_AccountType := v\<rparr>) dec_string),
      (''displayName'', field_dec usr_DisplayName (\<lambda>v r. r\<lparr>usr_DisplayName := v\<rparr>) dec_string),
      (''email'', field_dec usr_Email (\<lambda>v r. r\<lparr>usr_Email := v\<rparr>) dec_string),
      (''operations'', field_dec usr_Operations (\<lambda>v r. r\<lparr>usr_Operations := v\<rparr>)
         (dec_slice zero_Operation dec_Operation))]"

record confluenceUserList =
  ul_Start :: goint
  ul_Limit :: goint
  ul_Size :: goint
  ul_Links :: ConfluenceLink
  ul_Results :: "ConfluenceUser list"

definition zero_UserList :: confluenceUserList where
  "zero_UserList = \<lparr>ul_Start = 0, ul_Limit = 0, ul_Size = 0, ul_Links = zero_Link, ul_Results = []\<rparr>"

definition dec_UserList :: "confluenceUserList decoder" where
  "dec_UserList = dec_struct
     [(''start'', field_dec ul_Start (\<lambda>v r. r\<lparr>ul_Start := v\<rparr>) dec_int),
      (''limit'', field_dec ul_Limit (\<lambda>v r. r\<lparr>ul_Limit := v\<rparr>) dec_int),
      (''size'', field_dec ul_Size (\<lambda>v r. r\<lparr>ul_Size := v\<rparr>) dec_int),
      (''_links'', field_dec ul_Links (\<lambda>v r. r\<lparr>ul_Links := v\<rparr>) dec_Link),
      (''results'', field_dec ul_Results (\<lambda>v r. r\<lparr>ul_Results := v\<rparr>) (dec_slice zero_User dec_User))]"

record ConfluenceSearch =
  cs_EntityType :: string
  cs_Score :: string
  cs_Title :: string
  cs_User :: ConfluenceUser

definition zero_Search :: ConfluenceSearch where
  "zero_Search = \<lparr>cs_EntityType = [], cs_Score = ''0'', cs_Title = [], cs_User = zero_User\<rparr>"

definition dec_Search :: "ConfluenceSearch decoder" where
  "dec_Search = dec_struct
     [(''entityType'', field_dec cs_EntityType (\<lambda>v r. r\<lparr>cs_EntityType := v\<rparr>) dec_string),
      (''score'', field_dec cs_Score (\<lambda>v r. r\<lparr>cs_Score := v\<rparr>) dec_float),
      (''title'', field_dec cs_Title (\<lambda>v r. r\<lparr>cs_Title := v\<rparr>) dec_string),
      (''user'', field_dec cs_User (\<lambda>v r. r\<lparr>cs_User := v\<rparr>) dec_User)]"

record ConfluenceSearchList =
  sl_Start :: goint
  sl_Limit :: goint
  sl_TotalSize :: goint
  sl_Size :: goint
  sl_Results :: "ConfluenceSearch list"

definition zero_SearchList :: ConfluenceSearchList where
  "zero_SearchList = \<lparr>sl_Start = 0, sl_Limit = 0, sl_TotalSize = 0, sl_Size = 0, sl_Results = []\<rparr>"

definition dec_SearchList :: "ConfluenceSearchList decoder" where
  "dec_SearchList = dec_struct
     [(''start'', field_dec sl_Start (\<lambda>v r. r\<lparr>sl_Start := v\<rparr>) dec_int),
      (''limit'', field_dec sl_Limit (\<lambda>v r. r\<lparr>sl_Limit := v\<rparr>) dec_int),
      (''totalSize'', field_dec sl_TotalSize (\<lambda>v r. r\<lparr>sl_TotalSize := v\<rparr>) dec_int),
      (''size'', field_dec sl_Size (\<lambda>v r. r\<lparr>sl_Size := v\<rparr>) dec_int),
      (''results'', field_dec sl_Results (\<lambda>v r. r\<lparr>sl_Results := v\<rparr>)
         (dec_slice zero_Search dec_Search))]"

record ConfluenceGroup =
  grp_Type :: string
  grp_Name :: string
  grp_Id :: string

definition zero_Group :: ConfluenceGroup where
  "zero_Group = \<lparr>grp_Type = [], grp_Name = [], grp_Id = []\<rparr>"

text \<open>The struct has no JSON tags: its fields are named as in Go and match the API's by folding.\<close>

definition dec_Group :: "ConfluenceGroup decoder" where
  "dec_Group = dec_struct
     [(''Type'', field_dec grp_Type (\<lambda>v r. r\<lparr>grp_Type := v\<rparr>) dec_string),
      (''Name'', field_dec grp_Name (\<lambda>v r. r\<lparr>grp_Name := v\<rparr>) dec_string),
      (''Id'', field_dec grp_Id (\<lambda>v r. r\<lparr>grp_Id := v\<rparr>) dec_string)]"

record confluenceGroupList =
  gl_Start :: goint
  gl_Limit :: goint
  gl_Size :: goint
  gl_Links :: ConfluenceLink
  gl_Results :: "ConfluenceGroup list"

definition zero_GroupList :: confluenceGroupList where
  "zero_GroupList = \<lparr>gl_Start = 0, gl_Limit = 0, gl_Size = 0, gl_Links = zero_Link, gl_Results = []\<rparr>"

definition dec_GroupList :: "confluenceGroupList decoder" where
  "dec_GroupList = dec_struct
     [(''start'', field_dec gl_Start (\<lambda>v r. r\<lparr>gl_Start := v\<rparr>) dec_int),
      (''limit'', field_dec gl_Limit (\<lambda>v r. r\<lparr>gl_Limit := v\<rparr>) dec_int),
      (''size'', field_dec gl_Size (\<lambda>v r. r\<lparr>gl_Size := v\<rparr>) dec_int),
      (''_links'', field_dec gl_Links (\<lambda>v r. r\<lparr>gl_Links := v\<rparr>) dec_Link),
      (''results'', field_dec gl_Results (\<lambda>v r. r\<lparr>gl_Results := v\<rparr>) (dec_slice zero_Group dec_Group))]"

section \<open>Spaces and their permissions\<close>

record ConfluenceSpaceDescriptionValue =
  dv_Value :: string
  dv_Representation :: string

definition dec_DescriptionValue :: "ConfluenceSpaceDescriptionValue decoder" where
  "dec_DescriptionValue = dec_struct
     [(''value'', field_dec dv_Value (\<lambda>v r. r\<lparr>dv_Value := v\<rparr>) dec_string),
      (''representation'', field_dec dv_Representation (\<lambda>v r. r\<lparr>dv_Representation := v\<rparr>) dec_string)]"

record ConfluenceSpaceDescription =
  desc_Plain :: ConfluenceSpaceDescriptionValue

definition zero_Description :: ConfluenceSpaceDescription where
  "zero_Description = \<lparr>desc_Plain = \<lparr>dv_Value = [], dv_Representation = []\<rparr>\<rparr>"

definition dec_Description :: "ConfluenceSpaceDescription decoder" where
  "dec_Description = dec_struct
     [(''plain'', field_dec desc_Plain (\<lambda>v r. r\<lparr>desc_Plain := v\<rparr>) dec_DescriptionValue)]"

record ConfluenceMeta =
  meta_HasMore :: bool
  meta_Cursor :: string

definition zero_Meta :: ConfluenceMeta where "zero_Meta = \<lparr>meta_HasMore = False, meta_Cursor = []\<rparr>"

definition dec_Meta :: "ConfluenceMeta decoder" where
  "dec_Meta = dec_struct
     [(''hasMore'', field_dec meta_HasMore (\<lambda>v r. r\<lparr>meta_HasMore := v\<rparr>) dec_bool),
      (''cursor'', field_dec meta_Cursor (\<lambda>v r. r\<lparr>meta_Cursor := v\<rparr>) dec_string)]"

record ConfluenceSpaceOperation =
  sop_Operation :: string
  sop_TargetType :: string

definition zero_SpaceOperation :: ConfluenceSpaceOperation where
  "zero_SpaceOperation = \<lparr>sop_Operation = [], sop_TargetType = []\<rparr>"

definition dec_SpaceOperation :: "ConfluenceSpaceOperation decoder" where
  "dec_SpaceOperation = dec_struct
     [(''operation'', field_dec sop_Operation (\<lambda>v r. r\<lparr>sop_Operation := v\<rparr>) dec_string),
      (''targetType'', field_dec sop_TargetType (\<lambda>v r. r\<lparr>sop_TargetType := v\<rparr>) dec_string)]"

record ConfluenceSpaceOperationsResponse =
  sor_Links :: ConfluenceLink
  sor_Meta :: ConfluenceMeta
  sor_Results :: "ConfluenceSpaceOperation list"

definition zero_SpaceOperations :: ConfluenceSpaceOperationsResponse where
  "zero_SpaceOperations = \<lparr>sor_Links = zero_Link, sor_Meta = zero_Meta, sor_Results = []\<rparr>"

definition dec_SpaceOperations :: "ConfluenceSpaceOperationsResponse decoder" where
  "dec_SpaceOperations = dec_struct
     [(''_links'', field_dec sor_Links (\<lambda>v r. r\<lparr>sor_Links := v\<rparr>) dec_Link),
      (''meta'', field_dec sor_Meta (\<lambda>v r. r\<lparr>sor_Meta := v\<rparr>) dec_Meta),
      (''results'', field_dec sor_Results (\<lambda>v r. r\<lparr>sor_Results := v\<rparr>)
         (dec_slice zero_SpaceOperation dec_SpaceOperation))]"

record ConfluenceSpacePermissionPrincipal =
  pp_Id :: string
  pp_Type :: string

definition zero_PermissionPrincipal :: ConfluenceSpacePermissionPrincipal where
  "zero_PermissionPrincipal = \<lparr>pp_Id = [], pp_Type = []\<rparr>"

definition dec_PermissionPrincipal :: "ConfluenceSpacePermissionPrincipal decoder" where
  "dec_PermissionPrincipal = dec_struct
     [(''id'', field_dec pp_Id (\<lambda>v r. r\<lparr>pp_Id := v\<rparr>) dec_string),
      (''type'', field_dec pp_Type (\<lambda>v r. r\<lparr>pp_Type := v\<rparr>) dec_string)]"

record ConfluenceSpacePermissionOperation =
  po_Key :: string
  po_TargetType :: string

definition zero_PermissionOperation :: ConfluenceSpacePermissionOperation where
  "zero_PermissionOperation = \<lparr>po_Key = [], po_TargetType = []\<rparr>"

definition dec_PermissionOperation :: "ConfluenceSpacePermissionOperation decoder" where
  "dec_PermissionOperation = dec_struct
     [(''key'', field_dec po_Key (\<lambda>v r. r\<lparr>po_Key := v\<rparr>) dec_string),
      (''targetType'', field_dec po_TargetType (\<lambda>v r. r\<lparr>po_TargetType := v\<rparr>) dec_string)]"

record ConfluenceSpacePermission =
  perm_Id :: string
  perm_Principal :: ConfluenceSpacePermissionPrincipal
  perm_Operation :: ConfluenceSpacePermissionOperation

definition zero_Permission :: ConfluenceSpacePermission where
  "zero_Permission = \<lparr>perm_Id = [], perm_Principal = zero_PermissionPrincipal,
     perm_Operation = zero_PermissionOperation\<rparr>"

definition dec_Permission :: "ConfluenceSpacePermission decoder" where
  "dec_Permission = dec_struct
     [(''id'', field_dec perm_Id (\<lambda>v r. r\<lparr>perm_Id := v\<rparr>) dec_string),
      (''principal'', field_dec perm_Principal (\<lambda>v r. r\<lparr>perm_Principal := v\<rparr>) dec_PermissionPrincipal),
      (''operation'', field_dec perm_Operation (\<lambda>v r. r\<lparr>perm_Operation := v\<rparr>) dec_PermissionOperation)]"

record ConfluenceSpacePermissionResponse =
  spr_Links :: ConfluenceLink
  spr_Results :: "ConfluenceSpacePermission list"

definition zero_PermissionResponse :: ConfluenceSpacePermissionResponse where
  "zero_PermissionResponse = \<lparr>spr_Links = zero_Link, spr_Results = []\<rparr>"

definition dec_PermissionResponse :: "ConfluenceSpacePermissionResponse decoder" where
  "dec_PermissionResponse = dec_struct
     [(''_links'', field_dec spr_Links (\<lambda>v r. r\<lparr>spr_Links := v\<rparr>) dec_Link),
      (''results'', field_dec spr_Results (\<lambda>v r. r\<lparr>spr_Results := v\<rparr>)
         (dec_slice zero_Permission dec_Permission))]"

record ConfluenceSpace =
  sp_AuthorId :: string
  sp_CreatedAt :: string
  sp_Description :: ConfluenceSpaceDescription
  sp_HomepageId :: string
  sp_Icon :: string
  sp_Id :: string
  sp_Key :: string
  sp_Name :: string
  sp_Operations :: ConfluenceSpaceOperationsResponse
  sp_Status :: string
  sp_Type :: string

definition zero_Space :: ConfluenceSpace where
  "zero_Space = \<lparr>sp_AuthorId = [], sp_CreatedAt = [], sp_Description = zero_Description,
     sp_HomepageId = [], sp_Icon = [], sp_Id = [], sp_Key = [], sp_Name = [],
     sp_Operations = zero_SpaceOperations, sp_Status = [], sp_Type = []\<rparr>"

definition dec_Space :: "ConfluenceSpace decoder" where
  "dec_Space = dec_struct
     [(''authorId'', field_dec sp_AuthorId (\<lambda>v r. r\<lparr>sp_AuthorId := v\<rparr>) dec_string),
      (''createdAt'', field_dec sp_CreatedAt (\<lambda>v r. r\<lparr>sp_CreatedAt := v\<rparr>) dec_string),
      (''description'', field_dec sp_Description (\<lambda>v r. r\<lparr>sp_Description := v\<rparr>) dec_Description),
      (''homepageId'', field_dec sp_HomepageId (\<lambda>v r. r\<lparr>sp_HomepageId := v\<rparr>) dec_string),
      (''icon'', field_dec sp_Icon (\<lambda>v r. r\<lparr>sp_Icon := v\<rparr>) dec_string),
      (''id'', field_dec sp_Id (\<lambda>v r. r\<lparr>sp_Id := v\<rparr>) dec_string),
      (''key'', field_dec sp_Key (\<lambda>v r. r\<lparr>sp_Key := v\<rparr>) dec_string),
      (''name'', field_dec sp_Name (\<lambda>v r. r\<lparr>sp_Name := v\<rparr>) dec_string),
      (''operations'', field_dec sp_Operations (\<lambda>v r. r\<lparr>sp_Operations := v\<rparr>) dec_SpaceOperations),
      (''status'', field_dec sp_Status (\<lambda>v r. r\<lparr>sp_Status := v\<rparr>) dec_string),
      (''type'', field_dec sp_Type (\<lambda>v r. r\<lparr>sp_Type := v\<rparr>) dec_string)]"

record confluenceSpaceList =
  spl_Links :: ConfluenceLink
  spl_Results :: "ConfluenceSpace list"

definition zero_SpaceList :: confluenceSpaceList where
  "zero_SpaceList = \<lparr>spl_Links = zero_Link, spl_Results = []\<rparr>"

definition dec_SpaceList :: "confluenceSpaceList decoder" where
  "dec_SpaceList = dec_struct
     [(''_links'', field_dec spl_Links (\<lambda>v r. r\<lparr>spl_Links := v\<rparr>) dec_Link),
      (''results'', field_dec spl_Results (\<lambda>v r. r\<lparr>spl_Results := v\<rparr>) (dec_slice zero_Space dec_Space))]"

section \<open>Space roles\<close>

record SpaceRole =
  role_Id :: string
  role_Type :: string
  role_Name :: string
  role_Description :: string
  role_SpacePermissions :: "string list"

definition zero_Role :: SpaceRole where
  "zero_Role = \<lparr>role_Id = [], role_Type = [], role_Name = [], role_Description = [],
     role_SpacePermissions = []\<rparr>"

definition dec_Role :: "SpaceRole decoder" where
  "dec_Role = dec_struct
     [(''id'', field_dec role_Id (\<lambda>v r. r\<lparr>role_Id := v\<rparr>) dec_string),
      (''type'', field_dec role_Type (\<lambda>v r. r\<lparr>role_Type := v\<rparr>) dec_string),
      (''name'', field_dec role_Name (\<lambda>v r. r\<lparr>role_Name := v\<rparr>) dec_string),
      (''description'', field_dec role_Description (\<lambda>v r. r\<lparr>role_Description := v\<rparr>) dec_string),
      (''spacePermissions'', field_dec role_SpacePermissions (\<lambda>v r. r\<lparr>role_SpacePermissions := v\<rparr>)
         (dec_slice [] dec_string))]"

record SpaceRoleAssignmentPrincipal =
  rp_PrincipalType :: string
  rp_PrincipalId :: string

definition zero_RolePrincipal :: SpaceRoleAssignmentPrincipal where
  "zero_RolePrincipal = \<lparr>rp_PrincipalType = [], rp_PrincipalId = []\<rparr>"

definition dec_RolePrincipal :: "SpaceRoleAssignmentPrincipal decoder" where
  "dec_RolePrincipal = dec_struct
     [(''principalType'', field_dec rp_PrincipalType (\<lambda>v r. r\<lparr>rp_PrincipalType := v\<rparr>) dec_string),
      (''principalId'', field_dec rp_PrincipalId (\<lambda>v r. r\<lparr>rp_PrincipalId := v\<rparr>) dec_string)]"

record SpaceRoleAssignment =
  sra_Principal :: SpaceRoleAssignmentPrincipal
  sra_RoleId :: string

definition zero_RoleAssignment :: SpaceRoleAssignment where
  "zero_RoleAssignment = \<lparr>sra_Principal = zero_RolePrincipal, sra_RoleId = []\<rparr>"

definition dec_RoleAssignment :: "SpaceRoleAssignment decoder" where
  "dec_RoleAssignment = dec_struct
     [(''principal'', field_dec sra_Principal (\<lambda>v r. r\<lparr>sra_Principal := v\<rparr>) dec_RolePrincipal),
      (''roleId'', field_dec sra_RoleId (\<lambda>v r. r\<lparr>sra_RoleId := v\<rparr>) dec_string)]"

record SpaceRolesResponse =
  srr_Results :: "SpaceRole list"
  srr_Links :: ConfluenceLink

definition zero_RolesResponse :: SpaceRolesResponse where
  "zero_RolesResponse = \<lparr>srr_Results = [], srr_Links = zero_Link\<rparr>"

definition dec_RolesResponse :: "SpaceRolesResponse decoder" where
  "dec_RolesResponse = dec_struct
     [(''results'', field_dec srr_Results (\<lambda>v r. r\<lparr>srr_Results := v\<rparr>) (dec_slice zero_Role dec_Role)),
      (''_links'', field_dec srr_Links (\<lambda>v r. r\<lparr>srr_Links := v\<rparr>) dec_Link)]"

record SpaceRoleAssignmentsResponse =
  srar_Results :: "SpaceRoleAssignment list"
  srar_Links :: ConfluenceLink

definition zero_AssignmentsResponse :: SpaceRoleAssignmentsResponse where
  "zero_AssignmentsResponse = \<lparr>srar_Results = [], srar_Links = zero_Link\<rparr>"

definition dec_AssignmentsResponse :: "SpaceRoleAssignmentsResponse decoder" where
  "dec_AssignmentsResponse = dec_struct
     [(''results'', field_dec srar_Results (\<lambda>v r. r\<lparr>srar_Results := v\<rparr>)
         (dec_slice zero_RoleAssignment dec_RoleAssignment)),
      (''_links'', field_dec srar_Links (\<lambda>v r. r\<lparr>srar_Links := v\<rparr>) dec_Link)]"

record SpaceRoleModeResponse =
  srm_Mode :: string

definition zero_RoleMode :: SpaceRoleModeResponse where "zero_RoleMode = \<lparr>srm_Mode = []\<rparr>"

definition dec_RoleMode :: "SpaceRoleModeResponse decoder" where
  "dec_RoleMode = dec_struct
     [(''mode'', field_dec srm_Mode (\<lambda>v r. r\<lparr>srm_Mode := v\<rparr>) dec_string)]"

section \<open>Request bodies\<close>

record SpacePermissionSubject =
  subj_Type :: string
  subj_Identifier :: string

record SpacePermissionOperation =
  spo_Key :: string
  spo_Target :: string

record CreateSpacePermissionRequestBody =
  cb_Subject :: SpacePermissionSubject
  cb_Operation :: SpacePermissionOperation

definition json_CreateSpacePermission :: "CreateSpacePermissionRequestBody \<Rightarrow> json" where
  "json_CreateSpacePermission b =
     JObj [(''subject'', JObj (member ''type'' (subj_Type (cb_Subject b)) @
                               member ''identifier'' (subj_Identifier (cb_Subject b)))),
           (''operation'', JObj (member ''key'' (spo_Key (cb_Operation b)) @
                                 member ''target'' (spo_Target (cb_Operation b))))]"

record AddUserToGroupRequestBody =
  ab_AccountId :: string

definition json_AddUserToGroup :: "AddUserToGroupRequestBody \<Rightarrow> json" where
  "json_AddUserToGroup b = JObj (member ''accountId'' (ab_AccountId b))"

record SetSpaceRoleAssignmentRequest =
  set_Principal :: SpaceRoleAssignmentPrincipal
  set_RoleId :: string

definition json_SetSpaceRoleAssignment :: "SetSpaceRoleAssignmentRequest \<Rightarrow> json" where
  "json_SetSpaceRoleAssignment r =
     JObj ((''principal'',
              JObj (member ''principalType'' (rp_PrincipalType (set_Principal r)) @
                    member ''principalId'' (rp_PrincipalId (set_Principal r)))) #
           member_omitempty ''roleId'' (set_RoleId r))"

end
