(* ===== verification/RateLimit.thy ===== *)
theory RateLimit
  imports Models
begin

text \<open>
  HTTP responses as the client sees them, the extraction of rate-limit data from their headers
  (\<open>baton-sdk/pkg/ratelimit/http.go\<close>) and the client's own use of it
  (\<open>pkg/connector/client/ratelimit.go\<close>). Times are nanoseconds since 1970; \<open>time.Now\<close> and the two
  calendar layouts of \<open>time.Parse\<close> are arguments. The clock is read once: no result depends on a second
  reading, unless a relative reset time is the zero time to the nanosecond.
\<close>

section \<open>Responses and headers\<close>

type_synonym header = "(string \<times> string list) list"

text \<open>The canonical form of a header key: upper case at the start and after a hyphen.\<close>

fun canonical_key :: "bool \<Rightarrow> string \<Rightarrow> string" where
  "canonical_key up [] = []"
| "canonical_key up (c # cs) = (if up then upper c else lower c) # canonical_key (c = CHR ''-'') cs"

definition header_Get :: "header \<Rightarrow> string \<Rightarrow> string" where
  "header_Get h k = (case map_of h (canonical_key True k) of Some (v # _) \<Rightarrow> v | _ \<Rightarrow> [])"

text \<open>\<open>resp_Body\<close> is what reading the body to its end gives: the bytes and the error, if any.\<close>

record http_response =
  resp_StatusCode :: int
  resp_Status :: string
  resp_Header :: header
  resp_Body :: "string \<times> go_error option"

section \<open>Extracting rate-limit data\<close>

datatype rl_status = STATUS_UNSPECIFIED | STATUS_OK | STATUS_OVERLIMIT | STATUS_ERROR

record RateLimitDescription =
  rl_Status :: rl_status
  rl_Limit :: int
  rl_Remaining :: int
  rl_ResetAt :: "int option"

definition zero_RateLimit :: RateLimitDescription where
  "zero_RateLimit =
     \<lparr>rl_Status = STATUS_UNSPECIFIED, rl_Limit = 0, rl_Remaining = 0, rl_ResetAt = None\<rparr>"

definition limitHeaders :: "string list" where
  "limitHeaders = [''X-Ratelimit-Limit'', ''Ratelimit-Limit'', ''X-RateLimit-Requests-Limit'',
     ''X-Rate-Limit-Limit'']"

definition remainingHeaders :: "string list" where
  "remainingHeaders = [''X-Ratelimit-Remaining'', ''Ratelimit-Remaining'',
     ''X-RateLimit-Requests-Remaining'', ''X-Rate-Limit-Remaining'']"

definition resetAtHeaders :: "string list" where
  "resetAtHeaders = [''X-Ratelimit-Reset'', ''Ratelimit-Reset'', ''X-RateLimit-Requests-Reset'',
     ''X-Rate-Limit-Reset'', ''Retry-After'']"

definition thirtyYears :: int where "thirtyYears = 60 * 60 * 24 * 365 * (2000 - 1970)"

definition second :: int where "second = 1000000000"

definition zero_time :: int where "zero_time = -62135596800 * second"

type_synonym date_parser = "string \<Rightarrow> int option"

text \<open>A duration is a 64-bit number of nanoseconds: \<open>time.Second * time.Duration(res)\<close> wraps.\<close>

definition parseTime :: "int \<Rightarrow> date_parser \<Rightarrow> string \<Rightarrow> int option" where
  "parseTime now date s =
     (case parse_int s of None \<Rightarrow> date s
      | Some res0 \<Rightarrow>
          (let res = (if res0 > thirtyYears * 1000 then res0 div 1000 else res0)
           in if res > thirtyYears then Some (res * second)
              else Some (now + sint (word_of_int (second * res) :: goint))))"

definition normalizeRateLimitValue :: "string \<Rightarrow> string" where
  "normalizeRateLimitValue s = takeWhile is_digit (trim_space s)"

text \<open>
  The first header that is present decides; a value that is not a number is an error. The value is a run
  of digits, so \<open>strconv.ParseInt\<close> refuses it for being empty or for its range.
\<close>

definition number_error :: "string \<Rightarrow> go_error" where
  "number_error v =
     ErrText (''strconv.ParseInt: parsing '' @ [CHR 0x22] @ v @ [CHR 0x22] @ '': '' @
       (if v = [] then ''invalid syntax'' else ''value out of range''))"

fun first_number :: "header \<Rightarrow> string list \<Rightarrow> go_error + int" where
  "first_number h [] = Inr 0"
| "first_number h (k # ks) =
     (if header_Get h k \<noteq> [] then
        (case parse_int (normalizeRateLimitValue (header_Get h k)) of
           None \<Rightarrow> Inl (number_error (normalizeRateLimitValue (header_Get h k)))
         | Some n \<Rightarrow> Inr n)
      else first_number h ks)"

text \<open>The first header that holds a time decides; none leaves the zero time.\<close>

fun first_time :: "int \<Rightarrow> date_parser \<Rightarrow> header \<Rightarrow> string list \<Rightarrow> int" where
  "first_time now date h [] = zero_time"
| "first_time now date h (k # ks) =
     (if header_Get h k \<noteq> [] then
        (case parseTime now date (header_Get h k) of
           None \<Rightarrow> first_time now date h ks
         | Some t \<Rightarrow> t)
      else first_time now date h ks)"

definition ExtractRateLimitData ::
    "int \<Rightarrow> date_parser \<Rightarrow> int \<Rightarrow> header \<Rightarrow> go_error + RateLimitDescription" where
  "ExtractRateLimitData now date statusCode h =
     (case first_number h limitHeaders of Inl e \<Rightarrow> Inl e
      | Inr limit0 \<Rightarrow>
     (case first_number h remainingHeaders of Inl e \<Rightarrow> Inl e
      | Inr remaining0 \<Rightarrow>
        (let status0 = (if remaining0 > 0 then STATUS_OK else STATUS_UNSPECIFIED);
             resetAt0 = first_time now date h resetAtHeaders;
             status = (if statusCode = 429 then STATUS_OVERLIMIT else status0);
             remaining = (if statusCode = 429 then 0 else remaining0);
             sane = (remaining = 0 \<and> resetAt0 = zero_time \<and> status = STATUS_OVERLIMIT);
             limit = (if sane then 1 else limit0);
             resetAt = (if sane then now + 60 * second else resetAt0)
         in Inr \<lparr>rl_Status = status, rl_Limit = limit, rl_Remaining = remaining,
                 rl_ResetAt = Some resetAt\<rparr>)))"

section \<open>The client's view\<close>

text \<open>\<open>WithConfluenceRatelimitData\<close>: an option of \<open>Do\<close> that stores into \<open>resource\<close>.\<close>

definition WithConfluenceRatelimitData ::
    "int \<Rightarrow> date_parser \<Rightarrow> http_response \<Rightarrow> RateLimitDescription \<Rightarrow>
     RateLimitDescription \<times> go_error option" where
  "WithConfluenceRatelimitData now date response resource =
     (case ExtractRateLimitData now date (resp_StatusCode response) (resp_Header response) of
        Inl e \<Rightarrow> (resource, Some e)
      | Inr d \<Rightarrow> (resource\<lparr>rl_Limit := rl_Limit d, rl_Remaining := rl_Remaining d,
                          rl_ResetAt := rl_ResetAt d, rl_Status := rl_Status d\<rparr>, None))"

definition isRatelimited :: "rl_status \<Rightarrow> int \<Rightarrow> bool" where
  "isRatelimited ratelimitStatus statusCode \<longleftrightarrow>
     List.member [STATUS_OVERLIMIT, STATUS_ERROR] ratelimitStatus \<or>
     List.member [429, 504, 503] statusCode"

lemma isRatelimited_iff:
  "isRatelimited s c \<longleftrightarrow> s = STATUS_OVERLIMIT \<or> s = STATUS_ERROR \<or> c \<in> {429, 503, 504}"
  by (auto simp: isRatelimited_def)

lemma Extract_status:
  assumes "ExtractRateLimitData now date code h = Inr d"
  shows "rl_Status d = STATUS_OVERLIMIT \<longleftrightarrow> code = 429" "rl_Status d \<noteq> STATUS_ERROR"
    "code = 429 \<Longrightarrow> rl_Remaining d = 0"
  using assms by (auto simp: ExtractRateLimitData_def Let_def split: sum.splits if_splits)

lemma WithConfluenceRatelimitData_status:
  assumes "WithConfluenceRatelimitData now date r zero_RateLimit = (d, e)"
  shows "isRatelimited (rl_Status d) (resp_StatusCode r) \<longleftrightarrow> resp_StatusCode r \<in> {429, 503, 504}"
  using assms Extract_status [of now date "resp_StatusCode r" "resp_Header r"]
  by (auto simp: WithConfluenceRatelimitData_def isRatelimited_iff zero_RateLimit_def split: sum.splits)

text \<open>
  C40. Rate limit data read from a 429 always says over limit with nothing remaining; without a reset
  header it says a limit of 1 that resets in 60 seconds, and with one it keeps that time and the limit
  of the headers.
\<close>

theorem rate_limit_429:
  assumes "ExtractRateLimitData now date 429 h = Inr d"
  shows "rl_Status d = STATUS_OVERLIMIT \<and> rl_Remaining d = 0 \<and>
    (rl_Limit d, rl_ResetAt d) =
      (if first_time now date h resetAtHeaders = zero_time then (1, Some (now + 60 * second))
       else (case first_number h limitHeaders of Inr l \<Rightarrow> l | Inl _ \<Rightarrow> 0,
             Some (first_time now date h resetAtHeaders)))"
  using assms by (auto simp: ExtractRateLimitData_def Let_def split: sum.splits if_splits)

lemma retry_classification:
  assumes "WithConfluenceRatelimitData now date r zero_RateLimit = (d, e)"
  shows "isRatelimited (rl_Status d) (resp_StatusCode r) \<longleftrightarrow> resp_StatusCode r \<in> {429, 503, 504}"
  using WithConfluenceRatelimitData_status [OF assms] .

theorem rate_limit_429_witness:
  "\<exists>d. ExtractRateLimitData 1000 (\<lambda>_. None) 429 [] = Inr d \<and> rl_Status d = STATUS_OVERLIMIT \<and> rl_Remaining d = 0"
proof -
  have "ExtractRateLimitData 1000 (\<lambda>_. None) 429 [] = Inr \<lparr>rl_Status = STATUS_OVERLIMIT, rl_Limit = 1,
      rl_Remaining = 0, rl_ResetAt = Some (1000 + 60 * second)\<rparr>"
    by code_simp
  then show ?thesis using rate_limit_429 by blast
qed

end
