(* ===== verification/Transport.thy ===== *)
theory Transport
  imports RateLimit
begin

text \<open>
  The HTTP client of \<open>baton-sdk/pkg/uhttp\<close> that the connector sends its requests through: \<open>Do\<close> with
  its options, the response cache in front of \<open>GET\<close>, and the classification of answers. What is
  behind it (\<open>http.Client.Do\<close>, the cache store, the clock) is a field of the client and acts on the
  world \<open>'w\<close>.
\<close>

section \<open>Requests and the client\<close>

datatype http_method = GET | POST | DELETE

record http_request =
  req_Method :: http_method
  req_URL :: url
  req_BasicAuth :: "string \<times> string"
  req_Header :: "(string \<times> string) list"
  req_Body :: "string option"

text \<open>
  \<open>http.Client.Do\<close>: a response, or an error (as \<open>wrapTransientNetworkError\<close> classifies it) that may
  come with a response whose body is already closed.
\<close>

datatype http_outcome = Received http_response | Failed "http_response option" go_error

record 'w BaseHttpClient =
  http_Do :: "http_request \<Rightarrow> 'w \<Rightarrow> http_outcome \<times> 'w"
  cache_Get :: "http_request \<Rightarrow> 'w \<Rightarrow> (go_error + http_response option) \<times> 'w"
  cache_Set :: "http_request \<Rightarrow> http_response \<Rightarrow> 'w \<Rightarrow> 'w"
  time_Now :: "'w \<Rightarrow> int"
  time_Parse :: date_parser

definition GrpcCodeFromHTTPStatus :: "int \<Rightarrow> grpc_code" where
  "GrpcCodeFromHTTPStatus s =
     (if s = 400 then InvalidArgument
      else if s = 408 then DeadlineExceeded
      else if s \<in> {429, 502, 503, 504} then Unavailable
      else if s = 404 then NotFound
      else if s = 401 then Unauthenticated
      else if s = 403 then PermissionDenied
      else if s = 409 then AlreadyExists
      else if s = 501 then Unimplemented
      else if 500 \<le> s \<and> s \<le> 599 then Unavailable
      else if 400 \<le> s \<and> s \<le> 499 then InvalidArgument
      else Unknown)"

section \<open>Options of a request\<close>

text \<open>An option reads the response and may store into the variables it was given, the state \<open>'s\<close>.\<close>

type_synonym 's do_option = "http_response \<Rightarrow> 's \<Rightarrow> 's \<times> go_error option"

fun run_options :: "'s do_option list \<Rightarrow> http_response \<Rightarrow> 's \<Rightarrow> 's \<times> go_error list" where
  "run_options [] r s = (s, [])"
| "run_options (opt # opts) r s =
     (case opt r s of (s', e) \<Rightarrow> case run_options opts r s' of (s'', es) \<Rightarrow>
        (s'', (case e of None \<Rightarrow> es | Some x \<Rightarrow> x # es)))"

definition IsJSONContentType :: "string \<Rightarrow> bool" where
  "IsJSONContentType contentType =
     (let c = trim_space (to_lower contentType)
      in prefix ''application'' c \<and> contains_str c ''json'')"

definition WithJSONResponse :: "'r decoder \<Rightarrow> http_response \<Rightarrow> 'r \<Rightarrow> 'r \<times> go_error option" where
  "WithJSONResponse d resp target =
     (let contentHeader = header_Get (resp_Header resp) ''Content-Type'' in
      if \<not> IsJSONContentType contentHeader then
        (target, Some (ErrText (''unexpected content type for JSON response: '' @ contentHeader @
           ''. status code: '' @ itoa_int (resp_StatusCode resp))))
      else case json_Unmarshal d (fst (resp_Body resp)) target of
        (target', None) \<Rightarrow> (target', None)
      | (target', Some e) \<Rightarrow> (target', Some (ErrWrapIn ''failed to unmarshal json response: '' e
            (''. status code: '' @ itoa_int (resp_StatusCode resp)))))"

text \<open>Lifting an option to one of the two variables that \<open>makeRequest\<close> gives to \<open>Do\<close>.\<close>

definition on_fst :: "'a do_option \<Rightarrow> ('a \<times> 'b) do_option" where
  "on_fst opt r s = (case opt r (fst s) of (a, e) \<Rightarrow> ((a, snd s), e))"

definition on_snd :: "'b do_option \<Rightarrow> ('a \<times> 'b) do_option" where
  "on_snd opt r s = (case opt r (snd s) of (b, e) \<Rightarrow> ((fst s, b), e))"

section \<open>Do\<close>

definition errors_Join :: "go_error list \<Rightarrow> go_error option" where
  "errors_Join es = (if es = [] then None else Some (ErrJoin es))"

text \<open>
  The status of a failed answer. The rate limit data it carries as a detail is not part of the code
  and the message, which are all the connector can see of it, and is dropped.
\<close>

definition WrapErrorsWithRateLimitInfo :: "grpc_code \<Rightarrow> string \<Rightarrow> go_error list \<Rightarrow> go_error" where
  "WrapErrorsWithRateLimitInfo code msg es =
     (if es = [] then ErrStatus code msg else ErrJoin (ErrStatus code msg # es))"

text \<open>After a failed read the body is what was read, or, when nothing was, a closed reader.\<close>

definition body_after_error :: "string \<Rightarrow> string \<times> go_error option" where
  "body_after_error body =
     (if body \<noteq> [] then (body, None)
      else ([], Some (ErrTransport ''http: read on closed response body'')))"

definition is_2xx :: "int \<Rightarrow> bool" where "is_2xx s \<longleftrightarrow> 200 \<le> s \<and> s < 300"

definition fetch :: "'w BaseHttpClient \<Rightarrow> http_request \<Rightarrow> 'w \<Rightarrow> http_outcome \<times> 'w" where
  "fetch c req w =
     (if req_Method req = GET then
        (case cache_Get c req w of
           (Inl e, w') \<Rightarrow> (Failed None e, w')
         | (Inr (Some r), w') \<Rightarrow> (Received r, w')
         | (Inr None, w') \<Rightarrow> http_Do c req w')
      else http_Do c req w)"

definition Do :: "'w BaseHttpClient \<Rightarrow> http_request \<Rightarrow> (int \<Rightarrow> 's do_option list) \<Rightarrow> 's \<Rightarrow>
    'w \<Rightarrow> (http_response option \<times> 's \<times> go_error option) \<times> 'w" where
  "Do c req options s w =
     (case fetch c req w of
        (Failed r e, w') \<Rightarrow> ((r, s, Some e), w')
      | (Received r, w') \<Rightarrow>
          (case resp_Body r of
             (body, Some e) \<Rightarrow> ((Some (r\<lparr>resp_Body := body_after_error body\<rparr>), s, Some e), w')
           | (body, None) \<Rightarrow>
               (case run_options (options (time_Now c w')) r s of (s', optErrs) \<Rightarrow>
                  if \<not> is_2xx (resp_StatusCode r) then
                    ((Some r, s', Some (WrapErrorsWithRateLimitInfo (GrpcCodeFromHTTPStatus (resp_StatusCode r))
                                          (resp_Status r) optErrs)), w')
                  else
                    ((Some r, s', errors_Join optErrs),
                     if req_Method req = GET \<and> resp_StatusCode r = 200 then cache_Set c req r w'
                     else w'))))"

lemma errors_Join_None [simp]: "errors_Join es = None \<longleftrightarrow> es = []"
  by (simp add: errors_Join_def)

lemma fetch_post [simp]: "req_Method req \<noteq> GET \<Longrightarrow> fetch c req = http_Do c req"
  by (simp add: fetch_def fun_eq_iff)

end
