(* ===== verification/Path.thy ===== *)
theory Path
  imports Transport
begin

text \<open>
  The client's state (\<open>confluence.go\<close>) and how it builds the URL of a request
  (\<open>pkg/connector/client/path.go\<close>): the path constants, the query options and \<open>parse\<close>.
\<close>

section \<open>The client\<close>

record 'w ConfluenceClient =
  client_user :: string
  client_apiKey :: string
  client_apiBase :: url
  client_wrapper :: "'w BaseHttpClient"

section \<open>Paths\<close>

definition CurrentUserUrlPath :: string where
  "CurrentUserUrlPath = ''/wiki/rest/api/user/current''"
definition GroupsListUrlPath :: string where
  "GroupsListUrlPath = ''/wiki/rest/api/group''"
definition getUsersByGroupIdUrlPath :: "string \<Rightarrow> string" where
  "getUsersByGroupIdUrlPath g = ''/wiki/rest/api/group/'' @ g @ ''/membersByGroupId''"
definition groupBaseUrlPath :: string where
  "groupBaseUrlPath = ''/wiki/rest/api/group/userByGroupId''"
definition SearchUrlPath :: string where
  "SearchUrlPath = ''/wiki/rest/api/search/user''"
definition spacePermissionsCreateUrlPath :: "string \<Rightarrow> string" where
  "spacePermissionsCreateUrlPath s = ''/wiki/rest/api/space/'' @ s @ ''/permissions''"
definition spacePermissionsUpdateUrlPath :: "string \<Rightarrow> string \<Rightarrow> string" where
  "spacePermissionsUpdateUrlPath s p = ''/wiki/rest/api/space/'' @ s @ ''/permissions/'' @ p"
definition SpacesListUrlPath :: string where
  "SpacesListUrlPath = ''/wiki/api/v2/spaces''"
definition spacesGetUrlPath :: "string \<Rightarrow> string" where
  "spacesGetUrlPath s = ''/wiki/api/v2/spaces/'' @ s"
definition SpacePermissionsListUrlPath :: "string \<Rightarrow> string" where
  "SpacePermissionsListUrlPath s = ''/wiki/api/v2/spaces/'' @ s @ ''/permissions''"
definition SpaceRolesUrlPath :: string where
  "SpaceRolesUrlPath = ''/wiki/api/v2/space-roles''"
definition SpaceRoleAssignmentsUrlPath :: "string \<Rightarrow> string" where
  "SpaceRoleAssignmentsUrlPath s = ''/wiki/api/v2/spaces/'' @ s @ ''/role-assignments''"
definition SpaceRoleModeUrlPath :: string where
  "SpaceRoleModeUrlPath = ''/wiki/api/v2/space-role-mode''"

definition defaultSize :: goint where "defaultSize = 100"

section \<open>Query options\<close>

text \<open>A value of type \<open>interface{}\<close>: the three kinds the code handles, and any other.\<close>

datatype qvalue = QString string | QInt goint | QBool bool | QOther

type_synonym url_option = "url \<Rightarrow> go_error + url"

fun qvalue_String :: "qvalue \<Rightarrow> string option" where
  "qvalue_String (QString s) = Some s"
| "qvalue_String (QInt i) = Some (itoa i)"
| "qvalue_String (QBool b) = Some (if b then ''1'' else ''0'')"
| "qvalue_String QOther = None"

text \<open>The loop over the parameter map, in the order the map is enumerated.\<close>

fun set_parameters :: "(string \<times> qvalue) list \<Rightarrow> url_values \<Rightarrow> go_error + url_values" where
  "set_parameters [] query = Inr query"
| "set_parameters ((key, v) # ps) query =
     (case qvalue_String v of
        None \<Rightarrow> Inl (ErrText ''invalid query parameter type'')
      | Some s \<Rightarrow> set_parameters ps (values_set key s query))"

definition withQueryParameters :: "(string \<times> qvalue) list \<Rightarrow> url_option" where
  "withQueryParameters parameters u =
     map_sum id (\<lambda>query. u\<lparr>RawQuery := values_Encode query\<rparr>)
       (set_parameters parameters (url_Query u))"

definition withLimitAndOffset :: "string \<Rightarrow> goint \<Rightarrow> url_option" where
  "withLimitAndOffset pageToken pageSize =
     withQueryParameters [(''limit'', QInt pageSize), (''start'', QString pageToken)]"

definition withPaginationCursor :: "goint \<Rightarrow> string \<Rightarrow> url_option" where
  "withPaginationCursor pageSize paginationCursor =
     (let pageSize' = (if sint pageSize < 1 then defaultSize else pageSize)
      in withQueryParameters
           ((''limit'', QInt pageSize') #
            (if paginationCursor \<noteq> [] then [(''cursor'', QString paginationCursor)] else [])))"

fun apply_options :: "url_option list \<Rightarrow> url \<Rightarrow> go_error + url" where
  "apply_options [] u = Inr u"
| "apply_options (opt # opts) u = (case opt u of Inl e \<Rightarrow> Inl e | Inr u' \<Rightarrow> apply_options opts u')"

definition parse :: "'w ConfluenceClient \<Rightarrow> string \<Rightarrow> url_option list \<Rightarrow> go_error + url" where
  "parse c path options =
     (case url_Parse path of
        Inl e \<Rightarrow> Inl (ErrWrap (''failed to parse request path '' @ single_quoted path) (ErrUrl e))
      | Inr parsed \<Rightarrow> apply_options options (ResolveReference (client_apiBase c) parsed))"

section \<open>What the options do to a query\<close>

definition set_parameter :: "string \<times> qvalue \<Rightarrow> url_values \<Rightarrow> url_values" where
  "set_parameter p q = values_set (fst p) (the (qvalue_String (snd p))) q"

lemma set_parameter_Pair [simp]:
  "set_parameter (k, v) q = values_set k (the (qvalue_String v)) q"
  by (simp add: set_parameter_def)

lemma set_parameters_fold:
  "set_parameters ps q =
     (if \<exists>p \<in> set ps. snd p = QOther then Inl (ErrText ''invalid query parameter type'')
      else Inr (fold set_parameter ps q))"
proof (induction ps arbitrary: q)
  case (Cons p ps)
  obtain k v where p: "p = (k, v)" by (cases p)
  show ?case
  proof (cases v)
    case QOther
    then show ?thesis by (simp add: p)
  qed (use Cons in \<open>auto simp: p\<close>)
qed simp

lemma values_ok_fold_parameters: "values_ok q \<Longrightarrow> values_ok (fold set_parameter ps q)"
  by (induction ps arbitrary: q) (simp_all add: set_parameter_def values_ok_set)

lemma map_of_fold_parameters:
  "distinct (map fst ps) \<Longrightarrow>
   map_of (fold set_parameter ps q) k =
     (case map_of ps k of None \<Rightarrow> map_of q k | Some v \<Rightarrow> Some [the (qvalue_String v)])"
proof (induction ps arbitrary: q)
  case (Cons p ps)
  have "map_of ps (fst p) = None" using Cons.prems by (simp add: map_of_eq_None_iff)
  moreover have "map_of (p # ps) k = (if k = fst p then Some (snd p) else map_of ps k)"
    by (cases p) auto
  ultimately show ?case
    using Cons by (auto simp: set_parameter_def split: option.split)
qed simp

lemma withQueryParameters_Inr:
  "withQueryParameters ps u = Inr u' \<longleftrightarrow>
     (\<forall>p \<in> set ps. snd p \<noteq> QOther) \<and>
     u' = u\<lparr>RawQuery := values_Encode (fold set_parameter ps (url_Query u))\<rparr>"
  by (auto simp: withQueryParameters_def set_parameters_fold)

lemma url_Query_Encode:
  "values_ok m \<Longrightarrow> map_of (url_Query (u\<lparr>RawQuery := values_Encode m\<rparr>)) = map_of m"
  by (simp add: url_Query_def map_of_parse_query_Encode)

lemma values_ok_url_Query [simp]: "values_ok (url_Query u)"
  by (simp add: url_Query_def)

lemma withQueryParameters_sets:
  assumes "withQueryParameters ps u = Inr u'" "distinct (map fst ps)"
  shows "u' = u\<lparr>RawQuery := RawQuery u'\<rparr> \<and>
    map_of (url_Query u') k =
      (case map_of ps k of
         None \<Rightarrow> map_of (url_Query u) k
       | Some v \<Rightarrow> map_option (\<lambda>s. [s]) (qvalue_String v))"
proof -
  have u': "u' = u\<lparr>RawQuery := values_Encode (fold set_parameter ps (url_Query u))\<rparr>"
    and ok: "\<forall>p \<in> set ps. snd p \<noteq> QOther"
    using assms(1) by (simp_all add: withQueryParameters_Inr)
  have v: "map_option (\<lambda>s. [s]) (qvalue_String v) = Some [the (qvalue_String v)]"
    if "map_of ps k = Some v" for v
    using ok map_of_SomeD [OF that] by (cases v) auto
  have "map_of (url_Query u') k = map_of (fold set_parameter ps (url_Query u)) k"
    by (simp add: u' url_Query_Encode values_ok_fold_parameters)
  also have "\<dots> = (case map_of ps k of None \<Rightarrow> map_of (url_Query u) k
                   | Some v \<Rightarrow> map_option (\<lambda>s. [s]) (qvalue_String v))"
    unfolding map_of_fold_parameters [OF assms(2)]
    by (cases "map_of ps k") (simp_all only: option.case v)
  finally show ?thesis by (simp add: u')
qed


lemma withLimitAndOffset_Inr:
  "withLimitAndOffset tok n u =
     Inr (u\<lparr>RawQuery := values_Encode (values_set ''start'' tok (values_set ''limit'' (itoa n) (url_Query u)))\<rparr>)"
  by (simp add: withLimitAndOffset_def withQueryParameters_def)


lemma demo_option:
  "withQueryParameters [(''start'', QString ''10''), (''limit'', QInt 5)] (empty_url\<lparr>RawQuery := ''start=3&x=y''\<rparr>)
   = Inr (empty_url\<lparr>RawQuery := ''limit=5&start=10&x=y''\<rparr>)"
  by code_simp

end
