(* ===== verification/Endpoint.thy ===== *)
theory Endpoint
  imports Path
begin

text \<open>
  Where a request goes: the path given to \<open>parse\<close> reaches the URL unchanged when it has no dot
  segments, the options change the query only, and the URL that is printed into the request is
  parsed back as it was.
\<close>

section \<open>Absolute paths\<close>

definition seg_char :: "char \<Rightarrow> bool" where
  "seg_char c \<longleftrightarrow> is_alnum c \<or> c \<in> set ''-_.~$&+:=@%''"

definition path_of :: "string list \<Rightarrow> string" where
  "path_of segs = concat (map ((#) (CHR ''/'')) segs)"

definition good_segment :: "string \<Rightarrow> bool" where
  "good_segment e \<longleftrightarrow> list_all seg_char e \<and> e \<noteq> ''.'' \<and> e \<noteq> ''..''"

definition good_segments :: "string list \<Rightarrow> bool" where
  "good_segments segs \<longleftrightarrow> segs \<noteq> [] \<and> hd segs \<noteq> [] \<and> list_all good_segment segs"

lemma path_of_simps [simp]:
  "path_of [] = []" "path_of (e # es) = CHR ''/'' # e @ path_of es"
  by (simp_all add: path_of_def)

lemma seg_char_not [simp]:
  "\<not> seg_char (CHR ''/'')" "\<not> seg_char (CHR ''?'')" "\<not> seg_char (CHR ''#'')"
  by (simp_all add: seg_char_def)

lemma is_alnum_not_ctl: "is_alnum c \<Longrightarrow> \<not> is_ctl c"
  by (auto simp: is_alnum_def is_ctl_def is_lower_def is_upper_def is_digit_def)

lemma seg_char_not_ctl: "seg_char c \<Longrightarrow> \<not> is_ctl c"
  by (auto simp: seg_char_def is_alnum_not_ctl) (auto simp: is_ctl_def)

lemma slash_not_ctl: "\<not> is_ctl (CHR ''/'')"
  by (simp add: is_ctl_def)

lemma path_of_chars:
  "list_all good_segment segs \<Longrightarrow> c \<in> set (path_of segs) \<Longrightarrow> c = CHR ''/'' \<or> seg_char c"
  by (induction segs) (auto simp: good_segment_def list_all_iff)

lemma split_path_of:
  "list_all good_segment segs \<Longrightarrow> list_all seg_char e \<Longrightarrow>
   split_str (CHR ''/'') (e @ path_of segs) = e # segs"
proof (induction segs arbitrary: e)
  case Nil
  have "CHR ''/'' \<notin> set e" using Nil.prems(2) by (auto simp: list_all_iff)
  then show ?case by (simp add: split_str_no_sep)
next
  case (Cons f fs)
  have "CHR ''/'' \<notin> set e" using Cons.prems(2) by (auto simp: list_all_iff)
  then show ?case
    using Cons by (simp add: split_str_append good_segment_def)
qed

lemma resolve_good:
  "list_all good_segment segs \<Longrightarrow> resolve_segments segs dst False = dst @ path_of segs"
  by (induction segs arbitrary: dst) (simp_all add: good_segment_def)

lemma resolvePath_good:
  assumes "good_segments segs"
  shows "resolvePath base (path_of segs) = path_of segs"
proof -
  obtain e es where segs: "segs = e # es" "e \<noteq> []" "list_all good_segment (e # es)"
    using assms by (cases segs) (auto simp: good_segments_def)
  have "split_str (CHR ''/'') (path_of segs) = [] # segs"
    using split_path_of [of segs "[]"] segs by simp
  moreover have "resolve_segments ([] # segs) ''/'' True = ''/'' @ path_of segs"
    using segs resolve_good [of segs "''/''"] by simp
  ultimately show ?thesis
    using segs by (simp add: resolvePath_def)
qed

text \<open>The URL of a path, before and after it is resolved against the base.\<close>

definition raw_of :: "string \<Rightarrow> string \<Rightarrow> string" where
  "raw_of s path = (if escape EncodePath path = s then [] else s)"

lemma list_ex_path_ctl: "list_all good_segment segs \<Longrightarrow> \<not> list_ex is_ctl (path_of segs)"
  using path_of_chars [of segs] seg_char_not_ctl slash_not_ctl by (fastforce simp: list_ex_iff)

lemma not_in_path:
  "list_all good_segment segs \<Longrightarrow> CHR ''?'' \<notin> set (path_of segs) \<and> CHR ''#'' \<notin> set (path_of segs)"
  using path_of_chars [of segs] seg_char_not by fastforce

lemma url_Parse_path:
  assumes "good_segments segs" "unescape EncodePath (path_of segs) = Inr path"
  shows "url_Parse (path_of segs) = Inr (empty_url\<lparr>Path := path, RawPath := raw_of (path_of segs) path\<rparr>)"
proof -
  obtain e es where segs: "segs = e # es" "e \<noteq> []" "list_all good_segment segs"
    using assms(1) by (cases segs) (auto simp: good_segments_def)
  obtain c cs where e: "e = c # cs" "seg_char c"
    using segs by (cases e) (auto simp: good_segment_def)
  have slash: "\<not> prefix ''//'' (path_of segs)" "prefix ''/'' (path_of segs)"
    using e by (auto simp: segs(1))
  have nq: "CHR ''?'' \<notin> set (path_of segs)" "CHR ''#'' \<notin> set (path_of segs)"
    using not_in_path segs(3) by auto
  have "getScheme (path_of segs) = Inr ([], path_of segs)"
    by (simp add: segs(1) getScheme_def is_lower_def is_upper_def is_digit_def)
  moreover have "split_query (path_of segs) = (path_of segs, [], False)"
    using nq(1) by (auto simp: split_query_def cut_no_sep count_list_0_iff)
  moreover have "path_of segs \<noteq> ''*''"
    by (simp add: segs(1))
  ultimately have "parse_no_fragment (path_of segs) =
      Inr (empty_url\<lparr>Path := path, RawPath := raw_of (path_of segs) path\<rparr>)"
    using assms(2) slash list_ex_path_ctl [OF segs(3)]
    by (simp add: parse_no_fragment_def to_lower_def parse_authority_path_def setPath_def raw_of_def
        empty_url_def)
  then show ?thesis
    using nq(2) by (simp add: url_Parse_def cut_no_sep)
qed

lemma validEncoded_path: "list_all good_segment segs \<Longrightarrow> validEncoded (path_of segs) EncodePath"
  unfolding validEncoded_def list_all_iff
proof
  fix c assume "\<forall>x \<in> set segs. good_segment x" "c \<in> set (path_of segs)"
  then have "c = CHR ''/'' \<or> seg_char c" using path_of_chars by (simp add: list_all_iff)
  then show "c \<in> set ''!$&()*+,;=:@[]%'' \<union> {CHR 0x27} \<or> \<not> shouldEscape c EncodePath"
    by (auto simp: seg_char_def shouldEscape_def)
qed

lemma EscapedPath_path:
  assumes "good_segments segs" "unescape EncodePath (path_of segs) = Inr path"
    "Path u = path" "RawPath u = raw_of (path_of segs) path"
  shows "EscapedPath u = path_of segs"
proof -
  obtain e es where segs: "segs = e # es" "list_all good_segment segs"
    using assms(1) by (cases segs) (auto simp: good_segments_def)
  show ?thesis
  proof (cases "escape EncodePath path = path_of segs")
    case True
    then have "path \<noteq> ''*''"
      by (auto simp: segs(1) escape_def escape_char_def shouldEscape_def is_alnum_def
          is_lower_def is_upper_def is_digit_def)
    with True assms show ?thesis by (simp add: EscapedPath_def raw_of_def)
  next
    case False
    with assms validEncoded_path [OF segs(2)] segs(1) show ?thesis
      by (simp add: EscapedPath_def raw_of_def)
  qed
qed

text \<open>The URL that \<open>parse\<close> starts the options with.\<close>

definition endpoint :: "url \<Rightarrow> string list \<Rightarrow> string \<Rightarrow> url" where
  "endpoint base segs path =
     empty_url\<lparr>Scheme := Scheme base, User := User base, Host := Host base, Path := path,
               RawPath := raw_of (path_of segs) path\<rparr>"

lemma ResolveReference_path:
  assumes "good_segments segs" "unescape EncodePath (path_of segs) = Inr path"
  shows "ResolveReference base (empty_url\<lparr>Path := path, RawPath := raw_of (path_of segs) path\<rparr>)
     = endpoint base segs path"
proof -
  have path: "path \<noteq> []"
    using assms by (cases segs; cases "unescape EncodePath (hd segs @ path_of (tl segs))")
      (auto simp: good_segments_def)
  have esc: "EscapedPath (empty_url\<lparr>Path := path, RawPath := raw_of (path_of segs) path\<rparr>) = path_of segs"
    by (rule EscapedPath_path [OF assms]) simp_all
  have esc': "EscapedPath (empty_url\<lparr>Scheme := s, Path := path, RawPath := raw_of (path_of segs) path\<rparr>) = path_of segs" for s
    by (rule EscapedPath_path [OF assms]) simp_all
  show ?thesis
    using path esc
    by (simp add: ResolveReference_def Let_def resolvePath_good [OF assms(1)] setPath_ignoring_def
        setPath_def assms(2) raw_of_def endpoint_def) (simp add: empty_url_def)
qed

lemma parse_endpoint:
  assumes "good_segments segs" "unescape EncodePath (path_of segs) = Inr path"
  shows "parse c (path_of segs) options = apply_options options (endpoint (client_apiBase c) segs path)"
  by (simp add: parse_def url_Parse_path [OF assms] ResolveReference_path [OF assms])

section \<open>The URL that is printed is the URL that is requested\<close>

definition host_char :: "char \<Rightarrow> bool" where
  "host_char c \<longleftrightarrow> is_alnum c \<or> c \<in> set ''-.''"

definition base_ok :: "url \<Rightarrow> bool" where
  "base_ok b \<longleftrightarrow> Scheme b \<noteq> [] \<and> list_all is_lower (Scheme b) \<and> User b = None \<and>
     Host b \<noteq> [] \<and> list_all host_char (Host b)"

definition query_char :: "char \<Rightarrow> bool" where
  "query_char c \<longleftrightarrow> is_alnum c \<or> c \<in> set ''-_.~%+&=''"

lemma join_with_set: "set (join_with c ss) \<subseteq> insert c (\<Union> (set ` set ss))"
  by (induction c ss rule: join_with.induct) auto

lemma Encode_query_chars: "list_all query_char (values_Encode m)"
  unfolding list_all_iff
proof
  fix c assume "c \<in> set (values_Encode m)"
  then have "c = CHR ''&'' \<or> (\<exists>k v. c \<in> set (encode_pair k v))"
    using join_with_set [of "CHR ''&''"] by (fastforce simp: values_Encode_def encode_pairs_def)
  then show "query_char c"
    using QueryEscape_safe by (fastforce simp: encode_pair_def query_char_def)
qed

lemma scan_scheme_rest:
  "list_all is_lower s \<Longrightarrow> scan_scheme False (s @ CHR '':'' # r) = Inr (Some (s, r))"
  by (induction s) (simp_all add: is_lower_def is_upper_def is_digit_def)

lemma getScheme_scheme:
  assumes "s \<noteq> []" "list_all is_lower s"
  shows "getScheme (s @ CHR '':'' # r) = Inr (s, r)"
  using assms by (cases s) (simp_all add: getScheme_def scan_scheme_rest)

lemma to_lower_lower: "list_all is_lower s \<Longrightarrow> to_lower s = s"
  by (induction s) (simp_all add: to_lower_def lower_def is_lower_def is_upper_def)

lemma host_char_not [simp]:
  "\<not> host_char (CHR ''/'')" "\<not> host_char (CHR ''?'')" "\<not> host_char (CHR ''#'')"
  "\<not> host_char (CHR '':'')" "\<not> host_char (CHR ''@'')" "\<not> host_char (CHR ''['')"
  "\<not> host_char (CHR ''%'')" "\<not> host_char (CHR ''+'')"
  by (simp_all add: host_char_def is_alnum_def is_lower_def is_upper_def is_digit_def)

lemma query_char_not [simp]: "\<not> query_char (CHR ''?'')" "\<not> query_char (CHR ''#'')"
  by (simp_all add: query_char_def)

lemma shouldEscape_host: "host_char c \<Longrightarrow> \<not> shouldEscape c EncodeHost"
  by (auto simp: host_char_def shouldEscape_def)

lemma escape_host: "list_all host_char h \<Longrightarrow> escape EncodeHost h = h"
  by (induction h) (simp_all add: escape_def escape_char_def shouldEscape_host)

lemma unescape_host: "list_all host_char h \<Longrightarrow> unescape EncodeHost h = Inr h"
proof (induction h)
  case (Cons c h)
  then have "c \<noteq> CHR ''%''" "c \<noteq> CHR ''+''" by auto
  with Cons show ?case by (simp add: shouldEscape_host)
qed simp

lemma parseAuthority_host:
  assumes "list_all host_char h"
  shows "parseAuthority h = Inr (None, h)"
proof -
  have "CHR ''@'' \<notin> set h" "CHR ''['' \<notin> set h" "CHR '':'' \<notin> set h"
    using assms by (auto simp: list_all_iff)
  then show ?thesis
    using unescape_host [OF assms]
    by (simp add: parseAuthority_def cut_last_def cut_no_sep parseHost_def)
qed

lemma host_char_not_ctl: "host_char c \<Longrightarrow> \<not> is_ctl c"
  by (auto simp: host_char_def is_alnum_not_ctl) (auto simp: is_ctl_def)

lemma query_char_not_ctl: "query_char c \<Longrightarrow> \<not> is_ctl c"
  by (auto simp: query_char_def is_alnum_not_ctl) (auto simp: is_ctl_def)

lemma is_lower_not_ctl: "is_lower c \<Longrightarrow> \<not> is_ctl c"
  by (simp add: is_lower_def is_ctl_def)

definition query_suffix :: "string \<Rightarrow> string" where
  "query_suffix q = (if q = [] then [] else CHR ''?'' # q)"

lemma url_String_endpoint:
  assumes "base_ok b" "good_segments segs" "unescape EncodePath (path_of segs) = Inr path"
  shows "url_String ((endpoint b segs path)\<lparr>RawQuery := q\<rparr>)
     = Scheme b @ '':'' @ ''//'' @ Host b @ path_of segs @ query_suffix q"
proof -
  define u where "u = (endpoint b segs path)\<lparr>RawQuery := q\<rparr>"
  have f: "Scheme u = Scheme b" "Opaque u = []" "User u = None" "Host u = Host b" "OmitHost u = False"
    "ForceQuery u = False" "RawQuery u = q" "Fragment u = []"
    using assms(1) by (simp_all add: u_def endpoint_def empty_url_def base_ok_def)
  have esc: "EscapedPath u = path_of segs"
    by (rule EscapedPath_path [OF assms(2,3)]) (simp_all add: u_def endpoint_def empty_url_def)
  obtain e es where segs: "segs = e # es" using assms(2) by (cases segs) (auto simp: good_segments_def)
  have b: "Scheme b \<noteq> []" "Host b \<noteq> []" "escape EncodeHost (Host b) = Host b"
    using assms(1) escape_host by (simp_all add: base_ok_def)
  show ?thesis
    unfolding u_def [symmetric] url_String_def f esc Let_def
    by (simp add: b segs query_suffix_def)
qed

lemma split_query_suffix:
  assumes "CHR ''?'' \<notin> set p" "list_all query_char q"
  shows "split_query (p @ query_suffix q) = (p, q, False)"
proof (cases "q = []")
  case True
  then show ?thesis
    using assms(1) by (auto simp: split_query_def query_suffix_def cut_no_sep count_list_0_iff)
next
  case False
  then have "last q \<noteq> CHR ''?''"
    using assms(2) by (metis last_in_set list_all_iff query_char_not(1))
  then show ?thesis
    using assms(1) False by (simp add: split_query_def query_suffix_def cut_append)
qed

lemma url_Parse_String:
  assumes "base_ok b" "good_segments segs" "unescape EncodePath (path_of segs) = Inr path"
    "list_all query_char q"
  shows "url_Parse (url_String ((endpoint b segs path)\<lparr>RawQuery := q\<rparr>))
     = Inr ((endpoint b segs path)\<lparr>RawQuery := q\<rparr>)"
proof -
  define rest where "rest = ''//'' @ Host b @ path_of segs"
  have s: "url_String ((endpoint b segs path)\<lparr>RawQuery := q\<rparr>)
      = Scheme b @ CHR '':'' # rest @ query_suffix q" (is "?s = _")
    by (simp add: url_String_endpoint [OF assms(1-3)] rest_def)
  have segs: "list_all good_segment segs" "\<exists>e es. segs = e # es"
    using assms(2) by (cases segs; auto simp: good_segments_def)+
  have b: "Scheme b \<noteq> []" "list_all is_lower (Scheme b)" "User b = None"
    "Host b \<noteq> []" "list_all host_char (Host b)"
    using assms(1) by (simp_all add: base_ok_def)
  have nq: "CHR ''?'' \<notin> set rest"
    using not_in_path [OF segs(1)] b(5) by (auto simp: rest_def list_all_iff)
  have nh: "CHR ''#'' \<notin> set ?s"
    using not_in_path [OF segs(1)] b(2,5) assms(4)
    by (auto simp: s rest_def list_all_iff query_suffix_def is_lower_def)
  have ctl: "\<not> list_ex is_ctl ?s"
    using list_ex_path_ctl [OF segs(1)] b(2,5) assms(4)
      host_char_not_ctl query_char_not_ctl is_lower_not_ctl
    by (auto simp: s rest_def list_all_iff list_ex_iff query_suffix_def) (auto simp: is_ctl_def)
  have star: "?s \<noteq> ''*''" using b(1,2) by (cases "Scheme b") (auto simp: s)
  have cut: "cut (CHR ''/'') (Host b @ path_of segs) = (Host b, tl (path_of segs), True)"
  proof -
    have "CHR ''/'' \<notin> set (Host b)" using b(5) by (auto simp: list_all_iff)
    then show ?thesis using segs(2) by (auto simp: cut_append)
  qed
  have gs: "getScheme ?s = Inr (Scheme b, rest @ query_suffix q)"
    unfolding s by (rule getScheme_scheme [OF b(1,2)])
  have slashes: "prefix ''/'' rest" "prefix ''//'' rest"
    by (simp_all add: rest_def)
  have pap: "parse_authority_path rest (empty_url\<lparr>Scheme := Scheme b, RawQuery := q, ForceQuery := False\<rparr>)
      = Inr ((endpoint b segs path)\<lparr>RawQuery := q\<rparr>)"
  proof -
    have "drop 2 rest = Host b @ path_of segs" by (simp add: rest_def)
    moreover have "CHR ''/'' # tl (path_of segs) = path_of segs" using segs(2) by auto
    ultimately show ?thesis
      using slashes b(1,3) cut parseAuthority_host [OF b(5)] assms(3)
      by (simp add: parse_authority_path_def setPath_def endpoint_def raw_of_def empty_url_def)
  qed
  have "parse_no_fragment ?s = Inr ((endpoint b segs path)\<lparr>RawQuery := q\<rparr>)"
    using ctl star slashes
    by (simp add: parse_no_fragment_def gs split_query_suffix [OF nq assms(4)]
        to_lower_lower [OF b(2)] Let_def pap)
  then show ?thesis
    using nh by (simp add: url_Parse_def cut_no_sep)
qed

section \<open>Escaped identifiers\<close>

lemma unescape_segment_path: "unescape EncodePath s = unescape EncodePathSegment s"
proof (induction s rule: length_induct)
  case (1 s)
  show ?case
  proof (cases s)
    case (Cons c cs)
    have "unescape EncodePath t = unescape EncodePathSegment t" if "length t < length s" for t
      using 1 that by blast
    then show ?thesis
      by (auto simp: Cons split: list.split)
  qed simp
qed

lemma PathEscape_seg_char: "list_all seg_char (PathEscape s)"
  using PathEscape_safe by (fastforce simp: list_all_iff seg_char_def)

lemma PathEscape_dots: "PathEscape s = ''.'' \<longleftrightarrow> s = ''.''" "PathEscape s = ''..'' \<longleftrightarrow> s = ''..''"
proof -
  have inj: "s = t" if "PathEscape s = PathEscape t" for t
  proof -
    have "(Inr s :: url_error + string) = unescape EncodePathSegment (PathEscape s)"
      by (simp only: unescape_escape encoding.distinct not_False_eq_True)
    also have "\<dots> = Inr t"
      unfolding that by (simp only: unescape_escape encoding.distinct not_False_eq_True)
    finally show ?thesis by simp
  qed
  have dot: "escape_char EncodePathSegment (CHR ''.'') = ''.''"
    by (simp add: escape_char_def shouldEscape_segment)
  have d: "PathEscape ''.'' = ''.''" "PathEscape ''..'' = ''..''"
    by (simp_all add: escape_def dot)
  show "PathEscape s = ''.'' \<longleftrightarrow> s = ''.''"
    using inj [of "''.''"] unfolding d(1) by (auto simp only: d(1))
  show "PathEscape s = ''..'' \<longleftrightarrow> s = ''..''"
    using inj [of "''..''"] unfolding d(2) by (auto simp only: d(2))
qed

lemma good_segment_PathEscape: "s \<noteq> ''.'' \<Longrightarrow> s \<noteq> ''..'' \<Longrightarrow> good_segment (PathEscape s)"
  by (simp add: good_segment_def PathEscape_seg_char PathEscape_dots)

definition literal_char :: "char \<Rightarrow> bool" where
  "literal_char c \<longleftrightarrow> is_alnum c \<or> c \<in> set ''-_./''"

lemma unescape_literal_append:
  "list_all literal_char p \<Longrightarrow> unescape EncodePathSegment (p @ s) = map_sum id ((@) p) (unescape EncodePathSegment s)"
proof (induction p)
  case Nil
  then show ?case by (cases "unescape EncodePathSegment s") simp_all
next
  case (Cons c p)
  have "c \<noteq> CHR ''%''" "c \<noteq> CHR ''+''"
    using Cons.prems by (auto simp: literal_char_def is_alnum_def is_lower_def is_upper_def is_digit_def)
  with Cons show ?case by (cases "unescape EncodePathSegment s") simp_all
qed

lemma unescape_around_id:
  assumes "list_all literal_char p" "list_all literal_char q"
  shows "unescape EncodePath (p @ PathEscape s @ q) = Inr (p @ s @ q)"
  using unescape_literal_append [OF assms(2), of "[]"]
  by (simp add: unescape_segment_path unescape_literal_append [OF assms(1)] unescape_escape_append)

lemma unescape_literal: "list_all literal_char p \<Longrightarrow> unescape EncodePath p = Inr p"
  using unescape_literal_append [of p "[]"] by (simp add: unescape_segment_path)

section \<open>The options of a request\<close>

lemma apply_parameters:
  assumes "apply_options (map withQueryParameters pss) u = Inr u'" "list_all query_char (RawQuery u)"
  shows "u' = u\<lparr>RawQuery := RawQuery u'\<rparr>" "list_all query_char (RawQuery u')"
proof -
  have "u' = u\<lparr>RawQuery := RawQuery u'\<rparr> \<and> list_all query_char (RawQuery u')"
    using assms
  proof (induction pss arbitrary: u)
    case (Cons ps pss)
    then obtain v where v: "withQueryParameters ps u = Inr v"
      "apply_options (map withQueryParameters pss) v = Inr u'"
      by (auto split: sum.splits)
    have "v = u\<lparr>RawQuery := RawQuery v\<rparr>" "list_all query_char (RawQuery v)"
      using v(1) by (auto simp: withQueryParameters_Inr Encode_query_chars)
    with Cons.IH [OF v(2)] show ?case by (cases u; cases v) auto
  qed simp
  then show "u' = u\<lparr>RawQuery := RawQuery u'\<rparr>" "list_all query_char (RawQuery u')" by auto
qed

lemma RawQuery_endpoint [simp]: "RawQuery (endpoint b segs path) = []"
  by (simp add: endpoint_def empty_url_def)

lemma parse_reparses:
  assumes "base_ok (client_apiBase c)" "good_segments segs"
    "unescape EncodePath (path_of segs) = Inr path"
    "parse c (path_of segs) (map withQueryParameters pss) = Inr u"
  shows "url_Parse (url_String u) = Inr u \<and> Path u = path \<and> Host u = Host (client_apiBase c)"
proof -
  have u: "apply_options (map withQueryParameters pss) (endpoint (client_apiBase c) segs path) = Inr u"
    using assms(4) by (simp add: parse_endpoint [OF assms(2,3)])
  have eq: "u = (endpoint (client_apiBase c) segs path)\<lparr>RawQuery := RawQuery u\<rparr>"
    and q: "list_all query_char (RawQuery u)"
    using apply_parameters [OF u] by simp_all
  have "Path u = path" "Host u = Host (client_apiBase c)"
    using arg_cong [OF eq, of Path] arg_cong [OF eq, of Host] by (simp_all add: endpoint_def)
  moreover have "url_Parse (url_String u) = Inr u"
    using url_Parse_String [OF assms(1-3) q] by (simp only: eq [symmetric])
  ultimately show ?thesis by simp
qed

text \<open>The query that several groups of parameters leave, and a look-up in it.\<close>

fun set_queries :: "(string \<times> qvalue) list list \<Rightarrow> string \<Rightarrow> string" where
  "set_queries [] q = q"
| "set_queries (ps # pss) q = set_queries pss (values_Encode (fold set_parameter ps (parse_query q)))"

definition endpoint_url :: "url \<Rightarrow> string list \<Rightarrow> string \<Rightarrow> (string \<times> qvalue) list list \<Rightarrow> url" where
  "endpoint_url b segs path pss = (endpoint b segs path)\<lparr>RawQuery := set_queries pss []\<rparr>"

definition known_parameters :: "(string \<times> qvalue) list list \<Rightarrow> bool" where
  "known_parameters pss \<longleftrightarrow> list_all (list_all (\<lambda>p. snd p \<noteq> QOther)) pss"

lemma apply_known_parameters:
  "known_parameters pss \<Longrightarrow>
   apply_options (map withQueryParameters pss) u = Inr (u\<lparr>RawQuery := set_queries pss (RawQuery u)\<rparr>)"
proof (induction pss arbitrary: u)
  case (Cons ps pss)
  have "withQueryParameters ps u = Inr (u\<lparr>RawQuery := values_Encode (fold set_parameter ps (url_Query u))\<rparr>)"
    using Cons.prems by (simp add: withQueryParameters_Inr known_parameters_def list_all_iff)
  with Cons show ?case by (simp add: known_parameters_def url_Query_def)
qed simp

lemma parse_endpoint_url:
  assumes "good_segments segs" "unescape EncodePath (path_of segs) = Inr path" "known_parameters pss"
  shows "parse c (path_of segs) (map withQueryParameters pss)
     = Inr (endpoint_url (client_apiBase c) segs path pss)"
  by (simp add: parse_endpoint [OF assms(1,2)] apply_known_parameters [OF assms(3)] endpoint_url_def)

lemma set_queries_snoc:
  "set_queries (pss @ [ps]) q = values_Encode (fold set_parameter ps (parse_query (set_queries pss q)))"
  by (induction pss arbitrary: q) simp_all

text \<open>The last group that sets a key decides its value.\<close>

lemma query_of_endpoint_url:
  assumes "distinct (map fst ps)"
  shows "map_of (url_Query (endpoint_url b segs path (pss @ [ps]))) k =
    (case map_of ps k of
       Some v \<Rightarrow> Some [the (qvalue_String v)]
     | None \<Rightarrow> map_of (url_Query (endpoint_url b segs path pss)) k)"
  using assms
  by (simp add: endpoint_url_def url_Query_def set_queries_snoc map_of_parse_query_Encode
      values_ok_fold_parameters map_of_fold_parameters split: option.split)

lemma query_of_endpoint_Nil [simp]: "map_of (url_Query (endpoint_url b segs path [])) k = None"
  by (simp add: endpoint_url_def url_Query_def parse_query_def add_pair_def)

lemma endpoint_url_simps [simp]:
  "Path (endpoint_url b segs path pss) = path" "Host (endpoint_url b segs path pss) = Host b"
  by (simp_all add: endpoint_url_def endpoint_def)

section \<open>Relative links\<close>

lemma url_Parse_path_query:
  assumes "good_segments segs" "unescape EncodePath (path_of segs) = Inr path" "list_all query_char q"
  shows "url_Parse (path_of segs @ query_suffix q)
     = Inr (empty_url\<lparr>Path := path, RawPath := raw_of (path_of segs) path, RawQuery := q\<rparr>)"
proof -
  obtain e es where segs: "segs = e # es" "e \<noteq> []" "list_all good_segment segs"
    using assms(1) by (cases segs) (auto simp: good_segments_def)
  let ?s = "path_of segs @ query_suffix q"
  have nq: "CHR ''?'' \<notin> set (path_of segs)" "CHR ''#'' \<notin> set ?s"
    using not_in_path [OF segs(3)] assms(3) by (auto simp: query_suffix_def list_all_iff)
  have ctl: "\<not> list_ex is_ctl ?s"
    using list_ex_path_ctl [OF segs(3)] assms(3) query_char_not_ctl
    by (auto simp: list_all_iff list_ex_iff query_suffix_def) (auto simp: is_ctl_def)
  obtain c cs where e: "e = c # cs" "seg_char c"
    using segs by (cases e) (auto simp: good_segment_def)
  then have slash: "c \<noteq> CHR ''/''" "c \<noteq> CHR ''#''" by auto
  have shape: "path_of segs = CHR ''/'' # c # cs @ path_of es" by (simp add: segs(1) e(1))
  have "parse_authority_path (path_of segs) (empty_url\<lparr>Scheme := [], RawQuery := q, ForceQuery := False\<rparr>)
      = Inr (empty_url\<lparr>Path := path, RawPath := raw_of (path_of segs) path, RawQuery := q\<rparr>)"
    using assms(2) slash by (simp add: parse_authority_path_def setPath_def shape raw_of_def empty_url_def)
  then show ?thesis
    using ctl nq slash(2) split_query_suffix [OF nq(1) assms(3)]
    by (simp add: url_Parse_def cut_no_sep parse_no_fragment_def shape getScheme_def to_lower_def Let_def
        is_lower_def is_upper_def empty_url_def)
qed

section \<open>Paging and optional parameters\<close>

definition pagination_parameters :: "goint \<Rightarrow> string \<Rightarrow> (string \<times> qvalue) list" where
  "pagination_parameters pageSize cursor =
     (''limit'', QInt (if sint pageSize < 1 then defaultSize else pageSize)) #
     (if cursor \<noteq> [] then [(''cursor'', QString cursor)] else [])"

lemma withPaginationCursor_parameters:
  "withPaginationCursor n cursor = withQueryParameters (pagination_parameters n cursor)"
  by (simp add: withPaginationCursor_def pagination_parameters_def Let_def)

lemma known_pagination [simp]:
  "known_parameters (pagination_parameters n cursor # pss) \<longleftrightarrow> known_parameters pss" "known_parameters []"
  by (simp_all add: known_parameters_def pagination_parameters_def)

text \<open>A parameter that is left out when it is empty.\<close>

definition optional_group :: "string \<Rightarrow> string \<Rightarrow> (string \<times> qvalue) list list" where
  "optional_group key v = (if v \<noteq> [] then [[(key, QString v)]] else [])"

lemma known_parameters_append [simp]:
  "known_parameters (pss @ qss) \<longleftrightarrow> known_parameters pss \<and> known_parameters qss"
  "known_parameters (optional_group key v)"
  by (auto simp: known_parameters_def optional_group_def)

lemma values_get_snoc:
  assumes "distinct (map fst ps)"
  shows "values_get (url_Query (endpoint_url b segs path (pss @ [ps]))) k =
    (case map_of ps k of
       Some v \<Rightarrow> the (qvalue_String v)
     | None \<Rightarrow> values_get (url_Query (endpoint_url b segs path pss)) k)"
  using query_of_endpoint_url [OF assms, of b segs path pss k]
  by (auto simp: values_get_def split: option.split)

lemma values_get_optional:
  "values_get (url_Query (endpoint_url b segs path (pss @ optional_group key v))) k =
     (if k = key \<and> v \<noteq> [] then v else values_get (url_Query (endpoint_url b segs path pss)) k)"
  by (simp add: optional_group_def values_get_snoc)

lemma values_get_pagination:
  "values_get (url_Query (endpoint_url b segs path [pagination_parameters n cursor])) k =
     (if k = ''limit'' then itoa (if sint n < 1 then defaultSize else n)
      else if k = ''cursor'' then cursor else [])"
  using values_get_snoc [of "pagination_parameters n cursor" b segs path "[]" k]
  by (simp add: pagination_parameters_def values_get_def)

section \<open>The v2 API\<close>

definition api_segs :: "string list \<Rightarrow> string list" where
  "api_segs es = [''wiki'', ''api'', ''v2''] @ es"

lemma good_api_segs: "list_all good_segment es \<Longrightarrow> good_segments (api_segs es)"
  by (simp add: good_segments_def api_segs_def good_segment_def seg_char_def is_alnum_def is_lower_def
      is_upper_def is_digit_def)

lemma path_api_segs: "path_of (api_segs es) = ''/wiki/api/v2'' @ path_of es"
  by (simp add: api_segs_def)

section \<open>Plain identifiers\<close>

text \<open>Identifiers that need no escaping in a path.\<close>

definition id_char :: "char \<Rightarrow> bool" where "id_char c \<longleftrightarrow> is_alnum c \<or> c = CHR ''-''"

lemma id_char_ascii: "id_char c \<Longrightarrow> is_ascii c"
  by (auto simp: id_char_def is_ascii_def is_alnum_def is_lower_def is_upper_def is_digit_def)

lemma id_valid: "list_all id_char s \<Longrightarrow> valid_utf8 s"
  by (rule valid_utf8_ascii) (auto simp: list_all_iff id_char_ascii)

lemma id_segment: "list_all id_char g \<Longrightarrow> good_segment g"
  by (auto simp: good_segment_def list_all_iff id_char_def seg_char_def is_alnum_def is_lower_def
      is_upper_def is_digit_def)

lemma literal_id: "list_all id_char g \<Longrightarrow> list_all literal_char g"
  by (auto simp: list_all_iff id_char_def literal_char_def)

lemma values_get_Some: "map_of m k = Some [v] \<Longrightarrow> values_get m k = v"
  by (simp add: values_get_def)

end
