(* ===== verification/Server.thy ===== *)
theory Server
  imports Endpoint
begin

text \<open>
  A concrete instance of the parameters of the client, for examples: a server that answers each
  request with a status and a JSON body, without a cache, a clock or rate-limit headers. A service
  answers from its state, which is the world; a canned one answers by a function and its state is the
  log of the requests it received.
\<close>

type_synonym answers = "http_request \<Rightarrow> int \<times> string"

type_synonym 's service = "http_request \<Rightarrow> 's \<Rightarrow> (int \<times> string) \<times> 's"

definition canned_response :: "int \<times> string \<Rightarrow> http_response" where
  "canned_response a =
     \<lparr>resp_StatusCode = fst a, resp_Status = itoa_int (fst a),
      resp_Header = [(''Content-Type'', [''application/json''])], resp_Body = (snd a, None)\<rparr>"

definition server_http :: "'s service \<Rightarrow> 's BaseHttpClient" where
  "server_http serve =
     \<lparr>http_Do = (\<lambda>req s. case serve req s of (a, s') \<Rightarrow> (Received (canned_response a), s')),
      cache_Get = (\<lambda>_ s. (Inr None, s)), cache_Set = (\<lambda>_ _ s. s),
      time_Now = (\<lambda>_. 0), time_Parse = (\<lambda>_. None)\<rparr>"

definition server_client :: "url \<Rightarrow> 's service \<Rightarrow> 's ConfluenceClient" where
  "server_client base serve =
     \<lparr>client_user = ''user'', client_apiKey = ''key'', client_apiBase = base,
      client_wrapper = server_http serve\<rparr>"

definition canned :: "answers \<Rightarrow> http_request list service" where
  "canned answer = (\<lambda>req log. (answer req, log @ [req]))"

definition canned_http :: "answers \<Rightarrow> http_request list BaseHttpClient" where
  "canned_http answer = server_http (canned answer)"

definition canned_client :: "url \<Rightarrow> answers \<Rightarrow> http_request list ConfluenceClient" where
  "canned_client base answer = server_client base (canned answer)"

definition demo_base :: url where
  "demo_base = empty_url\<lparr>Scheme := ''https'', Host := ''demo''\<rparr>"

definition demo_client :: "answers \<Rightarrow> http_request list ConfluenceClient" where
  "demo_client answer = canned_client demo_base answer"

lemma server_http_simps [simp]:
  "cache_Get (server_http serve) req s = (Inr None, s)"
  "cache_Set (server_http serve) req r s = s"
  "time_Now (server_http serve) s = 0" "time_Parse (server_http serve) = (\<lambda>_. None)"
  by (simp_all add: server_http_def)

lemma server_client_simps [simp]:
  "client_user (server_client base serve) = ''user''"
  "client_apiKey (server_client base serve) = ''key''"
  "client_apiBase (server_client base serve) = base"
  "client_wrapper (server_client base serve) = server_http serve"
  by (simp_all add: server_client_def)

lemma fetch_server:
  "serve req s = (a, s') \<Longrightarrow> fetch (server_http serve) req s = (Received (canned_response a), s')"
  by (simp add: fetch_def server_http_def)

lemma canned_apply [simp]: "canned answer req log = (answer req, log @ [req])"
  by (simp add: canned_def)

lemma canned_http_simps [simp]:
  "http_Do (canned_http answer) req log = (Received (canned_response (answer req)), log @ [req])"
  "cache_Get (canned_http answer) req log = (Inr None, log)"
  "cache_Set (canned_http answer) req r log = log"
  "time_Now (canned_http answer) log = 0" "time_Parse (canned_http answer) = (\<lambda>_. None)"
  by (simp_all add: canned_http_def server_http_def)

lemma canned_client_simps [simp]:
  "client_user (canned_client base answer) = ''user''"
  "client_apiKey (canned_client base answer) = ''key''"
  "client_apiBase (canned_client base answer) = base"
  "client_wrapper (canned_client base answer) = canned_http answer"
  by (simp_all add: canned_client_def canned_http_def)

lemma canned_response_simps [simp]:
  "resp_StatusCode (canned_response a) = fst a" "resp_Status (canned_response a) = itoa_int (fst a)"
  "resp_Header (canned_response a) = [(''Content-Type'', [''application/json''])]"
  "resp_Body (canned_response a) = (snd a, None)"
  by (simp_all add: canned_response_def)

lemma fetch_canned [simp]:
  "fetch (canned_http answer) req log = (Received (canned_response (answer req)), log @ [req])"
  by (simp add: canned_http_def fetch_server [of "canned answer" req log "answer req" "log @ [req]"])

end
