(* ===== verification/Request.thy ===== *)
theory Request
  imports Server
begin

text \<open>
  Sending a request (\<open>pkg/connector/client/request.go\<close>): headers and credentials, the rate-limit
  option, the optional JSON target, and the three ways a failed request is reported.
\<close>

definition removeEmptyPort :: "string \<Rightarrow> string" where
  "removeEmptyPort h = (if h \<noteq> [] \<and> last h = CHR '':'' then butlast h else h)"

text \<open>\<open>http.NewRequestWithContext\<close> parses the printed URL again.\<close>

definition NewRequest :: "http_method \<Rightarrow> string \<Rightarrow> string option \<Rightarrow> go_error + http_request" where
  "NewRequest method s body =
     (case url_Parse s of
        Inl e \<Rightarrow> Inl (ErrUrl e)
      | Inr u \<Rightarrow>
          Inr \<lparr>req_Method = method, req_URL = u\<lparr>Host := removeEmptyPort (Host u)\<rparr>,
               req_BasicAuth = ([], []), req_Header = [], req_Body = body\<rparr>)"

definition logBody :: "string \<Rightarrow> nat \<Rightarrow> string" where
  "logBody body limit = (if length body > limit then take limit body @ '' ...'' else body)"

text \<open>What \<open>makeRequest\<close> reports for the answer of \<open>Do\<close> once \<open>Do\<close> gave an error.\<close>

definition failed_request :: "url \<Rightarrow> RateLimitDescription \<Rightarrow> http_response option \<Rightarrow> go_error \<Rightarrow>
    RateLimitDescription option \<times> go_error option" where
  "failed_request u ratelimitData response err =
     (case response of
        None \<Rightarrow> (None, Some err)
      | Some r \<Rightarrow>
          if isRatelimited (rl_Status ratelimitData) (resp_StatusCode r) then
            (Some ratelimitData, Some (ErrStatus Unavailable (resp_Status r)))
          else
            (case resp_Body r of
               (_, Some e) \<Rightarrow> (None, Some e)
             | (responseBody, None) \<Rightarrow>
                 (None, Some (ErrRequest \<lparr>re_Status = resp_StatusCode r, re_URL = u,
                                         re_Body = logBody responseBody 2048\<rparr>))))"

text \<open>
  A request carries the credentials. The target variable is given by its value before the call and, unless it is nil, by a decoder;
  its value after the call is the first result.
\<close>

definition request_options :: "'w ConfluenceClient \<Rightarrow> 'r decoder option \<Rightarrow> int \<Rightarrow>
    (RateLimitDescription \<times> 'r) do_option list" where
  "request_options c target now =
     on_fst (WithConfluenceRatelimitData now (time_Parse (client_wrapper c))) #
     (case target of None \<Rightarrow> [] | Some d \<Rightarrow> [on_snd (WithJSONResponse d)])"

definition prepare_request :: "'w ConfluenceClient \<Rightarrow> url \<Rightarrow> http_method \<Rightarrow> string option \<Rightarrow>
    go_error + http_request" where
  "prepare_request c u method requestBody =
     map_sum id (\<lambda>req. req\<lparr>req_BasicAuth := (client_user c, client_apiKey c),
                            req_Header := [(''X-Atlassian-Token'', ''no-check''),
                                           (''Content-Type'', ''application/json'')]\<rparr>)
       (NewRequest method (url_String u) requestBody)"

definition makeRequest :: "'w ConfluenceClient \<Rightarrow> url \<Rightarrow> 'r decoder option \<Rightarrow> 'r \<Rightarrow>
    http_method \<Rightarrow> string option \<Rightarrow>
    ('w, 'r \<times> RateLimitDescription option \<times> go_error option) io" where
  "makeRequest c u target var method requestBody w =
     (case prepare_request c u method requestBody of
        Inl e \<Rightarrow> (Ret (var, None, Some e), w)
      | Inr req \<Rightarrow>
          (case Do (client_wrapper c) req (request_options c target) (zero_RateLimit, var) w of
             ((response, (ratelimitData, var'), err), w') \<Rightarrow>
               (case err of
                  None \<Rightarrow> (Ret (var', Some ratelimitData, None), w')
                | Some e \<Rightarrow> (Ret (var', failed_request u ratelimitData response e), w'))))"

definition client_get :: "'w ConfluenceClient \<Rightarrow> url \<Rightarrow> 'r decoder \<Rightarrow> 'r \<Rightarrow>
    ('w, 'r \<times> RateLimitDescription option \<times> go_error option) io" where
  "client_get c u target var = makeRequest c u (Some target) var GET None"

definition client_post :: "'w ConfluenceClient \<Rightarrow> url \<Rightarrow> 'r decoder option \<Rightarrow> 'r \<Rightarrow> string \<Rightarrow>
    ('w, 'r \<times> RateLimitDescription option \<times> go_error option) io" where
  "client_post c u target var requestBody = makeRequest c u target var POST (Some requestBody)"

definition client_delete :: "'w ConfluenceClient \<Rightarrow> url \<Rightarrow> 'r decoder option \<Rightarrow> 'r \<Rightarrow>
    ('w, 'r \<times> RateLimitDescription option \<times> go_error option) io" where
  "client_delete c u target var = makeRequest c u target var DELETE None"

section \<open>How an answer is reported\<close>

lemma run_request_options:
  "\<exists>v' es. run_options (request_options c target now) r (rl, v) =
     ((fst (WithConfluenceRatelimitData now (time_Parse (client_wrapper c)) r rl), v'), es)"
  by (auto simp: request_options_def on_fst_def on_snd_def split: prod.split option.split)

definition answer_error :: "url \<Rightarrow> http_response \<Rightarrow> string \<Rightarrow> go_error list \<Rightarrow> go_error option" where
  "answer_error u r body es =
     (if resp_StatusCode r \<in> {429, 503, 504} then Some (ErrStatus Unavailable (resp_Status r))
      else if is_2xx (resp_StatusCode r) \<and> es = [] then None
      else Some (ErrRequest \<lparr>re_Status = resp_StatusCode r, re_URL = u, re_Body = logBody body 2048\<rparr>))"

lemma makeRequest_answer:
  assumes "prepare_request c u m requestBody = Inr req"
    and "fetch (client_wrapper c) req w = (Received r, w1)"
    and "resp_Body r = (body, None)"
    and "run_options (request_options c target (time_Now (client_wrapper c) w1)) r
           (zero_RateLimit, var) = ((rl, var'), es)"
  shows "\<exists>w'. makeRequest c u target var m requestBody w =
     (Ret (var', if \<exists>q. answer_error u r body es = Some (ErrRequest q) then None else Some rl,
           answer_error u r body es), w')"
proof -
  have "rl = fst (WithConfluenceRatelimitData (time_Now (client_wrapper c) w1)
               (time_Parse (client_wrapper c)) r zero_RateLimit)"
    using run_request_options [of c target "time_Now (client_wrapper c) w1" r zero_RateLimit var]
      assms(4) by auto
  then have "isRatelimited (rl_Status rl) (resp_StatusCode r) \<longleftrightarrow> resp_StatusCode r \<in> {429, 503, 504}"
    using WithConfluenceRatelimitData_status [OF surjective_pairing] by simp
  then show ?thesis
    using assms
    by (auto simp: makeRequest_def Do_def failed_request_def answer_error_def is_2xx_def errors_Join_def)
qed

text \<open>The collected data says over limit for a 429 only, whatever the headers are.\<close>

lemma collected_status:
  assumes "run_options (request_options c target now) r (zero_RateLimit, var) = ((rl, var'), es)"
  shows "rl_Status rl \<in> {STATUS_OVERLIMIT, STATUS_ERROR} \<Longrightarrow> resp_StatusCode r = 429"
proof -
  have "rl = fst (WithConfluenceRatelimitData now (time_Parse (client_wrapper c)) r zero_RateLimit)"
    using run_request_options [of c target now r zero_RateLimit var] assms by auto
  then show "rl_Status rl \<in> {STATUS_OVERLIMIT, STATUS_ERROR} \<Longrightarrow> resp_StatusCode r = 429"
    using Extract_status(1,2) [of now "time_Parse (client_wrapper c)" "resp_StatusCode r" "resp_Header r"]
    by (auto simp: WithConfluenceRatelimitData_def zero_RateLimit_def split: sum.splits)
qed

lemma logBody_bound:
  "length (logBody body limit) \<le> limit + 4 \<and> take limit (logBody body limit) = take limit body"
  by (auto simp: logBody_def)

lemma makeRequest_Ret: "\<exists>v rl e w'. makeRequest c u target var m b w = (Ret (v, rl, e), w')"
  by (auto simp: makeRequest_def split: sum.split prod.split option.split)


lemma demo_base_parses: "url_Parse (url_String demo_base) = Inr demo_base"
  by code_simp

definition demo_request :: http_request where
  "demo_request = \<lparr>req_Method = GET, req_URL = demo_base, req_BasicAuth = (''user'', ''key''),
     req_Header = [(''X-Atlassian-Token'', ''no-check''), (''Content-Type'', ''application/json'')],
     req_Body = None\<rparr>"

lemma demo_prepare: "prepare_request (demo_client a) demo_base GET None = Inr demo_request"
  by (simp add: prepare_request_def NewRequest_def demo_base_parses demo_client_def demo_request_def
      removeEmptyPort_def) (simp add: demo_base_def)

text \<open>A server in trouble that says when to come back.\<close>

definition retry_response :: http_response where
  "retry_response =
     \<lparr>resp_StatusCode = 500, resp_Status = ''500 Internal Server Error'',
      resp_Header = [(''Content-Type'', [''text/plain'']), (''Retry-After'', [''120''])],
      resp_Body = (''later'', None)\<rparr>"

definition retry_client :: "unit ConfluenceClient" where
  "retry_client =
     \<lparr>client_user = ''user'', client_apiKey = ''key'', client_apiBase = demo_base,
      client_wrapper =
        \<lparr>http_Do = (\<lambda>_ w. (Received retry_response, w)), cache_Get = (\<lambda>_ w. (Inr None, w)),
         cache_Set = (\<lambda>_ _ w. w), time_Now = (\<lambda>_. 0), time_Parse = (\<lambda>_. None)\<rparr>\<rparr>"

lemma retry_prepare: "prepare_request retry_client demo_base GET None = Inr demo_request"
  using demo_prepare [of "\<lambda>_. (200, [])"] by (simp add: prepare_request_def retry_client_def demo_client_def canned_client_def)

lemma retry_fetch: "fetch (client_wrapper retry_client) demo_request () = (Received retry_response, ())"
  by code_simp

lemma retry_body: "resp_Body retry_response = (''later'', None)"
  by (simp add: retry_response_def)

lemma retry_header: "header_Get (resp_Header retry_response) ''Retry-After'' = ''120''"
  by code_simp

lemma retry_options:
  "run_options (request_options retry_client (None :: unit decoder option) (time_Now (client_wrapper retry_client) ()))
     retry_response (zero_RateLimit, ())
   = ((\<lparr>rl_Status = STATUS_UNSPECIFIED, rl_Limit = 0, rl_Remaining = 0, rl_ResetAt = Some (120 * second)\<rparr>, ()), [])"
  by code_simp

section \<open>Where a request goes\<close>

text \<open>The request that \<open>makeRequest\<close> sends for the URL \<open>u\<close>.\<close>

definition request_to :: "'w ConfluenceClient \<Rightarrow> http_method \<Rightarrow> url \<Rightarrow> string option \<Rightarrow> http_request" where
  "request_to c m u body =
     \<lparr>req_Method = m, req_URL = u, req_BasicAuth = (client_user c, client_apiKey c),
      req_Header = [(''X-Atlassian-Token'', ''no-check''), (''Content-Type'', ''application/json'')],
      req_Body = body\<rparr>"

lemma removeEmptyPort_host: "list_all host_char h \<Longrightarrow> removeEmptyPort h = h"
  by (metis host_char_not(4) last_in_set list_all_iff removeEmptyPort_def)

lemma request_reaches_endpoint:
  assumes "base_ok (client_apiBase c)" "good_segments segs"
    "unescape EncodePath (path_of segs) = Inr path"
    "parse c (path_of segs) (map withQueryParameters pss) = Inr u"
  shows "prepare_request c u m body = Inr (request_to c m u body) \<and>
    Path u = path \<and> Host u = Host (client_apiBase c)"
proof -
  have u: "url_Parse (url_String u) = Inr u" "Path u = path" "Host u = Host (client_apiBase c)"
    using parse_reparses [OF assms] by simp_all
  have "removeEmptyPort (Host u) = Host u"
    using assms(1) u(3) by (simp add: base_ok_def removeEmptyPort_host)
  then show ?thesis
    using u by (simp add: prepare_request_def NewRequest_def request_to_def)
qed

section \<open>Requests to a server\<close>

definition no_limits :: RateLimitDescription where
  "no_limits = \<lparr>rl_Status = STATUS_UNSPECIFIED, rl_Limit = 0, rl_Remaining = 0,
     rl_ResetAt = Some zero_time\<rparr>"

lemma canned_extract:
  "ExtractRateLimitData 0 (\<lambda>_. None) 200 [(''Content-Type'', [''application/json''])] = Inr no_limits"
  by code_simp

lemma canned_rate_limit:
  "WithConfluenceRatelimitData 0 (\<lambda>_. None) (canned_response (200, body)) zero_RateLimit = (no_limits, None)"
  by (simp add: WithConfluenceRatelimitData_def canned_extract zero_RateLimit_def no_limits_def)

lemma canned_content_type:
  "header_Get [(''Content-Type'', [''application/json''])] ''Content-Type'' = ''application/json''"
  by code_simp

lemma json_content_type: "IsJSONContentType ''application/json''"
  by code_simp

text \<open>A 200 whose body does not decode into the target is reported as a failed request.\<close>

definition reply_outcome :: "url \<Rightarrow> string \<Rightarrow> go_error option \<Rightarrow>
    RateLimitDescription option \<times> go_error option" where
  "reply_outcome u body e =
     (if e = None then (Some no_limits, None)
      else (None, Some (ErrRequest \<lparr>re_Status = 200, re_URL = u, re_Body = logBody body 2048\<rparr>)))"

lemma reply_outcome_None [simp]: "reply_outcome u body None = (Some no_limits, None)"
  by (simp add: reply_outcome_def)

lemma makeRequest_reply:
  assumes "prepare_request (server_client base serve) u m b = Inr req"
    "serve req s = ((200, body), s')" "json_Unmarshal d body v = (v', e)"
  shows "makeRequest (server_client base serve) u (Some d) v m b s = (Ret (v', reply_outcome u body e), s')"
proof -
  obtain e' where "WithJSONResponse d (canned_response (200, body)) v = (v', e')" "e' = None \<longleftrightarrow> e = None"
    using assms(3)
    by (cases e) (auto simp: WithJSONResponse_def canned_content_type json_content_type Let_def)
  then show ?thesis
    using assms(1) fetch_server [of serve req s "(200, body)" s'] assms(2)
    by (cases e) (auto simp: makeRequest_def Do_def request_options_def on_fst_def on_snd_def
        canned_rate_limit is_2xx_def errors_Join_def failed_request_def isRatelimited_def no_limits_def
        reply_outcome_def)
qed

lemma makeRequest_served:
  assumes "prepare_request (server_client base serve) u m b = Inr req"
    "serve req s = ((200, json_print j), s')" "plain j" "d j v = (v', None)"
  shows "makeRequest (server_client base serve) u (Some d) v m b s = (Ret (v', Some no_limits, None), s')"
  using makeRequest_reply [OF assms(1,2), of d v v' None] assms(3,4) by (simp add: json_Unmarshal_print)

text \<open>Without a target the body of an answer does not matter.\<close>

lemma canned_extract_accepted:
  "code \<in> {200, 201, 204} \<Longrightarrow>
   ExtractRateLimitData 0 (\<lambda>_. None) code [(''Content-Type'', [''application/json''])] = Inr no_limits"
proof -
  have "ExtractRateLimitData 0 (\<lambda>_. None) 201 [(''Content-Type'', [''application/json''])] = Inr no_limits"
    "ExtractRateLimitData 0 (\<lambda>_. None) 204 [(''Content-Type'', [''application/json''])] = Inr no_limits"
    by code_simp+
  then show "code \<in> {200, 201, 204} \<Longrightarrow> ?thesis" using canned_extract by auto
qed

lemma makeRequest_accepted:
  assumes "prepare_request (server_client base serve) u m b = Inr req"
    "serve req s = ((code, body), s')" "code \<in> {200, 201, 204}" "m \<noteq> GET"
  shows "makeRequest (server_client base serve) u None v m b s = (Ret (v, Some no_limits, None), s')"
proof -
  have "WithConfluenceRatelimitData 0 (\<lambda>_. None) (canned_response (code, body)) zero_RateLimit = (no_limits, None)"
    using canned_extract_accepted [OF assms(3)]
    by (simp add: WithConfluenceRatelimitData_def zero_RateLimit_def no_limits_def)
  then show ?thesis
    using assms(1,3) fetch_server [of serve req s "(code, body)" s'] assms(2)
    by (auto simp: makeRequest_def Do_def request_options_def on_fst_def is_2xx_def errors_Join_def)
qed

text \<open>A 404 is reported as such, whatever its body.\<close>

definition not_found :: "url \<Rightarrow> string \<Rightarrow> go_error" where
  "not_found u body = ErrRequest \<lparr>re_Status = 404, re_URL = u, re_Body = logBody body 2048\<rparr>"

lemma makeRequest_refused:
  assumes "prepare_request (server_client base serve) u m b = Inr req"
    "serve req s = ((404, body), s')"
  shows "\<exists>v'. makeRequest (server_client base serve) u target v m b s = (Ret (v', None, Some (not_found u body)), s')"
proof -
  have "ExtractRateLimitData 0 (\<lambda>_. None) 404 [(''Content-Type'', [''application/json''])] = Inr no_limits"
    by code_simp
  then have "WithConfluenceRatelimitData 0 (\<lambda>_. None) (canned_response (404, body)) zero_RateLimit = (no_limits, None)"
    by (simp add: WithConfluenceRatelimitData_def zero_RateLimit_def no_limits_def)
  then show ?thesis
    using assms(1) fetch_server [of serve req s "(404, body)" s'] assms(2)
    by (cases target) (auto simp: makeRequest_def Do_def request_options_def on_fst_def on_snd_def is_2xx_def
        failed_request_def isRatelimited_def no_limits_def not_found_def split: prod.split)
qed

section \<open>Answers that are errors\<close>

definition http_error :: "url \<Rightarrow> http_response \<Rightarrow> string \<Rightarrow> go_error" where
  "http_error u r body =
     (if resp_StatusCode r \<in> {429, 503, 504} then ErrStatus Unavailable (resp_Status r)
      else ErrRequest \<lparr>re_Status = resp_StatusCode r, re_URL = u, re_Body = logBody body 2048\<rparr>)"

lemma http_error_not_found: "is_not_found (http_error u r body) \<longleftrightarrow> resp_StatusCode r = 404"
  by (simp add: http_error_def)

text \<open>\<open>answered c m u b w r body w1\<close>: the request for \<open>u\<close> is answered with \<open>r\<close>, whose body can be read.\<close>

definition answered :: "'w ConfluenceClient \<Rightarrow> http_method \<Rightarrow> url \<Rightarrow> string option \<Rightarrow> 'w \<Rightarrow>
    http_response \<Rightarrow> string \<Rightarrow> 'w \<Rightarrow> bool" where
  "answered c m u b w r body w1 \<longleftrightarrow>
     fetch (client_wrapper c) (request_to c m u b) w = (Received r, w1) \<and> resp_Body r = (body, None)"

lemma makeRequest_http_error:
  assumes "prepare_request c u m b = Inr (request_to c m u b)"
    and "answered c m u b w r body w1" "\<not> is_2xx (resp_StatusCode r)"
  shows "\<exists>v' rl w'. makeRequest c u target v m b w = (Ret (v', rl, Some (http_error u r body)), w')"
proof -
  obtain rl v' es where run: "run_options (request_options c target (time_Now (client_wrapper c) w1)) r
      (zero_RateLimit, v) = ((rl, v'), es)"
    by (metis prod.collapse)
  have "answer_error u r body es = Some (http_error u r body)"
    using assms(3) by (auto simp: answer_error_def http_error_def)
  then show ?thesis
    using makeRequest_answer [OF assms(1) _ _ run] assms(2) unfolding answered_def by metis
qed

text \<open>One GET, from the path and the parameters to the decoded answer.\<close>

lemma served_reply:
  assumes "base_ok base" "good_segments segs" "unescape EncodePath (path_of segs) = Inr path"
    "known_parameters pss"
    and "serve (request_to (server_client base serve) m (endpoint_url base segs path pss) b) s
      = ((200, body), s')"
    and "json_Unmarshal d body v = (v', e)"
  defines "u \<equiv> endpoint_url base segs path pss"
  shows "parse (server_client base serve) (path_of segs) (map withQueryParameters pss) = Inr u"
    "makeRequest (server_client base serve) u (Some d) v m b s = (Ret (v', reply_outcome u body e), s')"
proof -
  show p: "parse (server_client base serve) (path_of segs) (map withQueryParameters pss) = Inr u"
    using parse_endpoint_url [OF assms(2-4), of "server_client base serve"] by (simp add: u_def)
  have "prepare_request (server_client base serve) u m b = Inr (request_to (server_client base serve) m u b)"
    using request_reaches_endpoint [OF _ assms(2,3) p] assms(1) by simp
  then show "makeRequest (server_client base serve) u (Some d) v m b s = (Ret (v', reply_outcome u body e), s')"
    by (rule makeRequest_reply) (use assms(5,6) in \<open>simp_all add: u_def\<close>)
qed

lemma served_accepted:
  assumes "base_ok base" "good_segments segs" "unescape EncodePath (path_of segs) = Inr path"
    "known_parameters pss"
    and "serve (request_to (server_client base serve) m (endpoint_url base segs path pss) b) s
      = ((code, body), s')"
    and "code \<in> {200, 201, 204}" "m \<noteq> GET"
  defines "u \<equiv> endpoint_url base segs path pss"
  shows "parse (server_client base serve) (path_of segs) (map withQueryParameters pss) = Inr u"
    "makeRequest (server_client base serve) u None v m b s = (Ret (v, Some no_limits, None), s')"
proof -
  show p: "parse (server_client base serve) (path_of segs) (map withQueryParameters pss) = Inr u"
    using parse_endpoint_url [OF assms(2-4), of "server_client base serve"] by (simp add: u_def)
  have "prepare_request (server_client base serve) u m b = Inr (request_to (server_client base serve) m u b)"
    using request_reaches_endpoint [OF _ assms(2,3) p] assms(1) by simp
  then show "makeRequest (server_client base serve) u None v m b s = (Ret (v, Some no_limits, None), s')"
    by (rule makeRequest_accepted) (use assms(5-7) in \<open>simp_all add: u_def\<close>)
qed

lemma served_refused:
  assumes "base_ok base" "good_segments segs" "unescape EncodePath (path_of segs) = Inr path"
    "known_parameters pss"
    and "serve (request_to (server_client base serve) m (endpoint_url base segs path pss) b) s
      = ((404, body), s')"
  defines "u \<equiv> endpoint_url base segs path pss"
  shows "parse (server_client base serve) (path_of segs) (map withQueryParameters pss) = Inr u"
    "\<exists>v'. makeRequest (server_client base serve) u target v m b s = (Ret (v', None, Some (not_found u body)), s')"
proof -
  show p: "parse (server_client base serve) (path_of segs) (map withQueryParameters pss) = Inr u"
    using parse_endpoint_url [OF assms(2-4), of "server_client base serve"] by (simp add: u_def)
  have "prepare_request (server_client base serve) u m b = Inr (request_to (server_client base serve) m u b)"
    using request_reaches_endpoint [OF _ assms(2,3) p] assms(1) by simp
  then show "\<exists>v'. makeRequest (server_client base serve) u target v m b s = (Ret (v', None, Some (not_found u body)), s')"
    by (rule makeRequest_refused) (use assms(5) in \<open>simp add: u_def\<close>)
qed

lemma served_request:
  assumes "base_ok base" "good_segments segs" "unescape EncodePath (path_of segs) = Inr path"
    "known_parameters pss"
    and "serve (request_to (server_client base serve) m (endpoint_url base segs path pss) b) s
      = ((200, json_print j), s')"
    and "plain j" "d j v = (v', None)"
  defines "u \<equiv> endpoint_url base segs path pss"
  shows "parse (server_client base serve) (path_of segs) (map withQueryParameters pss) = Inr u"
    "makeRequest (server_client base serve) u (Some d) v m b s = (Ret (v', Some no_limits, None), s')"
  using served_reply [where serve = serve and s = s and s' = s' and b = b and m = m, OF assms(1-5), of d v v' None]
    assms(6,7)
  by (simp_all add: u_def json_Unmarshal_print)

lemmas served_get = served_request [where m = GET and b = None, folded client_get_def]

lemma demo_base_ok: "base_ok demo_base"
  by (simp add: base_ok_def demo_base_def empty_url_def host_char_def is_alnum_def is_lower_def)

section \<open>Correctness of a request\<close>

text \<open>
  C24. Once a response has been received and read, makeRequest classifies it completely, and whether it can
  be retried is decided by its status alone: 429, 503 or 504 gives the collected rate limit data and a
  retryable Unavailable status; a 2xx whose options (rate limit data, JSON decoding) all succeed gives
  the rate limit data and no error; everything else gives a RequestError with the status, the URL and
  at most 2048 bytes of the body, and no rate limit data. This contradicts two comments of the
  program: ratelimit.go (line 12) and request.go (line 77) want a 5xx answer with a Retry-After header
  or rate limit data to be recoverable too, which the code does not do, because the collected data
  says over limit for a 429 only (the second part). The theorem states what the code does, not that it
  is what was meant; the witness is a 500 with a Retry-After header, which ends as an unrecoverable
  RequestError.
\<close>

theorem makeRequest_classifies:
  assumes "prepare_request c u m requestBody = Inr req"
    and "fetch (client_wrapper c) req w = (Received r, w1)"
    and "resp_Body r = (body, None)"
    and "run_options (request_options c target (time_Now (client_wrapper c) w1)) r
           (zero_RateLimit, var) = ((rl, var'), es)"
  shows "(\<exists>w'. makeRequest c u target var m requestBody w =
     (Ret (var',
           if resp_StatusCode r \<in> {429, 503, 504} then
             (Some rl, Some (ErrStatus Unavailable (resp_Status r)))
           else if is_2xx (resp_StatusCode r) \<and> es = [] then (Some rl, None)
           else (None, Some (ErrRequest \<lparr>re_Status = resp_StatusCode r, re_URL = u,
                                         re_Body = logBody body 2048\<rparr>))), w')) \<and>
    (rl_Status rl \<in> {STATUS_OVERLIMIT, STATUS_ERROR} \<longrightarrow> resp_StatusCode r = 429)"
proof
  show "rl_Status rl \<in> {STATUS_OVERLIMIT, STATUS_ERROR} \<longrightarrow> resp_StatusCode r = 429"
    using collected_status [OF assms(4)] by blast
qed (use makeRequest_answer [OF assms] in \<open>auto simp: answer_error_def split: if_splits\<close>)

text \<open>The witness: a 500 that asks to be tried again in two minutes.\<close>

theorem makeRequest_classifies_witness:
  "header_Get (resp_Header retry_response) ''Retry-After'' = ''120'' \<and>
   (\<exists>w'. makeRequest retry_client demo_base None () GET None () =
     (Ret ((), None, Some (ErrRequest \<lparr>re_Status = 500, re_URL = demo_base, re_Body = ''later''\<rparr>)), w'))"
  using makeRequest_classifies [OF retry_prepare retry_fetch retry_body retry_options] retry_header
  by (simp add: retry_response_def is_2xx_def logBody_def)

text \<open>
  C25. A request to a path built from good segments (no empty, dot or dot-dot segment after escaping) keeps
  the scheme and host of the configured base URL whatever query options are applied, is sent to
  exactly that path, carries the basic authentication of the client and the given body: credentials
  are not sent to another host and the id in a path cannot change the endpoint.
\<close>

theorem request_stays_on_base:
  assumes "base_ok (client_apiBase c)" "good_segments segs"
    "unescape EncodePath (path_of segs) = Inr path"
    "parse c (path_of segs) (map withQueryParameters pss) = Inr u"
  shows "\<exists>req. prepare_request c u m body = Inr req \<and> req_URL req = u \<and> Path u = path \<and>
    Scheme u = Scheme (client_apiBase c) \<and> Host u = Host (client_apiBase c) \<and>
    req_BasicAuth req = (client_user c, client_apiKey c) \<and> req_Body req = body"
proof -
  have "known_parameters pss" if "apply_options (map withQueryParameters pss) v = Inr u" for v
    using that
  proof (induction pss arbitrary: v)
    case (Cons ps pss)
    then obtain v' where "withQueryParameters ps v = Inr v'" "apply_options (map withQueryParameters pss) v' = Inr u"
      by (auto split: sum.splits)
    then show ?case
      using Cons.IH by (auto simp: withQueryParameters_Inr known_parameters_def list_all_iff)
  qed (simp add: known_parameters_def)
  then have "known_parameters pss"
    using assms(4) by (simp add: parse_endpoint [OF assms(2,3)])
  then have "Scheme u = Scheme (client_apiBase c)"
    using parse_endpoint_url [OF assms(2,3), of pss c] assms(4)
    by (auto simp: endpoint_url_def endpoint_def)
  then show ?thesis
    using request_reaches_endpoint [OF assms, of m body] by (simp add: request_to_def)
qed

theorem request_stays_on_base_witness:
  "\<exists>u req. parse (demo_client (\<lambda>_. (200, []))) ''/wiki/rest/api/group'' [withQueryParameters [(''limit'', QInt 5)]] = Inr u \<and>
     prepare_request (demo_client (\<lambda>_. (200, []))) u GET None = Inr req \<and> Host (req_URL req) = ''demo'' \<and>
     req_BasicAuth req = (''user'', ''key'')"
proof -
  let ?segs = "[''wiki'', ''rest'', ''api'', ''group'']"
  have segs: "good_segments ?segs"
    by (simp add: good_segments_def id_segment id_char_def is_alnum_def is_lower_def)
  have path: "path_of ?segs = ''/wiki/rest/api/group''" by simp
  have un: "unescape EncodePath (path_of ?segs) = Inr ''/wiki/rest/api/group''"
    unfolding path by (rule unescape_literal) (simp add: literal_char_def is_alnum_def is_lower_def)
  obtain u where u: "parse (demo_client (\<lambda>_. (200, []))) (path_of ?segs) (map withQueryParameters [[(''limit'', QInt 5)]]) = Inr u"
    using parse_endpoint_url [OF segs un, of "[[(''limit'', QInt 5)]]" "demo_client (\<lambda>_. (200, []))"]
    by (simp add: known_parameters_def)
  have ok: "base_ok (client_apiBase (demo_client (\<lambda>_. (200, []))))" using demo_base_ok by (simp add: demo_client_def)
  show ?thesis
    using request_stays_on_base [OF ok segs un u, of GET None] u
    by (auto simp: demo_client_def demo_base_def)
qed

end
