(* ===== verification/Bag.thy ===== *)
theory Bag
  imports GoErrors JsonDecode
begin

text \<open>
  \<open>baton-sdk/pkg/pagination/pagination.go\<close>: the stack of page states that a lister serializes into
  its page token. The slice \<open>states\<close> may be nil, which its JSON shows. \<open>pop\<close> makes the current state
  point into the slice; every later append writes that same value to that same slot, so plain
  values model it.
\<close>

section \<open>State\<close>

record Token =
  tok_Size :: goint
  tok_Token :: string

record PageState =
  ps_Token :: string
  ps_ResourceTypeID :: string
  ps_ResourceID :: string

record Bag =
  bag_states :: "PageState list option"
  bag_currentState :: "PageState option"

definition empty_bag :: Bag where
  "empty_bag = \<lparr>bag_states = None, bag_currentState = None\<rparr>"

section \<open>Operations\<close>

definition states_list :: "Bag \<Rightarrow> PageState list" where
  "states_list b = (case bag_states b of None \<Rightarrow> [] | Some ss \<Rightarrow> ss)"

definition Push :: "PageState \<Rightarrow> Bag \<Rightarrow> Bag" where
  "Push s b =
     (case bag_currentState b of
        None \<Rightarrow> b\<lparr>bag_currentState := Some s\<rparr>
      | Some cur \<Rightarrow> b\<lparr>bag_states := Some (states_list b @ [cur]), bag_currentState := Some s\<rparr>)"

definition Pop :: "Bag \<Rightarrow> PageState option \<times> Bag" where
  "Pop b =
     (case bag_currentState b of
        None \<Rightarrow> (None, b)
      | Some cur \<Rightarrow>
          (Some cur,
           if states_list b \<noteq> []
           then b\<lparr>bag_currentState := Some (last (states_list b)),
                  bag_states := Some (butlast (states_list b))\<rparr>
           else b\<lparr>bag_currentState := None\<rparr>))"

definition Next :: "string \<Rightarrow> Bag \<Rightarrow> Bag \<times> go_error option" where
  "Next pageToken b =
     (case Pop b of
        (None, b') \<Rightarrow> (b', Some (ErrText ''no active page state''))
      | (Some st, b') \<Rightarrow>
          (if pageToken \<noteq> [] then Push (st\<lparr>ps_Token := pageToken\<rparr>) b' else b', None))"

definition Current :: "Bag \<Rightarrow> PageState option" where
  "Current b = bag_currentState b"

definition PageToken :: "Bag \<Rightarrow> string" where
  "PageToken b = (case Current b of None \<Rightarrow> [] | Some s \<Rightarrow> ps_Token s)"

definition ResourceTypeID :: "Bag \<Rightarrow> string" where
  "ResourceTypeID b = (case Current b of None \<Rightarrow> [] | Some s \<Rightarrow> ps_ResourceTypeID s)"

definition ResourceID :: "Bag \<Rightarrow> string" where
  "ResourceID b = (case Current b of None \<Rightarrow> [] | Some s \<Rightarrow> ps_ResourceID s)"

section \<open>Serialization\<close>

definition json_PageState :: "PageState \<Rightarrow> json" where
  "json_PageState s =
     JObj (member_omitempty ''token'' (ps_Token s) @
           member_omitempty ''type'' (ps_ResourceTypeID s) @
           member_omitempty ''id'' (ps_ResourceID s))"

definition json_Bag :: "Bag \<Rightarrow> json" where
  "json_Bag b =
     JObj [(''states'', case bag_states b of None \<Rightarrow> JNull | Some ss \<Rightarrow> JArr (map json_PageState ss)),
           (''current_state'',
              case bag_currentState b of None \<Rightarrow> JNull | Some s \<Rightarrow> json_PageState s)]"

definition Marshal :: "Bag \<Rightarrow> string" where
  "Marshal b = (case bag_currentState b of None \<Rightarrow> [] | Some _ \<Rightarrow> json_print (json_Bag b))"

definition zero_PageState :: PageState where
  "zero_PageState = \<lparr>ps_Token = [], ps_ResourceTypeID = [], ps_ResourceID = []\<rparr>"

definition dec_PageState :: "PageState decoder" where
  "dec_PageState = dec_struct
     [(''token'', field_dec ps_Token (\<lambda>v r. r\<lparr>ps_Token := v\<rparr>) dec_string),
      (''type'', field_dec ps_ResourceTypeID (\<lambda>v r. r\<lparr>ps_ResourceTypeID := v\<rparr>) dec_string),
      (''id'', field_dec ps_ResourceID (\<lambda>v r. r\<lparr>ps_ResourceID := v\<rparr>) dec_string)]"

text \<open>A slice that keeps the difference between nil and empty.\<close>

definition dec_nil_slice :: "'r \<Rightarrow> 'r decoder \<Rightarrow> 'r list option decoder" where
  "dec_nil_slice zero d j cur =
     (case j of JArr js \<Rightarrow> (case dec_elems zero d js of (xs, e) \<Rightarrow> (Some xs, e))
      | JNull \<Rightarrow> (None, None)
      | _ \<Rightarrow> (cur, type_error ''slice''))"

definition dec_Bag :: "Bag decoder" where
  "dec_Bag = dec_struct
     [(''states'', field_dec bag_states (\<lambda>v r. r\<lparr>bag_states := v\<rparr>)
         (dec_nil_slice zero_PageState dec_PageState)),
      (''current_state'', field_dec bag_currentState (\<lambda>v r. r\<lparr>bag_currentState := v\<rparr>)
         (dec_ptr zero_PageState dec_PageState))]"

definition Unmarshal :: "string \<Rightarrow> Bag \<Rightarrow> Bag \<times> go_error option" where
  "Unmarshal input b =
     (if input \<noteq> [] then
        (case json_Unmarshal dec_Bag input empty_bag of
           (_, Some e) \<Rightarrow> (b, Some (ErrWrap ''page token corrupt'' e))
         | (token, None) \<Rightarrow> (token, None))
      else (empty_bag, None))"

text \<open>\<open>NextToken\<close>, with its case for a bag that was never given a state.\<close>

definition NextToken :: "string \<Rightarrow> Bag \<Rightarrow> Bag \<times> string" where
  "NextToken pageToken b =
     (case bag_currentState b of
        None \<Rightarrow>
          (let b' = b\<lparr>bag_currentState := Some (zero_PageState\<lparr>ps_Token := pageToken\<rparr>)\<rparr>
           in (b', Marshal b'))
      | Some _ \<Rightarrow> (let b' = fst (Next pageToken b) in (b', Marshal b')))"

section \<open>Stack laws\<close>

text \<open>The stack a bag stands for, its top first.\<close>

definition stack_of :: "Bag \<Rightarrow> PageState list" where
  "stack_of b = (case bag_currentState b of None \<Rightarrow> [] | Some s \<Rightarrow> s # rev (states_list b))"

text \<open>A bag in use has a current state whenever it has states at all.\<close>

definition bag_ok :: "Bag \<Rightarrow> bool" where
  "bag_ok b \<longleftrightarrow> bag_currentState b = None \<longrightarrow> states_list b = []"

lemma states_list_simps [simp]:
  "states_list (b\<lparr>bag_currentState := c\<rparr>) = states_list b"
  "states_list (b\<lparr>bag_states := Some ss\<rparr>) = ss"
  "states_list empty_bag = []"
  by (simp_all add: states_list_def empty_bag_def)

lemma bag_ok_empty [simp]: "bag_ok empty_bag"
  by (simp add: bag_ok_def)

lemma stack_of_empty [simp]: "stack_of empty_bag = []"
  by (simp add: stack_of_def empty_bag_def)

lemma stack_of_Push: "bag_ok b \<Longrightarrow> stack_of (Push s b) = s # stack_of b"
  by (auto simp: stack_of_def Push_def bag_ok_def split: option.split)

lemma bag_ok_Push: "bag_ok (Push s b)"
  by (simp add: Push_def bag_ok_def split: option.split)

lemma rev_last_butlast: "xs \<noteq> [] \<Longrightarrow> last xs # rev (butlast xs) = rev xs"
  by (induction xs rule: rev_induct) auto

lemma Pop_stack:
  assumes "bag_ok b"
  shows "Pop b = (None, b) \<and> stack_of b = [] \<or>
         (\<exists>s ss b'. Pop b = (Some s, b') \<and> stack_of b = s # ss \<and> stack_of b' = ss \<and> bag_ok b')"
  using assms
  by (auto simp: stack_of_def Pop_def bag_ok_def rev_last_butlast split: option.split)

lemma bag_ok_Pop: "bag_ok b \<Longrightarrow> bag_ok (snd (Pop b))"
  using Pop_stack [of b] by auto

lemma stack_of_Pop: "bag_ok b \<Longrightarrow> stack_of (snd (Pop b)) = tl (stack_of b)"
  using Pop_stack [of b] by auto

lemma Next_stack:
  assumes "bag_ok b" "stack_of b = s # ss"
  shows "snd (Next t b) = None" "bag_ok (fst (Next t b))"
    "stack_of (fst (Next t b)) = (if t = [] then ss else s\<lparr>ps_Token := t\<rparr> # ss)"
  using Pop_stack [OF assms(1)] assms(2)
  by (auto simp: Next_def stack_of_Push bag_ok_Push)

lemma Current_stack: "Current b = (case stack_of b of [] \<Rightarrow> None | s # _ \<Rightarrow> Some s)"
  by (simp add: Current_def stack_of_def split: option.split)

lemma fold_Push:
  "bag_ok b \<Longrightarrow> bag_ok (fold Push ss b) \<and> stack_of (fold Push ss b) = rev ss @ stack_of b"
  by (induction ss arbitrary: b) (simp_all add: stack_of_Push bag_ok_Push)

section \<open>A token holds its bag\<close>

definition state_plain :: "PageState \<Rightarrow> bool" where
  "state_plain s \<longleftrightarrow>
     valid_utf8 (ps_Token s) \<and> valid_utf8 (ps_ResourceTypeID s) \<and> valid_utf8 (ps_ResourceID s)"

definition bag_plain :: "Bag \<Rightarrow> bool" where
  "bag_plain b \<longleftrightarrow> list_all state_plain (stack_of b)"


lemma find_field_Cons:
  "find_field ((n, d) # fs) n = Some d"
  by (simp add: find_field_def)

lemma dec_PageState_json:
  "dec_PageState (json_PageState s) zero_PageState = (s, None)"
  by (simp add: dec_PageState_def json_PageState_def member_omitempty_def field_dec_def
      find_field_def zero_PageState_def)

lemma dec_ptr_PageState:
  "dec_ptr zero_PageState dec_PageState (json_PageState s) None = (Some s, None)"
  using dec_PageState_json [of s] by (simp add: dec_ptr_def json_PageState_def)

lemma dec_Bag_json: "dec_Bag (json_Bag b) empty_bag = (b, None)"
proof -
  have "dec_elems zero_PageState dec_PageState (map json_PageState ss) = (ss, None)" for ss
    by (rule dec_elems_map) (simp add: dec_PageState_json)
  then show ?thesis
    by (cases b) (auto simp: dec_Bag_def json_Bag_def field_dec_def find_field_def empty_bag_def
      dec_nil_slice_def dec_ptr_PageState split: option.split)
qed

lemma plain_PageState: "state_plain s \<Longrightarrow> plain (json_PageState s)"
  by (simp add: json_PageState_def state_plain_def member_omitempty_def valid_utf8_ascii
      is_ascii_def)

lemma plain_Bag: "bag_plain b \<Longrightarrow> bag_ok b \<Longrightarrow> plain (json_Bag b)"
  apply (auto simp: json_Bag_def bag_plain_def stack_of_def bag_ok_def states_list_def
      plain_PageState is_ascii_def list_all_iff split: option.splits)
  done

lemma json_Bag_nonempty: "json_print (json_Bag b) \<noteq> []"
  by (simp add: json_Bag_def)

lemma Unmarshal_Marshal:
  assumes "bag_plain b" "bag_ok b" "bag_currentState b \<noteq> None"
  shows "Unmarshal (Marshal b) b0 = (b, None)"
  using assms plain_Bag [of b]
  by (auto simp: Unmarshal_def Marshal_def json_Bag_nonempty json_Unmarshal_print dec_Bag_json)

section \<open>Page tokens of a bag\<close>

text \<open>
  C36. Decoding the JSON token of a pagination bag that has a current state gives back that bag, whatever
  the bag it is decoded into held before, for states whose strings are valid text.
\<close>

theorem bag_token_roundtrip:
  assumes "bag_plain b" "bag_ok b" "bag_currentState b \<noteq> None"
  shows "Unmarshal (Marshal b) b0 = (b, None)"
  using Unmarshal_Marshal [OF assms] .

definition demo_bag :: Bag where
  "demo_bag = Push \<lparr>ps_Token = ''200'', ps_ResourceTypeID = ''group'', ps_ResourceID = ''g1''\<rparr>
     (Push \<lparr>ps_Token = [], ps_ResourceTypeID = ''user'', ps_ResourceID = []\<rparr> empty_bag)"

lemma demo_bag_ok: "bag_plain demo_bag" "bag_ok demo_bag" "bag_currentState demo_bag \<noteq> None"
  by (simp_all add: demo_bag_def bag_ok_def bag_plain_def stack_of_def Push_def empty_bag_def states_list_def
      state_plain_def valid_utf8_ascii is_ascii_def)

theorem bag_token_roundtrip_witness: "Unmarshal (Marshal demo_bag) empty_bag = (demo_bag, None)"
  using bag_token_roundtrip [OF demo_bag_ok] .

text \<open>
  C37. The bag, which keeps its current state apart from the list of the others, implements a stack: Push
  pushes, Current reads the top, and Next replaces the token of the top, or pops it when the token is
  empty, and fails exactly on the empty stack; each keeps the bag's invariant.
\<close>

theorem bag_refines_stack:
  assumes "bag_ok b"
  shows "bag_ok (Push s b) \<and> stack_of (Push s b) = s # stack_of b \<and>
    Current b = (case stack_of b of [] \<Rightarrow> None | t # _ \<Rightarrow> Some t) \<and>
    bag_ok (fst (Next token b)) \<and>
    (case stack_of b of
       [] \<Rightarrow> snd (Next token b) = Some (ErrText ''no active page state'') \<and> stack_of (fst (Next token b)) = []
     | t # ts \<Rightarrow> snd (Next token b) = None \<and>
         stack_of (fst (Next token b)) = (if token = [] then ts else t\<lparr>ps_Token := token\<rparr> # ts))"
proof (cases "stack_of b")
  case Nil
  then have "Pop b = (None, b)" using Pop_stack [OF assms] by auto
  then show ?thesis
    using Nil assms by (simp add: Next_def bag_ok_Push stack_of_Push Current_stack)
next
  case (Cons t ts)
  then show ?thesis
    using Next_stack [OF assms Cons, of token] assms
    by (simp add: bag_ok_Push stack_of_Push Current_stack)
qed

theorem bag_refines_stack_witness:
  "stack_of (fst (Next ''400'' demo_bag)) =
     [\<lparr>ps_Token = ''400'', ps_ResourceTypeID = ''group'', ps_ResourceID = ''g1''\<rparr>,
      \<lparr>ps_Token = [], ps_ResourceTypeID = ''user'', ps_ResourceID = []\<rparr>]"
  using bag_refines_stack [OF demo_bag_ok(2), of undefined "''400''"]
  by (simp add: demo_bag_def stack_of_Push bag_ok_Push)

end
