(* ===== verification/Sdk.thy ===== *)
theory Sdk
  imports RateLimit Bag
begin

text \<open>
  The values of \<open>baton-sdk\<close> that the connector builds: annotations (\<open>pkg/annotations\<close>), resources
  (\<open>pkg/types/resource\<close>), entitlements (\<open>pkg/types/entitlement\<close>) and grants (\<open>pkg/types/grant\<close>),
  with the calls and options the connector uses. Messages are records, pointers that may be nil are
  options. \<open>anypb.New\<close> fails only on a string that is not valid UTF-8, and every string the connector
  packs comes from a JSON decoder or from a protobuf message, which hold only valid ones: it is
  total here.
\<close>

section \<open>Messages\<close>

record ResourceId =
  rid_ResourceType :: string
  rid_Resource :: string

datatype user_status = STATUS_ENABLED | STATUS_DISABLED

datatype resource_status = RESOURCE_STATUS_ENABLED | RESOURCE_STATUS_DISABLED

record UserTrait =
  ut_Emails :: "(string \<times> bool) list"
  ut_Status :: "user_status option"
  ut_Human :: bool

record ScopeBindingTrait =
  sbt_RoleId :: "ResourceId option"
  sbt_ScopeResourceId :: "ResourceId option"

text \<open>The messages that the connector packs into annotations.\<close>

datatype annotation =
  AnyRateLimit RateLimitDescription
| AnyGrantExpandable "string list"
| AnyGrantAlreadyExists
| AnyGrantAlreadyRevoked
| AnySkipEntitlementsAndGrants
| AnySkipEntitlements
| AnyOptInRequired
| AnyChildResourceType string
| AnyExternalLink string
| AnyUserTrait UserTrait
| AnyGroupTrait
| AnyRoleTrait
| AnyScopeBindingTrait ScopeBindingTrait

datatype trait = TRAIT_USER | TRAIT_GROUP | TRAIT_ROLE | TRAIT_SCOPE_BINDING

record ResourceType =
  rt_Id :: string
  rt_DisplayName :: string
  rt_Traits :: "trait list"
  rt_Annotations :: "annotation list"

text \<open>The values of a profile (\<open>structpb.Struct\<close>) that the connector stores.\<close>

datatype pvalue = PString string | PList "string list"

type_synonym struct = "(string \<times> pvalue) list"

record Resource =
  res_Id :: "ResourceId option"
  res_ParentResourceId :: "ResourceId option"
  res_DisplayName :: string
  res_Annotations :: "annotation list"
  res_Description :: string
  res_Profile :: "struct option"
  res_Status :: "(resource_status \<times> string) option"

datatype purpose = PURPOSE_UNSPECIFIED | PURPOSE_ASSIGNMENT | PURPOSE_PERMISSION

record Entitlement =
  ent_Id :: string
  ent_Resource :: "Resource option"
  ent_DisplayName :: string
  ent_Description :: string
  ent_GrantableTo :: "ResourceType list"
  ent_Purpose :: purpose
  ent_Slug :: string

record Grant =
  gr_Id :: string
  gr_Entitlement :: "Entitlement option"
  gr_Principal :: "Resource option"
  gr_Annotations :: "annotation list"

section \<open>Annotations\<close>

text \<open>\<open>MessageIs\<close>: two annotations hold the same type of message.\<close>

fun same_message :: "annotation \<Rightarrow> annotation \<Rightarrow> bool" where
  "same_message (AnyRateLimit _) a = (case a of AnyRateLimit _ \<Rightarrow> True | _ \<Rightarrow> False)"
| "same_message (AnyGrantExpandable _) a = (case a of AnyGrantExpandable _ \<Rightarrow> True | _ \<Rightarrow> False)"
| "same_message (AnyChildResourceType _) a = (case a of AnyChildResourceType _ \<Rightarrow> True | _ \<Rightarrow> False)"
| "same_message (AnyExternalLink _) a = (case a of AnyExternalLink _ \<Rightarrow> True | _ \<Rightarrow> False)"
| "same_message (AnyUserTrait _) a = (case a of AnyUserTrait _ \<Rightarrow> True | _ \<Rightarrow> False)"
| "same_message (AnyScopeBindingTrait _) a = (case a of AnyScopeBindingTrait _ \<Rightarrow> True | _ \<Rightarrow> False)"
| "same_message m a = (m = a)"

definition annos_Append :: "annotation \<Rightarrow> annotation list \<Rightarrow> annotation list" where
  "annos_Append m annos = annos @ [m]"

definition annos_Update :: "annotation \<Rightarrow> annotation list \<Rightarrow> annotation list" where
  "annos_Update m annos =
     (let newAnnotations = map (\<lambda>v. if same_message m v then m else v) annos
      in if list_ex (same_message m) annos then newAnnotations else newAnnotations @ [m])"

definition annos_New :: "annotation list \<Rightarrow> annotation list" where
  "annos_New msgs = fold annos_Update msgs []"

section \<open>Resources\<close>

type_synonym resource_option = "Resource \<Rightarrow> go_error + Resource"

fun pvalue_valid :: "pvalue \<Rightarrow> bool" where
  "pvalue_valid (PString s) = valid_utf8 s"
| "pvalue_valid (PList ss) = list_all valid_utf8 ss"

definition NewStruct :: "struct \<Rightarrow> go_error + struct" where
  "NewStruct v =
     (if list_all (\<lambda>(k, x). valid_utf8 k \<and> pvalue_valid x) v then Inr v
      else Inl (ErrText ''proto: invalid UTF-8 in string''))"

definition WithResourceProfile :: "struct \<Rightarrow> resource_option" where
  "WithResourceProfile profile r =
     (case NewStruct profile of Inl e \<Rightarrow> Inl e | Inr p \<Rightarrow> Inr (r\<lparr>res_Profile := Some p\<rparr>))"

definition WithResourceStatus :: "resource_status \<Rightarrow> string \<Rightarrow> resource_option" where
  "WithResourceStatus s details r = Inr (r\<lparr>res_Status := Some (s, details)\<rparr>)"

definition WithDescription :: "string \<Rightarrow> resource_option" where
  "WithDescription d r = Inr (r\<lparr>res_Description := d\<rparr>)"

definition WithParentResourceID :: "ResourceId option \<Rightarrow> resource_option" where
  "WithParentResourceID p r = Inr (r\<lparr>res_ParentResourceId := p\<rparr>)"

definition WithAnnotation :: "annotation \<Rightarrow> resource_option" where
  "WithAnnotation m r = Inr (r\<lparr>res_Annotations := annos_Append m (res_Annotations r)\<rparr>)"

fun apply_resource_options :: "resource_option list \<Rightarrow> Resource \<Rightarrow> go_error + Resource" where
  "apply_resource_options [] r = Inr r"
| "apply_resource_options (opt # opts) r =
     (case opt r of Inl e \<Rightarrow> Inl e | Inr r' \<Rightarrow> apply_resource_options opts r')"

definition NewResource :: "string \<Rightarrow> ResourceType \<Rightarrow> string \<Rightarrow> resource_option list \<Rightarrow>
    go_error + Resource" where
  "NewResource name resourceType objectID opts =
     apply_resource_options opts
       \<lparr>res_Id = Some \<lparr>rid_ResourceType = rt_Id resourceType, rid_Resource = objectID\<rparr>,
        res_ParentResourceId = None, res_DisplayName = name, res_Annotations = [],
        res_Description = [], res_Profile = None, res_Status = None\<rparr>"

subsection \<open>Traits\<close>

type_synonym user_trait_option = "UserTrait \<Rightarrow> UserTrait"

definition WithEmail :: "string \<Rightarrow> bool \<Rightarrow> user_trait_option" where
  "WithEmail email primary ut =
     (if email = [] then ut else ut\<lparr>ut_Emails := ut_Emails ut @ [(email, primary)]\<rparr>)"

definition zero_UserTrait :: UserTrait where
  "zero_UserTrait = \<lparr>ut_Emails = [], ut_Status = None, ut_Human = False\<rparr>"

definition NewUserTrait :: "user_trait_option list \<Rightarrow> UserTrait" where
  "NewUserTrait opts =
     (let ut = fold (\<lambda>o' u. o' u) opts zero_UserTrait
      in ut\<lparr>ut_Status := (case ut_Status ut of None \<Rightarrow> Some STATUS_ENABLED | s \<Rightarrow> s),
            ut_Human := True\<rparr>)"

fun pick_UserTrait :: "annotation list \<Rightarrow> UserTrait option" where
  "pick_UserTrait [] = None"
| "pick_UserTrait (a # as) = (case a of AnyUserTrait ut \<Rightarrow> Some ut | _ \<Rightarrow> pick_UserTrait as)"

fun resource_status_of :: "user_status \<Rightarrow> resource_status" where
  "resource_status_of STATUS_ENABLED = RESOURCE_STATUS_ENABLED"
| "resource_status_of STATUS_DISABLED = RESOURCE_STATUS_DISABLED"

text \<open>\<open>syncUserTraitToResource\<close>: a status already set on the resource stays.\<close>

definition syncUserTraitToResource :: "UserTrait \<Rightarrow> Resource \<Rightarrow> Resource" where
  "syncUserTraitToResource ut r =
     (case (ut_Status ut, res_Status r) of
        (Some s, None) \<Rightarrow> r\<lparr>res_Status := Some (resource_status_of s, [])\<rparr>
      | _ \<Rightarrow> r)"

definition WithUserTrait :: "user_trait_option list \<Rightarrow> resource_option" where
  "WithUserTrait opts r =
     (let ut = (case pick_UserTrait (res_Annotations r) of
                  Some ut0 \<Rightarrow> fold (\<lambda>o' u. o' u) opts ut0
                | None \<Rightarrow> NewUserTrait opts)
      in Inr (syncUserTraitToResource ut
                (r\<lparr>res_Annotations := annos_Update (AnyUserTrait ut) (res_Annotations r)\<rparr>)))"

text \<open>The group and role traits are used without options: an empty message.\<close>

definition WithGroupTrait :: resource_option where
  "WithGroupTrait r = Inr (r\<lparr>res_Annotations := annos_Update AnyGroupTrait (res_Annotations r)\<rparr>)"

definition WithRoleTrait :: resource_option where
  "WithRoleTrait r = Inr (r\<lparr>res_Annotations := annos_Update AnyRoleTrait (res_Annotations r)\<rparr>)"

type_synonym scope_option = "ScopeBindingTrait \<Rightarrow> ScopeBindingTrait"

definition WithRoleScopeRoleId :: "ResourceId option \<Rightarrow> scope_option" where
  "WithRoleScopeRoleId i t = t\<lparr>sbt_RoleId := i\<rparr>"

definition WithRoleScopeResourceId :: "ResourceId option \<Rightarrow> scope_option" where
  "WithRoleScopeResourceId i t = t\<lparr>sbt_ScopeResourceId := i\<rparr>"

fun pick_ScopeBindingTrait :: "annotation list \<Rightarrow> ScopeBindingTrait option" where
  "pick_ScopeBindingTrait [] = None"
| "pick_ScopeBindingTrait (a # as) =
     (case a of AnyScopeBindingTrait t \<Rightarrow> Some t | _ \<Rightarrow> pick_ScopeBindingTrait as)"

definition WithScopeBindingTrait :: "scope_option list \<Rightarrow> resource_option" where
  "WithScopeBindingTrait opts r =
     (let rt0 = (case pick_ScopeBindingTrait (res_Annotations r) of
                   Some t \<Rightarrow> t | None \<Rightarrow> \<lparr>sbt_RoleId = None, sbt_ScopeResourceId = None\<rparr>);
          rt = fold (\<lambda>o' t. o' t) opts rt0
      in if sbt_RoleId rt = None then
           Inl (ErrStatus InvalidArgument ''role ID is required for scope binding trait'')
         else if sbt_ScopeResourceId rt = None then
           Inl (ErrStatus InvalidArgument ''scope resource ID is required for scope binding trait'')
         else Inr (r\<lparr>res_Annotations := annos_Update (AnyScopeBindingTrait rt) (res_Annotations r)\<rparr>))"

definition GetScopeBindingTrait :: "Resource \<Rightarrow> go_error + ScopeBindingTrait" where
  "GetScopeBindingTrait r =
     (case pick_ScopeBindingTrait (res_Annotations r) of
        None \<Rightarrow> Inl (ErrStatus NotFound ''scope binding trait was not found on resource'')
      | Some t \<Rightarrow> Inr t)"

definition NewUserResource :: "string \<Rightarrow> ResourceType \<Rightarrow> string \<Rightarrow> user_trait_option list \<Rightarrow>
    resource_option list \<Rightarrow> go_error + Resource" where
  "NewUserResource name resourceType objectID userTraitOpts opts =
     NewResource name resourceType objectID (opts @ [WithUserTrait userTraitOpts])"

definition NewGroupResource :: "string \<Rightarrow> ResourceType \<Rightarrow> string \<Rightarrow> resource_option list \<Rightarrow>
    go_error + Resource" where
  "NewGroupResource name resourceType objectID opts =
     NewResource name resourceType objectID (opts @ [WithGroupTrait])"

definition NewRoleResource :: "string \<Rightarrow> ResourceType \<Rightarrow> string \<Rightarrow> resource_option list \<Rightarrow>
    go_error + Resource" where
  "NewRoleResource name resourceType objectID opts =
     NewResource name resourceType objectID (opts @ [WithRoleTrait])"

definition NewScopeBindingResource :: "string \<Rightarrow> ResourceType \<Rightarrow> string \<Rightarrow> scope_option list \<Rightarrow>
    resource_option list \<Rightarrow> go_error + Resource" where
  "NewScopeBindingResource name resourceType objectID scopeBindingOpts opts =
     NewResource name resourceType objectID (opts @ [WithScopeBindingTrait scopeBindingOpts])"

section \<open>Entitlements\<close>

text \<open>The getters of a nil message give zero values.\<close>

definition id_type :: "ResourceId option \<Rightarrow> string" where
  "id_type i = (case i of None \<Rightarrow> [] | Some r \<Rightarrow> rid_ResourceType r)"

definition id_resource :: "ResourceId option \<Rightarrow> string" where
  "id_resource i = (case i of None \<Rightarrow> [] | Some r \<Rightarrow> rid_Resource r)"

definition NewEntitlementID :: "Resource option \<Rightarrow> string \<Rightarrow> string" where
  "NewEntitlementID resource permission =
     (let i = Option.bind resource res_Id
      in id_type i @ '':'' @ id_resource i @ '':'' @ permission)"

type_synonym entitlement_option = "Entitlement \<Rightarrow> Entitlement"

definition WithGrantableTo :: "ResourceType list \<Rightarrow> entitlement_option" where
  "WithGrantableTo ts e = e\<lparr>ent_GrantableTo := ts\<rparr>"

definition WithDisplayName :: "string \<Rightarrow> entitlement_option" where
  "WithDisplayName n e = e\<lparr>ent_DisplayName := n\<rparr>"

definition WithEntDescription :: "string \<Rightarrow> entitlement_option" where
  "WithEntDescription d e = e\<lparr>ent_Description := d\<rparr>"

definition new_entitlement :: "purpose \<Rightarrow> Resource option \<Rightarrow> string \<Rightarrow> Entitlement" where
  "new_entitlement p resource name =
     \<lparr>ent_Id = NewEntitlementID resource name, ent_Resource = resource, ent_DisplayName = name,
      ent_Description = [], ent_GrantableTo = [], ent_Purpose = p, ent_Slug = name\<rparr>"

definition NewPermissionEntitlement :: "Resource option \<Rightarrow> string \<Rightarrow> entitlement_option list \<Rightarrow>
    Entitlement" where
  "NewPermissionEntitlement resource name opts =
     fold (\<lambda>o' e. o' e) opts (new_entitlement PURPOSE_PERMISSION resource name)"

definition NewAssignmentEntitlement :: "Resource option \<Rightarrow> string \<Rightarrow> entitlement_option list \<Rightarrow>
    Entitlement" where
  "NewAssignmentEntitlement resource name opts =
     fold (\<lambda>o' e. o' e) opts (new_entitlement PURPOSE_ASSIGNMENT resource name)"

section \<open>Grants\<close>

definition principal_resource :: "ResourceId \<Rightarrow> Resource" where
  "principal_resource p =
     \<lparr>res_Id = Some p, res_ParentResourceId = None, res_DisplayName = [], res_Annotations = [],
      res_Description = [], res_Profile = None, res_Status = None\<rparr>"

text \<open>
  \<open>NewGrant\<close> for a principal given by its id; its option is \<open>WithAnnotation\<close>. The entitlement of a
  new grant has an id and a resource only. A nil principal id panics, before this is called.
\<close>

definition grant_entitlement :: "Resource \<Rightarrow> string \<Rightarrow> Entitlement" where
  "grant_entitlement resource entitlementName =
     \<lparr>ent_Id = NewEntitlementID (Some resource) entitlementName, ent_Resource = Some resource,
      ent_DisplayName = [], ent_Description = [], ent_GrantableTo = [],
      ent_Purpose = PURPOSE_UNSPECIFIED, ent_Slug = []\<rparr>"

definition NewGrant :: "Resource \<Rightarrow> string \<Rightarrow> ResourceId \<Rightarrow> annotation list \<Rightarrow> Grant" where
  "NewGrant resource entitlementName to annos =
     \<lparr>gr_Id = ent_Id (grant_entitlement resource entitlementName) @ '':'' @
              rid_ResourceType to @ '':'' @ rid_Resource to,
      gr_Entitlement = Some (grant_entitlement resource entitlementName),
      gr_Principal = Some (principal_resource to),
      gr_Annotations = fold annos_Append annos []\<rparr>"

section \<open>Results of a sync operation\<close>

record SyncOpResults =
  NextPageToken :: string
  Annotations :: "annotation list"

lemma fold_annos_Append [simp]: "fold annos_Append ms as = as @ ms"
  by (induction ms arbitrary: as) (simp_all add: annos_Append_def)

lemma same_message_refl [simp]: "same_message m m"
  by (cases m) simp_all

lemma annos_Update_Nil [simp]: "annos_Update m [] = [m]"
  by (simp add: annos_Update_def)

end
