(* ===== verification/Builder.thy ===== *)
theory Builder
  imports Sdk
begin

text \<open>
  What the SDK does with a lister: \<open>ListResources\<close> and \<open>ListGrants\<close> of
  \<open>connectorbuilder/resource_syncer.go\<close>, and the loop of a sync that follows the page tokens. Two contracts of a lister are stated here: what an
  error may leave behind, and how its tokens walk through a state space.
\<close>

section \<open>Calls of a lister\<close>

type_synonym ('w, 'r) page_call =
  "('w, 'r list \<times> SyncOpResults option \<times> go_error option) io"

type_synonym ('w, 'r) lister_op = "string \<Rightarrow> ('w, 'r) page_call"

definition token_of :: "SyncOpResults option \<Rightarrow> string" where
  "token_of res = (case res of None \<Rightarrow> [] | Some r \<Rightarrow> NextPageToken r)"

definition annotations_of :: "SyncOpResults option \<Rightarrow> annotation list" where
  "annotations_of res = (case res of None \<Rightarrow> [] | Some r \<Rightarrow> Annotations r)"

text \<open>
  What \<open>ListResources\<close> and \<open>ListGrants\<close> do alike with the call of a lister: the response (the list,
  the next token, the annotations) and the error. They differ in the text of their errors:
  \<open>failed\<close>, which wraps the lister's error, and \<open>unchanged\<close>, for a token that comes back as it was.
\<close>

definition list_page :: "string \<Rightarrow> (string \<Rightarrow> go_error) \<Rightarrow> ('w, 'r) lister_op \<Rightarrow> string \<Rightarrow>
    ('w, ('r list \<times> string \<times> annotation list) \<times> go_error option) io" where
  "list_page failed unchanged list_op pageToken =
     bindIO (list_op pageToken)
       (\<lambda>(out, retOptions, err).
          let resp = (out, token_of retOptions, annotations_of retOptions) in
          case err of
            Some e \<Rightarrow> ret (resp, Some (ErrWrap failed e))
          | None \<Rightarrow>
              if pageToken \<noteq> [] \<and> pageToken = token_of retOptions
              then ret (resp, Some (unchanged pageToken))
              else ret (resp, None))"

text \<open>The parent is given as \<open>%s\<close> prints it.\<close>

definition ListResources :: "string \<Rightarrow> string \<Rightarrow> ('w, 'r) lister_op \<Rightarrow> string \<Rightarrow>
    ('w, ('r list \<times> string \<times> annotation list) \<times> go_error option) io" where
  "ListResources resourceTypeId parent = list_page ''error: listing resources failed''
     (\<lambda>pageToken. ErrStatus Internal
        (''listing resources failed: next page token unchanged (token='' @ pageToken @ '', type='' @
         resourceTypeId @ '', parent='' @ parent @ '') - likely a connector bug''))"

definition ListGrants :: "ResourceId \<Rightarrow> ('w, 'r) lister_op \<Rightarrow> string \<Rightarrow>
    ('w, ('r list \<times> string \<times> annotation list) \<times> go_error option) io" where
  "ListGrants rid =
     (let name = rid_ResourceType rid @ ''/'' @ rid_Resource rid in
      list_page (''error: listing grants for resource '' @ name @ '' failed'')
        (\<lambda>_. ErrStatus Internal (''listing grants for resource '' @ name @
           '' failed: next page token unchanged - likely a connector bug'')))"

text \<open>
  The pages of a listing, one after the other: it goes on while there is a next token and stops at
  the first error, with what it has. Nothing makes a listing end, so this is partial.
\<close>

partial_function (option) sync_pages ::
    "(string \<Rightarrow> ('w, ('r list \<times> string \<times> annotation list) \<times> go_error option) io) \<Rightarrow> string \<Rightarrow> 'r list \<Rightarrow> 'w \<Rightarrow>
     (('r list \<times> go_error option) go \<times> 'w) option" where
  "sync_pages service pageToken acc w =
     (case service pageToken w of
        (Panic p, w') \<Rightarrow> Some (Panic p, w')
      | (Ret ((out, nextPageToken, _), Some e), w') \<Rightarrow> Some (Ret (acc, Some e), w')
      | (Ret ((out, nextPageToken, _), None), w') \<Rightarrow>
          if nextPageToken = [] then Some (Ret (acc @ out, None), w')
          else sync_pages service nextPageToken (acc @ out) w')"

section \<open>Errors leave nothing behind\<close>

locale lister =
  fixes list_op :: "('w, 'r) lister_op"
  assumes error_page: "list_op t w = (Ret (rs, res, Some e), w') \<Longrightarrow> rs = [] \<and> token_of res = []"
begin

lemma list_page_error:
  assumes "list_page failed unchanged list_op t w = (Ret ((rs, next, annos), Some e), w')"
  shows "rs = [] \<and> next = [] \<or> e = unchanged t \<and> t \<noteq> [] \<and> next = t"
  using assms
  by (auto simp: list_page_def bindIO_def Let_def dest: error_page
      split: go.splits prod.splits option.splits if_splits)

lemma list_page_progress:
  assumes "list_page failed unchanged list_op t w = (Ret ((rs, next, annos), None), w')"
  shows "next = [] \<or> next \<noteq> t"
  using assms
  by (auto simp: list_page_def bindIO_def Let_def
      split: go.splits prod.splits option.splits if_splits)

end

section \<open>Walking through states\<close>

text \<open>
  A listing whose tokens stand for states: at the state \<open>s\<close> it lists \<open>out s\<close> and goes to \<open>nxt s\<close>.
  \<open>walk s rs\<close> says that the states from \<open>s\<close> on come to an end and list \<open>rs\<close> in all.
\<close>

inductive walk :: "('s \<Rightarrow> 'r list) \<Rightarrow> ('s \<Rightarrow> 's option) \<Rightarrow> 's \<Rightarrow> 'r list \<Rightarrow> bool"
  for out :: "'s \<Rightarrow> 'r list" and nxt :: "'s \<Rightarrow> 's option" where
  last_page: "nxt s = None \<Longrightarrow> walk out nxt s (out s)"
| next_page: "nxt s = Some s' \<Longrightarrow> walk out nxt s' rs \<Longrightarrow> walk out nxt s (out s @ rs)"

inductive_cases walkE: "walk out nxt s rs"

lemma walk_no_loop: "walk out nxt s rs \<Longrightarrow> nxt s \<noteq> Some s"
proof (induction rule: walk.induct)
  case (next_page s s' rs)
  then show ?case by (cases "s' = s") simp_all
qed simp

lemma walk_deterministic: "walk out nxt s rs \<Longrightarrow> walk out nxt s rs' \<Longrightarrow> rs' = rs"
proof (induction arbitrary: rs' rule: walk.induct)
  case (last_page s)
  from last_page.prems show ?case by cases (simp_all add: last_page.hyps)
next
  case (next_page s s' rs)
  from next_page.prems show ?case
    by cases (use next_page.hyps(1) next_page.IH in \<open>simp_all\<close>)
qed

lemma walk_append:
  assumes "walk out nxt s rs" "nxt s0 = Some s" "xs = out s0"
  shows "walk out nxt s0 (xs @ rs)"
  using assms by (auto intro: walk.next_page)

locale traversal = page_codec encode decode ok
  for encode :: "'s \<Rightarrow> string" and decode ok +
  fixes list_op :: "('w, 'r) lister_op"
    and out :: "'s \<Rightarrow> 'r list"
    and nxt :: "'s \<Rightarrow> 's option"
    and inv :: "'w \<Rightarrow> bool"
  assumes page: "inv w \<Longrightarrow> ok s \<Longrightarrow>
      \<exists>res w'. list_op (encode s) w = (Ret (out s, res, None), w') \<and> inv w' \<and>
        token_of res = (case nxt s of None \<Rightarrow> [] | Some s' \<Rightarrow> encode s')"
    and ok_next: "ok s \<Longrightarrow> nxt s = Some s' \<Longrightarrow> ok s'"
begin

lemma list_page_state:
  assumes "inv w" "ok s" "nxt s \<noteq> Some s"
  shows "\<exists>annos w'. inv w' \<and>
     list_page failed unchanged list_op (encode s) w =
       (Ret ((out s, case nxt s of None \<Rightarrow> [] | Some s' \<Rightarrow> encode s', annos), None), w')"
proof -
  obtain res w' where p: "list_op (encode s) w = (Ret (out s, res, None), w')" "inv w'"
    "token_of res = (case nxt s of None \<Rightarrow> [] | Some s' \<Rightarrow> encode s')"
    using page [OF assms(1,2)] by blast
  have "encode s \<noteq> [] \<and> encode s \<noteq> token_of res"
    using p(3) assms(2,3) ok_next [OF assms(2)] encode_nonempty [OF assms(2)]
    by (auto simp: encode_eq_iff split: option.split)
  then show ?thesis
    using p by (auto simp: list_page_def bindIO_def Let_def)
qed

lemma sync_walk:
  assumes "walk out nxt s rs" "inv w" "ok s"
  shows "\<exists>w'. sync_pages (list_page failed unchanged list_op) (encode s) acc w = Some (Ret (acc @ rs, None), w') \<and> inv w'"
  using assms
proof (induction arbitrary: acc w rule: walk.induct)
  case (last_page s)
  obtain annos w' where p: "inv w'"
    "list_page failed unchanged list_op (encode s) w = (Ret ((out s, [], annos), None), w')"
    using list_page_state [where failed = failed and unchanged = unchanged, OF last_page.prems] last_page.hyps by auto
  then show ?case by (subst sync_pages.simps) simp
next
  case (next_page s s' rs)
  have ok': "ok s'" using ok_next next_page by blast
  have "nxt s \<noteq> Some s"
    using walk.next_page [OF next_page.hyps] by (rule walk_no_loop)
  then obtain annos w' where p: "inv w'"
    "list_page failed unchanged list_op (encode s) w = (Ret ((out s, encode s', annos), None), w')"
    using list_page_state [where failed = failed and unchanged = unchanged, OF next_page.prems] next_page.hyps by auto
  show ?case
    using next_page.IH [OF p(1) ok', of "acc @ out s"] p encode_nonempty [OF ok']
    by (subst sync_pages.simps) simp
qed

end

lemma lister_bind:
  assumes "\<And>a w rs res e w'. f a w = (Ret (rs, res, Some e), w') \<Longrightarrow> rs = [] \<and> token_of res = []"
    and "bindIO m f w = (Ret (rs, res, Some e), w')"
  shows "rs = [] \<and> token_of res = []"
  using assms(2) by (auto simp: bindIO_def dest: assms(1) split: go.splits prod.splits)

lemma lister_deref:
  assumes "\<And>a w rs res e w'. f a w = (Ret (rs, res, Some e), w') \<Longrightarrow> rs = [] \<and> token_of res = []"
    and "deref p f w = (Ret (rs, res, Some e), w')"
  shows "rs = [] \<and> token_of res = []"
  using assms(2) by (auto simp: deref_def dest: assms(1) split: option.splits)

lemmas lister_splits = option.splits sum.splits prod.splits if_splits

end
