(* ===== verification/Faults.thy ===== *)
theory Faults
  imports Request Builder
begin

text \<open>
  A service behind an unreliable connection. A schedule has one entry for each request to come: the
  request is handled, or it is refused with a status outside 2xx, or it is handled but its answer is
  lost. \<open>follows\<close> relates a call over such a connection with the same call over a reliable one, and is
  proved of calls from their parts, in the manner of a refinement calculus: as long as every step passes
  its error on, so does the whole.
\<close>

section \<open>Schedules of faults\<close>

datatype fault = Refuse int string | Lose string

type_synonym schedule = "fault option list"

definition faulty :: "'s service \<Rightarrow> http_request \<Rightarrow> 's \<times> schedule \<Rightarrow> http_outcome \<times> 's \<times> schedule" where
  "faulty serve req w =
     (case w of (s, fs) \<Rightarrow> (case serve req s of (a, s') \<Rightarrow>
        (case fs of
           Some (Refuse code body) # fs' \<Rightarrow> (Received (canned_response (code, body)), s, fs')
         | Some (Lose msg) # fs' \<Rightarrow> (Failed None (ErrTransport msg), s', fs')
         | _ \<Rightarrow> (Received (canned_response a), s', tl fs))))"

definition faulty_client :: "url \<Rightarrow> 's service \<Rightarrow> ('s \<times> schedule) ConfluenceClient" where
  "faulty_client base serve =
     \<lparr>client_user = ''user'', client_apiKey = ''key'', client_apiBase = base,
      client_wrapper =
        \<lparr>http_Do = faulty serve, cache_Get = (\<lambda>_ w. (Inr None, w)), cache_Set = (\<lambda>_ _ w. w),
         time_Now = (\<lambda>_. 0), time_Parse = (\<lambda>_. None)\<rparr>\<rparr>"

fun refused_with :: "(int \<Rightarrow> bool) \<Rightarrow> fault \<Rightarrow> bool" where
  "refused_with P (Refuse code body) \<longleftrightarrow> P code"
| "refused_with P (Lose msg) \<longleftrightarrow> True"

text \<open>All refusals of the schedule have a status in \<open>P\<close>; no fault within the first \<open>k\<close> requests.\<close>

definition schedule_ok :: "(int \<Rightarrow> bool) \<Rightarrow> schedule \<Rightarrow> bool" where
  "schedule_ok P fs \<longleftrightarrow> list_all (pred_option (\<lambda>f. refused_with (\<lambda>code. \<not> is_2xx code \<and> P code) f)) fs"

definition quiet :: "nat \<Rightarrow> schedule \<Rightarrow> bool" where
  "quiet k fs \<longleftrightarrow> list_all (\<lambda>f. f = None) (take k fs)"

lemma schedule_ok_drop [simp]: "schedule_ok P fs \<Longrightarrow> schedule_ok P (drop k fs)"
  by (auto simp: schedule_ok_def list_all_iff dest: in_set_dropD)

lemma schedule_ok_Cons: "schedule_ok P (f # fs) \<longleftrightarrow>
    pred_option (refused_with (\<lambda>code. \<not> is_2xx code \<and> P code)) f \<and> schedule_ok P fs"
  by (simp add: schedule_ok_def)

lemma quiet_0 [simp]: "quiet 0 fs" and quiet_Nil [simp]: "quiet k []"
  by (simp_all add: quiet_def)

section \<open>One request\<close>

lemma faulty_client_simps [simp]:
  "client_apiBase (faulty_client base serve) = base"
  "client_user (faulty_client base serve) = ''user''"
  "client_apiKey (faulty_client base serve) = ''key''"
  by (simp_all add: faulty_client_def)

lemma prepare_faulty:
  "prepare_request (faulty_client base serve) u m b = prepare_request (server_client base serve) u m b"
  by (simp add: prepare_request_def)

lemma fetch_faulty:
  "fetch (client_wrapper (faulty_client base serve)) req w = faulty serve req w"
  by (simp add: fetch_def faulty_client_def)

text \<open>A quiet schedule: the request is the one of the reliable connection.\<close>

lemma faulty_wrapper_simps [simp]:
  "time_Now (client_wrapper (faulty_client base serve)) w = 0"
  "time_Parse (client_wrapper (faulty_client base serve)) = (\<lambda>_. None)"
  "cache_Set (client_wrapper (faulty_client base serve)) req r w = w"
  by (simp_all add: faulty_client_def)

lemma request_options_faulty:
  "request_options (faulty_client base serve) target = request_options (server_client base serve) target"
  by (simp add: request_options_def fun_eq_iff)

lemma faulty_quiet:
  assumes "quiet 1 fs" "serve req s = (a, s')"
  shows "faulty serve req (s, fs) = (Received (canned_response a), s', tl fs)"
  using assms by (cases fs) (auto simp: faulty_def quiet_def)

lemma Do_quiet:
  assumes "quiet 1 fs"
  shows "Do (client_wrapper (faulty_client base serve)) req opts v (s, fs) =
    (case Do (server_http serve) req opts v s of (x, s') \<Rightarrow> (x, s', tl fs))"
proof -
  obtain a s' where serve: "serve req s = (a, s')" by (cases "serve req s")
  note f = faulty_quiet [where serve = serve and req = req, OF assms serve]
  obtain v' es where run: "run_options (opts 0) (canned_response a) v = (v', es)"
    by (cases "run_options (opts 0) (canned_response a) v")
  show ?thesis
    by (simp add: Do_def fetch_faulty f fetch_server [of serve, OF serve] run)
qed

lemma makeRequest_quiet:
  assumes "prepare_request (server_client base serve) u m b = Inr req" "quiet 1 fs"
  shows "makeRequest (faulty_client base serve) u target v m b (s, fs) =
    (case makeRequest (server_client base serve) u target v m b s of (r, s') \<Rightarrow> (r, s', tl fs))"
  using assms(1)
  by (simp add: makeRequest_def prepare_faulty Do_quiet [OF assms(2)] request_options_faulty
      split: prod.split option.split)

lemma makeRequest_unsent:
  assumes "prepare_request (server_client base serve) u m b = Inl e"
  shows "makeRequest (faulty_client base serve) u target v m b w = (Ret (v, None, Some e), w)"
    "makeRequest (server_client base serve) u target v m b s = (Ret (v, None, Some e), s)"
  using assms by (simp_all add: makeRequest_def prepare_faulty)

lemma snd_makeRequest_faulty:
  assumes "prepare_request (server_client base serve) u m b = Inr req"
  shows "snd (makeRequest (faulty_client base serve) u target v m b w) = snd (faulty serve req w)"
  using assms
  by (auto simp: makeRequest_def prepare_faulty Do_def fetch_faulty split: prod.splits option.splits http_outcome.splits)

text \<open>A fault: the request fails, and a lost answer is that of a request that was handled.\<close>

lemma makeRequest_Refuse:
  assumes "prepare_request (server_client base serve) u m b = Inr req" "\<not> is_2xx code"
  shows "\<exists>v' rl e. makeRequest (faulty_client base serve) u target v m b (s, Some (Refuse code body) # fs)
      = (Ret (v', rl, Some e), s, fs) \<and> (is_not_found e \<longleftrightarrow> code = 404)"
proof -
  let ?c = "faulty_client base serve" and ?w = "(s, Some (Refuse code body) # fs)"
  let ?r = "canned_response (code, body)"
  have f: "fetch (client_wrapper ?c) req ?w = (Received ?r, s, fs)"
    by (simp add: fetch_faulty faulty_def split: prod.split)
  obtain rl v' es where run: "run_options (request_options ?c target (time_Now (client_wrapper ?c) (s, fs))) ?r
      (zero_RateLimit, v) = ((rl, v'), es)"
    by (metis prod.collapse)
  have p: "prepare_request ?c u m b = Inr req" and body: "resp_Body ?r = (body, None)"
    by (simp_all add: prepare_faulty assms(1))
  obtain w' where "makeRequest ?c u target v m b ?w =
      (Ret (v', if \<exists>q. answer_error u ?r body es = Some (ErrRequest q) then None else Some rl, answer_error u ?r body es), w')"
    using makeRequest_answer [OF p f body run] by blast
  moreover have "snd (makeRequest ?c u target v m b ?w) = (s, fs)"
    by (simp add: snd_makeRequest_faulty [OF assms(1)] faulty_def split: prod.split)
  moreover have "\<exists>e. answer_error u ?r body es = Some e \<and> (is_not_found e \<longleftrightarrow> code = 404)"
    using assms(2) by (auto simp: answer_error_def)
  ultimately show ?thesis by auto
qed

lemma makeRequest_Lose:
  assumes "prepare_request (server_client base serve) u m b = Inr req"
  shows "makeRequest (faulty_client base serve) u target v m b (s, Some (Lose msg) # fs)
      = (Ret (v, None, Some (ErrTransport msg)), snd (serve req s), fs)"
  using assms
  by (simp add: makeRequest_def prepare_faulty Do_def fetch_faulty faulty_def failed_request_def split: prod.split)

section \<open>Calls over a faulty connection\<close>

text \<open>
  On a schedule, the call \<open>m'\<close> over the faulty connection either meets no fault and does what \<open>m\<close>
  does, or it meets one and returns a result that is \<open>failed\<close>. It uses up \<open>k\<close> entries of the schedule.
\<close>

definition follows :: "(int \<Rightarrow> bool) \<Rightarrow> ('a \<Rightarrow> bool) \<Rightarrow> ('s \<times> schedule, 'a) io \<Rightarrow> ('s, 'a) io \<Rightarrow> bool" where
  "follows P failed m' m \<longleftrightarrow> (\<forall>s fs. schedule_ok P fs \<longrightarrow>
     (\<exists>k. quiet k fs \<and> m' (s, fs) = (case m s of (r, s') \<Rightarrow> (r, s', drop k fs))) \<or>
     (\<exists>k a s'. \<not> quiet k fs \<and> m' (s, fs) = (Ret a, s', drop k fs) \<and> failed a))"

definition failed_with :: "(int \<Rightarrow> bool) \<Rightarrow> go_error option \<Rightarrow> bool" where
  "failed_with P err \<longleftrightarrow> (\<exists>e. err = Some e \<and> (is_not_found e \<longrightarrow> P 404))"

text \<open>What follows an error only passes it on.\<close>

definition fails :: "('a \<Rightarrow> bool) \<Rightarrow> ('w, 'a) io \<Rightarrow> bool" where
  "fails failed m \<longleftrightarrow> (\<exists>a. m = ret a \<and> failed a)"

lemma fails_ret [simp]: "fails failed (ret a) \<longleftrightarrow> failed a"
  by (auto simp: fails_def ret_def fun_eq_iff)

named_theorems follows_intros \<open>calls over a faulty connection\<close>

lemma quiet_add_iff: "quiet (j + k) fs \<longleftrightarrow> quiet k fs \<and> quiet j (drop k fs)"
  by (simp add: quiet_def take_add add.commute [of j k])

lemma follows_cases:
  assumes "follows P failed m' m" "schedule_ok P fs"
  obtains (same) k r s' where "quiet k fs" "m s = (r, s')" "m' (s, fs) = (r, s', drop k fs)"
  | (fault) k a s' where "\<not> quiet k fs" "m' (s, fs) = (Ret a, s', drop k fs)" "failed a"
proof -
  from assms have "(\<exists>k. quiet k fs \<and> m' (s, fs) = (case m s of (r, s') \<Rightarrow> (r, s', drop k fs))) \<or>
      (\<exists>k a s'. \<not> quiet k fs \<and> m' (s, fs) = (Ret a, s', drop k fs) \<and> failed a)"
    unfolding follows_def by blast
  then show thesis using that by (cases "m s") auto
qed

lemma followsI:
  assumes "\<And>s fs. schedule_ok P fs \<Longrightarrow>
     (\<exists>k. quiet k fs \<and> m' (s, fs) = (case m s of (r, s') \<Rightarrow> (r, s', drop k fs))) \<or>
     (\<exists>k a s'. \<not> quiet k fs \<and> m' (s, fs) = (Ret a, s', drop k fs) \<and> failed a)"
  shows "follows P failed m' m"
  using assms unfolding follows_def by blast

lemma follows_ret [follows_intros]: "follows P failed (ret a) (ret a)"
  by (rule followsI) (auto intro!: exI [of _ 0])

lemma follows_panic [follows_intros]: "follows P failed (panic p) (panic p)"
  by (rule followsI) (auto intro!: exI [of _ 0])

lemma follows_bind:
  assumes "follows P F m' m" "\<And>a. follows P G (f' a) (f a)" "\<And>a. F a \<Longrightarrow> fails G (f' a)"
  shows "follows P G (bindIO m' f') (bindIO m f)"
proof (rule followsI)
  fix s fs assume ok: "schedule_ok P fs"
  let ?same = "\<lambda>k. quiet k fs \<and> bindIO m' f' (s, fs) = (case bindIO m f s of (r, s') \<Rightarrow> (r, s', drop k fs))"
  let ?fault = "\<lambda>k b s'. \<not> quiet k fs \<and> bindIO m' f' (s, fs) = (Ret b, s', drop k fs) \<and> G b"
  from assms(1) ok show "(\<exists>k. ?same k) \<or> (\<exists>k b s'. ?fault k b s')"
  proof (cases rule: follows_cases [where s = s])
    case (same k r s1)
    show ?thesis
    proof (cases r)
      case (Panic p)
      then show ?thesis using same by (auto simp: bindIO_apply intro!: exI [of _ k])
    next
      case (Ret a)
      from assms(2) [of a] ok have "schedule_ok P (drop k fs)" by simp
      with assms(2) [of a] show ?thesis
      proof (cases rule: follows_cases [where s = s1])
        case (same j r' s2)
        then have "?same (j + k)" using \<open>quiet k fs\<close> \<open>m s = (r, s1)\<close> \<open>m' (s, fs) = (r, s1, drop k fs)\<close> Ret
          by (simp add: bindIO_apply quiet_add_iff)
        then show ?thesis by blast
      next
        case (fault j b s2)
        then have "?fault (j + k) b s2" using \<open>m' (s, fs) = (r, s1, drop k fs)\<close> Ret
          by (simp add: bindIO_apply quiet_add_iff)
        then show ?thesis by blast
      qed
    qed
  next
    case (fault k a s1)
    obtain b where "f' a = ret b" "G b" using assms(3) fault(3) unfolding fails_def by blast
    then have "?fault k b s1" using fault by (simp add: bindIO_apply)
    then show ?thesis by blast
  qed
qed

lemma follows_deref:
  assumes "\<And>a. p = Some a \<Longrightarrow> follows P F (f' a) (f a)"
  shows "follows P F (deref p f') (deref p f)"
  using assms by (cases p) (simp_all add: follows_panic)

lemma follows_makeRequest [follows_intros]:
  "follows P (\<lambda>(_, _, err). failed_with P err)
     (makeRequest (faulty_client base serve) u target v m b) (makeRequest (server_client base serve) u target v m b)"
proof (rule followsI)
  fix s fs assume ok: "schedule_ok P fs"
  let ?m' = "makeRequest (faulty_client base serve) u target v m b (s, fs)"
  let ?m = "makeRequest (server_client base serve) u target v m b s"
  let ?same = "\<exists>k. quiet k fs \<and> ?m' = (case ?m of (r, s') \<Rightarrow> (r, s', drop k fs))"
  let ?fault = "\<exists>k a s'. \<not> quiet k fs \<and> ?m' = (Ret a, s', drop k fs) \<and> (case a of (_, _, err) \<Rightarrow> failed_with P err)"
  show "?same \<or> ?fault"
  proof (cases "prepare_request (server_client base serve) u m b")
    case (Inl e)
    then show ?thesis
      using makeRequest_unsent(1) [OF Inl, of target v "(s, fs)"] makeRequest_unsent(2) [OF Inl, of target v s]
      by (intro disjI1 exI [of _ 0]) simp
  next
    case (Inr req)
    show ?thesis
    proof (cases "quiet 1 fs")
      case True
      show ?thesis
        using makeRequest_quiet [OF Inr True, of target v s] True
        by (intro disjI1 exI [of _ 1]) (simp add: drop_Suc)
    next
      case False
      then obtain f fs' where fs: "fs = Some f # fs'"
        by (cases fs) (auto simp: quiet_def)
      show ?thesis
      proof (cases f)
        case (Refuse code body)
        then have "\<not> is_2xx code" "P code" using ok by (simp_all add: fs schedule_ok_Cons)
        then obtain v' rl e where r: "?m' = (Ret (v', rl, Some e), s, fs')" "is_not_found e \<longleftrightarrow> code = 404"
          using makeRequest_Refuse [OF Inr, of code target v s body fs'] by (auto simp: fs Refuse)
        then show ?thesis
          using False \<open>P code\<close> by (intro disjI2 exI [of _ 1]) (auto simp: fs failed_with_def)
      next
        case (Lose msg)
        then show ?thesis
          using False makeRequest_Lose [OF Inr, of target v s msg fs']
          by (intro disjI2 exI [of _ 1]) (auto simp: fs failed_with_def)
      qed
    qed
  qed
qed

lemma follows_get [follows_intros]:
  "follows P (\<lambda>(_, _, err). failed_with P err)
     (client_get (faulty_client base serve) u d v) (client_get (server_client base serve) u d v)"
  unfolding client_get_def by (rule follows_makeRequest)

text \<open>The cases of a call are those of both calls.\<close>

lemma follows_split [follows_intros]:
  "(\<And>a b. follows P F (f' a b) (f a b)) \<Longrightarrow> follows P F (case x of (a, b) \<Rightarrow> f' a b) (case x of (a, b) \<Rightarrow> f a b)"
  "(\<And>e. follows P F (g' e) (g e)) \<Longrightarrow> (\<And>a. follows P F (h' a) (h a)) \<Longrightarrow>
   follows P F (case y of Inl e \<Rightarrow> g' e | Inr a \<Rightarrow> h' a) (case y of Inl e \<Rightarrow> g e | Inr a \<Rightarrow> h a)"
  "follows P F m' m \<Longrightarrow> (\<And>a. follows P F (k' a) (k a)) \<Longrightarrow>
   follows P F (case z of None \<Rightarrow> m' | Some a \<Rightarrow> k' a) (case z of None \<Rightarrow> m | Some a \<Rightarrow> k a)"
  "follows P F m1' m1 \<Longrightarrow> follows P F m2' m2 \<Longrightarrow> follows P F (if b then m1' else m2') (if b then m1 else m2)"
  by (auto split: prod.split sum.split option.split)

lemma parse_faulty: "parse (faulty_client base serve) = parse (server_client base serve)"
  by (simp add: parse_def fun_eq_iff split: sum.split)

lemmas follows_rules = follows_intros follows_deref follows_get [THEN follows_bind] follows_makeRequest [THEN follows_bind]

section \<open>What a call changes\<close>

text \<open>
  Of the state of the service: calls that only read it, and calls whose change over the faulty connection
  is the one of the reliable connection or none at all.
\<close>

definition reads :: "('s \<times> schedule, 'a) io \<Rightarrow> ('s, 'a) io \<Rightarrow> bool" where
  "reads m' m \<longleftrightarrow> (\<forall>s fs. fst (snd (m' (s, fs))) = s \<and> snd (m s) = s)"

definition changes :: "(int \<Rightarrow> bool) \<Rightarrow> ('s \<times> schedule, 'a) io \<Rightarrow> ('s, 'a) io \<Rightarrow> bool" where
  "changes P m' m \<longleftrightarrow> (\<forall>s fs. schedule_ok P fs \<longrightarrow> fst (snd (m' (s, fs))) \<in> {s, snd (m s)})"

named_theorems effect_intros \<open>what a call reads and changes\<close>

lemma reads_ret [effect_intros]: "reads (ret a) (ret a)"
  and reads_panic [effect_intros]: "reads (panic p) (panic p)"
  and changes_ret [effect_intros]: "changes P (ret a) (ret a)"
  and changes_panic [effect_intros]: "changes P (panic p) (panic p)"
  by (simp_all add: reads_def changes_def)

lemma effect_split [effect_intros]:
  "(\<And>a b. reads (f' a b) (f a b)) \<Longrightarrow> reads (case x of (a, b) \<Rightarrow> f' a b) (case x of (a, b) \<Rightarrow> f a b)"
  "(\<And>e. reads (g' e) (g e)) \<Longrightarrow> (\<And>a. reads (h' a) (h a)) \<Longrightarrow>
   reads (case y of Inl e \<Rightarrow> g' e | Inr a \<Rightarrow> h' a) (case y of Inl e \<Rightarrow> g e | Inr a \<Rightarrow> h a)"
  "reads m' m \<Longrightarrow> (\<And>a. reads (k' a) (k a)) \<Longrightarrow>
   reads (case z of None \<Rightarrow> m' | Some a \<Rightarrow> k' a) (case z of None \<Rightarrow> m | Some a \<Rightarrow> k a)"
  "reads m1' m1 \<Longrightarrow> reads m2' m2 \<Longrightarrow> reads (if b then m1' else m2') (if b then m1 else m2)"
  "(\<And>a b. changes P (f' a b) (f a b)) \<Longrightarrow> changes P (case x of (a, b) \<Rightarrow> f' a b) (case x of (a, b) \<Rightarrow> f a b)"
  "(\<And>e. changes P (g' e) (g e)) \<Longrightarrow> (\<And>a. changes P (h' a) (h a)) \<Longrightarrow>
   changes P (case y of Inl e \<Rightarrow> g' e | Inr a \<Rightarrow> h' a) (case y of Inl e \<Rightarrow> g e | Inr a \<Rightarrow> h a)"
  "changes P m' m \<Longrightarrow> (\<And>a. changes P (k' a) (k a)) \<Longrightarrow>
   changes P (case z of None \<Rightarrow> m' | Some a \<Rightarrow> k' a) (case z of None \<Rightarrow> m | Some a \<Rightarrow> k a)"
  "changes P m1' m1 \<Longrightarrow> changes P m2' m2 \<Longrightarrow> changes P (if b then m1' else m2') (if b then m1 else m2)"
  by (auto split: prod.split sum.split option.split)

lemma effect_deref [effect_intros]:
  "(\<And>a. reads (f' a) (f a)) \<Longrightarrow> reads (deref p f') (deref p f)"
  "(\<And>a. changes P (f' a) (f a)) \<Longrightarrow> changes P (deref p f') (deref p f)"
  by (cases p; simp add: effect_intros)+

lemma reads_bind [effect_intros]:
  assumes "reads m' m" "\<And>a. reads (f' a) (f a)"
  shows "reads (bindIO m' f') (bindIO m f)"
  unfolding reads_def
proof (intro allI conjI)
  fix s fs
  obtain r fs' where m': "m' (s, fs) = (r, s, fs')" using assms(1) unfolding reads_def by (metis eq_fst_iff prod.collapse)
  show "fst (snd (bindIO m' f' (s, fs))) = s"
    using assms(2) by (cases r) (simp_all add: bindIO_apply m' reads_def)
  obtain r2 where "m s = (r2, s)" using assms(1) unfolding reads_def by (metis prod.collapse)
  then show "snd (bindIO m f s) = s" using assms(2) by (cases r2) (simp_all add: bindIO_apply reads_def)
qed

text \<open>A reading call before a change, and what only reports on a change.\<close>

lemma changes_bind:
  assumes "follows P F m' m" "reads m' m" "\<And>a. changes P (f' a) (f a)" "\<And>a. F a \<Longrightarrow> fails G (f' a)"
  shows "changes P (bindIO m' f') (bindIO m f)"
  unfolding changes_def
proof (intro allI impI)
  fix s fs assume ok: "schedule_ok P fs"
  from assms(1) ok show "fst (snd (bindIO m' f' (s, fs))) \<in> {s, snd (bindIO m f s)}"
  proof (cases rule: follows_cases [where s = s])
    case (same k r s')
    have "s' = s" using assms(2) same(2) unfolding reads_def by (metis snd_conv)
    then show ?thesis
      using same assms(3) ok by (cases r) (simp_all add: bindIO_apply changes_def)
  next
    case (fault k a s')
    have "s' = s" using assms(2) fault(2) unfolding reads_def by (metis fst_conv snd_conv)
    moreover obtain b where "f' a = ret b" using assms(4) fault(3) unfolding fails_def by blast
    ultimately show ?thesis using fault(2) by (simp add: bindIO_apply)
  qed
qed

lemma changes_report:
  assumes "changes P m' m" "\<And>a w. snd (f' a w) = w" "\<And>a s. snd (f a s) = s"
  shows "changes P (bindIO m' f') (bindIO m f)"
  unfolding changes_def
proof (intro allI impI)
  fix s fs assume "schedule_ok P fs"
  have "snd (bindIO m' f' (s, fs)) = snd (m' (s, fs))" "snd (bindIO m f s) = snd (m s)"
    using assms(2,3) by (simp_all add: bindIO_apply split: prod.split go.split)
  then show "fst (snd (bindIO m' f' (s, fs))) \<in> {s, snd (bindIO m f s)}"
    using assms(1) \<open>schedule_ok P fs\<close> by (simp add: changes_def)
qed

lemma snd_makeRequest_server:
  assumes "prepare_request (server_client base serve) u m b = Inr req"
  shows "snd (makeRequest (server_client base serve) u target v m b s) = snd (serve req s)"
proof -
  obtain a s' where "serve req s = (a, s')" by (cases "serve req s")
  then show ?thesis
    using assms fetch_server [of serve req s a s']
    by (auto simp: makeRequest_def Do_def split: prod.splits option.splits)
qed

lemma changes_makeRequest [effect_intros]:
  "changes P (makeRequest (faulty_client base serve) u target v m b) (makeRequest (server_client base serve) u target v m b)"
  unfolding changes_def
proof (intro allI impI)
  fix s fs assume "schedule_ok P fs"
  show "fst (snd (makeRequest (faulty_client base serve) u target v m b (s, fs)))
      \<in> {s, snd (makeRequest (server_client base serve) u target v m b s)}"
  proof (cases "prepare_request (server_client base serve) u m b")
    case (Inl e)
    then show ?thesis using makeRequest_unsent(1) [OF Inl, of target v "(s, fs)"] by simp
  next
    case (Inr req)
    then show ?thesis
      by (auto simp: snd_makeRequest_faulty snd_makeRequest_server faulty_def split: prod.splits list.splits option.splits fault.splits)
  qed
qed

text \<open>A service whose state no GET changes.\<close>

definition safe_gets :: "'s service \<Rightarrow> bool" where
  "safe_gets serve \<longleftrightarrow> (\<forall>req s. req_Method req = GET \<longrightarrow> snd (serve req s) = s)"

lemma reads_get [effect_intros]:
  assumes "safe_gets serve"
  shows "reads (client_get (faulty_client base serve) u d v) (client_get (server_client base serve) u d v)"
  unfolding reads_def client_get_def
proof (intro allI)
  fix s fs
  show "fst (snd (makeRequest (faulty_client base serve) u (Some d) v GET None (s, fs))) = s \<and>
      snd (makeRequest (server_client base serve) u (Some d) v GET None s) = s"
  proof (cases "prepare_request (server_client base serve) u GET None")
    case (Inl e)
    then show ?thesis
      using makeRequest_unsent(1) [OF Inl, of "Some d" v "(s, fs)"] makeRequest_unsent(2) [OF Inl, of "Some d" v s] by simp
  next
    case (Inr req)
    then have "snd (serve req s) = s"
      by (intro assms [unfolded safe_gets_def, rule_format]) (auto simp: prepare_request_def NewRequest_def split: sum.splits)
    then show ?thesis
      using Inr by (auto simp: snd_makeRequest_faulty snd_makeRequest_server faulty_def
          split: prod.splits list.splits option.splits fault.splits)
  qed
qed

lemma reading_call:
  assumes "follows P F m' m" "reads m' m" "schedule_ok P fs" "m S = (Ret a, S)"
  shows "\<exists>a' fs'. m' (S, fs) = (Ret a', S, fs') \<and> schedule_ok P fs' \<and> (a' = a \<or> F a')"
  using assms(1,3)
proof (cases rule: follows_cases [where s = S])
  case (same k r s')
  then show ?thesis using assms(3,4) by (intro exI [of _ a] exI [of _ "drop k fs"]) simp
next
  case (fault k b s')
  have "s' = S" using assms(2) fault(2) unfolding reads_def by (metis fst_conv snd_conv)
  then show ?thesis using fault assms(3) by (intro exI [of _ b] exI [of _ "drop k fs"]) simp
qed

end
