(* ===== verification/ClientUsers.thy ===== *)
theory ClientUsers
  imports Request
begin

text \<open>
  The operations of \<open>pkg/connector/client/confluence.go\<close> on credentials, groups and users: building
  a client, checking its credentials, and the paged v1 endpoints.

  Every operation returns what the Go function returns: the values, the rate-limit description and
  the error. A pointer that the response is decoded into starts as nil and stays nil when the body
  is the document \<open>null\<close>; using it then panics, as \<^const>\<open>deref\<close> does.
\<close>

section \<open>Building a client\<close>

definition fallBackToHTTPS :: "string \<Rightarrow> url_error + url" where
  "fallBackToHTTPS domain =
     (case url_Parse domain of
        Inl e \<Rightarrow> Inl e
      | Inr parsed \<Rightarrow> if Scheme parsed = [] then url_Parse (''https://'' @ domain) else Inr parsed)"

text \<open>\<open>httpClient\<close> is what \<open>uhttp.NewClient\<close> gives, wrapped by \<open>NewBaseHttpClient\<close>.\<close>

definition NewConfluenceClient :: "go_error + 'w BaseHttpClient \<Rightarrow> string \<Rightarrow> string \<Rightarrow> string \<Rightarrow>
    go_error + 'w ConfluenceClient" where
  "NewConfluenceClient httpClient user apiKey domain =
     (case fallBackToHTTPS domain of
        Inl e \<Rightarrow> Inl (ErrUrl e)
      | Inr apiBase \<Rightarrow>
          (case httpClient of
             Inl e \<Rightarrow> Inl e
           | Inr wrapper \<Rightarrow>
               Inr \<lparr>client_user = user, client_apiKey = apiKey, client_apiBase = apiBase,
                    client_wrapper = wrapper\<rparr>))"

section \<open>Checking the credentials\<close>

definition Verify :: "'w ConfluenceClient \<Rightarrow> ('w, go_error option) io" where
  "Verify c =
     (case parse c CurrentUserUrlPath [] of
        Inl e \<Rightarrow> ret (Some e)
      | Inr currentUserUrl \<Rightarrow>
          bindIO (client_get c currentUserUrl (dec_ptr zero_User dec_User) None)
            (\<lambda>(response, _, err).
               case err of
                 Some e \<Rightarrow> ret (Some e)
               | None \<Rightarrow> deref response (\<lambda>user.
                   if usr_AccountId user = [] then ret (Some (ErrText ''failed to find new user''))
                   else ret None)))"

section \<open>Offsets\<close>

definition isThereAnotherPage :: "ConfluenceLink \<Rightarrow> bool" where
  "isThereAnotherPage links \<longleftrightarrow> link_Next links \<noteq> []"

definition strToInt :: "string \<Rightarrow> goint" where
  "strToInt s = (case atoi s of None \<Rightarrow> 0 | Some i \<Rightarrow> i)"

definition incToken :: "string \<Rightarrow> goint \<Rightarrow> string" where
  "incToken pageToken n =
     (let token = strToInt pageToken + n in if token = 0 then [] else itoa token)"

text \<open>\<open>len\<close> of a slice, as an \<open>int\<close>.\<close>

definition go_len :: "'a list \<Rightarrow> goint" where "go_len xs = of_nat (length xs)"

section \<open>Groups and their members\<close>

definition GetGroups :: "'w ConfluenceClient \<Rightarrow> string \<Rightarrow> goint \<Rightarrow>
    ('w, ConfluenceGroup list \<times> string \<times> RateLimitDescription option \<times> go_error option) io" where
  "GetGroups c pageToken pageSize =
     (case parse c GroupsListUrlPath [withLimitAndOffset pageToken pageSize] of
        Inl e \<Rightarrow> ret ([], [], None, Some e)
      | Inr groupsUrl \<Rightarrow>
          bindIO (client_get c groupsUrl (dec_ptr zero_GroupList dec_GroupList) None)
            (\<lambda>(response, ratelimitData, err).
               case err of
                 Some e \<Rightarrow> ret ([], [], ratelimitData, Some e)
               | None \<Rightarrow> deref response (\<lambda>r.
                   let groups = gl_Results r in
                   if \<not> isThereAnotherPage (gl_Links r) then ret (groups, [], ratelimitData, None)
                   else ret (groups, incToken pageToken (go_len groups), ratelimitData, None))))"

definition GetGroupMembers :: "'w ConfluenceClient \<Rightarrow> string \<Rightarrow> goint \<Rightarrow> string \<Rightarrow>
    ('w, ConfluenceUser list \<times> string \<times> RateLimitDescription option \<times> go_error option) io" where
  "GetGroupMembers c pageToken pageSize groupId =
     (case parse c (getUsersByGroupIdUrlPath groupId)
             [withLimitAndOffset pageToken pageSize,
              withQueryParameters [(''expand'', QString ''operations'')]] of
        Inl e \<Rightarrow> ret ([], [], None, Some e)
      | Inr getUsersUrl \<Rightarrow>
          bindIO (client_get c getUsersUrl (dec_ptr zero_UserList dec_UserList) None)
            (\<lambda>(response, ratelimitData, err).
               case err of
                 Some e \<Rightarrow> ret ([], [], ratelimitData, Some e)
               | None \<Rightarrow> deref response (\<lambda>r.
                   let users = ul_Results r in
                   if \<not> isThereAnotherPage (ul_Links r) then ret (users, [], ratelimitData, None)
                   else ret (users, incToken pageToken (go_len users), ratelimitData, None))))"

text \<open>No target: the body of the answer is not decoded, and the target variable is \<open>()\<close>.\<close>

definition AddUserToGroup :: "'w ConfluenceClient \<Rightarrow> string \<Rightarrow> string \<Rightarrow>
    ('w, RateLimitDescription option \<times> go_error option) io" where
  "AddUserToGroup c accountID groupId =
     (case parse c groupBaseUrlPath [withQueryParameters [(''groupId'', QString groupId)]] of
        Inl e \<Rightarrow> ret (None, Some e)
      | Inr getUsersUrl \<Rightarrow>
          (let body = json_print (json_AddUserToGroup \<lparr>ab_AccountId = accountID\<rparr>)
           in bindIO (client_post c getUsersUrl None () body)
                (\<lambda>(_, ratelimitData, err). ret (ratelimitData, err))))"

definition RemoveUserFromGroup :: "'w ConfluenceClient \<Rightarrow> string \<Rightarrow> string \<Rightarrow>
    ('w, RateLimitDescription option \<times> go_error option) io" where
  "RemoveUserFromGroup c accountID groupId =
     (case parse c groupBaseUrlPath
             [withQueryParameters [(''groupId'', QString groupId), (''accountId'', QString accountID)]] of
        Inl e \<Rightarrow> ret (None, Some e)
      | Inr getUsersUrl \<Rightarrow>
          bindIO (client_delete c getUsersUrl None ())
            (\<lambda>(_, ratelimitData, err). ret (ratelimitData, err)))"

section \<open>Users by search\<close>

definition GetUsersFromSearch :: "'w ConfluenceClient \<Rightarrow> string \<Rightarrow> goint \<Rightarrow>
    ('w, ConfluenceUser list \<times> string \<times> RateLimitDescription option \<times> go_error option) io" where
  "GetUsersFromSearch c pageToken pageSize =
     (case parse c SearchUrlPath
             [withLimitAndOffset pageToken pageSize,
              withQueryParameters [(''cql'', QString ''type=user''), (''expand'', QString ''operations'')]] of
        Inl e \<Rightarrow> ret ([], [], None, Some e)
      | Inr getUsersUrl \<Rightarrow>
          bindIO (client_get c getUsersUrl (dec_ptr zero_SearchList dec_SearchList) None)
            (\<lambda>(response, ratelimitData, err).
               case err of
                 Some e \<Rightarrow> ret ([], [], ratelimitData, Some e)
               | None \<Rightarrow> deref response (\<lambda>r.
                   let users = map cs_User (sl_Results r) in
                   if go_len users <s pageSize then ret (users, [], ratelimitData, None)
                   else ret (users, incToken pageToken (go_len users), ratelimitData, None))))"

section \<open>The address of the instance\<close>

definition plain_domain :: "string \<Rightarrow> bool" where
  "plain_domain d \<longleftrightarrow> d \<noteq> [] \<and> list_all host_char d"

definition https_base :: "string \<Rightarrow> url" where
  "https_base d = empty_url\<lparr>Scheme := ''https'', Host := d\<rparr>"

lemma https_base_ok: "plain_domain d \<Longrightarrow> base_ok (https_base d)"
  by (simp add: base_ok_def https_base_def plain_domain_def empty_url_def is_lower_def)

lemma host_char_literal: "host_char c \<Longrightarrow> literal_char c"
  by (auto simp: host_char_def literal_char_def)

lemma shouldEscape_path_host: "host_char c \<Longrightarrow> \<not> shouldEscape c EncodePath"
  by (auto simp: host_char_def shouldEscape_def)

lemma scan_scheme_host: "list_all host_char d \<Longrightarrow> scan_scheme b d = Inr None"
  by (induction d arbitrary: b) auto

lemma parse_plain_domain:
  assumes "plain_domain d"
  shows "url_Parse d = Inr (empty_url\<lparr>Path := d\<rparr>)"
proof -
  have d: "d \<noteq> []" "list_all host_char d" using assms by (simp_all add: plain_domain_def)
  have no: "c \<notin> set d" if "\<not> host_char c" for c
    using d(2) that by (auto simp: list_all_iff)
  have "\<not> list_ex is_ctl d"
    using d(2) host_char_not_ctl by (auto simp: list_all_iff list_ex_iff)
  moreover have "d \<noteq> ''*''" using no [of "CHR ''*''"] by (auto simp: host_char_def is_alnum_def
        is_lower_def is_upper_def is_digit_def)
  moreover have "split_query d = (d, [], False)"
    using split_query_suffix [of d "[]"] no [of "CHR ''?''"] by (simp add: query_suffix_def)
  moreover have "\<not> prefix ''/'' d" using no [of "CHR ''/''"] by (auto simp: prefix_def)
  moreover have "CHR '':'' \<notin> set (fst (cut (CHR ''/'') d))"
    using no [of "CHR '':''"] no [of "CHR ''/''"] by (simp add: cut_no_sep)
  moreover have "parse_authority_path d empty_url = Inr (empty_url\<lparr>Path := d\<rparr>)"
  proof -
    have "\<not> prefix ''//'' d" using no [of "CHR ''/''"] by (auto simp: prefix_def)
    moreover have "escape EncodePath d = d"
      using d(2) by (induction d) (simp_all add: escape_def escape_char_def shouldEscape_path_host)
    ultimately show ?thesis
      using unescape_literal [of d] d host_char_literal \<open>\<not> prefix ''/'' d\<close>
      by (simp add: parse_authority_path_def setPath_def empty_url_def list_all_iff)
  qed
  ultimately show ?thesis
    using no [of "CHR ''#''"]
    by (simp add: url_Parse_def cut_no_sep parse_no_fragment_def getScheme_def scan_scheme_host [OF d(2)]
        Let_def empty_url_def to_lower_def)
qed

lemma parse_https_domain:
  assumes "plain_domain d"
  shows "url_Parse (''https://'' @ d) = Inr (https_base d)"
proof -
  have d: "d \<noteq> []" "list_all host_char d" using assms by (simp_all add: plain_domain_def)
  have no: "c \<notin> set d" if "\<not> host_char c" for c
    using d(2) that by (auto simp: list_all_iff)
  let ?rest = "''//'' @ d"
  have "\<not> list_ex is_ctl (''https://'' @ d)"
    using d(2) host_char_not_ctl by (auto simp: list_all_iff list_ex_iff) (auto simp: is_ctl_def)
  moreover have "split_query ?rest = (?rest, [], False)"
    using split_query_suffix [of ?rest "[]"] no [of "CHR ''?''"] by (simp add: query_suffix_def)
  moreover have "getScheme (''https'' @ CHR '':'' # ?rest) = Inr (''https'', ?rest)"
    by (rule getScheme_scheme) (simp_all add: is_lower_def)
  moreover have "parse_authority_path ?rest (empty_url\<lparr>Scheme := ''https''\<rparr>) = Inr (https_base d)"
    using parseAuthority_host [OF d(2)] no [of "CHR ''/''"]
    by (simp add: parse_authority_path_def cut_no_sep setPath_def https_base_def empty_url_def escape_def)
  moreover have "to_lower ''https'' = ''https''" by code_simp
  ultimately show ?thesis
    using no [of "CHR ''#''"]
    by (simp add: url_Parse_def cut_no_sep parse_no_fragment_def Let_def empty_url_def)
qed

lemma fallBackToHTTPS_plain:
  assumes "plain_domain d"
  shows "fallBackToHTTPS d = Inr (https_base d) \<and> fallBackToHTTPS (''https://'' @ d) = Inr (https_base d) \<and>
    base_ok (https_base d)"
  using parse_plain_domain [OF assms] parse_https_domain [OF assms] https_base_ok [OF assms]
  by (simp add: fallBackToHTTPS_def) (simp add: empty_url_def https_base_def)

lemma fallBackToHTTPS_port:
  "fallBackToHTTPS ''localhost:8443'' = Inr (empty_url\<lparr>Scheme := ''localhost'', Opaque := ''8443''\<rparr>)"
  by code_simp

section \<open>Offsets go forward\<close>

lemma strToInt_itoa [simp]: "strToInt (itoa x) = x"
  by (simp add: strToInt_def)

lemma strToInt_zero [simp]: "strToInt [] = 0" "strToInt ''0'' = 0"
  by (simp add: strToInt_def atoi_def parse_int_def) code_simp

text \<open>
  C39. incToken adds the count to the offset a token stands for, and the new token reads back as that sum,
  as long as the sum fits in 64 bits; the token is empty, which ends a listing, exactly when the sum
  is zero.
\<close>

theorem incToken_advances:
  assumes "in_int64 (sint (strToInt tok) + sint n)"
  shows "sint (strToInt (incToken tok n)) = sint (strToInt tok) + sint n \<and>
    (incToken tok n = [] \<longleftrightarrow> sint (strToInt tok) + sint n = 0)"
proof -
  have s: "sint (strToInt tok + n) = sint (strToInt tok) + sint n"
    using sint_of_int_in_int64 [OF assms] by (simp flip: wi_hom_add)
  then have "strToInt tok + n = 0 \<longleftrightarrow> sint (strToInt tok) + sint n = 0"
    by (metis signed_0 signed_eq_0_iff)
  with s show ?thesis
    by (auto simp: incToken_def Let_def)
qed

lemma incToken_advances_witness:
  "sint (strToInt (incToken ''200'' 50)) = 250 \<and> incToken ''200'' 50 \<noteq> []"
proof -
  have s: "strToInt ''200'' = 200" by code_simp
  show ?thesis using incToken_advances [of "''200''" 50] unfolding s
    by (simp add: in_int64_def min_int64_def max_int64_def)
qed

lemma incToken_wraps:
  "incToken (itoa (word_of_int max_int64)) 1 = itoa (word_of_int min_int64)"
proof -
  have "word_of_int max_int64 + 1 = (word_of_int min_int64 :: goint)" "word_of_int min_int64 \<noteq> (0 :: goint)"
    by (simp_all add: max_int64_def min_int64_def)
  then show ?thesis by (simp add: incToken_def Let_def)
qed

section \<open>Who is asked\<close>

definition current_user_segs :: "string list" where
  "current_user_segs = [''wiki'', ''rest'', ''api'', ''user'', ''current'']"

definition current_user_url :: "url \<Rightarrow> url" where
  "current_user_url base = endpoint_url base current_user_segs CurrentUserUrlPath []"

lemma parse_current_user: "parse c CurrentUserUrlPath [] = Inr (current_user_url (client_apiBase c))"
proof -
  have "good_segments current_user_segs"
    by (simp add: good_segments_def current_user_segs_def good_segment_def seg_char_def is_alnum_def
        is_lower_def is_upper_def is_digit_def)
  moreover have "path_of current_user_segs = CurrentUserUrlPath"
    by (simp add: current_user_segs_def CurrentUserUrlPath_def)
  moreover have "unescape EncodePath CurrentUserUrlPath = Inr CurrentUserUrlPath"
    by (rule unescape_literal) (simp add: CurrentUserUrlPath_def literal_char_def is_alnum_def is_lower_def
        is_upper_def is_digit_def)
  ultimately show ?thesis
    using parse_endpoint_url [of current_user_segs CurrentUserUrlPath "[]" c]
    by (simp add: current_user_url_def)
qed

lemma Verify_accepts:
  "Verify c w = (Ret None, w') \<longleftrightarrow>
     (\<exists>user rl. client_get c (current_user_url (client_apiBase c)) (dec_ptr zero_User dec_User) None w
        = (Ret (Some user, rl, None), w') \<and> usr_AccountId user \<noteq> [])"
  by (auto simp: Verify_def parse_current_user bindIO_def deref_def
      split: go.splits prod.splits option.splits if_splits)

end
