(* ===== verification/ClientSpaces.thy ===== *)
theory ClientSpaces
  imports ClientUsers
begin

text \<open>
  The operations of \<open>pkg/connector/client/confluence.go\<close> on spaces and their permissions: the
  cursor-paged v2 endpoints, and adding and removing one permission.
\<close>

definition maxResults :: goint where "maxResults = 250"

text \<open>A next link that cannot be parsed, or that has no cursor, ends the listing.\<close>

definition extractPaginationCursor :: "ConfluenceLink \<Rightarrow> string" where
  "extractPaginationCursor links =
     (case url_Parse (link_Next links) of
        Inl e \<Rightarrow> []
      | Inr parsedUrl \<Rightarrow> values_get (url_Query parsedUrl) ''cursor'')"

definition GetSpaces :: "'w ConfluenceClient \<Rightarrow> goint \<Rightarrow> string \<Rightarrow>
    ('w, ConfluenceSpace list \<times> string \<times> RateLimitDescription option \<times> go_error option) io" where
  "GetSpaces c pageSize paginationCursor =
     (case parse c SpacesListUrlPath [withPaginationCursor pageSize paginationCursor] of
        Inl e \<Rightarrow> ret ([], [], None, Some e)
      | Inr spacesListUrl \<Rightarrow>
          bindIO (client_get c spacesListUrl (dec_ptr zero_SpaceList dec_SpaceList) None)
            (\<lambda>(response, ratelimitData, err).
               case err of
                 Some e \<Rightarrow> ret ([], [], ratelimitData, Some e)
               | None \<Rightarrow> deref response (\<lambda>r.
                   ret (spl_Results r, extractPaginationCursor (spl_Links r), ratelimitData, None))))"

definition ConfluenceSpaceOperations :: "'w ConfluenceClient \<Rightarrow> string \<Rightarrow> goint \<Rightarrow> string \<Rightarrow>
    ('w, ConfluenceSpaceOperation list \<times> string \<times> RateLimitDescription option \<times> go_error option) io"
where
  "ConfluenceSpaceOperations c cursor pageSize spaceId =
     (case parse c (spacesGetUrlPath spaceId)
             [withQueryParameters [(''include-operations'', QBool True)],
              withPaginationCursor pageSize cursor] of
        Inl e \<Rightarrow> ret ([], [], None, Some e)
      | Inr spaceUrl \<Rightarrow>
          bindIO (client_get c spaceUrl (dec_ptr zero_Space dec_Space) None)
            (\<lambda>(response, ratelimitData, err).
               case err of
                 Some e \<Rightarrow> ret ([], [], ratelimitData, Some e)
               | None \<Rightarrow> deref response (\<lambda>r.
                   let ops = sp_Operations r;
                       nextToken = (if meta_HasMore (sor_Meta ops) then meta_Cursor (sor_Meta ops) else [])
                   in ret (sor_Results ops, nextToken, ratelimitData, None))))"

definition GetSpacePermissions :: "'w ConfluenceClient \<Rightarrow> string \<Rightarrow> goint \<Rightarrow> string \<Rightarrow>
    ('w, ConfluenceSpacePermission list \<times> string \<times> RateLimitDescription option \<times> go_error option) io"
where
  "GetSpacePermissions c pageToken pageSize spaceId =
     (case parse c (SpacePermissionsListUrlPath spaceId) [withPaginationCursor pageSize pageToken] of
        Inl e \<Rightarrow> ret ([], [], None, Some e)
      | Inr spacePermissionsListUrl \<Rightarrow>
          bindIO (client_get c spacePermissionsListUrl
                    (dec_ptr zero_PermissionResponse dec_PermissionResponse) None)
            (\<lambda>(response, ratelimitData, err).
               case err of
                 Some e \<Rightarrow> ret ([], [], ratelimitData, Some e)
               | None \<Rightarrow> deref response (\<lambda>r.
                   ret (spr_Results r, extractPaginationCursor (spr_Links r), ratelimitData, None))))"

definition getSubjectTypeFromPrincipalType :: "string \<Rightarrow> go_error + string" where
  "getSubjectTypeFromPrincipalType principalType =
     (if principalType = ''user'' then Inr ''user''
      else if principalType = ''group'' then Inr ''group''
      else Inl (ErrText (''principal type '' @ single_quoted principalType @ '' is not supported'')))"

text \<open>The answer is decoded into a variable of type \<open>bool\<close>.\<close>

definition AddSpacePermission :: "'w ConfluenceClient \<Rightarrow> string \<Rightarrow> string \<Rightarrow> string \<Rightarrow> string \<Rightarrow> string \<Rightarrow>
    ('w, RateLimitDescription option \<times> go_error option) io" where
  "AddSpacePermission c spaceName key target principalId principalType =
     (case parse c (spacePermissionsCreateUrlPath spaceName) [] of
        Inl e \<Rightarrow> ret (None, Some e)
      | Inr spacePermissionsListUrl \<Rightarrow>
          (case getSubjectTypeFromPrincipalType principalType of
             Inl e \<Rightarrow> ret (None, Some e)
           | Inr subjectType \<Rightarrow>
               (let body = json_print (json_CreateSpacePermission
                      \<lparr>cb_Subject = \<lparr>subj_Type = subjectType, subj_Identifier = principalId\<rparr>,
                       cb_Operation = \<lparr>spo_Key = key, spo_Target = target\<rparr>\<rparr>)
                in bindIO (client_post c spacePermissionsListUrl (Some dec_bool) False body)
                     (\<lambda>(_, ratelimitData, err). ret (ratelimitData, err)))))"

section \<open>Finding a permission\<close>

definition permission_matches :: "string \<Rightarrow> string \<Rightarrow> string \<Rightarrow> string \<Rightarrow> ConfluenceSpacePermission \<Rightarrow> bool"
where
  "permission_matches key target principalId principalType p \<longleftrightarrow>
     pp_Id (perm_Principal p) = principalId \<and> pp_Type (perm_Principal p) = principalType \<and>
     po_Key (perm_Operation p) = key \<and> po_TargetType (perm_Operation p) = target"

text \<open>
  One turn of the loop of \<open>findSpacePermission\<close>: the function's result, or the cursor to go on with.
\<close>

definition findSpacePermission_page :: "'w ConfluenceClient \<Rightarrow> string \<Rightarrow>
    (ConfluenceSpacePermission \<Rightarrow> bool) \<Rightarrow> string \<Rightarrow>
    ('w, (ConfluenceSpacePermission option \<times> RateLimitDescription option \<times> go_error option) + string) io"
where
  "findSpacePermission_page c spaceId matches cursor =
     (case parse c (SpacePermissionsListUrlPath spaceId) [withPaginationCursor maxResults cursor] of
        Inl e \<Rightarrow> ret (Inl (None, None, Some e))
      | Inr listPermissionsUrl \<Rightarrow>
          bindIO (client_get c listPermissionsUrl
                    (dec_ptr zero_PermissionResponse dec_PermissionResponse) None)
            (\<lambda>(response, ratelimitData, err).
               case err of
                 Some e \<Rightarrow> ret (Inl (None, ratelimitData, Some e))
               | None \<Rightarrow> deref response (\<lambda>r.
                   case find matches (spr_Results r) of
                     Some permission \<Rightarrow> ret (Inl (Some permission, ratelimitData, None))
                   | None \<Rightarrow>
                       (let cursor' = extractPaginationCursor (spr_Links r)
                        in if cursor' = []
                           then ret (Inl (None, None, Some (ErrText ''space permission not found'')))
                           else ret (Inr cursor')))))"

text \<open>
  The loop ends only when the server stops giving cursors: a server that never does keeps it
  running, which is the value \<^const>\<open>None\<close> of the partial function.
\<close>

partial_function (option) findSpacePermission_loop :: "'w ConfluenceClient \<Rightarrow> string \<Rightarrow>
    (ConfluenceSpacePermission \<Rightarrow> bool) \<Rightarrow> string \<Rightarrow> 'w \<Rightarrow>
    ((ConfluenceSpacePermission option \<times> RateLimitDescription option \<times> go_error option) go \<times> 'w) option"
where
  "findSpacePermission_loop c spaceId matches cursor w =
     (case findSpacePermission_page c spaceId matches cursor w of
        (Panic p, w') \<Rightarrow> Some (Panic p, w')
      | (Ret (Inl r), w') \<Rightarrow> Some (Ret r, w')
      | (Ret (Inr cursor'), w') \<Rightarrow> findSpacePermission_loop c spaceId matches cursor' w')"

definition findSpacePermission :: "'w ConfluenceClient \<Rightarrow> string \<Rightarrow> string \<Rightarrow> string \<Rightarrow> string \<Rightarrow> string \<Rightarrow>
    'w \<Rightarrow>
    ((ConfluenceSpacePermission option \<times> RateLimitDescription option \<times> go_error option) go \<times> 'w) option"
where
  "findSpacePermission c spaceId key target principalId principalType =
     findSpacePermission_loop c spaceId (permission_matches key target principalId principalType) []"

section \<open>One space\<close>

definition findSpace :: "'w ConfluenceClient \<Rightarrow> string \<Rightarrow>
    ('w, ConfluenceSpace option \<times> RateLimitDescription option \<times> go_error option) io" where
  "findSpace c spaceId =
     (case parse c (spacesGetUrlPath spaceId) [] of
        Inl e \<Rightarrow> ret (None, None, Some e)
      | Inr getSpaceUrl \<Rightarrow>
          bindIO (client_get c getSpaceUrl (dec_ptr zero_Space dec_Space) None)
            (\<lambda>(response, ratelimitData, err).
               case err of
                 Some e \<Rightarrow> ret (None, ratelimitData, Some e)
               | None \<Rightarrow> ret (response, ratelimitData, None)))"

definition GetSpaceById :: "'w ConfluenceClient \<Rightarrow> string \<Rightarrow>
    ('w, ConfluenceSpace option \<times> RateLimitDescription option \<times> go_error option) io" where
  "GetSpaceById c spaceId =
     (case parse c (spacesGetUrlPath spaceId) [] of
        Inl e \<Rightarrow> ret (None, None, Some e)
      | Inr spaceUrl \<Rightarrow>
          bindIO (client_get c spaceUrl dec_Space zero_Space)
            (\<lambda>(response, ratelimitData, err).
               case err of
                 Some e \<Rightarrow> ret (None, ratelimitData, Some e)
               | None \<Rightarrow> ret (Some response, ratelimitData, None)))"

section \<open>Removing a permission\<close>

text \<open>What follows the search, given the permission it found.\<close>

definition deleteSpacePermission :: "'w ConfluenceClient \<Rightarrow> string \<Rightarrow> ConfluenceSpacePermission option \<Rightarrow>
    ('w, RateLimitDescription option \<times> go_error option) io" where
  "deleteSpacePermission c spaceId permission =
     bindIO (findSpace c spaceId)
       (\<lambda>(space, ratelimitData, err).
          case err of
            Some e \<Rightarrow> ret (ratelimitData, Some e)
          | None \<Rightarrow> deref space (\<lambda>s. deref permission (\<lambda>p.
              case parse c (spacePermissionsUpdateUrlPath (sp_Key s) (perm_Id p)) [] of
                Inl e \<Rightarrow> ret (None, Some e)
              | Inr deletePermissionUrl \<Rightarrow>
                  bindIO (client_delete c deletePermissionUrl (Some dec_bool) False)
                    (\<lambda>(_, ratelimitData', err'). ret (ratelimitData', err')))))"

definition RemoveSpacePermission :: "'w ConfluenceClient \<Rightarrow> string \<Rightarrow> string \<Rightarrow> string \<Rightarrow> string \<Rightarrow> string \<Rightarrow>
    'w \<Rightarrow> ((RateLimitDescription option \<times> go_error option) go \<times> 'w) option" where
  "RemoveSpacePermission c spaceId key target principalId principalType w =
     (case findSpacePermission c spaceId key target principalId principalType w of
        None \<Rightarrow> None
      | Some (Panic p, w') \<Rightarrow> Some (Panic p, w')
      | Some (Ret (permission, ratelimitData, Some e), w') \<Rightarrow> Some (Ret (ratelimitData, Some e), w')
      | Some (Ret (permission, ratelimitData, None), w') \<Rightarrow>
          Some (deleteSpacePermission c spaceId permission w'))"

section \<open>Cursors\<close>

lemma cursor_of_link:
  assumes "good_segments segs" "unescape EncodePath (path_of segs) = Inr path"
    and "values_ok m" "map_of m ''cursor'' = Some [cursor]"
    and "link_Next links = path_of segs @ query_suffix (values_Encode m)"
  shows "extractPaginationCursor links = cursor"
  using url_Parse_path_query [OF assms(1,2) Encode_query_chars [of m]] assms(4,5)
  by (simp add: extractPaginationCursor_def url_Query_def values_get_def map_of_parse_query_Encode
      assms(3))

section \<open>The search for a permission\<close>

lemma findSpacePermission_page_listing:
  "findSpacePermission_page c spaceId matches cursor =
     bindIO (GetSpacePermissions c cursor maxResults spaceId)
       (\<lambda>(ps, next, ratelimitData, err).
          case err of
            Some e \<Rightarrow> ret (Inl (None, ratelimitData, Some e))
          | None \<Rightarrow>
              (case find matches ps of
                 Some p \<Rightarrow> ret (Inl (Some p, ratelimitData, None))
               | None \<Rightarrow>
                   if next = [] then ret (Inl (None, None, Some (ErrText ''space permission not found'')))
                   else ret (Inr next)))"
  apply (rule ext)
  apply (auto simp: findSpacePermission_page_def GetSpacePermissions_def bindIO_def deref_def Let_def
      split: sum.splits go.splits prod.splits option.splits)
  done

inductive lists_permissions :: "'w ConfluenceClient \<Rightarrow> string \<Rightarrow> string \<Rightarrow> 'w \<Rightarrow>
    ConfluenceSpacePermission list \<Rightarrow> bool" for c spaceId where
  last_permissions:
    "GetSpacePermissions c cursor maxResults spaceId w = (Ret (ps, [], rl, None), w') \<Longrightarrow>
     lists_permissions c spaceId cursor w ps"
| more_permissions:
    "GetSpacePermissions c cursor maxResults spaceId w = (Ret (ps, next, rl, None), w') \<Longrightarrow> next \<noteq> [] \<Longrightarrow>
     lists_permissions c spaceId next w' qs \<Longrightarrow>
     lists_permissions c spaceId cursor w (ps @ qs)"

definition search_result :: "(ConfluenceSpacePermission \<Rightarrow> bool) \<Rightarrow> ConfluenceSpacePermission list \<Rightarrow>
    RateLimitDescription option \<Rightarrow>
    ConfluenceSpacePermission option \<times> RateLimitDescription option \<times> go_error option" where
  "search_result matches ps rl =
     (case find matches ps of
        Some p \<Rightarrow> (Some p, rl, None)
      | None \<Rightarrow> (None, None, Some (ErrText ''space permission not found'')))"

text \<open>The search runs through the pages as the listing does, and keeps what each request keeps.\<close>

lemma search_loop:
  assumes "lists_permissions c spaceId cursor w ps"
    and "I w" "\<And>cursor w r w'. GetSpacePermissions c cursor maxResults spaceId w = (r, w') \<Longrightarrow> I w \<Longrightarrow> I w'"
  shows "\<exists>rl w'. findSpacePermission_loop c spaceId matches cursor w = Some (Ret (search_result matches ps rl), w') \<and>
    I w'"
  using assms(1,2)
proof (induction rule: lists_permissions.induct)
  case (last_permissions cursor w ps rl w')
  then show ?case
    using assms(3) [OF last_permissions.hyps]
    by (subst findSpacePermission_loop.simps)
      (auto simp: findSpacePermission_page_listing bindIO_apply search_result_def split: option.split)
next
  case (more_permissions cursor w ps "next" rl w' qs)
  have "I w'" using assms(3) [OF more_permissions.hyps(1)] more_permissions.prems by blast
  then show ?case
    using more_permissions.hyps more_permissions.IH
    by (subst findSpacePermission_loop.simps)
      (simp add: findSpacePermission_page_listing bindIO_apply search_result_def find_append split: option.split)
qed

definition endless :: "'w ConfluenceClient \<Rightarrow> string \<Rightarrow> (ConfluenceSpacePermission \<Rightarrow> bool) \<Rightarrow>
    (string \<Rightarrow> 'w \<Rightarrow> bool) \<Rightarrow> bool" where
  "endless c spaceId matches I \<longleftrightarrow>
     (\<forall>cursor w. I cursor w \<longrightarrow>
        (\<exists>ps next rl w'. GetSpacePermissions c cursor maxResults spaceId w = (Ret (ps, next, rl, None), w') \<and>
           next \<noteq> [] \<and> find matches ps = None \<and> I next w'))"

lemma search_ends:
  assumes "findSpacePermission_loop c spaceId matches cursor w = Some y"
  shows "endless c spaceId matches I \<longrightarrow> \<not> I cursor w"
proof (rule findSpacePermission_loop.raw_induct
    [where P = "\<lambda>c spaceId matches cursor w y. endless c spaceId matches I \<longrightarrow> \<not> I cursor w", OF _ assms])
  fix loop and c :: "'a ConfluenceClient" and spaceId matches cursor w y
  assume ih: "\<And>c spaceId matches cursor w y. loop c spaceId matches cursor w = Some y \<Longrightarrow>
      endless c spaceId matches I \<longrightarrow> \<not> I cursor w"
    and step: "(case findSpacePermission_page c spaceId matches cursor w of
        (Ret (Inl r), w') \<Rightarrow> Some (Ret r, w')
      | (Ret (Inr cursor'), w') \<Rightarrow> loop c spaceId matches cursor' w'
      | (Panic p, w') \<Rightarrow> Some (Panic p, w')) = Some y"
  show "endless c spaceId matches I \<longrightarrow> \<not> I cursor w"
  proof (intro impI notI)
    assume e: "endless c spaceId matches I" and i: "I cursor w"
    obtain ps "next" rl w' where p:
      "GetSpacePermissions c cursor maxResults spaceId w = (Ret (ps, next, rl, None), w')"
      "next \<noteq> []" "find matches ps = None" "I next w'"
      using e i unfolding endless_def by blast
    then have "loop c spaceId matches next w' = Some y"
      using step by (simp add: findSpacePermission_page_listing bindIO_apply)
    then show False using ih e p(4) by blast
  qed
qed

lemma AddSpacePermission_unsupported:
  assumes "principalType \<noteq> ''user''" "principalType \<noteq> ''group''"
  shows "\<exists>e. AddSpacePermission c spaceName key target principalId principalType w = (Ret (None, Some e), w)"
  using assms
  by (auto simp: AddSpacePermission_def getSubjectTypeFromPrincipalType_def split: sum.split)

section \<open>Where the requests go\<close>

definition spaces_url :: "url \<Rightarrow> goint \<Rightarrow> string \<Rightarrow> url" where
  "spaces_url base n cursor =
     endpoint_url base (api_segs [''spaces'']) SpacesListUrlPath [pagination_parameters n cursor]"

definition permissions_segs :: "string \<Rightarrow> string list" where
  "permissions_segs s = api_segs [''spaces'', s, ''permissions'']"

definition permissions_url :: "url \<Rightarrow> string \<Rightarrow> goint \<Rightarrow> string \<Rightarrow> url" where
  "permissions_url base s n cursor =
     endpoint_url base (permissions_segs s) (SpacePermissionsListUrlPath s) [pagination_parameters n cursor]"

lemma spaces_path:
  "path_of (api_segs [''spaces'']) = SpacesListUrlPath" "good_segments (api_segs [''spaces''])"
  "unescape EncodePath (path_of (api_segs [''spaces''])) = Inr SpacesListUrlPath"
proof -
  show p: "path_of (api_segs [''spaces'']) = SpacesListUrlPath"
    by (simp add: api_segs_def SpacesListUrlPath_def)
  show "good_segments (api_segs [''spaces''])"
    by (rule good_api_segs) (simp add: id_segment id_char_def is_alnum_def is_lower_def)
  show "unescape EncodePath (path_of (api_segs [''spaces''])) = Inr SpacesListUrlPath"
    unfolding p by (rule unescape_literal)
      (simp add: SpacesListUrlPath_def literal_char_def is_alnum_def is_lower_def is_digit_def)
qed

lemma permissions_path:
  assumes "list_all id_char s"
  shows "path_of (permissions_segs s) = SpacePermissionsListUrlPath s" "good_segments (permissions_segs s)"
    "unescape EncodePath (path_of (permissions_segs s)) = Inr (SpacePermissionsListUrlPath s)"
proof -
  show p: "path_of (permissions_segs s) = SpacePermissionsListUrlPath s"
    by (simp add: permissions_segs_def api_segs_def SpacePermissionsListUrlPath_def)
  show "good_segments (permissions_segs s)"
    unfolding permissions_segs_def using id_segment [OF assms]
    by (intro good_api_segs) (simp add: id_segment id_char_def is_alnum_def is_lower_def)
  show "unescape EncodePath (path_of (permissions_segs s)) = Inr (SpacePermissionsListUrlPath s)"
    unfolding p using literal_id [OF assms]
    by (intro unescape_literal)
      (simp add: SpacePermissionsListUrlPath_def literal_char_def is_alnum_def is_lower_def is_digit_def)
qed

text \<open>What a server that answers with a document \<open>j\<close> makes of a listing.\<close>

lemma GetSpaces_served:
  assumes "base_ok base" "serve (request_to (server_client base serve) GET (spaces_url base n cursor) None) s
      = ((200, json_print j), s')"
    and "plain j" "dec_ptr zero_SpaceList dec_SpaceList j None = (Some r, None)"
  shows "GetSpaces (server_client base serve) n cursor s =
    (Ret (spl_Results r, extractPaginationCursor (spl_Links r), Some no_limits, None), s')"
proof -
  have known: "known_parameters [pagination_parameters n cursor]" by simp
  note g = served_get [where serve = serve and s = s and s' = s' and d = "dec_ptr zero_SpaceList dec_SpaceList" and v = None,
      OF assms(1) spaces_path(2,3) known, folded spaces_url_def, OF assms(2-4)]
  show ?thesis
    using g
    by (simp add: GetSpaces_def spaces_path(1) withPaginationCursor_parameters bindIO_apply)
qed

definition space_url :: "url \<Rightarrow> string \<Rightarrow> url" where
  "space_url base i = endpoint_url base (api_segs [''spaces'', i]) (spacesGetUrlPath i) []"

lemma space_path:
  assumes "list_all id_char i"
  shows "path_of (api_segs [''spaces'', i]) = spacesGetUrlPath i" "good_segments (api_segs [''spaces'', i])"
    "unescape EncodePath (path_of (api_segs [''spaces'', i])) = Inr (spacesGetUrlPath i)"
proof -
  show p: "path_of (api_segs [''spaces'', i]) = spacesGetUrlPath i"
    by (simp add: api_segs_def spacesGetUrlPath_def)
  show "good_segments (api_segs [''spaces'', i])"
    using id_segment [OF assms] by (intro good_api_segs) (simp add: id_segment id_char_def is_alnum_def is_lower_def)
  show "unescape EncodePath (path_of (api_segs [''spaces'', i])) = Inr (spacesGetUrlPath i)"
    unfolding p using literal_id [OF assms]
    by (intro unescape_literal) (simp add: spacesGetUrlPath_def literal_char_def is_alnum_def is_lower_def is_digit_def)
qed

lemma known_no_parameters: "known_parameters []"
  by (simp add: known_parameters_def)

lemma GetSpaceById_served:
  assumes "base_ok base" "list_all id_char i"
    and "serve (request_to (server_client base serve) GET (space_url base i) None) s = ((200, json_print j), s')"
    and "plain j" "dec_Space j zero_Space = (r, None)"
  shows "GetSpaceById (server_client base serve) i s = (Ret (Some r, Some no_limits, None), s')"
proof -
  note g = served_get [where serve = serve and s = s and s' = s' and d = dec_Space and v = zero_Space,
      OF assms(1) space_path(2,3) [OF assms(2)] known_no_parameters, folded space_url_def, OF assms(3-5)]
  show ?thesis
    using g by (simp add: GetSpaceById_def space_path(1) [OF assms(2)] bindIO_apply)
qed

lemma findSpace_served:
  assumes "base_ok base" "list_all id_char i"
    and "serve (request_to (server_client base serve) GET (space_url base i) None) s = ((200, json_print j), s')"
    and "plain j" "dec_ptr zero_Space dec_Space j None = (Some r, None)"
  shows "findSpace (server_client base serve) i s = (Ret (Some r, Some no_limits, None), s')"
proof -
  note g = served_get [where serve = serve and s = s and s' = s' and d = "dec_ptr zero_Space dec_Space" and v = None,
      OF assms(1) space_path(2,3) [OF assms(2)] known_no_parameters, folded space_url_def, OF assms(3-5)]
  show ?thesis
    using g by (simp add: findSpace_def space_path(1) [OF assms(2)] bindIO_apply)
qed

text \<open>A permission is created at an endpoint that takes the key of a space.\<close>

definition create_segs :: "string \<Rightarrow> string list" where
  "create_segs key = [''wiki'', ''rest'', ''api'', ''space'', key, ''permissions'']"

definition create_url :: "url \<Rightarrow> string \<Rightarrow> url" where
  "create_url base key = endpoint_url base (create_segs key) (spacePermissionsCreateUrlPath key) []"

definition create_body :: "string \<Rightarrow> string \<Rightarrow> string \<Rightarrow> string \<Rightarrow> json" where
  "create_body key target principalId principalType = json_CreateSpacePermission
     \<lparr>cb_Subject = \<lparr>subj_Type = principalType, subj_Identifier = principalId\<rparr>,
      cb_Operation = \<lparr>spo_Key = key, spo_Target = target\<rparr>\<rparr>"

lemma create_path:
  assumes "list_all id_char key"
  shows "path_of (create_segs key) = spacePermissionsCreateUrlPath key" "good_segments (create_segs key)"
    "unescape EncodePath (path_of (create_segs key)) = Inr (spacePermissionsCreateUrlPath key)"
proof -
  show q: "path_of (create_segs key) = spacePermissionsCreateUrlPath key"
    by (simp add: create_segs_def spacePermissionsCreateUrlPath_def)
  show "good_segments (create_segs key)"
    using id_segment [OF assms]
    by (simp add: good_segments_def create_segs_def id_segment id_char_def is_alnum_def is_lower_def)
  show "unescape EncodePath (path_of (create_segs key)) = Inr (spacePermissionsCreateUrlPath key)"
    unfolding q using literal_id [OF assms]
    by (intro unescape_literal)
      (simp add: spacePermissionsCreateUrlPath_def literal_char_def is_alnum_def is_lower_def is_digit_def)
qed

lemma AddSpacePermission_served:
  assumes "base_ok base" "list_all id_char i" "principalType \<in> {''user'', ''group''}"
    and "serve (request_to (server_client base serve) POST (create_url base i)
           (Some (json_print (create_body key target principalId principalType)))) s = ((200, body), s')"
    and "json_Unmarshal dec_bool body False = (v, e)"
  shows "AddSpacePermission (server_client base serve) i key target principalId principalType s =
    (Ret (reply_outcome (create_url base i) body e), s')"
proof -
  note create = served_reply [where serve = serve and s = s and s' = s' and m = POST and d = dec_bool
      and b = "Some (json_print (create_body key target principalId principalType))",
      OF assms(1) create_path(2,3) [OF assms(2)] known_no_parameters, folded create_url_def, OF assms(4,5)]
  show ?thesis
    using create create_path(1) [OF assms(2)] assms(3)
    by (auto simp: AddSpacePermission_def getSubjectTypeFromPrincipalType_def create_body_def bindIO_apply
        client_post_def split_beta Let_def)
qed

lemma AddSpacePermission_refused:
  assumes "base_ok base" "list_all id_char i" "principalType \<in> {''user'', ''group''}"
    and "serve (request_to (server_client base serve) POST (create_url base i)
           (Some (json_print (create_body key target principalId principalType)))) s = ((404, body), s')"
  shows "AddSpacePermission (server_client base serve) i key target principalId principalType s =
    (Ret (None, Some (not_found (create_url base i) body)), s')"
proof -
  note create = served_refused [where serve = serve and s = s and s' = s' and m = POST
      and b = "Some (json_print (create_body key target principalId principalType))",
      OF assms(1) create_path(2,3) [OF assms(2)] known_no_parameters, folded create_url_def, OF assms(4)]
  obtain v' where "makeRequest (server_client base serve) (create_url base i) (Some dec_bool) False POST
      (Some (json_print (create_body key target principalId principalType))) s =
      (Ret (v', None, Some (not_found (create_url base i) body)), s')"
    using create(2) [where target = "Some dec_bool" and v = False] by blast
  then show ?thesis
    using create(1) create_path(1) [OF assms(2)] assms(3)
    by (auto simp: AddSpacePermission_def getSubjectTypeFromPrincipalType_def create_body_def bindIO_apply
        client_post_def Let_def)
qed

text \<open>A permission is deleted by the key of its space and its own id.\<close>

definition delete_segs :: "string \<Rightarrow> string \<Rightarrow> string list" where
  "delete_segs key p = [''wiki'', ''rest'', ''api'', ''space'', key, ''permissions'', p]"

definition delete_url :: "url \<Rightarrow> string \<Rightarrow> string \<Rightarrow> url" where
  "delete_url base key p = endpoint_url base (delete_segs key p) (spacePermissionsUpdateUrlPath key p) []"

lemma delete_path:
  assumes "list_all id_char key" "list_all id_char p"
  shows "path_of (delete_segs key p) = spacePermissionsUpdateUrlPath key p" "good_segments (delete_segs key p)"
    "unescape EncodePath (path_of (delete_segs key p)) = Inr (spacePermissionsUpdateUrlPath key p)"
proof -
  show q: "path_of (delete_segs key p) = spacePermissionsUpdateUrlPath key p"
    by (simp add: delete_segs_def spacePermissionsUpdateUrlPath_def)
  show "good_segments (delete_segs key p)"
    using id_segment [OF assms(1)] id_segment [OF assms(2)]
    by (simp add: good_segments_def delete_segs_def id_segment id_char_def is_alnum_def is_lower_def)
  show "unescape EncodePath (path_of (delete_segs key p)) = Inr (spacePermissionsUpdateUrlPath key p)"
    unfolding q using literal_id [OF assms(1)] literal_id [OF assms(2)]
    by (intro unescape_literal)
      (simp add: spacePermissionsUpdateUrlPath_def literal_char_def is_alnum_def is_lower_def is_digit_def)
qed

lemma deleteSpacePermission_served:
  assumes "base_ok base" "list_all id_char i" "list_all id_char (sp_Key r)" "list_all id_char (perm_Id p)"
    and "serve (request_to (server_client base serve) GET (space_url base i) None) s = ((200, json_print j), s1)"
    and "plain j" "dec_ptr zero_Space dec_Space j None = (Some r, None)"
    and "serve (request_to (server_client base serve) DELETE (delete_url base (sp_Key r) (perm_Id p)) None) s1
      = ((200, body), s2)"
    and "json_Unmarshal dec_bool body False = (v, e)"
  shows "deleteSpacePermission (server_client base serve) i (Some p) s =
    (Ret (reply_outcome (delete_url base (sp_Key r) (perm_Id p)) body e), s2)"
proof -
  note find = findSpace_served [where serve = serve and s = s and s' = s1, OF assms(1,2,5-7)]
    and delete = served_reply [where serve = serve and s = s1 and s' = s2 and m = DELETE and b = None and d = dec_bool,
      OF assms(1) delete_path(2,3) [OF assms(3,4)] known_no_parameters, folded delete_url_def, OF assms(8,9)]
  show ?thesis
    using find delete delete_path(1) [OF assms(3,4)]
    by (simp add: deleteSpacePermission_def bindIO_apply client_delete_def split_beta)
qed

lemma GetSpaces_canned:
  assumes "base_ok base" "answer (request_to (canned_client base answer) GET (spaces_url base n cursor) None)
      = (200, json_print j)"
    and "plain j" "dec_ptr zero_SpaceList dec_SpaceList j None = (Some r, None)"
  shows "GetSpaces (canned_client base answer) n cursor log =
    (Ret (spl_Results r, extractPaginationCursor (spl_Links r), Some no_limits, None),
     log @ [request_to (canned_client base answer) GET (spaces_url base n cursor) None])"
  using GetSpaces_served [where serve = "canned answer" and s = log and j = j, OF assms(1) _ assms(3,4)] assms(2)
  by (simp add: canned_client_def)

lemma GetSpacePermissions_served:
  assumes "base_ok base" "list_all id_char i"
    and "serve (request_to (server_client base serve) GET (permissions_url base i n cursor) None) s
      = ((200, json_print j), s')"
    and "plain j" "dec_ptr zero_PermissionResponse dec_PermissionResponse j None = (Some r, None)"
  shows "GetSpacePermissions (server_client base serve) cursor n i s =
    (Ret (spr_Results r, extractPaginationCursor (spr_Links r), Some no_limits, None), s')"
proof -
  have known: "known_parameters [pagination_parameters n cursor]" by simp
  note g = served_get [where serve = serve and s = s and s' = s'
      and d = "dec_ptr zero_PermissionResponse dec_PermissionResponse" and v = None,
      OF assms(1) permissions_path(2,3) [OF assms(2)] known, folded permissions_url_def,
      OF assms(3-5)]
  show ?thesis
    using g
    by (simp add: GetSpacePermissions_def permissions_path(1) [OF assms(2)] withPaginationCursor_parameters
        bindIO_apply)
qed

lemma GetSpacePermissions_canned:
  assumes "base_ok base" "list_all id_char i"
    and "answer (request_to (canned_client base answer) GET (permissions_url base i n cursor) None)
      = (200, json_print j)"
    and "plain j" "dec_ptr zero_PermissionResponse dec_PermissionResponse j None = (Some r, None)"
  shows "GetSpacePermissions (canned_client base answer) cursor n i log =
    (Ret (spr_Results r, extractPaginationCursor (spr_Links r), Some no_limits, None),
     log @ [request_to (canned_client base answer) GET (permissions_url base i n cursor) None])"
  using GetSpacePermissions_served [where serve = "canned answer" and s = log and j = j, OF assms(1,2) _ assms(4,5)] assms(3)
  by (simp add: canned_client_def)

definition v2_links :: "string \<Rightarrow> json" where
  "v2_links next = JObj [(''next'', JStr next)]"

lemma dec_v2_links: "dec_Link (v2_links next) zero_Link = (zero_Link\<lparr>link_Next := next\<rparr>, None)"
  by (simp add: dec_Link_def v2_links_def field_dec_def find_field_def zero_Link_def)

definition demo_permission :: ConfluenceSpacePermission where
  "demo_permission = \<lparr>perm_Id = ''42'', perm_Principal = \<lparr>pp_Id = ''a1'', pp_Type = ''user''\<rparr>,
     perm_Operation = \<lparr>po_Key = ''read'', po_TargetType = ''space''\<rparr>\<rparr>"

definition json_permission :: "ConfluenceSpacePermission \<Rightarrow> json" where
  "json_permission p = JObj [(''id'', JStr (perm_Id p)),
     (''principal'', JObj [(''id'', JStr (pp_Id (perm_Principal p))), (''type'', JStr (pp_Type (perm_Principal p)))]),
     (''operation'', JObj [(''key'', JStr (po_Key (perm_Operation p))),
                           (''targetType'', JStr (po_TargetType (perm_Operation p)))])]"

definition json_permissions :: "ConfluenceSpacePermission list \<Rightarrow> string \<Rightarrow> json" where
  "json_permissions ps next = JObj [(''results'', JArr (map json_permission ps)), (''_links'', v2_links next)]"

lemma dec_permissions:
  "dec_ptr zero_PermissionResponse dec_PermissionResponse (json_permissions ps next) None
   = (Some \<lparr>spr_Links = zero_Link\<lparr>link_Next := next\<rparr>, spr_Results = ps\<rparr>, None)"
proof -
  have "dec_Permission (json_permission p) zero_Permission = (p, None)" for p
    by (simp add: dec_Permission_def dec_PermissionPrincipal_def dec_PermissionOperation_def json_permission_def
        field_dec_def find_field_def zero_Permission_def zero_PermissionPrincipal_def zero_PermissionOperation_def)
  then have "dec_elems zero_Permission dec_Permission (map json_permission ps) = (ps, None)"
    by (intro dec_elems_map) simp
  then show ?thesis
    using dec_v2_links [of "next"]
    by (simp add: dec_PermissionResponse_def json_permissions_def field_dec_def find_field_def
        zero_PermissionResponse_def v2_links_def)
qed

text \<open>A server that gives the same page of permissions for every request.\<close>

definition permissions_client :: "ConfluenceSpacePermission list \<Rightarrow> string \<Rightarrow> http_request list ConfluenceClient" where
  "permissions_client ps next = demo_client (\<lambda>_. (200, json_print (json_permissions ps next)))"

definition permission_plain :: "ConfluenceSpacePermission \<Rightarrow> bool" where
  "permission_plain p \<longleftrightarrow> valid_utf8 (perm_Id p) \<and> valid_utf8 (pp_Id (perm_Principal p)) \<and>
     valid_utf8 (pp_Type (perm_Principal p)) \<and> valid_utf8 (po_Key (perm_Operation p)) \<and>
     valid_utf8 (po_TargetType (perm_Operation p))"

lemma plain_permissions:
  "list_all permission_plain ps \<Longrightarrow> valid_utf8 next \<Longrightarrow> plain (json_permissions ps next)"
  by (auto simp: json_permissions_def json_permission_def permission_plain_def v2_links_def valid_utf8_ascii
      is_ascii_def list_all_iff)

lemma demo_permission_plain: "permission_plain demo_permission"
  by (simp add: permission_plain_def demo_permission_def valid_utf8_ascii is_ascii_def)

lemma GetSpacePermissions_constant:
  assumes "list_all permission_plain ps" "valid_utf8 next" "list_all id_char s"
  shows "\<exists>log'. GetSpacePermissions (permissions_client ps next) cursor n s log =
    (Ret (ps, extractPaginationCursor (zero_Link\<lparr>link_Next := next\<rparr>), Some no_limits, None), log')"
  using GetSpacePermissions_canned [OF demo_base_ok assms(3) _ plain_permissions [OF assms(1,2)] dec_permissions]
  by (simp add: permissions_client_def demo_client_def)

lemma no_cursor: "extractPaginationCursor zero_Link = []" "zero_Link\<lparr>link_Next := []\<rparr> = zero_Link"
  by code_simp (simp add: zero_Link_def)

lemma demo_space_id: "list_all id_char ''7''"
  by (simp add: id_char_def is_alnum_def is_digit_def)

text \<open>
  C22. When following the cursors of a space's permissions from the first page leads to an end and the
  pages together hold the permissions ps, findSpacePermission returns the first permission of ps that
  matches operation key, target type, principal id and principal type, or the error that none was
  found: the early return on a page and the following of cursors compute a search of the concatenated
  pages.
\<close>

theorem findSpacePermission_search:
  assumes "lists_permissions c spaceId [] w ps"
  shows "\<exists>rl w'. findSpacePermission c spaceId key target principalId principalType w =
    Some (Ret (case find (permission_matches key target principalId principalType) ps of
                 Some p \<Rightarrow> (Some p, rl, None)
               | None \<Rightarrow> (None, None, Some (ErrText ''space permission not found''))), w')"
  using search_loop [OF assms, where I = "\<lambda>_. True" and matches = "permission_matches key target principalId principalType"]
  by (simp add: findSpacePermission_def search_result_def)

theorem findSpacePermission_search_witness:
  "\<exists>rl w'. findSpacePermission (permissions_client [demo_permission] []) ''7'' ''read'' ''space'' ''a1'' ''user'' [] =
    Some (Ret (Some demo_permission, rl, None), w')"
proof -
  obtain log' where run: "GetSpacePermissions (permissions_client [demo_permission] []) [] maxResults ''7'' [] =
      (Ret ([demo_permission], [], Some no_limits, None), log')"
    using GetSpacePermissions_constant [of "[demo_permission]" "[]" "''7''" "[]" maxResults "[]"]
      demo_permission_plain demo_space_id no_cursor by auto
  show ?thesis
    using findSpacePermission_search [OF lists_permissions.last_permissions [OF run],
        of "''read''" "''space''" "''a1''" "''user''"]
    by (simp add: permission_matches_def demo_permission_def)
qed

text \<open>
  C23. findSpacePermission has no bound on its loop: against a server that answers every page without a
  matching permission and with another cursor (an invariant I that each answered page keeps), the call
  does not return; its value in the model is None.
\<close>

theorem findSpacePermission_endless:
  assumes "endless c spaceId (permission_matches key target principalId principalType) I" "I [] w"
  shows "findSpacePermission c spaceId key target principalId principalType w = None"
  using search_ends [of c spaceId _ "[]" w _ I] assms unfolding findSpacePermission_def
  by (cases "findSpacePermission_loop c spaceId (permission_matches key target principalId principalType) [] w")
    blast+

theorem findSpacePermission_endless_witness:
  "findSpacePermission (permissions_client [demo_permission] ''/x?cursor=a'') ''7'' ''read'' ''space'' ''b1'' ''user'' [] = None"
proof -
  have cur: "extractPaginationCursor (zero_Link\<lparr>link_Next := ''/x?cursor=a''\<rparr>) = ''a''" by code_simp
  have "endless (permissions_client [demo_permission] ''/x?cursor=a'') ''7''
      (permission_matches ''read'' ''space'' ''b1'' ''user'') (\<lambda>_ _. True)"
    unfolding endless_def
  proof (intro allI impI)
    fix cursor w
    obtain log' where run: "GetSpacePermissions (permissions_client [demo_permission] ''/x?cursor=a'') cursor maxResults ''7'' w =
        (Ret ([demo_permission], ''a'', Some no_limits, None), log')"
      using GetSpacePermissions_constant [of "[demo_permission]" "''/x?cursor=a''" "''7''" cursor maxResults w]
        demo_permission_plain demo_space_id cur by (auto simp: valid_utf8_ascii is_ascii_def)
    show "\<exists>ps next rl w'. GetSpacePermissions (permissions_client [demo_permission] ''/x?cursor=a'') cursor maxResults ''7'' w =
        (Ret (ps, next, rl, None), w') \<and> next \<noteq> [] \<and>
        find (permission_matches ''read'' ''space'' ''b1'' ''user'') ps = None \<and> True"
      using run by (simp add: permission_matches_def demo_permission_def)
  qed
  from findSpacePermission_endless [OF this] show ?thesis by simp
qed

end
