(* ===== verification/ClientRoles.thy ===== *)
theory ClientRoles
  imports ClientSpaces
begin

text \<open>
  The operations of \<open>pkg/connector/client/confluence.go\<close> on space roles: the roles of an instance,
  the assignments of a space, setting one, and the check that the instance supports them.
\<close>

definition GetSpaceRoles :: "'w ConfluenceClient \<Rightarrow> string \<Rightarrow> string \<Rightarrow> goint \<Rightarrow>
    ('w, SpaceRole list \<times> string \<times> RateLimitDescription option \<times> go_error option) io" where
  "GetSpaceRoles c spaceId cursor pageSize =
     (let options = [withPaginationCursor pageSize cursor] @
            (if spaceId \<noteq> [] then [withQueryParameters [(''space-id'', QString spaceId)]] else [])
      in case parse c SpaceRolesUrlPath options of
           Inl e \<Rightarrow> ret ([], [], None, Some e)
         | Inr spaceRolesUrl \<Rightarrow>
             bindIO (client_get c spaceRolesUrl (dec_ptr zero_RolesResponse dec_RolesResponse) None)
               (\<lambda>(response, ratelimitData, err).
                  case err of
                    Some e \<Rightarrow> ret ([], [], ratelimitData, Some e)
                  | None \<Rightarrow> deref response (\<lambda>r.
                      ret (srr_Results r, extractPaginationCursor (srr_Links r), ratelimitData, None))))"

text \<open>The optional filters of \<open>GetSpaceRoleAssignments\<close>: an empty string leaves a filter out.\<close>

definition optional_parameter :: "string \<Rightarrow> string \<Rightarrow> url_option list" where
  "optional_parameter key v = (if v \<noteq> [] then [withQueryParameters [(key, QString v)]] else [])"

definition assignment_options :: "string \<Rightarrow> string \<Rightarrow> string \<Rightarrow> string \<Rightarrow> goint \<Rightarrow> url_option list" where
  "assignment_options roleId principalId principalType cursor pageSize =
     [withPaginationCursor pageSize cursor] @
     optional_parameter ''role-id'' roleId @
     optional_parameter ''principal-id'' principalId @
     optional_parameter ''principal-type'' principalType"

definition GetSpaceRoleAssignments :: "'w ConfluenceClient \<Rightarrow> string \<Rightarrow> string \<Rightarrow> string \<Rightarrow> string \<Rightarrow>
    string \<Rightarrow> goint \<Rightarrow>
    ('w, SpaceRoleAssignment list \<times> string \<times> RateLimitDescription option \<times> go_error option) io" where
  "GetSpaceRoleAssignments c spaceId roleId principalId principalType cursor pageSize =
     (case parse c (SpaceRoleAssignmentsUrlPath (PathEscape spaceId))
             (assignment_options roleId principalId principalType cursor pageSize) of
        Inl e \<Rightarrow> ret ([], [], None, Some e)
      | Inr assignmentsUrl \<Rightarrow>
          bindIO (client_get c assignmentsUrl
                    (dec_ptr zero_AssignmentsResponse dec_AssignmentsResponse) None)
            (\<lambda>(response, ratelimitData, err).
               case err of
                 Some e \<Rightarrow> ret ([], [], ratelimitData, Some e)
               | None \<Rightarrow> deref response (\<lambda>r.
                   ret (srar_Results r, extractPaginationCursor (srar_Links r), ratelimitData, None))))"

definition SetSpaceRoleAssignment :: "'w ConfluenceClient \<Rightarrow> string \<Rightarrow> SetSpaceRoleAssignmentRequest list \<Rightarrow>
    ('w, RateLimitDescription option \<times> go_error option) io" where
  "SetSpaceRoleAssignment c spaceId assignments =
     (case parse c (SpaceRoleAssignmentsUrlPath (PathEscape spaceId)) [] of
        Inl e \<Rightarrow> ret (None, Some e)
      | Inr assignmentsUrl \<Rightarrow>
          (let body = json_print (JArr (map json_SetSpaceRoleAssignment assignments))
           in bindIO (client_post c assignmentsUrl (Some dec_AssignmentsResponse)
                        zero_AssignmentsResponse body)
                (\<lambda>(_, ratelimitData, err). ret (ratelimitData, err))))"

section \<open>Is RBAC available?\<close>

definition rbac_not_supported :: go_error where
  "rbac_not_supported = ErrStatus FailedPrecondition
     (''confluence-connector: RBAC is not supported on this Confluence instance '' @
      ''(space-role-mode endpoint returned 404)'')"

text \<open>\<open>%q\<close> of a mode that is printable ASCII, and the em dash of the message as UTF-8.\<close>

definition em_dash :: string where "em_dash = [CHR 0xE2, CHR 0x80, CHR 0x94]"

definition rbac_not_enabled :: "string \<Rightarrow> go_error" where
  "rbac_not_enabled mode = ErrStatus FailedPrecondition
     (''confluence-connector: space role mode is '' @ [CHR 0x22] @ mode @ [CHR 0x22] @ '' '' @
      em_dash @ '' RBAC is not enabled for this Confluence instance'')"

definition rbac_data_unavailable :: go_error where
  "rbac_data_unavailable = ErrStatus FailedPrecondition
     (''confluence-connector: RBAC data endpoints are unavailable (space-roles returned 404) '' @
      em_dash @
      '' this can happen when a trial or beta grant for RBAC has expired'')"

text \<open>The last step: probing the endpoint that the sync will read.\<close>

definition probe_space_roles :: "'w ConfluenceClient \<Rightarrow> ('w, go_error option) io" where
  "probe_space_roles c =
     bindIO (GetSpaceRoles c [] [] 1)
       (\<lambda>(_, _, _, err).
          case err of
            None \<Rightarrow> ret None
          | Some e \<Rightarrow> ret (Some (if is_not_found e then rbac_data_unavailable else e)))"

definition VerifyRbac :: "'w ConfluenceClient \<Rightarrow> ('w, go_error option) io" where
  "VerifyRbac c =
     (case parse c SpaceRoleModeUrlPath [] of
        Inl e \<Rightarrow> ret (Some e)
      | Inr spaceRoleModeUrl \<Rightarrow>
          bindIO (client_get c spaceRoleModeUrl (dec_ptr zero_RoleMode dec_RoleMode) None)
            (\<lambda>(response, _, err).
               case err of
                 Some e \<Rightarrow> ret (Some (if is_not_found e then rbac_not_supported else e))
               | None \<Rightarrow> deref response (\<lambda>r.
                   if srm_Mode r = ''PRE_ROLES'' then ret (Some (rbac_not_enabled (srm_Mode r)))
                   else probe_space_roles c)))"

section \<open>Where the requests go\<close>

definition mode_segs :: "string list" where "mode_segs = api_segs [''space-role-mode'']"
definition roles_segs :: "string list" where "roles_segs = api_segs [''space-roles'']"

lemma literal_role_segments: "good_segment ''space-role-mode''" "good_segment ''space-roles''"
  by (simp_all add: good_segment_def seg_char_def is_alnum_def is_lower_def is_upper_def is_digit_def)

lemma role_paths:
  "path_of mode_segs = SpaceRoleModeUrlPath" "path_of roles_segs = SpaceRolesUrlPath"
  by (simp_all add: mode_segs_def roles_segs_def api_segs_def SpaceRoleModeUrlPath_def SpaceRolesUrlPath_def)

lemma unescape_role_paths:
  "unescape EncodePath (path_of mode_segs) = Inr SpaceRoleModeUrlPath"
  "unescape EncodePath (path_of roles_segs) = Inr SpaceRolesUrlPath"
  unfolding role_paths
  by (rule unescape_literal; simp add: SpaceRoleModeUrlPath_def SpaceRolesUrlPath_def literal_char_def
      is_alnum_def is_lower_def is_upper_def is_digit_def)+

lemma good_role_segs: "good_segments mode_segs" "good_segments roles_segs"
  by (simp_all add: mode_segs_def roles_segs_def good_api_segs literal_role_segments)

definition mode_url :: "url \<Rightarrow> url" where "mode_url base = endpoint_url base mode_segs SpaceRoleModeUrlPath []"

lemma parse_mode: "parse c SpaceRoleModeUrlPath [] = Inr (mode_url (client_apiBase c))"
  using parse_endpoint_url [OF good_role_segs(1) unescape_role_paths(1), of "[]" c]
  by (simp add: mode_url_def known_parameters_def role_paths)

definition roles_url :: "url \<Rightarrow> string \<Rightarrow> goint \<Rightarrow> url" where
  "roles_url base cursor n = endpoint_url base roles_segs SpaceRolesUrlPath [pagination_parameters n cursor]"

lemma parse_roles: "parse c SpaceRolesUrlPath [withPaginationCursor n cursor] = Inr (roles_url (client_apiBase c) cursor n)"
  using parse_endpoint_url [OF good_role_segs(2) unescape_role_paths(2), of "[pagination_parameters n cursor]" c]
  by (simp add: roles_url_def role_paths withPaginationCursor_parameters)

lemma prepare_mode:
  "base_ok (client_apiBase c) \<Longrightarrow> prepare_request c (mode_url (client_apiBase c)) m b
     = Inr (request_to c m (mode_url (client_apiBase c)) b)"
  using request_reaches_endpoint [OF _ good_role_segs(1) unescape_role_paths(1), of c "[]"] parse_mode [of c]
  by (simp add: role_paths)

lemma prepare_roles:
  "base_ok (client_apiBase c) \<Longrightarrow> prepare_request c (roles_url (client_apiBase c) cursor n) m b
     = Inr (request_to c m (roles_url (client_apiBase c) cursor n) b)"
  using request_reaches_endpoint [OF _ good_role_segs(2) unescape_role_paths(2), of c "[pagination_parameters n cursor]"]
    parse_roles [of c n cursor]
  by (simp add: role_paths withPaginationCursor_parameters)

text \<open>
  C27. When the space-role-mode endpoint answers with a status outside 2xx, VerifyRbac fails, with the
  message that RBAC is not supported for 404 and with the classified request error for every other
  status.
\<close>

theorem VerifyRbac_http_error:
  assumes "base_ok (client_apiBase c)"
    and "answered c GET (mode_url (client_apiBase c)) None w r body w1" "\<not> is_2xx (resp_StatusCode r)"
  shows "\<exists>w'. VerifyRbac c w =
    (Ret (Some (if resp_StatusCode r = 404 then rbac_not_supported
                else http_error (mode_url (client_apiBase c)) r body)), w')"
proof -
  obtain v rl w' where "client_get c (mode_url (client_apiBase c)) (dec_ptr zero_RoleMode dec_RoleMode) None w
      = (Ret (v, rl, Some (http_error (mode_url (client_apiBase c)) r body)), w')"
    unfolding client_get_def
    using makeRequest_http_error [where target = "Some (dec_ptr zero_RoleMode dec_RoleMode)" and v = None,
        OF prepare_mode [OF assms(1)] assms(2,3)] by blast
  then show ?thesis
    by (simp add: VerifyRbac_def parse_mode bindIO_apply http_error_not_found)
qed

lemma VerifyRbac_accepts:
  "VerifyRbac c w = (Ret None, w2) \<longleftrightarrow>
     (\<exists>r rl w1 roles cursor rl'.
        client_get c (mode_url (client_apiBase c)) (dec_ptr zero_RoleMode dec_RoleMode) None w
          = (Ret (Some r, rl, None), w1) \<and>
        srm_Mode r \<noteq> ''PRE_ROLES'' \<and>
        GetSpaceRoles c [] [] 1 w1 = (Ret (roles, cursor, rl', None), w2))"
  by (auto simp: VerifyRbac_def parse_mode bindIO_def deref_def probe_space_roles_def
      split: go.splits prod.splits option.splits if_splits)

lemma GetSpaceRoles_http_error:
  assumes "base_ok (client_apiBase c)"
    and "answered c GET (roles_url (client_apiBase c) cursor n) None w r body w1" "\<not> is_2xx (resp_StatusCode r)"
  shows "\<exists>rl w'. GetSpaceRoles c [] cursor n w =
    (Ret ([], [], rl, Some (http_error (roles_url (client_apiBase c) cursor n) r body)), w')"
proof -
  obtain v rl w' where "client_get c (roles_url (client_apiBase c) cursor n)
      (dec_ptr zero_RolesResponse dec_RolesResponse) None w
      = (Ret (v, rl, Some (http_error (roles_url (client_apiBase c) cursor n) r body)), w')"
    unfolding client_get_def
    using makeRequest_http_error [where target = "Some (dec_ptr zero_RolesResponse dec_RolesResponse)" and v = None,
        OF prepare_roles [OF assms(1)] assms(2,3)] by blast
  then show ?thesis
    by (simp add: GetSpaceRoles_def parse_roles bindIO_apply)
qed

section \<open>The assignments of a space\<close>

lemma optional_parameter_group: "optional_parameter key v = map withQueryParameters (optional_group key v)"
  by (simp add: optional_parameter_def optional_group_def)

definition assignments_segs :: "string \<Rightarrow> string list" where
  "assignments_segs spaceId = api_segs [''spaces'', PathEscape spaceId, ''role-assignments'']"

definition assignments_groups :: "string \<Rightarrow> string \<Rightarrow> string \<Rightarrow> string \<Rightarrow> goint \<Rightarrow> (string \<times> qvalue) list list"
where
  "assignments_groups roleId principalId principalType cursor n =
     [pagination_parameters n cursor] @ optional_group ''role-id'' roleId @
     optional_group ''principal-id'' principalId @ optional_group ''principal-type'' principalType"

lemma assignment_options_groups:
  "assignment_options roleId principalId principalType cursor n =
     map withQueryParameters (assignments_groups roleId principalId principalType cursor n)"
  by (simp add: assignment_options_def assignments_groups_def withPaginationCursor_parameters
      optional_parameter_group)

lemma assignments_path: "path_of (assignments_segs s) = SpaceRoleAssignmentsUrlPath (PathEscape s)"
  by (simp add: assignments_segs_def api_segs_def SpaceRoleAssignmentsUrlPath_def)

lemma good_assignments_segs:
  assumes "s \<noteq> ''.''" "s \<noteq> ''..''"
  shows "good_segments (assignments_segs s)"
proof -
  have "good_segment ''spaces''" "good_segment ''role-assignments''"
    by (simp_all add: good_segment_def seg_char_def is_alnum_def is_lower_def is_upper_def is_digit_def)
  then show ?thesis
    using good_segment_PathEscape [OF assms] by (simp add: assignments_segs_def good_api_segs)
qed

lemma unescape_assignments:
  "unescape EncodePath (path_of (assignments_segs s)) = Inr (SpaceRoleAssignmentsUrlPath s)"
  using unescape_around_id [of "''/wiki/api/v2/spaces/''" "''/role-assignments''" s]
  by (simp add: assignments_path SpaceRoleAssignmentsUrlPath_def literal_char_def is_alnum_def
      is_lower_def is_upper_def is_digit_def)

lemma assignments_query:
  "values_get (url_Query (endpoint_url base segs path
       (assignments_groups roleId principalId principalType cursor n))) k =
     (if k = ''principal-type'' \<and> principalType \<noteq> [] then principalType
      else if k = ''principal-id'' \<and> principalId \<noteq> [] then principalId
      else if k = ''role-id'' \<and> roleId \<noteq> [] then roleId
      else if k = ''limit'' then itoa (if sint n < 1 then defaultSize else n)
      else if k = ''cursor'' then cursor else [])"
  unfolding assignments_groups_def
  by (simp only: append_assoc [symmetric] values_get_optional values_get_pagination)


lemma dot_dot_escapes:
  "map_sum id Path (parse (demo_client a) (SpaceRoleAssignmentsUrlPath (PathEscape ''..'')) [])
     = Inr ''/wiki/api/v2/role-assignments''"
  by code_simp

section \<open>Roles and assignments of a server\<close>

lemma GetSpaceRoles_served:
  assumes "base_ok base" "serve (request_to (server_client base serve) GET (roles_url base cursor n) None) s
      = ((200, json_print j), s')"
    and "plain j" "dec_ptr zero_RolesResponse dec_RolesResponse j None = (Some r, None)"
  shows "GetSpaceRoles (server_client base serve) [] cursor n s =
    (Ret (srr_Results r, extractPaginationCursor (srr_Links r), Some no_limits, None), s')"
proof -
  have known: "known_parameters [pagination_parameters n cursor]" by simp
  note g = served_get [where serve = serve and s = s and s' = s'
      and d = "dec_ptr zero_RolesResponse dec_RolesResponse" and v = None,
      OF assms(1) good_role_segs(2) unescape_role_paths(2) known, folded roles_url_def,
      OF assms(2-4)]
  show ?thesis
    using g(2) parse_roles [of "server_client base serve" n cursor]
    by (simp add: GetSpaceRoles_def bindIO_apply)
qed

lemma GetSpaceRoles_canned:
  assumes "base_ok base" "answer (request_to (canned_client base answer) GET (roles_url base cursor n) None)
      = (200, json_print j)"
    and "plain j" "dec_ptr zero_RolesResponse dec_RolesResponse j None = (Some r, None)"
  shows "GetSpaceRoles (canned_client base answer) [] cursor n log =
    (Ret (srr_Results r, extractPaginationCursor (srr_Links r), Some no_limits, None),
     log @ [request_to (canned_client base answer) GET (roles_url base cursor n) None])"
  using GetSpaceRoles_served [where serve = "canned answer" and s = log and j = j, OF assms(1) _ assms(3,4)] assms(2)
  by (simp add: canned_client_def)

definition assignments_url :: "url \<Rightarrow> string \<Rightarrow> (string \<times> qvalue) list list \<Rightarrow> url" where
  "assignments_url base s pss = endpoint_url base (assignments_segs s) (SpaceRoleAssignmentsUrlPath s) pss"

lemma GetSpaceRoleAssignments_served:
  fixes serve base i roleId principalId principalType cursor n
  defines "u \<equiv> assignments_url base i (assignments_groups roleId principalId principalType cursor n)"
  assumes "base_ok base" "i \<noteq> ''.''" "i \<noteq> ''..''"
    and "serve (request_to (server_client base serve) GET u None) s = ((200, json_print j), s')"
    and "plain j" "dec_ptr zero_AssignmentsResponse dec_AssignmentsResponse j None = (Some r, None)"
  shows "GetSpaceRoleAssignments (server_client base serve) i roleId principalId principalType cursor n s =
    (Ret (srar_Results r, extractPaginationCursor (srar_Links r), Some no_limits, None), s')"
proof -
  let ?pss = "assignments_groups roleId principalId principalType cursor n"
  have known: "known_parameters ?pss" by (simp add: assignments_groups_def)
  note g = served_get [where serve = serve and s = s and s' = s'
      and d = "dec_ptr zero_AssignmentsResponse dec_AssignmentsResponse" and v = None,
      OF assms(2) good_assignments_segs [OF assms(3,4)] unescape_assignments known,
      folded assignments_url_def, folded u_def, OF assms(5-7)]
  show ?thesis
    using g
    by (simp add: GetSpaceRoleAssignments_def assignments_path assignment_options_groups bindIO_apply)
qed

lemma GetSpaceRoleAssignments_canned:
  fixes answer base i roleId principalId principalType cursor n
  defines "u \<equiv> assignments_url base i (assignments_groups roleId principalId principalType cursor n)"
  assumes "base_ok base" "i \<noteq> ''.''" "i \<noteq> ''..''"
    and "answer (request_to (canned_client base answer) GET u None) = (200, json_print j)"
    and "plain j" "dec_ptr zero_AssignmentsResponse dec_AssignmentsResponse j None = (Some r, None)"
  shows "GetSpaceRoleAssignments (canned_client base answer) i roleId principalId principalType cursor n log =
    (Ret (srar_Results r, extractPaginationCursor (srar_Links r), Some no_limits, None),
     log @ [request_to (canned_client base answer) GET u None])"
  using GetSpaceRoleAssignments_served [where serve = "canned answer" and s = log and j = j, OF assms(2-4) _ assms(6,7)]
    assms(5)
  by (simp add: canned_client_def u_def)

lemma SetSpaceRoleAssignment_served:
  fixes serve base i assignments
  defines "u \<equiv> assignments_url base i []"
  assumes "base_ok base" "i \<noteq> ''.''" "i \<noteq> ''..''"
    and "serve (request_to (server_client base serve) POST u
           (Some (json_print (JArr (map json_SetSpaceRoleAssignment assignments))))) s = ((200, json_print j), s')"
    and "plain j" "dec_AssignmentsResponse j zero_AssignmentsResponse = (r, None)"
  shows "SetSpaceRoleAssignment (server_client base serve) i assignments s = (Ret (Some no_limits, None), s')"
proof -
  have known: "known_parameters []" by (simp add: known_parameters_def)
  note g = served_request [where serve = serve and m = POST and s = s and s' = s'
      and b = "Some (json_print (JArr (map json_SetSpaceRoleAssignment assignments)))"
      and d = dec_AssignmentsResponse and v = zero_AssignmentsResponse,
      OF assms(2) good_assignments_segs [OF assms(3,4)] unescape_assignments known,
      folded assignments_url_def, folded u_def, OF assms(5-7)]
  show ?thesis
    using g
    by (simp add: SetSpaceRoleAssignment_def assignments_path bindIO_apply client_post_def Let_def)
qed

lemma canned_answered:
  "answered (canned_client base answer) m u b w (canned_response (answer (request_to (canned_client base answer) m u b)))
     (snd (answer (request_to (canned_client base answer) m u b)))
     (w @ [request_to (canned_client base answer) m u b])"
  by (simp add: answered_def)


theorem VerifyRbac_http_error_witness:
  "\<exists>w'. VerifyRbac (demo_client (\<lambda>_. (404, ''gone''))) [] = (Ret (Some rbac_not_supported), w')"
  using VerifyRbac_http_error [OF _ canned_answered [of demo_base "\<lambda>_. (404, ''gone'')" GET _ None "[]", folded demo_client_def]]
    demo_base_ok
  by (simp add: demo_client_def is_2xx_def)

end
