(* ===== verification/Helpers.thy ===== *)
theory Helpers
  imports Builder ClientRoles
begin

text \<open>
  The resource types (\<open>pkg/connector/resource_types.go\<close>) and the helpers that the builders share
  (\<open>pkg/connector/helpers.go\<close>).
\<close>

section \<open>Annotations of the resource types\<close>

definition annotationsForUserResourceType :: "annotation list" where
  "annotationsForUserResourceType = annos_Update AnySkipEntitlementsAndGrants []"

definition spaceRoleAnnotations :: "annotation list" where
  "spaceRoleAnnotations = annos_Update AnyOptInRequired (annos_Update AnySkipEntitlementsAndGrants [])"

definition spaceRoleAssignmentsAnnotations :: "annotation list" where
  "spaceRoleAssignmentsAnnotations = annos_Update AnyOptInRequired (annos_Update AnySkipEntitlements [])"

section \<open>Resource types\<close>

definition resourceTypeGroupID :: string where "resourceTypeGroupID = ''group''"
definition resourceTypeUserID :: string where "resourceTypeUserID = ''user''"
definition resourceTypeSpaceID :: string where "resourceTypeSpaceID = ''space''"
definition SpaceRoleResourceTypeID :: string where "SpaceRoleResourceTypeID = ''space_role''"
definition SpaceRoleAssignmentResourceTypeID :: string where
  "SpaceRoleAssignmentResourceTypeID = ''space_role_assignment''"

definition resourceTypeGroup :: ResourceType where
  "resourceTypeGroup = \<lparr>rt_Id = resourceTypeGroupID, rt_DisplayName = ''Group'',
     rt_Traits = [TRAIT_GROUP], rt_Annotations = []\<rparr>"

definition resourceTypeUser :: ResourceType where
  "resourceTypeUser = \<lparr>rt_Id = resourceTypeUserID, rt_DisplayName = ''User'',
     rt_Traits = [TRAIT_USER], rt_Annotations = annotationsForUserResourceType\<rparr>"

definition spaceResourceType :: ResourceType where
  "spaceResourceType = \<lparr>rt_Id = resourceTypeSpaceID, rt_DisplayName = ''Space'',
     rt_Traits = [], rt_Annotations = []\<rparr>"

definition spaceRoleResourceType :: ResourceType where
  "spaceRoleResourceType = \<lparr>rt_Id = SpaceRoleResourceTypeID, rt_DisplayName = ''Space Role'',
     rt_Traits = [TRAIT_ROLE], rt_Annotations = spaceRoleAnnotations\<rparr>"

definition spaceRoleAssignmentResourceType :: ResourceType where
  "spaceRoleAssignmentResourceType =
     \<lparr>rt_Id = SpaceRoleAssignmentResourceTypeID, rt_DisplayName = ''Space Role Assignment'',
      rt_Traits = [TRAIT_SCOPE_BINDING], rt_Annotations = spaceRoleAssignmentsAnnotations\<rparr>"

lemmas resource_type_defs =
  resourceTypeGroup_def resourceTypeUser_def spaceResourceType_def spaceRoleResourceType_def
  spaceRoleAssignmentResourceType_def resourceTypeGroupID_def resourceTypeUserID_def
  resourceTypeSpaceID_def SpaceRoleResourceTypeID_def SpaceRoleAssignmentResourceTypeID_def

lemma resource_type_ids [simp]:
  "rt_Id resourceTypeGroup = ''group''" "rt_Id resourceTypeUser = ''user''"
  "rt_Id spaceResourceType = ''space''" "rt_Id spaceRoleResourceType = ''space_role''"
  "rt_Id spaceRoleAssignmentResourceType = ''space_role_assignment''"
  by (simp_all add: resource_type_defs)

section \<open>Helpers\<close>

definition ResourcesPageSize :: goint where "ResourcesPageSize = 200"

definition accountTypeAtlassian :: string where "accountTypeAtlassian = ''atlassian''"

text \<open>
  A nil description is packed as an empty message: the annotation is there all the same.
\<close>

definition rate_limit_message :: "RateLimitDescription option \<Rightarrow> annotation" where
  "rate_limit_message d = AnyRateLimit (case d of None \<Rightarrow> zero_RateLimit | Some r \<Rightarrow> r)"

definition WithRateLimitAnnotations :: "RateLimitDescription option list \<Rightarrow> annotation list" where
  "WithRateLimitAnnotations descriptions = fold annos_Append (map rate_limit_message descriptions) []"

definition shouldIncludeUser :: "ConfluenceUser \<Rightarrow> bool" where
  "shouldIncludeUser user \<longleftrightarrow> usr_AccountType user = accountTypeAtlassian"

definition syncResults :: "string \<Rightarrow> annotation list \<Rightarrow> SyncOpResults option" where
  "syncResults nextToken annos = Some \<lparr>NextPageToken = nextToken, Annotations = annos\<rparr>"

definition confluencePrincipalType :: "string \<Rightarrow> go_error + string" where
  "confluencePrincipalType resourceTypeId =
     (if resourceTypeId = resourceTypeUserID then Inr ''USER''
      else if resourceTypeId = resourceTypeGroupID then Inr ''GROUP''
      else Inl (ErrText (''unsupported principal resource type: '' @ resourceTypeId)))"

text \<open>The annotation that makes a group's members inherit what is granted to the group.\<close>

definition expand_group :: "string \<Rightarrow> annotation" where
  "expand_group groupId = AnyGrantExpandable [''group:'' @ groupId @ '':member'']"

lemma token_of_syncResults [simp]: "token_of (syncResults t annos) = t"
  by (simp add: token_of_def syncResults_def)

lemma token_of_None [simp]: "token_of None = []"
  by (simp add: token_of_def)

text \<open>What a later call reads of a grant that \<open>NewGrant\<close> built.\<close>

lemma grant_parts [simp]:
  "gr_Entitlement (NewGrant res e pid as) = Some (grant_entitlement res e)"
  "ent_Resource (grant_entitlement res e) = Some res"
  "gr_Principal (NewGrant res e pid as) = Some (principal_resource pid)"
  "res_Id (principal_resource pid) = Some pid"
  by (simp_all add: NewGrant_def grant_entitlement_def principal_resource_def)

end
