(* ===== verification/User.thy ===== *)
theory User
  imports Helpers
begin

text \<open>
  The user builder (\<open>pkg/connector/user.go\<close>): Confluence has no endpoint that lists all users, so
  \<open>List\<close> searches first, and then walks through all groups and their members, with a stack of page
  states as its token.
\<close>

definition GroupPageSizeMaximum :: goint where "GroupPageSizeMaximum = 200"

definition limitPageSizeForGroups :: "goint \<Rightarrow> goint" where
  "limitPageSizeForGroups pageSize =
     (if pageSize \<le>s 0 \<or> GroupPageSizeMaximum <s pageSize then GroupPageSizeMaximum else pageSize)"

definition userResource :: "ConfluenceUser \<Rightarrow> go_error + Resource" where
  "userResource user =
     NewUserResource (usr_DisplayName user) resourceTypeUser (usr_AccountId user)
       [WithEmail (usr_Email user) True]
       [WithResourceProfile
          [(''user_name'', PString (usr_DisplayName user)),
           (''account_type'', PString (usr_AccountType user)),
           (''email'', PString (usr_Email user)),
           (''id'', PString (usr_AccountId user))],
        WithResourceStatus
          (if usr_Operations user = [] then RESOURCE_STATUS_DISABLED else RESOURCE_STATUS_ENABLED) []]"

definition parsePageToken :: "Token \<Rightarrow> ResourceId \<Rightarrow> Bag \<times> string \<times> goint \<times> go_error option" where
  "parsePageToken pToken resourceID =
     (case Unmarshal (tok_Token pToken) empty_bag of
        (_, Some e) \<Rightarrow> (empty_bag, ''0'', 0, Some e)
      | (b0, None) \<Rightarrow>
          (let b = (if Current b0 = None
                    then Push \<lparr>ps_Token = [], ps_ResourceTypeID = rid_ResourceType resourceID,
                               ps_ResourceID = rid_Resource resourceID\<rparr> b0
                    else b0);
               page = PageToken b;
               size' = (if tok_Size pToken = 0 then ResourcesPageSize else tok_Size pToken)
           in (b, if page = [] then ''0'' else page, size', None)))"

text \<open>The loop that both the search and the members of a group go through.\<close>

definition userResources :: "ConfluenceUser list \<Rightarrow> go_error + Resource list" where
  "userResources users = try_map userResource (filter shouldIncludeUser users)"

text \<open>One case of the switch in \<open>List\<close> each; what follows the switch is \<open>user_page\<close>.\<close>

definition user_page :: "Bag \<Rightarrow> Resource list \<Rightarrow> annotation list \<Rightarrow> ('w, Resource) page_call" where
  "user_page bag outputResources outputAnnotations =
     ret (outputResources, syncResults (Marshal bag) outputAnnotations, None)"

definition placeholder :: PageState where
  "placeholder = \<lparr>ps_Token = [], ps_ResourceTypeID = rt_Id resourceTypeUser, ps_ResourceID = []\<rparr>"

definition userList_search :: "'w ConfluenceClient \<Rightarrow> Bag \<Rightarrow> string \<Rightarrow> goint \<Rightarrow> ('w, Resource) page_call"
where
  "userList_search c bag page pageSize =
     bindIO (GetUsersFromSearch c page pageSize)
       (\<lambda>(users, nextToken, ratelimitData, err).
          let outputAnnotations = WithRateLimitAnnotations [ratelimitData] in
          case err of
            Some e \<Rightarrow> ret ([], syncResults [] outputAnnotations, Some e)
          | None \<Rightarrow>
              (case userResources users of
                 Inl e \<Rightarrow> ret ([], None, Some e)
               | Inr outputResources \<Rightarrow>
                   (case Next nextToken bag of
                      (_, Some e) \<Rightarrow> ret ([], None, Some e)
                    | (bag', None) \<Rightarrow>
                        user_page (if Current bag' = None then Push placeholder bag' else bag')
                          outputResources outputAnnotations)))"

definition group_state :: "ConfluenceGroup \<Rightarrow> PageState" where
  "group_state g =
     \<lparr>ps_Token = [], ps_ResourceTypeID = rt_Id resourceTypeGroup, ps_ResourceID = grp_Id g\<rparr>"

definition userList_groups :: "'w ConfluenceClient \<Rightarrow> Bag \<Rightarrow> string \<Rightarrow> goint \<Rightarrow> ('w, Resource) page_call"
where
  "userList_groups c bag page pageSize =
     bindIO (GetGroups c (if page = [] then ''0'' else page) (limitPageSizeForGroups pageSize))
       (\<lambda>(groups, nextToken, ratelimitData, err).
          let outputAnnotations = WithRateLimitAnnotations [ratelimitData] in
          case err of
            Some e \<Rightarrow> ret ([], syncResults [] outputAnnotations, Some e)
          | None \<Rightarrow>
              (case Next nextToken bag of
                 (_, Some e) \<Rightarrow> ret ([], syncResults [] outputAnnotations, Some e)
               | (bag', None) \<Rightarrow>
                   user_page (fold Push (map group_state groups) bag') [] outputAnnotations))"

definition userList_members :: "'w ConfluenceClient \<Rightarrow> Bag \<Rightarrow> goint \<Rightarrow> ('w, Resource) page_call" where
  "userList_members c bag pageSize =
     deref (Current bag) (\<lambda>currentState.
       bindIO (GetGroupMembers c (if ps_Token currentState = [] then ''0'' else ps_Token currentState)
                 pageSize (ps_ResourceID currentState))
         (\<lambda>(users, nextToken, ratelimitData, err).
            let outputAnnotations = WithRateLimitAnnotations [ratelimitData] in
            case err of
              Some e \<Rightarrow> ret ([], syncResults [] outputAnnotations, Some e)
            | None \<Rightarrow>
                (case Next nextToken bag of
                   (_, Some e) \<Rightarrow> ret ([], syncResults [] outputAnnotations, Some e)
                 | (bag', None) \<Rightarrow>
                     (case userResources users of
                        Inl e \<Rightarrow> ret ([], None, Some e)
                      | Inr outputResources \<Rightarrow>
                          user_page bag' outputResources outputAnnotations))))"

definition userList :: "'w ConfluenceClient \<Rightarrow> Token \<Rightarrow> ('w, Resource) page_call" where
  "userList c pageToken =
     (case parsePageToken pageToken \<lparr>rid_ResourceType = [], rid_Resource = []\<rparr> of
        (_, _, _, Some e) \<Rightarrow> ret ([], None, Some e)
      | (bag, page, pageSize, None) \<Rightarrow>
          if ResourceTypeID bag = [] then userList_search c bag page pageSize
          else if ResourceTypeID bag = rt_Id resourceTypeUser then userList_groups c bag page pageSize
          else if ResourceTypeID bag = rt_Id resourceTypeGroup then userList_members c bag pageSize
          else ret ([], None, Some (ErrText ''unexpected resource type while fetching list of users'')))"

definition userEntitlements :: "Resource \<Rightarrow> Entitlement list \<times> SyncOpResults option \<times> go_error option"
where "userEntitlements _ = ([], None, None)"

definition userGrants :: "Resource \<Rightarrow> Grant list \<times> SyncOpResults option \<times> go_error option"
where "userGrants _ = ([], None, None)"

lemma limitPageSizeForGroups_bounds:
  "1 \<le> sint (limitPageSizeForGroups n) \<and> sint (limitPageSizeForGroups n) \<le> 200 \<and>
   limitPageSizeForGroups n = (if 1 \<le> sint n \<and> sint n \<le> 200 then n else 200)"
  by (auto simp: limitPageSizeForGroups_def GroupPageSizeMaximum_def word_sle_eq word_sless_alt)

definition expected_user :: "ConfluenceUser \<Rightarrow> Resource" where
  "expected_user u =
     \<lparr>res_Id = Some \<lparr>rid_ResourceType = ''user'', rid_Resource = usr_AccountId u\<rparr>,
      res_ParentResourceId = None, res_DisplayName = usr_DisplayName u,
      res_Annotations = [AnyUserTrait
        \<lparr>ut_Emails = (if usr_Email u = [] then [] else [(usr_Email u, True)]),
         ut_Status = Some STATUS_ENABLED, ut_Human = True\<rparr>],
      res_Description = [],
      res_Profile = Some [(''user_name'', PString (usr_DisplayName u)),
        (''account_type'', PString (usr_AccountType u)), (''email'', PString (usr_Email u)),
        (''id'', PString (usr_AccountId u))],
      res_Status = Some (if usr_Operations u = [] then RESOURCE_STATUS_DISABLED
                         else RESOURCE_STATUS_ENABLED, [])\<rparr>"

lemma userResource_eq:
  "userResource u =
    (if valid_utf8 (usr_DisplayName u) \<and> valid_utf8 (usr_AccountType u) \<and> valid_utf8 (usr_Email u) \<and>
        valid_utf8 (usr_AccountId u)
     then Inr (expected_user u) else Inl (ErrText ''proto: invalid UTF-8 in string''))"
  by (simp add: userResource_def NewUserResource_def NewResource_def WithResourceProfile_def
      NewStruct_def valid_utf8_ascii is_ascii_def WithResourceStatus_def
      WithUserTrait_def NewUserTrait_def WithEmail_def zero_UserTrait_def expected_user_def
      syncUserTraitToResource_def)

interpretation user_lister: lister "\<lambda>t. userList c \<lparr>tok_Size = n, tok_Token = t\<rparr>" for c n
  by unfold_locales
    (auto simp: userList_def userList_search_def userList_groups_def userList_members_def user_page_def
      Let_def elim!: lister_bind [rotated] lister_deref [rotated] split: lister_splits)

lemma userResource_outcome:
  "userResource u =
    (if valid_utf8 (usr_DisplayName u) \<and> valid_utf8 (usr_AccountType u) \<and> valid_utf8 (usr_Email u) \<and>
        valid_utf8 (usr_AccountId u)
     then Inr \<lparr>res_Id = Some \<lparr>rid_ResourceType = ''user'', rid_Resource = usr_AccountId u\<rparr>,
       res_ParentResourceId = None, res_DisplayName = usr_DisplayName u,
       res_Annotations = [AnyUserTrait
         \<lparr>ut_Emails = (if usr_Email u = [] then [] else [(usr_Email u, True)]),
          ut_Status = Some STATUS_ENABLED, ut_Human = True\<rparr>],
       res_Description = [],
       res_Profile = Some [(''user_name'', PString (usr_DisplayName u)),
         (''account_type'', PString (usr_AccountType u)), (''email'', PString (usr_Email u)),
         (''id'', PString (usr_AccountId u))],
       res_Status = Some (if usr_Operations u = [] then RESOURCE_STATUS_DISABLED
                          else RESOURCE_STATUS_ENABLED, [])\<rparr>
     else Inl (ErrText ''proto: invalid UTF-8 in string''))"
  by (simp add: userResource_eq expected_user_def)

end
