(* ===== verification/Site.thy ===== *)
theory Site
  imports User
begin

text \<open>
  A reference Confluence site, to run the listing of users against: its users, its groups and the
  members of each group, served over the v1 endpoints by offset and limit, as JSON. The site is the
  state of the world: a POST adds a member to a group and a DELETE removes one. Listings are proved
  complete, and changes proved right, for every such site.
\<close>

section \<open>The site and its answers\<close>

record site =
  st_users :: "ConfluenceUser list"
  st_groups :: "ConfluenceGroup list"
  st_members :: "string \<Rightarrow> ConfluenceUser list"

definition window :: "nat \<Rightarrow> nat \<Rightarrow> 'a list \<Rightarrow> 'a list" where
  "window i n xs = take n (drop i xs)"

definition json_operation :: "ConfluenceOperation \<Rightarrow> json" where
  "json_operation x = JObj (member ''operation'' (op_Operation x) @ member ''targetType'' (op_TargetType x))"

definition json_user :: "ConfluenceUser \<Rightarrow> json" where
  "json_user u = JObj
     (member ''accountId'' (usr_AccountId u) @ member ''accountType'' (usr_AccountType u) @
      member ''displayName'' (usr_DisplayName u) @ member ''email'' (usr_Email u) @
      [(''operations'', JArr (map json_operation (usr_Operations u)))])"

definition json_group :: "ConfluenceGroup \<Rightarrow> json" where
  "json_group g = JObj (member ''type'' (grp_Type g) @ member ''name'' (grp_Name g) @ member ''id'' (grp_Id g))"

definition json_links :: "bool \<Rightarrow> json" where
  "json_links has_next = JObj (if has_next then member ''next'' ''/next'' else [])"

definition json_search :: "ConfluenceUser list \<Rightarrow> json" where
  "json_search us = JObj [(''results'', JArr (map (\<lambda>u. JObj [(''user'', json_user u)]) us))]"

definition json_groups :: "ConfluenceGroup list \<Rightarrow> bool \<Rightarrow> json" where
  "json_groups gs has_next = JObj [(''results'', JArr (map json_group gs)), (''_links'', json_links has_next)]"

definition json_members :: "ConfluenceUser list \<Rightarrow> bool \<Rightarrow> json" where
  "json_members us has_next = JObj [(''results'', JArr (map json_user us)), (''_links'', json_links has_next)]"

definition offset :: "string \<Rightarrow> nat" where "offset s = nat (sint (strToInt s))"

definition site_answer :: "site \<Rightarrow> answers" where
  "site_answer S req =
     (let p = Path (req_URL req); q = url_Query (req_URL req);
          i = offset (values_get q ''start''); n = offset (values_get q ''limit'')
      in if p = SearchUrlPath then (200, json_print (json_search (window i n (st_users S))))
         else if p = GroupsListUrlPath then
           (200, json_print (json_groups (window i n (st_groups S)) (i + n < length (st_groups S))))
         else case find (\<lambda>g. p = getUsersByGroupIdUrlPath (grp_Id g)) (st_groups S) of
           None \<Rightarrow> (404, ''not found'')
         | Some g \<Rightarrow>
             (let ms = st_members S (grp_Id g)
              in (200, json_print (json_members (window i n ms) (i + n < length ms)))))"

definition json_member :: "string \<Rightarrow> json \<Rightarrow> json" where
  "json_member k j = (case j of JObj ms \<Rightarrow> (case map_of ms k of None \<Rightarrow> JNull | Some v \<Rightarrow> v) | _ \<Rightarrow> JNull)"

definition json_text :: "json \<Rightarrow> string" where
  "json_text j = (case j of JStr s \<Rightarrow> s | _ \<Rightarrow> [])"

text \<open>The members of a group change by account id; only users that the site knows can become members.\<close>

definition add_member :: "string \<Rightarrow> ConfluenceUser \<Rightarrow> site \<Rightarrow> site" where
  "add_member g u S =
     (if u \<in> set (st_members S g) then S
      else S\<lparr>st_members := (st_members S)(g := st_members S g @ [u])\<rparr>)"

definition remove_member :: "string \<Rightarrow> string \<Rightarrow> site \<Rightarrow> site" where
  "remove_member g a S =
     S\<lparr>st_members := (st_members S)(g := filter (\<lambda>u. usr_AccountId u \<noteq> a) (st_members S g))\<rparr>"

definition known_user :: "site \<Rightarrow> string \<Rightarrow> ConfluenceUser option" where
  "known_user S a = find (\<lambda>u. usr_AccountId u = a) (st_users S)"

definition account_of_body :: "string \<Rightarrow> string" where
  "account_of_body body =
     (case json_parse body of Some j \<Rightarrow> json_text (json_member ''accountId'' j) | None \<Rightarrow> [])"

definition site_change :: "site service" where
  "site_change req S =
     (let q = url_Query (req_URL req); g = values_get q ''groupId''
      in if Path (req_URL req) \<noteq> groupBaseUrlPath \<or> g \<notin> grp_Id ` set (st_groups S)
         then ((404, ''not found''), S)
         else case (req_Method req, req_Body req) of
           (POST, Some body) \<Rightarrow>
             (case known_user S (account_of_body body) of
                None \<Rightarrow> ((404, ''not found''), S)
              | Some u \<Rightarrow> ((201, []), add_member g u S))
         | (DELETE, _) \<Rightarrow> ((204, []), remove_member g (values_get q ''accountId'') S)
         | _ \<Rightarrow> ((405, ''method not allowed''), S))"

definition site_serve :: "site service" where
  "site_serve req S = (if req_Method req = GET then (site_answer S req, S) else site_change req S)"

section \<open>The answers decode to what the site holds\<close>

lemma dec_operation: "dec_Operation (json_operation x) zero_Operation = (x, None)"
  by (simp add: dec_Operation_def json_operation_def member_def field_dec_def find_field_def
      zero_Operation_def)

lemma dec_user: "dec_User (json_user u) zero_User = (u, None)"
proof -
  have "dec_elems zero_Operation dec_Operation (map json_operation xs) = (xs, None)" for xs
    by (rule dec_elems_map) (simp add: dec_operation)
  then show ?thesis
    by (simp add: dec_User_def json_user_def member_def field_dec_def find_field_def zero_User_def)
qed

lemma fold_key_fields [simp]:
  "fold_key ''Type'' = ''TYPE''" "fold_key ''type'' = ''TYPE''" "fold_key ''Name'' = ''NAME''"
  "fold_key ''name'' = ''NAME''" "fold_key ''Id'' = ''ID''" "fold_key ''id'' = ''ID''"
  by code_simp+

lemma dec_group: "dec_Group (json_group g) zero_Group = (g, None)"
  by (simp add: dec_Group_def json_group_def member_def field_dec_def find_field_def zero_Group_def
      del: fold_key.simps)

lemma dec_links:
  "dec_Link (json_links has_next) zero_Link = (zero_Link\<lparr>link_Next := if has_next then ''/next'' else []\<rparr>, None)"
  by (simp add: dec_Link_def json_links_def member_def field_dec_def find_field_def zero_Link_def)

lemma dec_search:
  "dec_ptr zero_SearchList dec_SearchList (json_search us) None
   = (Some (zero_SearchList\<lparr>sl_Results := map (\<lambda>u. zero_Search\<lparr>cs_User := u\<rparr>) us\<rparr>), None)"
proof -
  have "dec_Search (JObj [(''user'', json_user u)]) zero_Search = (zero_Search\<lparr>cs_User := u\<rparr>, None)" for u
    using dec_user [of u]
    by (simp add: dec_Search_def field_dec_def find_field_def zero_Search_def)
  then have "dec_elems zero_Search dec_Search (map (\<lambda>u. JObj [(''user'', json_user u)]) us)
      = (map (\<lambda>u. zero_Search\<lparr>cs_User := u\<rparr>) us, None)"
    by (induction us) simp_all
  then show ?thesis
    by (simp add: dec_SearchList_def json_search_def field_dec_def find_field_def zero_SearchList_def)
qed

lemma dec_groups:
  "dec_ptr zero_GroupList dec_GroupList (json_groups gs has_next) None
   = (Some (zero_GroupList\<lparr>gl_Results := gs,
        gl_Links := zero_Link\<lparr>link_Next := if has_next then ''/next'' else []\<rparr>\<rparr>), None)"
proof -
  have "dec_elems zero_Group dec_Group (map json_group gs) = (gs, None)"
    by (rule dec_elems_map) (simp add: dec_group)
  then show ?thesis
    using dec_links [of has_next]
    by (simp add: dec_GroupList_def json_groups_def field_dec_def find_field_def zero_GroupList_def)
qed

lemma dec_members:
  "dec_ptr zero_UserList dec_UserList (json_members us has_next) None
   = (Some (zero_UserList\<lparr>ul_Results := us,
        ul_Links := zero_Link\<lparr>link_Next := if has_next then ''/next'' else []\<rparr>\<rparr>), None)"
proof -
  have "dec_elems zero_User dec_User (map json_user us) = (us, None)"
    by (rule dec_elems_map) (simp add: dec_user)
  then show ?thesis
    using dec_links [of has_next]
    by (simp add: dec_UserList_def json_members_def field_dec_def find_field_def zero_UserList_def)
qed

section \<open>Well-formed sites\<close>

definition user_valid :: "ConfluenceUser \<Rightarrow> bool" where
  "user_valid u \<longleftrightarrow> valid_utf8 (usr_AccountId u) \<and> valid_utf8 (usr_AccountType u) \<and>
     valid_utf8 (usr_DisplayName u) \<and> valid_utf8 (usr_Email u) \<and>
     list_all (\<lambda>x. valid_utf8 (op_Operation x) \<and> valid_utf8 (op_TargetType x)) (usr_Operations u)"

definition group_valid :: "ConfluenceGroup \<Rightarrow> bool" where
  "group_valid g \<longleftrightarrow> valid_utf8 (grp_Type g) \<and> valid_utf8 (grp_Name g) \<and> list_all id_char (grp_Id g)"

text \<open>Offsets stay far below \<open>2 ^ 63\<close>.\<close>

definition small :: "'a list \<Rightarrow> bool" where "small xs \<longleftrightarrow> length xs < 1000000000"

definition site_ok :: "site \<Rightarrow> bool" where
  "site_ok S \<longleftrightarrow>
     small (st_users S) \<and> list_all user_valid (st_users S) \<and>
     small (st_groups S) \<and> list_all group_valid (st_groups S) \<and>
     list_all (\<lambda>g. small (st_members S (grp_Id g)) \<and> list_all user_valid (st_members S (grp_Id g)))
       (st_groups S)"

lemma plain_user: "user_valid u \<Longrightarrow> plain (json_user u)"
  by (auto simp: json_user_def user_valid_def member_def json_operation_def valid_utf8_ascii
      is_ascii_def list_all_iff)

lemma plain_group: "group_valid g \<Longrightarrow> plain (json_group g)"
  by (simp add: json_group_def group_valid_def member_def valid_utf8_ascii is_ascii_def id_valid)

lemma plain_links [simp]: "plain (json_links has_next)"
  by (simp add: json_links_def member_def valid_utf8_ascii is_ascii_def)

lemma plain_search: "list_all user_valid us \<Longrightarrow> plain (json_search us)"
  by (simp add: json_search_def valid_utf8_ascii is_ascii_def list_all_iff plain_user)

lemma plain_groups: "list_all group_valid gs \<Longrightarrow> plain (json_groups gs has_next)"
  by (simp add: json_groups_def valid_utf8_ascii is_ascii_def list_all_iff plain_group)

lemma plain_members: "list_all user_valid us \<Longrightarrow> plain (json_members us has_next)"
  by (simp add: json_members_def valid_utf8_ascii is_ascii_def list_all_iff plain_user)

lemma window_all: "list_all P xs \<Longrightarrow> list_all P (window i n xs)"
  by (auto simp: window_def list_all_iff dest: in_set_takeD in_set_dropD)

lemma length_window: "length (window i n xs) = min n (length xs - i)"
  by (simp add: window_def)

section \<open>The client's operations on a site\<close>

definition site_client :: "url \<Rightarrow> site ConfluenceClient" where
  "site_client base = server_client base site_serve"

lemma site_client_simps [simp]: "client_apiBase (site_client base) = base"
  by (simp add: site_client_def)

lemma offset_itoa [simp]: "offset (itoa x) = nat (sint x)"
  by (simp add: offset_def strToInt_def)

definition search_segs :: "string list" where
  "search_segs = [''wiki'', ''rest'', ''api'', ''search'', ''user'']"

definition groups_segs :: "string list" where
  "groups_segs = [''wiki'', ''rest'', ''api'', ''group'']"

definition members_segs :: "string \<Rightarrow> string list" where
  "members_segs g = [''wiki'', ''rest'', ''api'', ''group'', g, ''membersByGroupId'']"

lemma literal_segment:
  "list_all (\<lambda>c. is_lower c \<or> is_upper c) e \<Longrightarrow> good_segment e"
  by (auto simp: good_segment_def list_all_iff seg_char_def is_alnum_def is_lower_def is_upper_def)

lemma segs_paths:
  "path_of search_segs = SearchUrlPath" "path_of groups_segs = GroupsListUrlPath"
  "path_of (members_segs g) = getUsersByGroupIdUrlPath g"
  by (simp_all add: search_segs_def groups_segs_def members_segs_def SearchUrlPath_def
      GroupsListUrlPath_def getUsersByGroupIdUrlPath_def)

lemma good_segs:
  "good_segments search_segs" "good_segments groups_segs"
  "list_all id_char g \<Longrightarrow> good_segments (members_segs g)"
  by (simp_all add: good_segments_def search_segs_def groups_segs_def members_segs_def id_segment)
    (simp_all add: literal_segment is_lower_def is_upper_def)

lemma unescape_paths:
  "unescape EncodePath (path_of search_segs) = Inr SearchUrlPath"
  "unescape EncodePath (path_of groups_segs) = Inr GroupsListUrlPath"
  "list_all id_char g \<Longrightarrow>
   unescape EncodePath (path_of (members_segs g)) = Inr (getUsersByGroupIdUrlPath g)"
  unfolding segs_paths
  by (rule unescape_literal; simp add: SearchUrlPath_def GroupsListUrlPath_def
      getUsersByGroupIdUrlPath_def literal_id literal_char_def is_alnum_def is_lower_def
      is_upper_def is_digit_def)+

text \<open>One GET of the site, from the path and the parameters to the decoded answer.\<close>

lemma site_get:
  assumes "base_ok base" "good_segments segs" "unescape EncodePath (path_of segs) = Inr path"
    "known_parameters pss"
    and "u = endpoint_url base segs path pss"
    and "site_answer S (request_to (site_client base) GET u None) = (200, json_print j)"
    and "plain j" "d j v = (v', None)"
  shows "parse (site_client base) (path_of segs) (map withQueryParameters pss) = Inr u"
    "client_get (site_client base) u d v S = (Ret (v', Some no_limits, None), S)"
  using served_get [where serve = site_serve and s = S and s' = S and j = j and d = d and v = v and v' = v', OF assms(1-4)]
    assms(5-8)
  by (auto simp: site_client_def site_serve_def request_to_def)

definition offset_parameters :: "string \<Rightarrow> goint \<Rightarrow> (string \<times> qvalue) list" where
  "offset_parameters tok n = [(''limit'', QInt n), (''start'', QString tok)]"

lemma offset_query:
  assumes "distinct (map fst ps)" "map_of ps ''start'' = None" "map_of ps ''limit'' = None"
  shows "values_get (url_Query (endpoint_url b segs path [offset_parameters tok n, ps])) ''start'' = tok"
    "values_get (url_Query (endpoint_url b segs path [offset_parameters tok n, ps])) ''limit'' = itoa n"
  using assms query_of_endpoint_url [of ps b segs path "[offset_parameters tok n]"]
    query_of_endpoint_url [of "offset_parameters tok n" b segs path "[]"]
  by (simp_all add: values_get_Some offset_parameters_def)

lemma offset_query1:
  "values_get (url_Query (endpoint_url b segs path [offset_parameters tok n])) ''start'' = tok"
  "values_get (url_Query (endpoint_url b segs path [offset_parameters tok n])) ''limit'' = itoa n"
  using query_of_endpoint_url [of "offset_parameters tok n" b segs path "[]"]
  by (simp_all add: values_get_Some offset_parameters_def)

lemma request_to_URL [simp]: "req_URL (request_to c m u b) = u"
  by (simp add: request_to_def)

lemma GetUsersFromSearch_site:
  assumes "base_ok base" "site_ok S"
  defines "us \<equiv> \<lambda>tok n. window (offset tok) (nat (sint n)) (st_users S)"
  shows "GetUsersFromSearch (site_client base) tok n S =
     (Ret (us tok n, if go_len (us tok n) <s n then [] else incToken tok (go_len (us tok n)),
           Some no_limits, None), S)"
proof -
  let ?ps = "[(''cql'', QString ''type=user''), (''expand'', QString ''operations'')]"
  let ?pss = "[offset_parameters tok n, ?ps]"
  let ?u = "endpoint_url base search_segs SearchUrlPath ?pss"
  have known: "known_parameters ?pss" by (simp add: known_parameters_def offset_parameters_def)
  have ans: "site_answer S (request_to (site_client base) GET ?u None)
      = (200, json_print (json_search (us tok n)))"
    by (simp add: site_answer_def offset_query us_def)
  have pl: "plain (json_search (us tok n))"
    using assms(2) by (simp add: us_def plain_search window_all site_ok_def)
  have opts: "map withQueryParameters ?pss = [withLimitAndOffset tok n, withQueryParameters ?ps]"
    by (simp add: offset_parameters_def withLimitAndOffset_def)
  note g = site_get [where d = "dec_ptr zero_SearchList dec_SearchList" and v = None,
      OF assms(1) good_segs(1) unescape_paths(1) known refl ans pl dec_search [of "us tok n"]]
  note p = g(1) [unfolded opts segs_paths]
  have r: "client_get (site_client base) ?u (dec_ptr zero_SearchList dec_SearchList) None S
      = (Ret (Some (zero_SearchList\<lparr>sl_Results := map (\<lambda>u. zero_Search\<lparr>cs_User := u\<rparr>) (us tok n)\<rparr>), Some no_limits, None), S)"
    by (rule g(2))
  show ?thesis
    by (simp add: GetUsersFromSearch_def p bindIO_apply r isThereAnotherPage_def comp_def Let_def)
qed

lemma GetGroups_site:
  assumes "base_ok base" "site_ok S"
  defines "gs \<equiv> \<lambda>tok n. window (offset tok) (nat (sint n)) (st_groups S)"
  shows "GetGroups (site_client base) tok n S =
     (Ret (gs tok n,
           if offset tok + nat (sint n) < length (st_groups S) then incToken tok (go_len (gs tok n)) else [],
           Some no_limits, None), S)"
proof -
  let ?u = "endpoint_url base groups_segs GroupsListUrlPath [offset_parameters tok n]"
  let ?has_next = "offset tok + nat (sint n) < length (st_groups S)"
  have known: "known_parameters [offset_parameters tok n]"
    by (simp add: known_parameters_def offset_parameters_def)
  have ans: "site_answer S (request_to (site_client base) GET ?u None)
      = (200, json_print (json_groups (gs tok n) ?has_next))"
    by (simp add: site_answer_def offset_query1 gs_def SearchUrlPath_def GroupsListUrlPath_def Let_def)
  have pl: "plain (json_groups (gs tok n) ?has_next)"
    using assms(2) by (simp add: gs_def plain_groups window_all site_ok_def)
  have opts: "map withQueryParameters [offset_parameters tok n] = [withLimitAndOffset tok n]"
    by (simp add: offset_parameters_def withLimitAndOffset_def)
  note g = site_get [where d = "dec_ptr zero_GroupList dec_GroupList" and v = None,
      OF assms(1) good_segs(2) unescape_paths(2) known refl ans pl dec_groups [of "gs tok n" ?has_next]]
  note p = g(1) [unfolded opts segs_paths]
  have r: "client_get (site_client base) ?u (dec_ptr zero_GroupList dec_GroupList) None S
      = (Ret (Some (zero_GroupList\<lparr>gl_Results := gs tok n,
          gl_Links := zero_Link\<lparr>link_Next := if ?has_next then ''/next'' else []\<rparr>\<rparr>), Some no_limits, None), S)"
    by (rule g(2))
  show ?thesis
    by (simp add: GetGroups_def p bindIO_apply r isThereAnotherPage_def comp_def Let_def)
qed

lemma GetGroupMembers_site:
  assumes "base_ok base" "site_ok S" "g \<in> set (st_groups S)"
  defines "us \<equiv> \<lambda>tok n. window (offset tok) (nat (sint n)) (st_members S (grp_Id g))"
  shows "GetGroupMembers (site_client base) tok n (grp_Id g) S =
     (Ret (us tok n,
           if offset tok + nat (sint n) < length (st_members S (grp_Id g))
           then incToken tok (go_len (us tok n)) else [],
           Some no_limits, None), S)"
proof -
  let ?ps = "[(''expand'', QString ''operations'')]"
  let ?pss = "[offset_parameters tok n, ?ps]"
  let ?u = "endpoint_url base (members_segs (grp_Id g)) (getUsersByGroupIdUrlPath (grp_Id g)) ?pss"
  let ?has_next = "offset tok + nat (sint n) < length (st_members S (grp_Id g))"
  have ok: "list_all id_char (grp_Id g)" "list_all user_valid (st_members S (grp_Id g))"
    using assms(2,3) by (auto simp: site_ok_def list_all_iff group_valid_def)
  have known: "known_parameters ?pss" by (simp add: known_parameters_def offset_parameters_def)
  have "\<exists>g'. find (\<lambda>h. getUsersByGroupIdUrlPath (grp_Id g) = getUsersByGroupIdUrlPath (grp_Id h)) (st_groups S)
      = Some g' \<and> grp_Id g' = grp_Id g"
    using assms(3)
    by (cases "find (\<lambda>h. getUsersByGroupIdUrlPath (grp_Id g) = getUsersByGroupIdUrlPath (grp_Id h)) (st_groups S)")
      (auto simp: find_None_iff find_Some_iff getUsersByGroupIdUrlPath_def)
  then have ans: "site_answer S (request_to (site_client base) GET ?u None)
      = (200, json_print (json_members (us tok n) ?has_next))"
    by (auto simp: site_answer_def offset_query us_def SearchUrlPath_def GroupsListUrlPath_def
        Let_def getUsersByGroupIdUrlPath_def)
  have pl: "plain (json_members (us tok n) ?has_next)"
    using ok(2) by (simp add: us_def plain_members window_all)
  have opts: "map withQueryParameters ?pss = [withLimitAndOffset tok n, withQueryParameters ?ps]"
    by (simp add: offset_parameters_def withLimitAndOffset_def)
  note g = site_get [where d = "dec_ptr zero_UserList dec_UserList" and v = None,
      OF assms(1) good_segs(3) [OF ok(1)] unescape_paths(3) [OF ok(1)] known refl ans pl
      dec_members [of "us tok n" ?has_next]]
  note p = g(1) [unfolded opts segs_paths]
  have r: "client_get (site_client base) ?u (dec_ptr zero_UserList dec_UserList) None S
      = (Ret (Some (zero_UserList\<lparr>ul_Results := us tok n,
          ul_Links := zero_Link\<lparr>link_Next := if ?has_next then ''/next'' else []\<rparr>\<rparr>), Some no_limits, None), S)"
    by (rule g(2))
  show ?thesis
    by (simp add: GetGroupMembers_def p bindIO_apply r isThereAnotherPage_def comp_def Let_def)
qed

end
