(* ===== verification/Paging.thy ===== *)
theory Paging
  imports Site
begin

text \<open>
  Listings that serve a list by windows of a fixed size, one after the other, whatever their page
  tokens look like: a locale over the encoding of an offset as a token, with the fact that a
  complete sync lists what each window gives.
\<close>

definition offset_ok :: "nat \<Rightarrow> bool" where "offset_ok i \<longleftrightarrow> i < 1000000000"

lemma sint_small: "k < 2000000000 \<Longrightarrow> sint (of_nat k :: goint) = int k"
  using sint_of_int_in_int64 [of "int k"] by (simp add: in_int64_def min_int64_def max_int64_def)

lemma offset_number: "k < 2000000000 \<Longrightarrow> offset (itoa (of_nat k)) = k"
  by (simp add: sint_small)

lemma window_drop: "window i n xs @ drop (i + n) xs = drop i xs"
  by (metis add.commute append_take_drop_id drop_drop window_def)

text \<open>The windows of size \<open>n\<close> that make up a list; the empty list has one, which is empty.\<close>

function chunks :: "nat \<Rightarrow> 'a list \<Rightarrow> 'a list list" where
  "chunks n xs = (if n = 0 \<or> length xs \<le> n then [xs] else take n xs # chunks n (drop n xs))"
  by auto
termination by (relation "measure (\<lambda>(n, xs). length xs)") auto

declare chunks.simps [simp del]

lemma chunks_last: "length xs \<le> n \<Longrightarrow> chunks n xs = [xs]"
  and chunks_more: "0 < n \<Longrightarrow> n < length xs \<Longrightarrow> chunks n xs = take n xs # chunks n (drop n xs)"
  by (simp_all add: chunks.simps [of n xs])

lemma concat_chunks: "concat (chunks n xs) = xs"
  by (induction n xs rule: chunks.induct) (simp add: chunks.simps)

lemma concat_map_chunks:
  assumes "\<And>as bs. f (as @ bs) = f as @ f bs"
  shows "concat (map f (chunks n xs)) = f xs"
proof (induction n xs rule: chunks.induct)
  case (1 n xs)
  then show ?case
    using assms [of "take n xs" "drop n xs"] by (simp add: chunks.simps [of n xs])
qed

lemma window_walk:
  assumes "0 < n"
  shows "walk (\<lambda>i. f (window i n xs)) (\<lambda>i. if i + n < length xs then Some (i + n) else None) i
     (concat (map f (chunks n (drop i xs))))"
proof (induction "length xs - i" arbitrary: i rule: less_induct)
  case less
  show ?case
  proof (cases "i + n < length xs")
    case True
    then have rest: "walk (\<lambda>i. f (window i n xs)) (\<lambda>i. if i + n < length xs then Some (i + n) else None)
        (i + n) (concat (map f (chunks n (drop (i + n) xs))))"
      by (intro less) (use assms in simp)
    have "chunks n (drop i xs) = window i n xs # chunks n (drop (i + n) xs)"
      using True assms by (simp add: chunks_more window_def add.commute)
    then have split: "concat (map f (chunks n (drop i xs))) =
        f (window i n xs) @ concat (map f (chunks n (drop (i + n) xs)))" by simp
    show ?thesis
      unfolding split using rest by (rule walk.next_page [rotated]) (simp add: True)
  next
    case False
    then have "chunks n (drop i xs) = [window i n xs]"
      by (simp add: chunks_last window_def)
    then show ?thesis
      using walk.last_page [of "\<lambda>i. if i + n < length xs then Some (i + n) else None" i
          "\<lambda>i. f (window i n xs)"] False by simp
  qed
qed

locale page_series = page_codec encode decode offset_ok
  for encode :: "nat \<Rightarrow> string" and decode :: "string \<Rightarrow> nat option" +
  fixes n :: nat
    and list_op :: "('w, 'r) lister_op"
    and xs :: "'a list"
    and f :: "'a list \<Rightarrow> 'r list"
    and inv :: "'w \<Rightarrow> bool"
  assumes n_positive: "0 < n"
    and few: "inv w \<Longrightarrow> small xs"
    and window_page: "inv w \<Longrightarrow> offset_ok i \<Longrightarrow>
      \<exists>res w'. list_op (encode i) w = (Ret (f (window i n xs), res, None), w') \<and> inv w' \<and>
        token_of res = (if i + n < length xs then encode (i + n) else [])"
    and first_page: "inv w \<Longrightarrow>
      \<exists>res w'. list_op [] w = (Ret (f (window 0 n xs), res, None), w') \<and> inv w' \<and>
        token_of res = (if n < length xs then encode n else [])"

sublocale page_series \<subseteq> traversal encode decode offset_ok list_op
  "\<lambda>i. f (window i n xs)" "\<lambda>i. if i + n < length xs \<and> small xs then Some (i + n) else None" inv
proof
  fix w i assume "inv w" "offset_ok i"
  then show "\<exists>res w'. list_op (encode i) w = (Ret (f (window i n xs), res, None), w') \<and>
      inv w' \<and> token_of res = (case if i + n < length xs \<and> small xs then Some (i + n) else None of
        None \<Rightarrow> [] | Some s \<Rightarrow> encode s)"
    using window_page [of w i] few [of w] by auto
next
  fix i i' assume "offset_ok i" "(if i + n < length xs \<and> small xs then Some (i + n) else None) = Some i'"
  then show "offset_ok i'" by (auto simp: offset_ok_def small_def split: if_splits)
qed

context page_series
begin

text \<open>The first call has the empty token; what is left follows the encoded offsets.\<close>

lemma all_chunks:
  assumes "inv w"
  shows "\<exists>w'. sync_pages (list_page failed unchanged list_op) [] [] w =
    Some (Ret (concat (map f (chunks n xs)), None), w') \<and> inv w'"
proof -
  let ?nxt = "\<lambda>i. if i + n < length xs \<and> small xs then Some (i + n) else None"
  have nxt: "?nxt = (\<lambda>i. if i + n < length xs then Some (i + n) else None)"
    using few [OF assms] by auto
  obtain res w1 where first: "list_op [] w = (Ret (f (window 0 n xs), res, None), w1)" "inv w1"
    "token_of res = (if n < length xs then encode n else [])"
    using first_page [OF assms] by blast
  then have page: "list_page failed unchanged list_op [] w =
      (Ret ((f (window 0 n xs), token_of res, annotations_of res), None), w1)"
    by (simp add: list_page_def bindIO_apply)
  show ?thesis
  proof (cases "n < length xs")
    case False
    then have "concat (map f (chunks n xs)) = f (window 0 n xs)" by (simp add: window_def chunks_last)
    then show ?thesis using False first page by (subst sync_pages.simps) simp
  next
    case True
    have ok: "offset_ok n" using True few [OF assms] by (simp add: offset_ok_def small_def)
    have "walk (\<lambda>i. f (window i n xs)) ?nxt n (concat (map f (chunks n (drop n xs))))"
      using window_walk [OF n_positive, of f xs n] unfolding nxt by simp
    then obtain w' where "sync_pages (list_page failed unchanged list_op) (encode n) (f (window 0 n xs)) w1
        = Some (Ret (f (window 0 n xs) @ concat (map f (chunks n (drop n xs))), None), w')" "inv w'"
      using sync_walk [OF _ first(2) ok] by blast
    moreover have "f (window 0 n xs) @ concat (map f (chunks n (drop n xs))) = concat (map f (chunks n xs))"
      using True n_positive by (simp add: chunks_more window_def)
    ultimately show ?thesis
      using first(3) page True encode_nonempty [OF ok] by (subst sync_pages.simps) simp
  qed
qed

end

text \<open>Where what is listed of a window does not depend on the others, the pages make up the whole.\<close>

locale paged_listing = page_series +
  assumes f_append: "f (as @ bs) = f as @ f bs"
begin

lemma all_pages:
  assumes "inv w"
  shows "\<exists>w'. sync_pages (list_page failed unchanged list_op) [] [] w = Some (Ret (f xs, None), w') \<and> inv w'"
  using all_chunks [OF assms] concat_map_chunks [of f, OF f_append] by simp

end

end
