(* ===== verification/Spaces.thy ===== *)
theory Spaces
  imports Helpers
begin

text \<open>
  The space builder (\<open>pkg/connector/spaces.go\<close>): spaces, and the granular permissions on them as
  entitlements named by a verb and a noun.
\<close>

section \<open>Names of entitlements\<close>

definition separator :: string where "separator = ''-''"

definition createEntitlementName :: "string \<Rightarrow> string \<Rightarrow> string" where
  "createEntitlementName verb noun = verb @ separator @ noun"

text \<open>Indexing past the end of the parts panics.\<close>

definition GetEntitlementComponents :: "string \<Rightarrow> ('w, string \<times> string) io" where
  "GetEntitlementComponents operation =
     (case split_str (CHR ''-'') operation of
        p0 # p1 # _ \<Rightarrow> ret (p0, p1)
      | _ \<Rightarrow> panic ''index out of range'')"

section \<open>The builder\<close>

record 'w spaceBuilder =
  sb_client :: "'w ConfluenceClient"
  sb_skipPersonalSpaces :: bool
  sb_useRbac :: bool
  sb_nouns :: "string list"
  sb_verbs :: "string list"

definition newSpaceBuilder :: "'w ConfluenceClient \<Rightarrow> bool \<Rightarrow> bool \<Rightarrow> string list \<Rightarrow> string list \<Rightarrow>
    'w spaceBuilder" where
  "newSpaceBuilder c skipPersonalSpaces useRbac nouns verbs =
     \<lparr>sb_client = c, sb_skipPersonalSpaces = skipPersonalSpaces, sb_useRbac = useRbac,
      sb_nouns = nouns, sb_verbs = verbs\<rparr>"

definition spaceResource :: "ConfluenceSpace \<Rightarrow> bool \<Rightarrow> go_error + Resource" where
  "spaceResource space useRbac =
     NewResource (sp_Name space) spaceResourceType (sp_Id space)
       (if useRbac
        then [WithAnnotation (AnyChildResourceType (rt_Id spaceRoleAssignmentResourceType))]
        else [])"

definition spaceList :: "'w spaceBuilder \<Rightarrow> Token \<Rightarrow> ('w, Resource) page_call" where
  "spaceList o' pageToken =
     bindIO (GetSpaces (sb_client o') ResourcesPageSize (tok_Token pageToken))
       (\<lambda>(spaces, nextToken, ratelimitData, err).
          let outputAnnotations = WithRateLimitAnnotations [ratelimitData] in
          case err of
            Some e \<Rightarrow> ret ([], syncResults [] outputAnnotations, Some e)
          | None \<Rightarrow>
              (case try_map (\<lambda>space. spaceResource space (sb_useRbac o'))
                      (filter (\<lambda>space. \<not> (sb_skipPersonalSpaces o' \<and> sp_Type space = ''personal''))
                         spaces) of
                 Inl e \<Rightarrow> ret ([], None, Some e)
               | Inr rv \<Rightarrow> ret (rv, syncResults nextToken outputAnnotations, None)))"

section \<open>Entitlements\<close>

definition space_entitlement :: "Resource \<Rightarrow> string \<Rightarrow> string \<Rightarrow> Entitlement" where
  "space_entitlement res noun verb =
     (let operationName = createEntitlementName verb noun in
      NewPermissionEntitlement (Some res) operationName
        [WithGrantableTo [resourceTypeUser],
         WithGrantableTo [resourceTypeGroup],
         WithDisplayName (''Can '' @ operationName @ '' '' @ res_DisplayName res),
         WithEntDescription (''Has permission to '' @ verb @ '' '' @ noun @ '' the '' @
            res_DisplayName res @ '' space in Confluence'')])"

definition spaceEntitlements :: "'w spaceBuilder \<Rightarrow> Resource \<Rightarrow>
    Entitlement list \<times> SyncOpResults option \<times> go_error option" where
  "spaceEntitlements o' res =
     (if sb_useRbac o' then ([], None, None)
      else (concat (map (\<lambda>noun. map (space_entitlement res noun) (sb_verbs o')) (sb_nouns o')),
            syncResults [] [], None))"

section \<open>Grants\<close>

definition checkSpacePermission :: "string list \<Rightarrow> string list \<Rightarrow> string \<Rightarrow> string \<Rightarrow> bool" where
  "checkSpacePermission nouns verbs operation targetType \<longleftrightarrow>
     operation \<in> set verbs \<and> targetType \<in> set nouns"

text \<open>One turn of the loop over the permissions: a grant, or none.\<close>

definition permission_grant :: "'w spaceBuilder \<Rightarrow> Resource \<Rightarrow> ConfluenceSpacePermission \<Rightarrow> Grant option"
where
  "permission_grant o' res p =
     (case
        (if pp_Type (perm_Principal p) = resourceTypeUserID then Some (rt_Id resourceTypeUser, [])
         else if pp_Type (perm_Principal p) = resourceTypeGroupID
           then Some (rt_Id resourceTypeGroup, [expand_group (pp_Id (perm_Principal p))])
         else None) of
        None \<Rightarrow> None
      | Some (resourceType, annos) \<Rightarrow>
          if \<not> checkSpacePermission (sb_nouns o') (sb_verbs o')
                (po_Key (perm_Operation p)) (po_TargetType (perm_Operation p))
          then None
          else Some (NewGrant res
                 (createEntitlementName (po_Key (perm_Operation p)) (po_TargetType (perm_Operation p)))
                 \<lparr>rid_ResourceType = resourceType, rid_Resource = pp_Id (perm_Principal p)\<rparr> annos))"

definition spaceGrants :: "'w spaceBuilder \<Rightarrow> Resource \<Rightarrow> Token \<Rightarrow> ('w, Grant) page_call" where
  "spaceGrants o' res pageToken =
     (if sb_useRbac o' then ret ([], None, None)
      else deref (res_Id res) (\<lambda>rid.
        bindIO (GetSpacePermissions (sb_client o') (tok_Token pageToken) (tok_Size pageToken)
                  (rid_Resource rid))
          (\<lambda>(permissionsList, nextToken, ratelimitData, err).
             let outputAnnotations = WithRateLimitAnnotations [ratelimitData] in
             case err of
               Some e \<Rightarrow> ret ([], syncResults [] outputAnnotations, Some e)
             | None \<Rightarrow>
                 ret (List.map_filter (permission_grant o' res) permissionsList,
                      syncResults nextToken outputAnnotations, None))))"

section \<open>Granting and revoking\<close>

definition spaceGrant :: "'w spaceBuilder \<Rightarrow> Resource \<Rightarrow> Entitlement \<Rightarrow>
    ('w, Grant list \<times> annotation list \<times> go_error option) io" where
  "spaceGrant o' who ent =
     deref (ent_Resource ent) (\<lambda>res. deref (res_Id res) (\<lambda>rid.
       bindIO (GetEntitlementComponents (ent_Slug ent)) (\<lambda>(key, target).
         deref (res_Id who) (\<lambda>pid.
           bindIO (AddSpacePermission (sb_client o') (rid_Resource rid) key target
                     (rid_Resource pid) (rid_ResourceType pid))
             (\<lambda>(ratelimitData, err).
                let outputAnnotations = WithRateLimitAnnotations [ratelimitData] in
                case err of
                  Some e \<Rightarrow> ret ([], outputAnnotations, Some e)
                | None \<Rightarrow> ret ([NewGrant res (ent_Slug ent) pid []], outputAnnotations, None))))))"

text \<open>\<open>Revoke\<close> searches all permissions, and the search may go on for ever: \<^const>\<open>None\<close>.\<close>

definition spaceRevoke :: "'w spaceBuilder \<Rightarrow> Grant \<Rightarrow> 'w \<Rightarrow>
    ((annotation list \<times> go_error option) go \<times> 'w) option" where
  "spaceRevoke o' g w =
     (case bindIO (deref (gr_Entitlement g) ret) (\<lambda>ent.
             deref (ent_Resource ent) (\<lambda>res. deref (res_Id res) (\<lambda>rid.
               bindIO (GetEntitlementComponents (ent_Slug ent)) (\<lambda>(key, target).
                 deref (gr_Principal g) (\<lambda>who. deref (res_Id who) (\<lambda>pid.
                   ret (rid_Resource rid, key, target, pid))))))) w of
        (Panic p, w') \<Rightarrow> Some (Panic p, w')
      | (Ret (spaceId, key, target, pid), w') \<Rightarrow>
          (case RemoveSpacePermission (sb_client o') spaceId key target
                  (rid_Resource pid) (rid_ResourceType pid) w' of
             None \<Rightarrow> None
           | Some (Panic p, w'') \<Rightarrow> Some (Panic p, w'')
           | Some (Ret (ratelimitData, err), w'') \<Rightarrow>
               Some (Ret (WithRateLimitAnnotations [ratelimitData], err), w'')))"

lemma entitlement_name_roundtrip:
  assumes "CHR ''-'' \<notin> set verb"
  shows "GetEntitlementComponents (createEntitlementName verb noun) =
    ret (verb, hd (split_str (CHR ''-'') noun))"
  using split_str_append [OF assms, of noun] split_str_nonempty [of "CHR ''-''" noun]
  by (cases "split_str (CHR ''-'') noun")
    (simp_all add: GetEntitlementComponents_def createEntitlementName_def separator_def)

lemma GetEntitlementComponents_panics:
  "(\<exists>p w'. GetEntitlementComponents s w = (Panic p, w')) \<longleftrightarrow> CHR ''-'' \<notin> set s"
proof (cases "CHR ''-'' \<in> set s")
  case True
  then have "2 \<le> length (split_str (CHR ''-'') s)"
    using count_list_0_iff [of s "CHR ''-''"] by (simp add: length_split_str)
  then obtain a b cs where "split_str (CHR ''-'') s = a # b # cs"
    by (cases "split_str (CHR ''-'') s"; cases "tl (split_str (CHR ''-'') s)") auto
  then show ?thesis using True by (simp add: GetEntitlementComponents_def)
next
  case False
  then show ?thesis by (simp add: GetEntitlementComponents_def split_str_no_sep)
qed

definition permission_principal :: "ConfluenceSpacePermission \<Rightarrow> ResourceId" where
  "permission_principal p =
     \<lparr>rid_ResourceType = pp_Type (perm_Principal p), rid_Resource = pp_Id (perm_Principal p)\<rparr>"

definition permission_name :: "ConfluenceSpacePermission \<Rightarrow> string" where
  "permission_name p =
     createEntitlementName (po_Key (perm_Operation p)) (po_TargetType (perm_Operation p))"

lemma permission_grant_Some:
  "permission_grant b res p = Some g \<longleftrightarrow>
     pp_Type (perm_Principal p) \<in> {''user'', ''group''} \<and>
     po_Key (perm_Operation p) \<in> set (sb_verbs b) \<and>
     po_TargetType (perm_Operation p) \<in> set (sb_nouns b) \<and>
     g = NewGrant res (permission_name p) (permission_principal p)
           (if pp_Type (perm_Principal p) = ''group'' then [expand_group (pp_Id (perm_Principal p))] else [])"
  by (auto simp: permission_grant_def checkSpacePermission_def resourceTypeUserID_def
      resourceTypeGroupID_def permission_name_def permission_principal_def)

lemma ent_Id_space_entitlement:
  "ent_Id (space_entitlement res noun verb) = NewEntitlementID (Some res) (createEntitlementName verb noun)"
  by (simp add: space_entitlement_def NewPermissionEntitlement_def new_entitlement_def WithGrantableTo_def
      WithDisplayName_def WithEntDescription_def Let_def)

text \<open>
  C30. Every grant that Grants of the space builder returns is on an entitlement, by id, that Entitlements
  of the same builder offers for that space: the two operations filter the permissions by the same
  nouns and verbs.
\<close>

theorem space_grants_offered:
  assumes "spaceGrants b res t w = (Ret (gs, out, None), w')" "g \<in> set gs"
  shows "\<exists>ent \<in> set (fst (spaceEntitlements b res)). map_option ent_Id (gr_Entitlement g) = Some (ent_Id ent)"
proof (cases "sb_useRbac b")
  case True
  then show ?thesis using assms by (simp add: spaceGrants_def)
next
  case False
  obtain p where p: "permission_grant b res p = Some g"
    using assms False
    by (auto simp: spaceGrants_def deref_def bindIO_def Let_def map_filter_def
        split: option.splits go.splits prod.splits)
  let ?v = "po_Key (perm_Operation p)" and ?n = "po_TargetType (perm_Operation p)"
  have "?v \<in> set (sb_verbs b)" "?n \<in> set (sb_nouns b)"
    and g: "gr_Entitlement g = Some (grant_entitlement res (createEntitlementName ?v ?n))"
    using p unfolding permission_grant_Some by (auto simp: permission_name_def NewGrant_def)
  then have offered: "space_entitlement res ?n ?v \<in> set (fst (spaceEntitlements b res))"
    using False by (auto simp: spaceEntitlements_def)
  then show ?thesis
    by (intro bexI [OF _ offered]) (simp add: g grant_entitlement_def ent_Id_space_entitlement)
qed

lemma rbac_mode_spaces:
  assumes "sb_useRbac b"
  shows "spaceEntitlements b res = ([], None, None) \<and> spaceGrants b res t w = (Ret ([], None, None), w)"
  using assms by (simp add: spaceEntitlements_def spaceGrants_def)

definition expected_space :: "bool \<Rightarrow> ConfluenceSpace \<Rightarrow> Resource" where
  "expected_space useRbac s =
     \<lparr>res_Id = Some \<lparr>rid_ResourceType = ''space'', rid_Resource = sp_Id s\<rparr>, res_ParentResourceId = None,
      res_DisplayName = sp_Name s,
      res_Annotations = (if useRbac then [AnyChildResourceType ''space_role_assignment''] else []),
      res_Description = [], res_Profile = None, res_Status = None\<rparr>"

lemma spaceResource_Inr: "spaceResource s useRbac = Inr (expected_space useRbac s)"
  by (simp add: spaceResource_def NewResource_def WithAnnotation_def annos_Append_def expected_space_def)

lemma spaceList_outcome:
  assumes "GetSpaces (sb_client b) 200 (tok_Token t) w = (Ret (spaces, next, rl, None), w')"
  shows "spaceList b t w =
    (Ret (map (expected_space (sb_useRbac b))
            (filter (\<lambda>s. sb_skipPersonalSpaces b \<longrightarrow> sp_Type s \<noteq> ''personal'') spaces),
          syncResults next (WithRateLimitAnnotations [rl]), None), w')"
  using assms try_map_Inr [of "filter (\<lambda>s. sb_skipPersonalSpaces b \<longrightarrow> sp_Type s \<noteq> ''personal'') spaces"
      "\<lambda>s. spaceResource s (sb_useRbac b)" "expected_space (sb_useRbac b)"]
  by (simp add: spaceList_def bindIO_apply ResourcesPageSize_def Let_def spaceResource_Inr)

interpretation space_lister: lister "\<lambda>t. spaceList b \<lparr>tok_Size = n, tok_Token = t\<rparr>" for b n
  by unfold_locales
    (auto simp: spaceList_def Let_def elim!: lister_bind [rotated] lister_deref [rotated] split: lister_splits)

interpretation space_grant_lister: lister "\<lambda>t. spaceGrants b res \<lparr>tok_Size = n, tok_Token = t\<rparr>" for b res n
  by unfold_locales
    (auto simp: spaceGrants_def Let_def elim!: lister_bind [rotated] lister_deref [rotated] split: lister_splits)

lemma permission_grant_iff:
  "permission_grant b res p = Some g \<longleftrightarrow>
     pp_Type (perm_Principal p) \<in> {''user'', ''group''} \<and>
     po_Key (perm_Operation p) \<in> set (sb_verbs b) \<and>
     po_TargetType (perm_Operation p) \<in> set (sb_nouns b) \<and>
     g = NewGrant res (createEntitlementName (po_Key (perm_Operation p)) (po_TargetType (perm_Operation p)))
           \<lparr>rid_ResourceType = pp_Type (perm_Principal p), rid_Resource = pp_Id (perm_Principal p)\<rparr>
           (if pp_Type (perm_Principal p) = ''group'' then [expand_group (pp_Id (perm_Principal p))] else [])"
  unfolding permission_grant_Some permission_name_def permission_principal_def ..

definition demo_builder :: "'w ConfluenceClient \<Rightarrow> 'w spaceBuilder" where
  "demo_builder c = newSpaceBuilder c True False [''page'', ''space''] [''read'', ''update'']"

definition demo_space :: Resource where
  "demo_space = expected_space False (zero_Space\<lparr>sp_Id := ''7'', sp_Name := ''Docs''\<rparr>)"

lemma demo_space_id_res: "res_Id demo_space = Some \<lparr>rid_ResourceType = ''space'', rid_Resource = ''7''\<rparr>"
  by (simp add: demo_space_def expected_space_def)

lemma demo_builder_simps [simp]:
  "sb_client (demo_builder c) = c" "sb_useRbac (demo_builder c) = False"
  "sb_skipPersonalSpaces (demo_builder c) = True" "sb_nouns (demo_builder c) = [''page'', ''space'']"
  "sb_verbs (demo_builder c) = [''read'', ''update'']"
  by (simp_all add: demo_builder_def newSpaceBuilder_def)

lemma demo_grant: "permission_grant (demo_builder c) demo_space demo_permission =
    Some (NewGrant demo_space ''read-space'' \<lparr>rid_ResourceType = ''user'', rid_Resource = ''a1''\<rparr> [])"
  unfolding permission_grant_Some
  by (simp add: demo_permission_def permission_name_def permission_principal_def createEntitlementName_def
      separator_def)

lemma demo_space_grants:
  "\<exists>res w'. spaceGrants (demo_builder (permissions_client [demo_permission] [])) demo_space
     \<lparr>tok_Size = 0, tok_Token = []\<rparr> [] =
   (Ret ([NewGrant demo_space ''read-space'' \<lparr>rid_ResourceType = ''user'', rid_Resource = ''a1''\<rparr> []], res, None), w')"
proof -
  obtain log' where run: "GetSpacePermissions (permissions_client [demo_permission] []) [] 0 ''7'' [] =
      (Ret ([demo_permission], [], Some no_limits, None), log')"
    using GetSpacePermissions_constant [of "[demo_permission]" "[]" "''7''" "[]" 0 "[]"]
      demo_permission_plain demo_space_id no_cursor by auto
  show ?thesis
    by (simp add: spaceGrants_def demo_space_id_res bindIO_apply run Let_def List.map_filter_simps demo_grant)
qed

theorem space_grants_offered_witness:
  "\<exists>ent \<in> set (fst (spaceEntitlements (demo_builder (permissions_client [demo_permission] [])) demo_space)).
     ent_Id ent = ''space:7:read-space''"
proof -
  obtain res w' where run: "spaceGrants (demo_builder (permissions_client [demo_permission] [])) demo_space
     \<lparr>tok_Size = 0, tok_Token = []\<rparr> [] =
   (Ret ([NewGrant demo_space ''read-space'' \<lparr>rid_ResourceType = ''user'', rid_Resource = ''a1''\<rparr> []], res, None), w')"
    using demo_space_grants by blast
  show ?thesis
    using space_grants_offered [OF run]
    by (simp add: NewGrant_def grant_entitlement_def NewEntitlementID_def demo_space_def expected_space_def
        id_type_def id_resource_def) (metis)
qed

definition docs :: ConfluenceSpace where
  "docs = zero_Space\<lparr>sp_Id := ''7'', sp_Name := ''Docs'', sp_Type := ''global''\<rparr>"

definition diary :: ConfluenceSpace where
  "diary = zero_Space\<lparr>sp_Id := ''8'', sp_Name := ''Diary'', sp_Type := ''personal''\<rparr>"

end
