(* ===== verification/SpaceRoles.thy ===== *)
theory SpaceRoles
  imports Helpers
begin

text \<open>The space role builder (\<open>pkg/connector/space_roles.go\<close>).\<close>

definition spaceRoleResource :: "SpaceRole \<Rightarrow> go_error + Resource" where
  "spaceRoleResource role =
     NewRoleResource (role_Name role) spaceRoleResourceType (role_Id role)
       [WithDescription (role_Description role),
        WithResourceProfile
          [(''description'', PString (role_Description role)),
           (''space_permissions'', PList (role_SpacePermissions role))]]"

text \<open>An instance without the endpoint is skipped: its 404 is not an error.\<close>

definition spaceRoleList :: "'w ConfluenceClient \<Rightarrow> ResourceId option \<Rightarrow> Token \<Rightarrow>
    ('w, Resource) page_call" where
  "spaceRoleList c parentResourceID pageToken =
     (if parentResourceID \<noteq> None then ret ([], None, None)
      else bindIO (GetSpaceRoles c [] (tok_Token pageToken) ResourcesPageSize)
        (\<lambda>(roles, nextCursor, rateLimitData, err).
           let outputAnnotations = WithRateLimitAnnotations [rateLimitData] in
           case err of
             Some e \<Rightarrow>
               if is_not_found e then ret ([], syncResults [] outputAnnotations, None)
               else ret ([], syncResults [] outputAnnotations,
                         Some (ErrWrap ''confluence-connector: failed to list space roles'' e))
           | None \<Rightarrow>
               (case try_map spaceRoleResource roles of
                  Inl e \<Rightarrow> ret ([], syncResults [] outputAnnotations, Some e)
                | Inr resources \<Rightarrow> ret (resources, syncResults nextCursor outputAnnotations, None))))"

definition spaceRoleEntitlements :: "Resource \<Rightarrow> Entitlement list \<times> SyncOpResults option \<times> go_error option"
where "spaceRoleEntitlements _ = ([], None, None)"

definition spaceRoleGrants :: "Resource \<Rightarrow> Grant list \<times> SyncOpResults option \<times> go_error option"
where "spaceRoleGrants _ = ([], None, None)"

lemma spaceRoleList_http_error:
  assumes "base_ok (client_apiBase c)"
    and "answered c GET (roles_url (client_apiBase c) (tok_Token t) ResourcesPageSize) None w r body w1"
    and "\<not> is_2xx (resp_StatusCode r)"
  shows "\<exists>annos w'. spaceRoleList c None t w =
    (Ret ([], syncResults [] annos,
          if resp_StatusCode r = 404 then None
          else Some (ErrWrap ''confluence-connector: failed to list space roles''
                 (http_error (roles_url (client_apiBase c) (tok_Token t) ResourcesPageSize) r body))), w')"
proof -
  obtain rl w' where "GetSpaceRoles c [] (tok_Token t) ResourcesPageSize w =
      (Ret ([], [], rl, Some (http_error (roles_url (client_apiBase c) (tok_Token t) ResourcesPageSize) r body)), w')"
    using GetSpaceRoles_http_error [OF assms] by blast
  then show ?thesis
    by (auto simp: spaceRoleList_def bindIO_apply http_error_not_found Let_def)
qed

interpretation role_lister: lister "\<lambda>t. spaceRoleList c parent \<lparr>tok_Size = n, tok_Token = t\<rparr>" for c parent n
  by unfold_locales
    (auto simp: spaceRoleList_def Let_def elim!: lister_bind [rotated] lister_deref [rotated] split: lister_splits)

end
