(* ===== verification/SpaceRoleAssignments.thy ===== *)
theory SpaceRoleAssignments
  imports Helpers
begin

text \<open>
  The builder of space role assignments (\<open>pkg/connector/space_role_assignments.go\<close>): one resource for
  each role that is assigned on a space, whose grants are the principals of that role.
\<close>

definition spaceRoleAssignmentEntitlement :: string where
  "spaceRoleAssignmentEntitlement = ''assigned''"

section \<open>The page token\<close>

record spaceRoleListPageToken =
  pt_Cursor :: string
  pt_SpaceName :: string

definition zero_PageToken :: spaceRoleListPageToken where
  "zero_PageToken = \<lparr>pt_Cursor = [], pt_SpaceName = []\<rparr>"

definition dec_PageToken :: "spaceRoleListPageToken decoder" where
  "dec_PageToken = dec_struct
     [(''c'', field_dec pt_Cursor (\<lambda>v r. r\<lparr>pt_Cursor := v\<rparr>) dec_string),
      (''s'', field_dec pt_SpaceName (\<lambda>v r. r\<lparr>pt_SpaceName := v\<rparr>) dec_string)]"

definition json_PageToken :: "spaceRoleListPageToken \<Rightarrow> json" where
  "json_PageToken t =
     JObj (member_omitempty ''c'' (pt_Cursor t) @ member_omitempty ''s'' (pt_SpaceName t))"

text \<open>A token that is not such a document is taken for a raw cursor.\<close>

definition decode_page_token :: "string \<Rightarrow> spaceRoleListPageToken" where
  "decode_page_token token =
     (if token = [] then zero_PageToken
      else case json_Unmarshal dec_PageToken token zero_PageToken of
             (pageToken, None) \<Rightarrow> pageToken
           | (pageToken, Some _) \<Rightarrow> pageToken\<lparr>pt_Cursor := token\<rparr>)"

definition encode_page_token :: "string \<Rightarrow> string \<Rightarrow> string" where
  "encode_page_token nextCursor spaceName =
     (if nextCursor = [] then []
      else json_print (json_PageToken \<lparr>pt_Cursor = nextCursor, pt_SpaceName = spaceName\<rparr>))"

section \<open>The names of the roles\<close>

text \<open>
  \<open>roleNames\<close>, the builder's only state: a map from role id to name, kept between calls. It is
  dropped before it is fetched again, so a failed fetch leaves it empty.
\<close>

type_synonym role_names = "(string \<times> string) list"

definition loadRoleNames :: "'w ConfluenceClient \<Rightarrow> role_names \<Rightarrow> ('w, role_names \<times> go_error option) io"
where
  "loadRoleNames c roleNames =
     (if length roleNames \<ge> 4 then ret (roleNames, None)
      else bindIO (GetSpaceRoles c [] [] ResourcesPageSize)
        (\<lambda>(roles, _, _, err).
           case err of
             Some e \<Rightarrow>
               ret ([], Some (ErrWrap ''confluence-connector: failed to fetch space role names'' e))
           | None \<Rightarrow> ret (fold (\<lambda>r. AList.update (role_Id r) (role_Name r)) roles [], None)))"

definition role_name :: "role_names \<Rightarrow> string \<Rightarrow> string" where
  "role_name roleNames roleId =
     (case map_of roleNames roleId of
        None \<Rightarrow> roleId
      | Some n \<Rightarrow> if n = [] then roleId else n)"

section \<open>List\<close>

definition spaceRoleAssignmentResource :: "string \<Rightarrow> ResourceId \<Rightarrow> string \<Rightarrow> string \<Rightarrow>
    go_error + Resource" where
  "spaceRoleAssignmentResource roleId spaceResourceID roleName spaceName =
     NewScopeBindingResource (roleName @ '' on '' @ spaceName) spaceRoleAssignmentResourceType
       (rid_Resource spaceResourceID @ '':'' @ roleId)
       [WithRoleScopeRoleId
          (Some \<lparr>rid_ResourceType = rt_Id spaceRoleResourceType, rid_Resource = roleId\<rparr>),
        WithRoleScopeResourceId (Some spaceResourceID)]
       [WithParentResourceID (Some spaceResourceID)]"

text \<open>The loop with its set \<open>seen\<close>: the role ids in the order they first appear.\<close>

fun unseen :: "string list \<Rightarrow> SpaceRoleAssignment list \<Rightarrow> string list" where
  "unseen seen [] = []"
| "unseen seen (a # as) =
     (if sra_RoleId a \<in> set seen then unseen seen as
      else sra_RoleId a # unseen (sra_RoleId a # seen) as)"

definition space_display_name :: "'w ConfluenceClient \<Rightarrow> string \<Rightarrow> string \<Rightarrow> ('w, string) io" where
  "space_display_name c spaceID cached =
     (if cached \<noteq> [] then ret cached
      else bindIO (GetSpaceById c spaceID)
        (\<lambda>(space, _, err).
           case err of Some _ \<Rightarrow> ret spaceID | None \<Rightarrow> deref space (\<lambda>s. ret (sp_Name s))))"

text \<open>The result of \<open>List\<close> comes with the new value of \<open>roleNames\<close>.\<close>

definition assignmentList :: "'w ConfluenceClient \<Rightarrow> role_names \<Rightarrow> ResourceId option \<Rightarrow> Token \<Rightarrow>
    ('w, (Resource list \<times> SyncOpResults option \<times> go_error option) \<times> role_names) io" where
  "assignmentList c roleNames parentResourceID opts =
     (case parentResourceID of
        None \<Rightarrow> ret (([], None, None), roleNames)
      | Some parent \<Rightarrow>
          if rid_ResourceType parent \<noteq> rt_Id spaceResourceType then ret (([], None, None), roleNames)
          else
            (let spaceID = rid_Resource parent; pageToken = decode_page_token (tok_Token opts) in
             bindIO (GetSpaceRoleAssignments c spaceID [] [] [] (pt_Cursor pageToken) ResourcesPageSize)
               (\<lambda>(assignments, nextCursor, rateLimitData, err).
                  let outputAnnotations = WithRateLimitAnnotations [rateLimitData] in
                  case err of
                    Some e \<Rightarrow>
                      ret (([], syncResults [] outputAnnotations,
                        Some (ErrWrap ''confluence-connector: failed to list space role assignments'' e)),
                        roleNames)
                  | None \<Rightarrow>
                      bindIO (loadRoleNames c roleNames) (\<lambda>(names, err').
                        case err' of
                          Some e \<Rightarrow> ret (([], syncResults [] outputAnnotations, Some e), names)
                        | None \<Rightarrow>
                            bindIO (space_display_name c spaceID (pt_SpaceName pageToken)) (\<lambda>spaceName.
                              case try_map
                                     (\<lambda>roleId. spaceRoleAssignmentResource roleId parent
                                                 (role_name names roleId) spaceName)
                                     (unseen [] assignments) of
                                Inl e \<Rightarrow> ret (([], syncResults [] outputAnnotations, Some e), names)
                              | Inr resources \<Rightarrow>
                                  ret ((resources,
                                        syncResults (encode_page_token nextCursor spaceName)
                                          outputAnnotations, None), names))))))"

section \<open>Entitlements and grants\<close>

definition StaticEntitlements :: "Entitlement list \<times> SyncOpResults option \<times> go_error option" where
  "StaticEntitlements =
     ([NewAssignmentEntitlement None spaceRoleAssignmentEntitlement
         [WithGrantableTo [resourceTypeUser, resourceTypeGroup]]], syncResults [] [], None)"

definition assignmentEntitlements :: "Resource \<Rightarrow>
    Entitlement list \<times> SyncOpResults option \<times> go_error option" where
  "assignmentEntitlements _ = ([], None, None)"

definition assignment_grant :: "Resource \<Rightarrow> SpaceRoleAssignment \<Rightarrow> Grant option" where
  "assignment_grant res a =
     (let who = sra_Principal a in
      if rp_PrincipalType who = ''USER'' then
        Some (NewGrant res spaceRoleAssignmentEntitlement
          \<lparr>rid_ResourceType = rt_Id resourceTypeUser, rid_Resource = rp_PrincipalId who\<rparr> [])
      else if rp_PrincipalType who = ''GROUP'' then
        Some (NewGrant res spaceRoleAssignmentEntitlement
          \<lparr>rid_ResourceType = rt_Id resourceTypeGroup, rid_Resource = rp_PrincipalId who\<rparr>
          [expand_group (rp_PrincipalId who)])
      else None)"

definition assignmentGrants :: "'w ConfluenceClient \<Rightarrow> Resource \<Rightarrow> Token \<Rightarrow> ('w, Grant) page_call" where
  "assignmentGrants c res opts =
     (case GetScopeBindingTrait res of
        Inl e \<Rightarrow>
          ret ([], None, Some (ErrWrap ''confluence-connector: failed to get scope binding trait'' e))
      | Inr scopeTrait \<Rightarrow>
          bindIO (GetSpaceRoleAssignments c (id_resource (sbt_ScopeResourceId scopeTrait))
                    (id_resource (sbt_RoleId scopeTrait)) [] [] (tok_Token opts) (tok_Size opts))
            (\<lambda>(assignments, nextCursor, rateLimitData, err).
               let outputAnnotations = WithRateLimitAnnotations [rateLimitData] in
               case err of
                 Some e \<Rightarrow>
                   ret ([], syncResults [] outputAnnotations,
                     Some (ErrWrap ''confluence-connector: failed to list space role assignments'' e))
               | None \<Rightarrow>
                   ret (List.map_filter (assignment_grant res) assignments,
                        syncResults nextCursor outputAnnotations, None)))"

section \<open>Granting and revoking\<close>

text \<open>
  What both need of the resource and the principal: the space, the role, and the principal's type
  and id in the API's terms, or the error that ends the call. A trait error is quoted in a status.
\<close>

definition binding_of :: "Resource \<Rightarrow> go_error + string \<times> string" where
  "binding_of resource =
     (case GetScopeBindingTrait resource of
        Inl e \<Rightarrow>
          Inl (ErrStatusOf InvalidArgument ''confluence-connector: failed to get scope binding trait: '' e)
      | Inr t \<Rightarrow> Inr (id_resource (sbt_ScopeResourceId t), id_resource (sbt_RoleId t)))"

definition principal_type_of :: "ResourceId \<Rightarrow> go_error + string" where
  "principal_type_of pid =
     (case confluencePrincipalType (rid_ResourceType pid) of
        Inl e \<Rightarrow> Inl (ErrStatusOf InvalidArgument ''confluence-connector: '' e)
      | Inr t \<Rightarrow> Inr t)"

text \<open>The pre-check of both: is the principal assigned to the role?\<close>

definition existing_assignments :: "'w ConfluenceClient \<Rightarrow> string \<Rightarrow> string \<Rightarrow> string \<Rightarrow> string \<Rightarrow>
    ('w, SpaceRoleAssignment list \<times> go_error option) io" where
  "existing_assignments c spaceID roleID principalID principalType =
     bindIO (GetSpaceRoleAssignments c spaceID roleID principalID principalType [] 1)
       (\<lambda>(existing, _, _, err).
          case err of
            None \<Rightarrow> ret (existing, None)
          | Some e \<Rightarrow> ret ([], Some (ErrWrap
              ''confluence-connector: failed to check existing role assignments'' e)))"

definition assignmentGrant :: "'w ConfluenceClient \<Rightarrow> Resource \<Rightarrow> Entitlement \<Rightarrow>
    ('w, Grant list \<times> annotation list \<times> go_error option) io" where
  "assignmentGrant c who ent =
     (case ent_Resource ent of
        None \<Rightarrow> ret ([], [], Some (ErrStatus InvalidArgument
                  ''confluence-connector: entitlement resource is nil''))
      | Some resource \<Rightarrow>
          (case binding_of resource of
             Inl e \<Rightarrow> ret ([], [], Some e)
           | Inr (spaceID, roleID) \<Rightarrow>
               deref (res_Id who) (\<lambda>pid.
                 case principal_type_of pid of
                   Inl e \<Rightarrow> ret ([], [], Some e)
                 | Inr principalType \<Rightarrow>
                     bindIO (existing_assignments c spaceID roleID (rid_Resource pid) principalType)
                       (\<lambda>(existing, err).
                          case err of
                            Some e \<Rightarrow> ret ([], [], Some e)
                          | None \<Rightarrow>
                              if existing \<noteq> [] then ret ([], annos_New [AnyGrantAlreadyExists], None)
                              else
                                bindIO (SetSpaceRoleAssignment c spaceID
                                    [\<lparr>set_Principal = \<lparr>rp_PrincipalType = principalType,
                                                       rp_PrincipalId = rid_Resource pid\<rparr>,
                                      set_RoleId = roleID\<rparr>])
                                  (\<lambda>(ratelimitData, err').
                                     let outputAnnotations = WithRateLimitAnnotations [ratelimitData] in
                                     case err' of
                                       Some e \<Rightarrow> ret ([], outputAnnotations, Some (ErrWrap
                                           ''confluence-connector: failed to grant space role'' e))
                                     | None \<Rightarrow>
                                         ret ([NewGrant resource spaceRoleAssignmentEntitlement pid []],
                                              outputAnnotations, None))))))"

text \<open>The request of \<open>Revoke\<close> leaves the role id out, which tells the API to remove.\<close>

definition assignmentRevoke :: "'w ConfluenceClient \<Rightarrow> Grant \<Rightarrow>
    ('w, annotation list \<times> go_error option) io" where
  "assignmentRevoke c g =
     (case Option.bind (gr_Entitlement g) ent_Resource of
        None \<Rightarrow> ret ([], Some (ErrStatus InvalidArgument
                  ''confluence-connector: grant entitlement resource is nil''))
      | Some resource \<Rightarrow>
          (case binding_of resource of
             Inl e \<Rightarrow> ret ([], Some e)
           | Inr (spaceID, roleID) \<Rightarrow>
               deref (gr_Principal g) (\<lambda>who. deref (res_Id who) (\<lambda>pid.
                 case principal_type_of pid of
                   Inl e \<Rightarrow> ret ([], Some e)
                 | Inr principalType \<Rightarrow>
                     bindIO (existing_assignments c spaceID roleID (rid_Resource pid) principalType)
                       (\<lambda>(existing, err).
                          case err of
                            Some e \<Rightarrow> ret ([], Some e)
                          | None \<Rightarrow>
                              if existing = [] then ret (annos_New [AnyGrantAlreadyRevoked], None)
                              else
                                bindIO (SetSpaceRoleAssignment c spaceID
                                    [\<lparr>set_Principal = \<lparr>rp_PrincipalType = principalType,
                                                       rp_PrincipalId = rid_Resource pid\<rparr>,
                                      set_RoleId = []\<rparr>])
                                  (\<lambda>(ratelimitData, err').
                                     let outputAnnotations = WithRateLimitAnnotations [ratelimitData] in
                                     case err' of
                                       Some e \<Rightarrow> ret (outputAnnotations, Some (ErrWrap
                                           ''confluence-connector: failed to revoke space role'' e))
                                     | None \<Rightarrow> ret (outputAnnotations, None)))))))"

lemma spaceRoleAssignmentResource_Inr:
  "spaceRoleAssignmentResource roleId sid roleName spaceName =
     Inr \<lparr>res_Id = Some \<lparr>rid_ResourceType = ''space_role_assignment'',
              rid_Resource = rid_Resource sid @ '':'' @ roleId\<rparr>,
          res_ParentResourceId = Some sid, res_DisplayName = roleName @ '' on '' @ spaceName,
          res_Annotations = [AnyScopeBindingTrait
            \<lparr>sbt_RoleId = Some \<lparr>rid_ResourceType = ''space_role'', rid_Resource = roleId\<rparr>,
             sbt_ScopeResourceId = Some sid\<rparr>],
          res_Description = [], res_Profile = None, res_Status = None\<rparr>"
  by (simp add: spaceRoleAssignmentResource_def NewScopeBindingResource_def NewResource_def
      WithParentResourceID_def WithScopeBindingTrait_def WithRoleScopeRoleId_def WithRoleScopeResourceId_def)

lemma binding_of_assignment:
  "\<exists>res. spaceRoleAssignmentResource roleId sid roleName spaceName = Inr res \<and>
     binding_of res = Inr (rid_Resource sid, roleId) \<and> res_ParentResourceId res = Some sid"
  by (simp add: spaceRoleAssignmentResource_Inr binding_of_def GetScopeBindingTrait_def id_resource_def)

lemma binding_of_listed:
  "spaceRoleAssignmentResource roleId sid roleName spaceName = Inr res \<Longrightarrow>
   binding_of res = Inr (rid_Resource sid, roleId)"
  using binding_of_assignment [of roleId sid roleName spaceName] by auto

lemma assignmentGrant_steps:
  assumes "spaceRoleAssignmentResource roleId sid roleName spaceName = Inr res"
    and "ent_Resource ent = Some res" "res_Id who = Some pid"
    and "confluencePrincipalType (rid_ResourceType pid) = Inr pt"
    and "GetSpaceRoleAssignments c (rid_Resource sid) roleId (rid_Resource pid) pt [] 1 w
           = (Ret (existing, cursor, rl, None), w1)"
    and "SetSpaceRoleAssignment c (rid_Resource sid)
           [\<lparr>set_Principal = \<lparr>rp_PrincipalType = pt, rp_PrincipalId = rid_Resource pid\<rparr>, set_RoleId = roleId\<rparr>] w1
           = (Ret (rl', err), w2)"
  shows "assignmentGrant c who ent w =
    (if existing \<noteq> [] then (Ret ([], [AnyGrantAlreadyExists], None), w1)
     else (Ret (case err of
                  None \<Rightarrow> ([NewGrant res ''assigned'' pid []], WithRateLimitAnnotations [rl'], None)
                | Some e \<Rightarrow> ([], WithRateLimitAnnotations [rl'],
                    Some (ErrWrap ''confluence-connector: failed to grant space role'' e))), w2))"
  using assms
  by (auto simp: assignmentGrant_def binding_of_listed principal_type_of_def existing_assignments_def
      bindIO_apply annos_New_def Let_def spaceRoleAssignmentEntitlement_def split: option.split)

lemma assignmentRevoke_steps:
  assumes "spaceRoleAssignmentResource roleId sid roleName spaceName = Inr res"
    and "gr_Entitlement g = Some ent" "ent_Resource ent = Some res"
    and "gr_Principal g = Some who" "res_Id who = Some pid"
    and "confluencePrincipalType (rid_ResourceType pid) = Inr pt"
    and "GetSpaceRoleAssignments c (rid_Resource sid) roleId (rid_Resource pid) pt [] 1 w
           = (Ret (existing, cursor, rl, None), w1)"
    and "SetSpaceRoleAssignment c (rid_Resource sid)
           [\<lparr>set_Principal = \<lparr>rp_PrincipalType = pt, rp_PrincipalId = rid_Resource pid\<rparr>, set_RoleId = []\<rparr>] w1
           = (Ret (rl', err), w2)"
  shows "assignmentRevoke c g w =
    (if existing = [] then (Ret ([AnyGrantAlreadyRevoked], None), w1)
     else (Ret (WithRateLimitAnnotations [rl'],
                map_option (ErrWrap ''confluence-connector: failed to revoke space role'') err), w2))"
  using assms
  by (auto simp: assignmentRevoke_def binding_of_listed principal_type_of_def existing_assignments_def
      bindIO_apply annos_New_def Let_def split: option.split)

lemma dec_PageToken_json:
  "dec_PageToken (json_PageToken t) zero_PageToken = (t, None)"
  by (simp add: dec_PageToken_def json_PageToken_def member_omitempty_def field_dec_def find_field_def
      zero_PageToken_def)

lemma decode_encode_page_token:
  assumes "cursor \<noteq> []" "valid_utf8 cursor" "valid_utf8 name"
  shows "decode_page_token (encode_page_token cursor name) = \<lparr>pt_Cursor = cursor, pt_SpaceName = name\<rparr>"
    "encode_page_token cursor name \<noteq> []"
proof -
  have "plain (json_PageToken \<lparr>pt_Cursor = cursor, pt_SpaceName = name\<rparr>)"
    using assms by (simp add: json_PageToken_def member_omitempty_def valid_utf8_ascii is_ascii_def)
  then show "decode_page_token (encode_page_token cursor name) = \<lparr>pt_Cursor = cursor, pt_SpaceName = name\<rparr>"
    "encode_page_token cursor name \<noteq> []"
    using assms(1)
    by (simp_all add: decode_page_token_def encode_page_token_def json_Unmarshal_print dec_PageToken_json)
      (simp add: json_PageToken_def)+
qed

lemma raw_cursor_token:
  assumes "token \<noteq> []" "json_parse token = None"
  shows "decode_page_token token = \<lparr>pt_Cursor = token, pt_SpaceName = []\<rparr>"
  using assms by (simp add: decode_page_token_def json_Unmarshal_def zero_PageToken_def)

lemma unseen_props:
  "distinct (unseen seen as) \<and> set (unseen seen as) = sra_RoleId ` set as - set seen"
  by (induction seen as rule: unseen.induct) auto

lemma map_of_role_names:
  "map_of (fold (\<lambda>r. AList.update (role_Id r) (role_Name r)) roles m) i =
    (case find (\<lambda>r. role_Id r = i) (rev roles) of Some r \<Rightarrow> Some (role_Name r) | None \<Rightarrow> map_of m i)"
proof (induction roles arbitrary: m)
  case (Cons r roles)
  show ?case by (simp add: Cons.IH update_conv' find_append split: option.split)
qed simp

lemma loadRoleNames_fetches:
  assumes "length names < 4"
  shows "loadRoleNames c names w =
    (case GetSpaceRoles c [] [] 200 w of
       (Panic p, w') \<Rightarrow> (Panic p, w')
     | (Ret (roles, _, _, Some e), w') \<Rightarrow>
         (Ret ([], Some (ErrWrap ''confluence-connector: failed to fetch space role names'' e)), w')
     | (Ret (roles, _, _, None), w') \<Rightarrow>
         (Ret (fold (\<lambda>r. AList.update (role_Id r) (role_Name r)) roles [], None), w'))"
  using assms by (auto simp: loadRoleNames_def bindIO_def ResourcesPageSize_def split: go.splits prod.splits option.splits)

lemma assignment_grant_iff:
  "assignment_grant res a = Some g \<longleftrightarrow>
     (\<exists>t. (rp_PrincipalType (sra_Principal a), t) \<in> {(''USER'', ''user''), (''GROUP'', ''group'')} \<and>
        g = NewGrant res ''assigned'' \<lparr>rid_ResourceType = t, rid_Resource = rp_PrincipalId (sra_Principal a)\<rparr>
              (if t = ''group'' then [expand_group (rp_PrincipalId (sra_Principal a))] else []))"
  by (auto simp: assignment_grant_def Let_def spaceRoleAssignmentEntitlement_def)

interpretation assignment_grant_lister:
  lister "\<lambda>t. assignmentGrants c res \<lparr>tok_Size = n, tok_Token = t\<rparr>" for c res n
  by unfold_locales
    (auto simp: assignmentGrants_def Let_def elim!: lister_bind [rotated] lister_deref [rotated] split: lister_splits)

interpretation assignment_tokens: page_codec
  "\<lambda>t. encode_page_token (pt_Cursor t) (pt_SpaceName t)" "\<lambda>s. Some (decode_page_token s)"
  "\<lambda>t. pt_Cursor t \<noteq> [] \<and> valid_utf8 (pt_Cursor t) \<and> valid_utf8 (pt_SpaceName t)"
  by unfold_locales (simp_all add: decode_encode_page_token)

definition json_assignment :: "SpaceRoleAssignment \<Rightarrow> json" where
  "json_assignment a = JObj
     [(''principal'', JObj [(''principalType'', JStr (rp_PrincipalType (sra_Principal a))),
                            (''principalId'', JStr (rp_PrincipalId (sra_Principal a)))]),
      (''roleId'', JStr (sra_RoleId a))]"

definition json_assignments :: "SpaceRoleAssignment list \<Rightarrow> string \<Rightarrow> json" where
  "json_assignments as next = JObj [(''results'', JArr (map json_assignment as)), (''_links'', v2_links next)]"

lemma dec_assignments:
  "dec_ptr zero_AssignmentsResponse dec_AssignmentsResponse (json_assignments as next) None
   = (Some \<lparr>srar_Results = as, srar_Links = zero_Link\<lparr>link_Next := next\<rparr>\<rparr>, None)"
proof -
  have "dec_RoleAssignment (json_assignment a) zero_RoleAssignment = (a, None)" for a
    by (simp add: dec_RoleAssignment_def dec_RolePrincipal_def json_assignment_def field_dec_def find_field_def
        zero_RoleAssignment_def zero_RolePrincipal_def)
  then have "dec_elems zero_RoleAssignment dec_RoleAssignment (map json_assignment as) = (as, None)"
    by (intro dec_elems_map) simp
  then show ?thesis
    using dec_v2_links [of "next"]
    by (simp add: dec_AssignmentsResponse_def json_assignments_def field_dec_def find_field_def
        zero_AssignmentsResponse_def v2_links_def)
qed

definition assignment_plain :: "SpaceRoleAssignment \<Rightarrow> bool" where
  "assignment_plain a \<longleftrightarrow> valid_utf8 (rp_PrincipalType (sra_Principal a)) \<and>
     valid_utf8 (rp_PrincipalId (sra_Principal a)) \<and> valid_utf8 (sra_RoleId a)"

lemma plain_assignments:
  "list_all assignment_plain as \<Longrightarrow> valid_utf8 next \<Longrightarrow> plain (json_assignments as next)"
  by (auto simp: json_assignments_def json_assignment_def assignment_plain_def v2_links_def valid_utf8_ascii
      is_ascii_def list_all_iff)

definition demo_assignment :: SpaceRoleAssignment where
  "demo_assignment = \<lparr>sra_Principal = \<lparr>rp_PrincipalType = ''USER'', rp_PrincipalId = ''a1''\<rparr>, sra_RoleId = ''r1''\<rparr>"

lemma demo_role [simp]: "sra_RoleId demo_assignment = ''r1''"
  by (simp add: demo_assignment_def)

lemma demo_assignment_plain: "assignment_plain demo_assignment"
  by (simp add: assignment_plain_def demo_assignment_def valid_utf8_ascii is_ascii_def)

definition demo_binding :: Resource where
  "demo_binding = projr (spaceRoleAssignmentResource ''r1'' \<lparr>rid_ResourceType = ''space'', rid_Resource = ''7''\<rparr>
     ''Viewer'' ''Docs'')"

lemma demo_binding_listed:
  "spaceRoleAssignmentResource ''r1'' \<lparr>rid_ResourceType = ''space'', rid_Resource = ''7''\<rparr> ''Viewer'' ''Docs''
     = Inr demo_binding"
  by (simp add: demo_binding_def spaceRoleAssignmentResource_Inr)

definition viewer :: SpaceRole where
  "viewer = zero_Role\<lparr>role_Id := ''r1'', role_Name := ''Viewer''\<rparr>"

lemma viewer_simps [simp]: "role_Id viewer = ''r1''" "role_Name viewer = ''Viewer''"
  by (simp_all add: viewer_def)

end
