(* ===== verification/Tenant.thy ===== *)
theory Tenant
  imports Paging Spaces SpaceRoles SpaceRoleAssignments
begin

text \<open>
  A reference tenant behind the v2 API: spaces, the permissions of each space, roles, and who has which
  role in each space. It answers the paged endpoints by windows and next links, changes
  assignments and adds permissions on a POST and deletes permissions on a DELETE, with itself as the
  state of the world.
  Listings and changes are proved against it.
\<close>

section \<open>The tenant and its answers\<close>

text \<open>
  The id of the next permission and the body with which a tenant answers a change of the permissions are
  left open: the last two fields.
\<close>

record tenant =
  tn_spaces :: "ConfluenceSpace list"
  tn_permissions :: "string \<Rightarrow> ConfluenceSpacePermission list"
  tn_roles :: "SpaceRole list"
  tn_assignments :: "string \<Rightarrow> SpaceRoleAssignment list"
  tn_fresh :: string
  tn_reply :: string

text \<open>A space is served with its id, key, name and type, a role with all its fields.\<close>

definition json_tenant_space :: "ConfluenceSpace \<Rightarrow> json" where
  "json_tenant_space s = JObj [(''id'', JStr (sp_Id s)), (''key'', JStr (sp_Key s)),
     (''name'', JStr (sp_Name s)), (''type'', JStr (sp_Type s))]"

definition json_tenant_spaces :: "ConfluenceSpace list \<Rightarrow> string \<Rightarrow> json" where
  "json_tenant_spaces ss next = JObj [(''results'', JArr (map json_tenant_space ss)), (''_links'', v2_links next)]"

definition json_role :: "SpaceRole \<Rightarrow> json" where
  "json_role r = JObj [(''id'', JStr (role_Id r)), (''type'', JStr (role_Type r)), (''name'', JStr (role_Name r)),
     (''description'', JStr (role_Description r)),
     (''spacePermissions'', JArr (map JStr (role_SpacePermissions r)))]"

definition json_tenant_roles :: "SpaceRole list \<Rightarrow> string \<Rightarrow> json" where
  "json_tenant_roles rs next = JObj [(''results'', JArr (map json_role rs)), (''_links'', v2_links next)]"

text \<open>The link of a page leads to the next offset, as long as there is more.\<close>

definition page_link :: "string \<Rightarrow> nat \<Rightarrow> nat \<Rightarrow> 'a list \<Rightarrow> string" where
  "page_link path i n xs =
     (if i + n < length xs
      then path @ query_suffix (values_Encode [(''cursor'', [itoa (of_nat (i + n))])]) else [])"

text \<open>What follows a prefix of a path: the next segment, and the rest from the slash that ends it.\<close>

definition segment_after :: "string \<Rightarrow> string \<Rightarrow> (string \<times> string) option" where
  "segment_after pre p =
     (let r = drop (length pre) p
      in if prefix pre p
         then Some (takeWhile (\<lambda>c. c \<noteq> CHR ''/'') r, dropWhile (\<lambda>c. c \<noteq> CHR ''/'') r) else None)"

definition space_of_path :: "string \<Rightarrow> (string \<times> string) option" where
  "space_of_path = segment_after ''/wiki/api/v2/spaces/''"

text \<open>The filters of the assignments of a space: an absent one holds for all.\<close>

definition assignment_selected :: "string \<Rightarrow> string \<Rightarrow> string \<Rightarrow> SpaceRoleAssignment \<Rightarrow> bool" where
  "assignment_selected roleId principalId principalType a \<longleftrightarrow>
     (roleId = [] \<or> sra_RoleId a = roleId) \<and>
     (principalId = [] \<or> rp_PrincipalId (sra_Principal a) = principalId) \<and>
     (principalType = [] \<or> rp_PrincipalType (sra_Principal a) = principalType)"

definition tenant_get :: "tenant \<Rightarrow> url \<Rightarrow> int \<times> string" where
  "tenant_get S u =
     (let p = Path u; q = values_get (url_Query u); i = offset (q ''cursor''); n = offset (q ''limit'')
      in if p = SpacesListUrlPath then
           (200, json_print (json_tenant_spaces (window i n (tn_spaces S)) (page_link p i n (tn_spaces S))))
         else if p = SpaceRolesUrlPath then
           (200, json_print (json_tenant_roles (window i n (tn_roles S)) (page_link p i n (tn_roles S))))
         else case space_of_path p of
           None \<Rightarrow> (404, ''not found'')
         | Some (spaceId, part) \<Rightarrow>
             if part = [] then
               (case find (\<lambda>s. sp_Id s = spaceId) (tn_spaces S) of
                  Some s \<Rightarrow> (200, json_print (json_tenant_space s))
                | None \<Rightarrow> (404, ''not found''))
             else if part = ''/permissions'' then
               (let ps = tn_permissions S spaceId
                in (200, json_print (json_permissions (window i n ps) (page_link p i n ps))))
             else if part = ''/role-assignments'' then
               (let as = filter (assignment_selected (q ''role-id'') (q ''principal-id'') (q ''principal-type''))
                           (tn_assignments S spaceId)
                in (200, json_print (json_assignments (window i n as) (page_link p i n as))))
             else (404, ''not found''))"

text \<open>
  A principal has at most one role in a space: a request with a role id replaces the role, one
  without removes it.
\<close>

definition set_role :: "SpaceRoleAssignmentPrincipal \<Rightarrow> string \<Rightarrow> SpaceRoleAssignment list \<Rightarrow>
    SpaceRoleAssignment list" where
  "set_role who roleId as =
     filter (\<lambda>a. sra_Principal a \<noteq> who) as @
     (if roleId = [] then [] else [\<lparr>sra_Principal = who, sra_RoleId = roleId\<rparr>])"

definition apply_request :: "json \<Rightarrow> SpaceRoleAssignment list \<Rightarrow> SpaceRoleAssignment list" where
  "apply_request j =
     set_role \<lparr>rp_PrincipalType = json_text (json_member ''principalType'' (json_member ''principal'' j)),
               rp_PrincipalId = json_text (json_member ''principalId'' (json_member ''principal'' j))\<rparr>
       (json_text (json_member ''roleId'' j))"

definition update_assignments :: "string \<Rightarrow> (SpaceRoleAssignment list \<Rightarrow> SpaceRoleAssignment list) \<Rightarrow> tenant \<Rightarrow> tenant"
where
  "update_assignments spaceId f S =
     S\<lparr>tn_assignments := (tn_assignments S)(spaceId := f (tn_assignments S spaceId))\<rparr>"

definition tenant_post :: "url \<Rightarrow> string \<Rightarrow> tenant \<Rightarrow> (int \<times> string) \<times> tenant" where
  "tenant_post u body S =
     (case (space_of_path (Path u), json_parse body) of
        (Some (spaceId, part), Some (JArr js)) \<Rightarrow>
          if part = ''/role-assignments''
          then ((200, json_print (json_assignments [] [])), update_assignments spaceId (fold apply_request js) S)
          else ((404, ''not found''), S)
      | _ \<Rightarrow> ((400, ''bad request''), S))"

text \<open>A permission is deleted by the key of its space and by its id.\<close>

definition remove_permission :: "string \<Rightarrow> string \<Rightarrow> tenant \<Rightarrow> tenant" where
  "remove_permission spaceId p S =
     S\<lparr>tn_permissions := (tn_permissions S)(spaceId := filter (\<lambda>q. perm_Id q \<noteq> p) (tn_permissions S spaceId))\<rparr>"

definition permission_of_path :: "string \<Rightarrow> (string \<times> string) option" where
  "permission_of_path path =
     (case segment_after ''/wiki/rest/api/space/'' path of
        Some (key, rest) \<Rightarrow> map_option (\<lambda>(p, _). (key, p)) (segment_after ''/permissions/'' rest)
      | None \<Rightarrow> None)"

definition tenant_delete :: "url \<Rightarrow> tenant \<Rightarrow> (int \<times> string) \<times> tenant" where
  "tenant_delete u S =
     (case permission_of_path (Path u) of
        None \<Rightarrow> ((404, ''not found''), S)
      | Some (key, p) \<Rightarrow>
          (case find (\<lambda>s. sp_Key s = key) (tn_spaces S) of
             None \<Rightarrow> ((404, ''not found''), S)
           | Some s \<Rightarrow> ((200, tn_reply S), remove_permission (sp_Id s) p S)))"

text \<open>A permission is added by the key of its space, too.\<close>

definition add_permission :: "string \<Rightarrow> ConfluenceSpacePermission \<Rightarrow> tenant \<Rightarrow> tenant" where
  "add_permission spaceId p S =
     S\<lparr>tn_permissions := (tn_permissions S)(spaceId := tn_permissions S spaceId @ [p])\<rparr>"

definition requested_permission :: "string \<Rightarrow> json \<Rightarrow> ConfluenceSpacePermission" where
  "requested_permission p j =
     (let subject = json_member ''subject'' j; operation = json_member ''operation'' j
      in \<lparr>perm_Id = p,
          perm_Principal = \<lparr>pp_Id = json_text (json_member ''identifier'' subject),
                            pp_Type = json_text (json_member ''type'' subject)\<rparr>,
          perm_Operation = \<lparr>po_Key = json_text (json_member ''key'' operation),
                            po_TargetType = json_text (json_member ''target'' operation)\<rparr>\<rparr>)"

definition tenant_create :: "url \<Rightarrow> string \<Rightarrow> tenant \<Rightarrow> (int \<times> string) \<times> tenant" where
  "tenant_create u body S =
     (case (segment_after ''/wiki/rest/api/space/'' (Path u), json_parse body) of
        (Some (key, rest), Some j) \<Rightarrow>
          (case find (\<lambda>s. sp_Key s = key) (tn_spaces S) of
             Some s \<Rightarrow>
               if rest = ''/permissions''
               then ((200, tn_reply S), add_permission (sp_Id s) (requested_permission (tn_fresh S) j) S)
               else ((404, ''not found''), S)
           | None \<Rightarrow> ((404, ''not found''), S))
      | _ \<Rightarrow> ((400, ''bad request''), S))"

definition tenant_serve :: "tenant service" where
  "tenant_serve req S =
     (case (req_Method req, req_Body req) of
        (GET, _) \<Rightarrow> (tenant_get S (req_URL req), S)
      | (POST, Some body) \<Rightarrow>
          if prefix ''/wiki/rest/'' (Path (req_URL req)) then tenant_create (req_URL req) body S
          else tenant_post (req_URL req) body S
      | (DELETE, _) \<Rightarrow> tenant_delete (req_URL req) S
      | _ \<Rightarrow> ((405, ''method not allowed''), S))"

definition tenant_client :: "url \<Rightarrow> tenant ConfluenceClient" where
  "tenant_client base = server_client base tenant_serve"

section \<open>Well-formed tenants\<close>

definition space_valid :: "ConfluenceSpace \<Rightarrow> bool" where
  "space_valid s \<longleftrightarrow> valid_utf8 (sp_Id s) \<and> valid_utf8 (sp_Key s) \<and> valid_utf8 (sp_Name s) \<and> valid_utf8 (sp_Type s)"

definition role_valid :: "SpaceRole \<Rightarrow> bool" where
  "role_valid r \<longleftrightarrow> valid_utf8 (role_Id r) \<and> valid_utf8 (role_Type r) \<and> valid_utf8 (role_Name r) \<and>
     valid_utf8 (role_Description r) \<and> list_all valid_utf8 (role_SpacePermissions r)"

text \<open>The ids of spaces are letters, digits and hyphens.\<close>

definition tenant_ok :: "tenant \<Rightarrow> bool" where
  "tenant_ok S \<longleftrightarrow>
     small (tn_spaces S) \<and> list_all space_valid (tn_spaces S) \<and>
     small (tn_roles S) \<and> list_all role_valid (tn_roles S) \<and>
     (\<forall>i. small (tn_permissions S i) \<and> list_all permission_plain (tn_permissions S i)) \<and>
     (\<forall>i. small (tn_assignments S i) \<and> list_all assignment_plain (tn_assignments S i))"

section \<open>Pages decode to what the tenant holds\<close>

definition space_view :: "ConfluenceSpace \<Rightarrow> ConfluenceSpace" where
  "space_view s = zero_Space\<lparr>sp_Id := sp_Id s, sp_Key := sp_Key s, sp_Name := sp_Name s, sp_Type := sp_Type s\<rparr>"

lemma space_view_simps [simp]:
  "sp_Id (space_view s) = sp_Id s" "sp_Key (space_view s) = sp_Key s" "sp_Name (space_view s) = sp_Name s" "sp_Type (space_view s) = sp_Type s"
  by (simp_all add: space_view_def)

lemma dec_elems_view: "(\<And>x. d (e x) zero = (v x, None)) \<Longrightarrow> dec_elems zero d (map e xs) = (map v xs, None)"
  by (induction xs) simp_all

lemma dec_tenant_space: "dec_Space (json_tenant_space s) zero_Space = (space_view s, None)"
  by (simp add: dec_Space_def json_tenant_space_def field_dec_def find_field_def zero_Space_def space_view_def)

lemma dec_tenant_spaces:
  "dec_ptr zero_SpaceList dec_SpaceList (json_tenant_spaces ss next) None
   = (Some \<lparr>spl_Links = zero_Link\<lparr>link_Next := next\<rparr>, spl_Results = map space_view ss\<rparr>, None)"
proof -
  have "dec_elems zero_Space dec_Space (map json_tenant_space ss) = (map space_view ss, None)"
    by (rule dec_elems_view) (rule dec_tenant_space)
  then show ?thesis
    using dec_v2_links [of "next"]
    by (simp add: dec_SpaceList_def json_tenant_spaces_def field_dec_def find_field_def zero_SpaceList_def v2_links_def)
qed

lemma dec_tenant_roles:
  "dec_ptr zero_RolesResponse dec_RolesResponse (json_tenant_roles rs next) None
   = (Some \<lparr>srr_Results = rs, srr_Links = zero_Link\<lparr>link_Next := next\<rparr>\<rparr>, None)"
proof -
  have strings: "dec_elems [] dec_string (map JStr xs) = (xs, None)" for xs
    using dec_elems_view [of dec_string JStr "[]" "\<lambda>x. x" xs] by simp
  have "dec_Role (json_role r) zero_Role = (r, None)" for r
    by (simp add: dec_Role_def json_role_def field_dec_def find_field_def zero_Role_def strings)
  then have "dec_elems zero_Role dec_Role (map json_role rs) = (rs, None)"
    using dec_elems_view [of dec_Role json_role zero_Role "\<lambda>x. x" rs] by simp
  then show ?thesis
    using dec_v2_links [of "next"]
    by (simp add: dec_RolesResponse_def json_tenant_roles_def field_dec_def find_field_def zero_RolesResponse_def
        v2_links_def)
qed

lemma plain_tenant_space: "space_valid s \<Longrightarrow> plain (json_tenant_space s)"
  by (simp add: json_tenant_space_def space_valid_def valid_utf8_ascii is_ascii_def)

lemma plain_tenant_spaces:
  "list_all space_valid ss \<Longrightarrow> valid_utf8 next \<Longrightarrow> plain (json_tenant_spaces ss next)"
  by (auto simp: json_tenant_spaces_def json_tenant_space_def space_valid_def v2_links_def valid_utf8_ascii
      is_ascii_def list_all_iff)

lemma plain_tenant_roles:
  "list_all role_valid rs \<Longrightarrow> valid_utf8 next \<Longrightarrow> plain (json_tenant_roles rs next)"
  by (auto simp: json_tenant_roles_def json_role_def role_valid_def v2_links_def valid_utf8_ascii
      is_ascii_def list_all_iff)

end
