(* ===== verification/SpaceSync.thy ===== *)
theory SpaceSync
  imports Tenant
begin

text \<open>
  Complete syncs over the v2 API, which follows cursors, against a reference tenant: the spaces, the
  permissions of a space, the roles, and the holders of a role in a space.
\<close>

section \<open>Cursors\<close>

definition cursor_token :: "nat \<Rightarrow> string" where "cursor_token i = itoa (of_nat i)"

lemma offset_cursor: "k < 2000000000 \<Longrightarrow> offset (cursor_token k) = k"
  by (simp add: cursor_token_def sint_small)

lemma offset_Nil [simp]: "offset [] = 0"
  by code_simp

interpretation cursor_tokens: page_codec cursor_token "\<lambda>t. Some (offset t)" offset_ok
  by unfold_locales (simp add: offset_ok_def offset_cursor, simp add: cursor_token_def)

lemma literal_query_ascii: "literal_char c \<Longrightarrow> is_ascii c" "query_char c \<Longrightarrow> is_ascii c"
  by (auto simp: literal_char_def query_char_def is_ascii_def is_alnum_def is_lower_def is_upper_def is_digit_def)

definition next_cursor :: "nat \<Rightarrow> nat \<Rightarrow> 'a list \<Rightarrow> string" where
  "next_cursor i n xs = (if i + n < length xs then cursor_token (i + n) else [])"

lemma page_link_valid:
  assumes "list_all literal_char path"
  shows "valid_utf8 (page_link path i n xs)"
proof -
  have "list_all is_ascii path" using assms by (auto simp: list_all_iff literal_query_ascii)
  moreover have "list_all is_ascii (values_Encode m)" for m
    using Encode_query_chars [of m] by (auto simp: list_all_iff literal_query_ascii)
  ultimately show ?thesis
    by (auto simp: page_link_def query_suffix_def valid_utf8_ascii is_ascii_def)
qed

lemma page_link_cursor:
  assumes "good_segments segs" "unescape EncodePath (path_of segs) = Inr (path_of segs)"
  shows "extractPaginationCursor (zero_Link\<lparr>link_Next := page_link (path_of segs) i n xs\<rparr>) = next_cursor i n xs"
proof (cases "i + n < length xs")
  case True
  then show ?thesis
    using cursor_of_link [OF assms, of "[(''cursor'', [itoa (of_nat (i + n))])]" "itoa (of_nat (i + n))"]
    by (simp add: page_link_def next_cursor_def values_ok_def cursor_token_def)
qed (simp add: page_link_def next_cursor_def no_cursor)

section \<open>The client on a tenant\<close>

text \<open>A page size below 1 stands for the default of 100.\<close>

definition limit_of :: "goint \<Rightarrow> nat" where
  "limit_of n = (if sint n < 1 then 100 else nat (sint n))"

lemma sint_default [simp]: "sint defaultSize = 100"
  using sint_small [of 100] by (simp add: defaultSize_def)

lemma tenant_client_base [simp]: "client_apiBase (tenant_client base) = base"
  by (simp add: tenant_client_def)

lemma tenant_serve_get [simp]: "tenant_serve (request_to c GET u None) S = (tenant_get S u, S)"
  by (simp add: tenant_serve_def request_to_def)

lemma paths_differ [simp]:
  "SpaceRolesUrlPath \<noteq> SpacesListUrlPath"
  "SpacePermissionsListUrlPath i \<noteq> SpacesListUrlPath" "SpacePermissionsListUrlPath i \<noteq> SpaceRolesUrlPath"
  "SpaceRoleAssignmentsUrlPath i \<noteq> SpacesListUrlPath" "SpaceRoleAssignmentsUrlPath i \<noteq> SpaceRolesUrlPath"
  "spacesGetUrlPath i \<noteq> SpacesListUrlPath" "spacesGetUrlPath i \<noteq> SpaceRolesUrlPath"
  by (simp_all add: spacesGetUrlPath_def SpaceRolesUrlPath_def SpacesListUrlPath_def SpacePermissionsListUrlPath_def
      SpaceRoleAssignmentsUrlPath_def)

lemma rest_paths [simp]:
  "\<not> prefix ''/wiki/rest/'' (SpaceRoleAssignmentsUrlPath i)" "prefix ''/wiki/rest/'' (spacePermissionsCreateUrlPath i)"
  by (simp_all add: SpaceRoleAssignmentsUrlPath_def spacePermissionsCreateUrlPath_def)

lemma segment_after_append:
  assumes "CHR ''/'' \<notin> set i" "r = [] \<or> hd r = CHR ''/''"
  shows "segment_after pre (pre @ i @ r) = Some (i, r)"
proof -
  have all: "\<And>c. c \<in> set i \<Longrightarrow> c \<noteq> CHR ''/''" using assms(1) by metis
  have "takeWhile (\<lambda>c. c \<noteq> CHR ''/'') (i @ r) = i" "dropWhile (\<lambda>c. c \<noteq> CHR ''/'') (i @ r) = r"
    using all assms(2) by (cases r; simp add: takeWhile_append2 dropWhile_append2)+
  then show ?thesis by (simp add: segment_after_def)
qed

lemma space_of_paths:
  assumes "CHR ''/'' \<notin> set i"
  shows "space_of_path (SpacePermissionsListUrlPath i) = Some (i, ''/permissions'')"
    "space_of_path (SpaceRoleAssignmentsUrlPath i) = Some (i, ''/role-assignments'')"
    "space_of_path (spacesGetUrlPath i) = Some (i, [])"
  using segment_after_append [OF assms, of "''/permissions''" "''/wiki/api/v2/spaces/''"]
    segment_after_append [OF assms, of "''/role-assignments''" "''/wiki/api/v2/spaces/''"]
    segment_after_append [OF assms, of "[]" "''/wiki/api/v2/spaces/''"]
  by (simp_all add: space_of_path_def SpacePermissionsListUrlPath_def SpaceRoleAssignmentsUrlPath_def
      spacesGetUrlPath_def)

lemma id_no_slash: "list_all id_char i \<Longrightarrow> CHR ''/'' \<notin> set i"
  by (auto simp: list_all_iff id_char_def is_alnum_def is_lower_def is_upper_def is_digit_def)

lemma limit_of_default: "offset (itoa (if sint n < 1 then defaultSize else n)) = limit_of n"
  by (simp add: limit_of_def)

lemma pagination_query:
  "offset (values_get (url_Query (endpoint_url b segs path [pagination_parameters n cursor])) ''limit'') = limit_of n"
  "values_get (url_Query (endpoint_url b segs path [pagination_parameters n cursor])) ''cursor'' = cursor"
  by (simp only: values_get_pagination refl if_True limit_of_default) (simp add: values_get_pagination)

lemma literal_paths:
  "list_all literal_char SpacesListUrlPath" "list_all literal_char SpaceRolesUrlPath"
  "list_all literal_char (SpacePermissionsListUrlPath i) = list_all literal_char i"
  "list_all literal_char (SpaceRoleAssignmentsUrlPath i) = list_all literal_char i"
  by (simp_all add: SpacesListUrlPath_def SpaceRolesUrlPath_def SpacePermissionsListUrlPath_def
      SpaceRoleAssignmentsUrlPath_def literal_char_def is_alnum_def is_lower_def is_digit_def is_upper_def)

lemma page_link_at:
  assumes "good_segments segs" "path_of segs = path" "unescape EncodePath path = Inr path"
  shows "extractPaginationCursor (zero_Link\<lparr>link_Next := page_link path i n xs\<rparr>) = next_cursor i n xs"
  using page_link_cursor [OF assms(1)] assms(2,3) by simp

lemma GetSpaces_tenant:
  fixes cursor n
  assumes "base_ok base" "tenant_ok S"
  defines "i \<equiv> offset cursor" and "k \<equiv> limit_of n" and "xs \<equiv> tn_spaces S"
  shows "GetSpaces (tenant_client base) n cursor S =
    (Ret (map space_view (window i k xs), next_cursor i k xs, Some no_limits, None), S)"
proof -
  let ?j = "json_tenant_spaces (window i k xs) (page_link SpacesListUrlPath i k xs)"
  have ans: "tenant_serve (request_to (server_client base tenant_serve) GET (spaces_url base n cursor) None) S
      = ((200, json_print ?j), S)"
    by (simp add: tenant_get_def spaces_url_def pagination_query Let_def i_def k_def xs_def)
  have pl: "plain ?j"
    using assms(2) literal_paths(1)
    by (intro plain_tenant_spaces page_link_valid) (simp_all add: tenant_ok_def window_all xs_def)
  have "unescape EncodePath SpacesListUrlPath = Inr SpacesListUrlPath"
    using spaces_path(1,3) by simp
  then show ?thesis
    using GetSpaces_served [where serve = tenant_serve and s = S and s' = S, OF assms(1) ans pl dec_tenant_spaces] page_link_at [OF spaces_path(2,1)]
    by (simp add: tenant_client_def)
qed

lemma GetSpacePermissions_tenant:
  fixes cursor n
  assumes "base_ok base" "tenant_ok S" "list_all id_char spaceId"
  defines "i \<equiv> offset cursor" and "k \<equiv> limit_of n" and "xs \<equiv> tn_permissions S spaceId"
  shows "GetSpacePermissions (tenant_client base) cursor n spaceId S =
    (Ret (window i k xs, next_cursor i k xs, Some no_limits, None), S)"
proof -
  let ?p = "SpacePermissionsListUrlPath spaceId"
  let ?j = "json_permissions (window i k xs) (page_link ?p i k xs)"
  have ans: "tenant_serve (request_to (server_client base tenant_serve) GET (permissions_url base spaceId n cursor) None) S
      = ((200, json_print ?j), S)"
    by (simp add: tenant_get_def permissions_url_def pagination_query space_of_paths id_no_slash [OF assms(3)]
        Let_def i_def k_def xs_def)
  have pl: "plain ?j"
    using assms(2) literal_id [OF assms(3)]
    by (intro plain_permissions page_link_valid) (simp_all add: tenant_ok_def window_all xs_def literal_paths)
  have "unescape EncodePath ?p = Inr ?p"
    using permissions_path(1,3) [OF assms(3)] by simp
  then show ?thesis
    using GetSpacePermissions_served [where serve = tenant_serve and s = S and s' = S, OF assms(1,3) ans pl dec_permissions]
      page_link_at [OF permissions_path(2,1) [OF assms(3)]]
    by (simp add: tenant_client_def)
qed

lemma GetSpaceRoles_tenant:
  fixes cursor n
  assumes "base_ok base" "tenant_ok S"
  defines "i \<equiv> offset cursor" and "k \<equiv> limit_of n" and "xs \<equiv> tn_roles S"
  shows "GetSpaceRoles (tenant_client base) [] cursor n S =
    (Ret (window i k xs, next_cursor i k xs, Some no_limits, None), S)"
proof -
  let ?j = "json_tenant_roles (window i k xs) (page_link SpaceRolesUrlPath i k xs)"
  have ans: "tenant_serve (request_to (server_client base tenant_serve) GET (roles_url base cursor n) None) S
      = ((200, json_print ?j), S)"
    by (simp add: tenant_get_def roles_url_def pagination_query Let_def i_def k_def xs_def)
  have pl: "plain ?j"
    using assms(2) literal_paths(2)
    by (intro plain_tenant_roles page_link_valid) (simp_all add: tenant_ok_def window_all xs_def)
  have "unescape EncodePath SpaceRolesUrlPath = Inr SpaceRolesUrlPath"
    using role_paths(2) unescape_role_paths(2) by simp
  then show ?thesis
    using GetSpaceRoles_served [where serve = tenant_serve and s = S and s' = S, OF assms(1) ans pl dec_tenant_roles] page_link_at [OF good_role_segs(2) role_paths(2)]
    by (simp add: tenant_client_def)
qed

lemma id_not_dots: "list_all id_char i \<Longrightarrow> i \<noteq> ''.'' \<and> i \<noteq> ''..''"
  by (auto simp: id_char_def is_alnum_def is_lower_def is_upper_def is_digit_def)

lemma PathEscape_id: "list_all id_char i \<Longrightarrow> PathEscape i = i"
  by (induction i) (auto simp: id_char_def shouldEscape_def escape_def escape_char_def)

lemma GetSpaceRoleAssignments_tenant:
  fixes roleId principalId principalType cursor n
  assumes "base_ok base" "list_all assignment_plain (tn_assignments S spaceId)" "list_all id_char spaceId"
  defines "i \<equiv> offset cursor" and "k \<equiv> limit_of n"
    and "xs \<equiv> filter (assignment_selected roleId principalId principalType) (tn_assignments S spaceId)"
  shows "GetSpaceRoleAssignments (tenant_client base) spaceId roleId principalId principalType cursor n S =
    (Ret (window i k xs, next_cursor i k xs, Some no_limits, None), S)"
proof -
  let ?p = "SpaceRoleAssignmentsUrlPath spaceId"
  let ?j = "json_assignments (window i k xs) (page_link ?p i k xs)"
  let ?u = "assignments_url base spaceId (assignments_groups roleId principalId principalType cursor n)"
  have q: "values_get (url_Query ?u) ''role-id'' = roleId" "values_get (url_Query ?u) ''principal-id'' = principalId"
    "values_get (url_Query ?u) ''principal-type'' = principalType" "values_get (url_Query ?u) ''cursor'' = cursor"
    "offset (values_get (url_Query ?u) ''limit'') = limit_of n"
    unfolding assignments_url_def by (simp_all only: assignments_query limit_of_default) (simp_all add: limit_of_def)
  have path_u: "Path ?u = ?p" by (simp add: assignments_url_def)
  have ans: "tenant_serve (request_to (server_client base tenant_serve) GET ?u None) S = ((200, json_print ?j), S)"
    by (simp add: tenant_get_def q path_u space_of_paths id_no_slash [OF assms(3)] Let_def i_def k_def xs_def)
  have "list_all assignment_plain xs"
    using assms(2) by (auto simp: xs_def list_all_iff)
  then have pl: "plain ?j"
    using literal_id [OF assms(3)]
    by (intro plain_assignments page_link_valid) (simp_all add: window_all literal_paths)
  have esc: "PathEscape spaceId = spaceId" by (rule PathEscape_id [OF assms(3)])
  have path: "path_of (assignments_segs spaceId) = ?p" "unescape EncodePath ?p = Inr ?p"
    using assignments_path [of spaceId] unescape_assignments [of spaceId] by (simp_all add: esc)
  note dots = id_not_dots [OF assms(3), THEN conjunct1] id_not_dots [OF assms(3), THEN conjunct2]
  show ?thesis
    using GetSpaceRoleAssignments_served [where serve = tenant_serve and s = S and s' = S, OF assms(1) dots ans pl dec_assignments]
      page_link_at [OF good_assignments_segs [OF dots] path]
    by (simp add: tenant_client_def)
qed

text \<open>The space is known to the tenant under its id.\<close>

definition space_at :: "tenant \<Rightarrow> ConfluenceSpace \<Rightarrow> bool" where
  "space_at S s \<longleftrightarrow> list_all id_char (sp_Id s) \<and> find (\<lambda>s'. sp_Id s' = sp_Id s) (tn_spaces S) = Some s"

lemma found_space_valid: "tenant_ok S \<Longrightarrow> find P (tn_spaces S) = Some s \<Longrightarrow> space_valid s"
  by (auto simp: tenant_ok_def list_all_iff find_Some_iff)

lemma GetSpaceById_tenant:
  assumes "base_ok base" "tenant_ok S" "list_all id_char i" "find (\<lambda>s. sp_Id s = i) (tn_spaces S) = Some s"
  shows "GetSpaceById (tenant_client base) i S = (Ret (Some (space_view s), Some no_limits, None), S)"
proof -
  have ans: "tenant_serve (request_to (server_client base tenant_serve) GET (space_url base i) None) S
      = ((200, json_print (json_tenant_space s)), S)"
    using assms(4) by (simp add: tenant_get_def space_url_def space_of_paths id_no_slash [OF assms(3)] Let_def)
  show ?thesis
    using GetSpaceById_served [where serve = tenant_serve and s = S and s' = S, OF assms(1,3) ans
        plain_tenant_space [OF found_space_valid [OF assms(2,4)]] dec_tenant_space]
    by (simp add: tenant_client_def)
qed

section \<open>The paged listings\<close>

lemma limit_of_simps [simp]: "limit_of 200 = 200" "limit_of 0 = 100"
  using sint_small [of 200] by (simp_all add: limit_of_def)

definition kept_space :: "'w spaceBuilder \<Rightarrow> ConfluenceSpace \<Rightarrow> bool" where
  "kept_space b = (\<lambda>s. sb_skipPersonalSpaces b \<longrightarrow> sp_Type s \<noteq> ''personal'')"

definition listed_spaces :: "'w spaceBuilder \<Rightarrow> ConfluenceSpace list \<Rightarrow> Resource list" where
  "listed_spaces b ss = map (expected_space (sb_useRbac b)) (filter (kept_space b) ss)"

lemma expected_space_view [simp]: "expected_space rb (space_view s) = expected_space rb s"
  by (simp add: expected_space_def)

lemma listed_space_view: "listed_spaces b (map space_view ss) = listed_spaces b ss"
  by (simp add: listed_spaces_def filter_map comp_def kept_space_def)

lemma spaceList_tenant:
  fixes t
  assumes "base_ok base" "tenant_ok S" "sb_client b = tenant_client base"
  defines "i \<equiv> offset t" and "xs \<equiv> tn_spaces S"
  shows "\<exists>res. spaceList b \<lparr>tok_Size = 0, tok_Token = t\<rparr> S = (Ret (listed_spaces b (window i 200 xs), res, None), S) \<and>
    token_of res = next_cursor i 200 xs"
proof -
  have "GetSpaces (sb_client b) 200 t S =
      (Ret (map space_view (window i 200 xs), next_cursor i 200 xs, Some no_limits, None), S)"
    using GetSpaces_tenant [OF assms(1,2), of 200 t] by (simp add: assms(3) i_def xs_def)
  then show ?thesis
    using spaceList_outcome [of b "\<lparr>tok_Size = 0, tok_Token = t\<rparr>"] listed_space_view [of b]
    by (simp add: listed_spaces_def kept_space_def filter_map comp_def)
qed

interpretation space_pages: paged_listing cursor_token "\<lambda>t. Some (offset t)" 200
  "\<lambda>t. spaceList b \<lparr>tok_Size = 0, tok_Token = t\<rparr>" "tn_spaces S" "listed_spaces b"
  "\<lambda>w. w = S \<and> base_ok base \<and> tenant_ok S \<and> sb_client b = tenant_client base" for b S base
proof (unfold_locales, goal_cases)
  case (3 w i)
  then show ?case
    using spaceList_tenant [of base S b "cursor_token i"] by (auto simp: offset_ok_def offset_cursor next_cursor_def)
next
  case (4 w)
  then show ?case
    using spaceList_tenant [of base S b "[]"] by (auto simp: next_cursor_def)
qed (auto simp: listed_spaces_def tenant_ok_def)

definition space_grants :: "'w spaceBuilder \<Rightarrow> Resource \<Rightarrow> ConfluenceSpacePermission list \<Rightarrow> Grant list" where
  "space_grants b res = List.map_filter (permission_grant b res)"

lemma map_filter_append: "List.map_filter f (xs @ ys) = List.map_filter f xs @ List.map_filter f ys"
  by (simp add: List.map_filter_def)

lemma spaceGrants_tenant:
  fixes t
  assumes "base_ok base" "tenant_ok S" "sb_client b = tenant_client base" "\<not> sb_useRbac b"
    and "res_Id res = Some \<lparr>rid_ResourceType = ty, rid_Resource = spaceId\<rparr>" "list_all id_char spaceId"
  defines "i \<equiv> offset t" and "xs \<equiv> tn_permissions S spaceId"
  shows "\<exists>out. spaceGrants b res \<lparr>tok_Size = 0, tok_Token = t\<rparr> S = (Ret (space_grants b res (window i 100 xs), out, None), S) \<and>
    token_of out = next_cursor i 100 xs"
  using GetSpacePermissions_tenant [OF assms(1,2,6), of t 0] assms(3-5)
  by (simp add: spaceGrants_def bindIO_apply Let_def space_grants_def i_def xs_def)

interpretation space_grant_pages: paged_listing cursor_token "\<lambda>t. Some (offset t)" 100
  "\<lambda>t. spaceGrants b res \<lparr>tok_Size = 0, tok_Token = t\<rparr>" "tn_permissions S spaceId" "space_grants b res"
  "\<lambda>w. w = S \<and> base_ok base \<and> tenant_ok S \<and> sb_client b = tenant_client base \<and> \<not> sb_useRbac b \<and>
       res_Id res = Some \<lparr>rid_ResourceType = ty, rid_Resource = spaceId\<rparr> \<and> list_all id_char spaceId"
  for b res S base ty spaceId
proof (unfold_locales, goal_cases)
  case (3 w i)
  then show ?case
    using spaceGrants_tenant [of base S b res ty spaceId "cursor_token i"]
    by (auto simp: offset_ok_def offset_cursor next_cursor_def)
next
  case (4 w)
  then show ?case
    using spaceGrants_tenant [of base S b res ty spaceId "[]"] by (auto simp: next_cursor_def)
qed (auto simp: space_grants_def map_filter_append tenant_ok_def)

definition expected_role :: "SpaceRole \<Rightarrow> Resource" where
  "expected_role r =
     \<lparr>res_Id = Some \<lparr>rid_ResourceType = ''space_role'', rid_Resource = role_Id r\<rparr>,
      res_ParentResourceId = None, res_DisplayName = role_Name r, res_Annotations = [AnyRoleTrait],
      res_Description = role_Description r,
      res_Profile = Some [(''description'', PString (role_Description r)),
        (''space_permissions'', PList (role_SpacePermissions r))],
      res_Status = None\<rparr>"

lemma spaceRoleResource_valid: "role_valid r \<Longrightarrow> spaceRoleResource r = Inr (expected_role r)"
  by (simp add: spaceRoleResource_def NewRoleResource_def NewResource_def WithDescription_def
      WithResourceProfile_def NewStruct_def WithRoleTrait_def role_valid_def valid_utf8_ascii is_ascii_def
      expected_role_def)

lemma spaceRoleList_tenant:
  fixes t
  assumes "base_ok base" "tenant_ok S"
  defines "i \<equiv> offset t" and "xs \<equiv> tn_roles S"
  shows "\<exists>res. spaceRoleList (tenant_client base) None \<lparr>tok_Size = 0, tok_Token = t\<rparr> S =
      (Ret (map expected_role (window i 200 xs), res, None), S) \<and> token_of res = next_cursor i 200 xs"
proof -
  have "list_all role_valid (window i 200 xs)"
    using assms(2) by (simp add: window_all tenant_ok_def xs_def)
  then have "try_map spaceRoleResource (window i 200 xs) = Inr (map expected_role (window i 200 xs))"
    by (intro try_map_Inr) (auto simp: list_all_iff spaceRoleResource_valid)
  then show ?thesis
    using GetSpaceRoles_tenant [OF assms(1,2), of t 200]
    by (simp add: spaceRoleList_def ResourcesPageSize_def bindIO_apply Let_def i_def xs_def)
qed

interpretation role_pages: paged_listing cursor_token "\<lambda>t. Some (offset t)" 200
  "\<lambda>t. spaceRoleList (tenant_client base) None \<lparr>tok_Size = 0, tok_Token = t\<rparr>" "tn_roles S" "map expected_role"
  "\<lambda>w. w = S \<and> base_ok base \<and> tenant_ok S" for base S
proof (unfold_locales, goal_cases)
  case (3 w i)
  then show ?case
    using spaceRoleList_tenant [of base S "cursor_token i"] by (auto simp: offset_ok_def offset_cursor next_cursor_def)
next
  case (4 w)
  then show ?case
    using spaceRoleList_tenant [of base S "[]"] by (auto simp: next_cursor_def)
qed (auto simp: tenant_ok_def)

definition holders :: "string \<Rightarrow> SpaceRoleAssignment list \<Rightarrow> SpaceRoleAssignment list" where
  "holders roleId as = filter (assignment_selected roleId [] []) as"

definition role_grants :: "Resource \<Rightarrow> SpaceRoleAssignment list \<Rightarrow> Grant list" where
  "role_grants res = List.map_filter (assignment_grant res)"

lemma assignmentGrants_tenant:
  fixes roleId t
  assumes "base_ok base" "tenant_ok S" "list_all id_char (rid_Resource sid)"
    and "spaceRoleAssignmentResource roleId sid roleName spaceName = Inr res"
  defines "i \<equiv> offset t" and "xs \<equiv> holders roleId (tn_assignments S (rid_Resource sid))"
  shows "\<exists>out. assignmentGrants (tenant_client base) res \<lparr>tok_Size = 0, tok_Token = t\<rparr> S =
      (Ret (role_grants res (window i 100 xs), out, None), S) \<and> token_of out = next_cursor i 100 xs"
proof -
  have "GetScopeBindingTrait res = Inr \<lparr>sbt_RoleId = Some \<lparr>rid_ResourceType = ''space_role'', rid_Resource = roleId\<rparr>,
      sbt_ScopeResourceId = Some sid\<rparr>"
    using assms(4) by (auto simp: spaceRoleAssignmentResource_Inr GetScopeBindingTrait_def)
  then show ?thesis
    using GetSpaceRoleAssignments_tenant [OF assms(1) _ assms(3), of S roleId "[]" "[]" t 0] assms(2)
    by (simp add: assignmentGrants_def tenant_ok_def id_resource_def bindIO_apply Let_def role_grants_def holders_def i_def xs_def)
qed

interpretation role_grant_pages: paged_listing cursor_token "\<lambda>t. Some (offset t)" 100
  "\<lambda>t. assignmentGrants (tenant_client base) res \<lparr>tok_Size = 0, tok_Token = t\<rparr>"
  "holders roleId (tn_assignments S (rid_Resource sid))" "role_grants res"
  "\<lambda>w. w = S \<and> base_ok base \<and> tenant_ok S \<and> list_all id_char (rid_Resource sid) \<and>
       spaceRoleAssignmentResource roleId sid roleName spaceName = Inr res"
  for base res S sid roleId roleName spaceName
proof (unfold_locales, goal_cases)
  case (2 w)
  then have "small (tn_assignments S (rid_Resource sid))" by (simp add: tenant_ok_def)
  then show ?case
    by (auto simp: small_def holders_def intro: le_less_trans [OF length_filter_le])
next
  case (3 w i)
  then show ?case
    using assignmentGrants_tenant [of base S sid roleId roleName spaceName res "cursor_token i"]
    by (auto simp: offset_ok_def offset_cursor next_cursor_def)
next
  case (4 w)
  then show ?case
    using assignmentGrants_tenant [of base S sid roleId roleName spaceName res "[]"] by (auto simp: next_cursor_def)
qed (auto simp: role_grants_def map_filter_append)

section \<open>The syncs\<close>

lemma map_filter_conv:
  assumes "\<And>x g. f x = Some g \<longleftrightarrow> C x \<and> g = G x"
  shows "List.map_filter f xs = map G (filter C xs)"
proof -
  have "f x = (if C x then Some (G x) else None)" for x
    using assms [of x] by (cases "f x") auto
  then show ?thesis by (induction xs) (simp_all add: List.map_filter_simps)
qed

definition permission_offered :: "string list \<Rightarrow> string list \<Rightarrow> ConfluenceSpacePermission \<Rightarrow> bool" where
  "permission_offered nouns verbs p \<longleftrightarrow> pp_Type (perm_Principal p) \<in> {''user'', ''group''} \<and>
     po_Key (perm_Operation p) \<in> set verbs \<and> po_TargetType (perm_Operation p) \<in> set nouns"

definition expected_permission_grant :: "Resource \<Rightarrow> ConfluenceSpacePermission \<Rightarrow> Grant" where
  "expected_permission_grant res p =
     NewGrant res (po_Key (perm_Operation p) @ ''-'' @ po_TargetType (perm_Operation p))
       \<lparr>rid_ResourceType = pp_Type (perm_Principal p), rid_Resource = pp_Id (perm_Principal p)\<rparr>
       (if pp_Type (perm_Principal p) = ''group''
        then [AnyGrantExpandable [''group:'' @ pp_Id (perm_Principal p) @ '':member'']] else [])"

lemma space_grants_expected:
  "space_grants b res ps =
     map (expected_permission_grant res) (filter (permission_offered (sb_nouns b) (sb_verbs b)) ps)"
  unfolding space_grants_def
  by (rule map_filter_conv)
    (auto simp: permission_grant_iff permission_offered_def expected_permission_grant_def
      createEntitlementName_def separator_def expand_group_def)

definition expected_role_grant :: "Resource \<Rightarrow> SpaceRoleAssignment \<Rightarrow> Grant" where
  "expected_role_grant res a =
     (let who = rp_PrincipalId (sra_Principal a) in
      if rp_PrincipalType (sra_Principal a) = ''USER''
      then NewGrant res ''assigned'' \<lparr>rid_ResourceType = ''user'', rid_Resource = who\<rparr> []
      else NewGrant res ''assigned'' \<lparr>rid_ResourceType = ''group'', rid_Resource = who\<rparr>
             [AnyGrantExpandable [''group:'' @ who @ '':member'']])"

lemma role_grants_expected:
  "role_grants res as =
     map (expected_role_grant res) (filter (\<lambda>a. rp_PrincipalType (sra_Principal a) \<in> {''USER'', ''GROUP''}) as)"
  unfolding role_grants_def
  by (rule map_filter_conv) (auto simp: assignment_grant_iff expected_role_grant_def expand_group_def Let_def)

lemma space_sync_run:
  assumes "base_ok base" "tenant_ok S"
  shows "sync_pages (ListResources ''space'' parent
      (\<lambda>t. spaceList (newSpaceBuilder (tenant_client base) skip rbac nouns verbs) \<lparr>tok_Size = 0, tok_Token = t\<rparr>)) [] [] S =
    Some (Ret (map (expected_space rbac)
      (filter (\<lambda>s. skip \<longrightarrow> sp_Type s \<noteq> ''personal'') (tn_spaces S)), None), S)"
  using space_pages.all_pages [of S S base "newSpaceBuilder (tenant_client base) skip rbac nouns verbs"] assms
  unfolding ListResources_def by (auto simp: newSpaceBuilder_def listed_spaces_def kept_space_def)

lemma space_sync_complete:
  assumes "base_ok base" "tenant_ok S"
  shows "sync_pages (ListResources ''space'' parent
      (\<lambda>t. spaceList (newSpaceBuilder (tenant_client base) skip rbac nouns verbs) \<lparr>tok_Size = 0, tok_Token = t\<rparr>)) [] [] S =
    Some (Ret (map (expected_space rbac)
      (filter (\<lambda>s. skip \<longrightarrow> sp_Type s \<noteq> ''personal'') (tn_spaces S)), None), S)"
  using space_sync_run [OF assms] .

lemma space_grants_run:
  assumes "base_ok base" "tenant_ok S" "list_all id_char (sp_Id s)"
  shows "sync_pages (ListGrants \<lparr>rid_ResourceType = ''space'', rid_Resource = sp_Id s\<rparr>
      (\<lambda>t. spaceGrants (newSpaceBuilder (tenant_client base) skip False nouns verbs) (expected_space False s)
             \<lparr>tok_Size = 0, tok_Token = t\<rparr>)) [] [] S =
    Some (Ret (map (expected_permission_grant (expected_space False s))
      (filter (permission_offered nouns verbs) (tn_permissions S (sp_Id s))), None), S)"
  using space_grant_pages.all_pages [of S S base "newSpaceBuilder (tenant_client base) skip False nouns verbs"
      "expected_space False s" "''space''" "sp_Id s"] assms
  by (auto simp: ListGrants_def Let_def newSpaceBuilder_def expected_space_def space_grants_expected)


lemma role_sync_run:
  assumes "base_ok base" "tenant_ok S"
  shows "sync_pages (ListResources ''space_role'' parent
      (\<lambda>t. spaceRoleList (tenant_client base) None \<lparr>tok_Size = 0, tok_Token = t\<rparr>)) [] [] S =
    Some (Ret (map expected_role (tn_roles S), None), S)"
  using role_pages.all_pages [of S S base] assms unfolding ListResources_def by auto

definition role_holders :: "Resource \<Rightarrow> string \<Rightarrow> SpaceRoleAssignment list \<Rightarrow> Grant list" where
  "role_holders res roleId as = map (expected_role_grant res)
     (filter (\<lambda>a. sra_RoleId a = roleId \<and> rp_PrincipalType (sra_Principal a) \<in> {''USER'', ''GROUP''}) as)"

lemma role_grants_tenant:
  assumes "base_ok base" "tenant_ok S" "list_all id_char (rid_Resource sid)" "roleId \<noteq> []"
    and "spaceRoleAssignmentResource roleId sid roleName spaceName = Inr res"
  shows "sync_pages (ListGrants rid
      (\<lambda>t. assignmentGrants (tenant_client base) res \<lparr>tok_Size = 0, tok_Token = t\<rparr>)) [] [] S =
    Some (Ret (role_holders res roleId (tn_assignments S (rid_Resource sid)), None), S)"
proof -
  have "holders roleId as = filter (\<lambda>a. sra_RoleId a = roleId) as" for as
    unfolding holders_def by (rule filter_cong [OF refl]) (simp add: assignment_selected_def assms(4))
  then show ?thesis
    using role_grant_pages.all_pages [of S S base sid roleId roleName spaceName res] assms
    by (auto simp: ListGrants_def Let_def role_grants_expected role_holders_def)
qed

text \<open>
  C20. Against a reference tenant a complete sync of the grants of a role in a space ends without error and
  yields, in order, one grant for each assignment of exactly that role in that space to a user or a
  group, with the API's principal types turned into resource types, and nothing for other principals.
\<close>

theorem role_grants_complete:
  assumes "base_ok base" "tenant_ok S" "list_all id_char (rid_Resource sid)" "roleId \<noteq> []"
    and "spaceRoleAssignmentResource roleId sid roleName spaceName = Inr res"
  shows "sync_pages (ListGrants rid
      (\<lambda>t. assignmentGrants (tenant_client base) res \<lparr>tok_Size = 0, tok_Token = t\<rparr>)) [] [] S =
    Some (Ret (map (expected_role_grant res)
      (filter (\<lambda>a. sra_RoleId a = roleId \<and> rp_PrincipalType (sra_Principal a) \<in> {''USER'', ''GROUP''})
        (tn_assignments S (rid_Resource sid))), None), S)"
  using role_grants_tenant [OF assms] by (simp add: role_holders_def)

definition manual :: ConfluenceSpace where
  "manual = docs\<lparr>sp_Key := ''DOCS''\<rparr>"

lemma manual_simps [simp]: "sp_Id manual = ''7''" "sp_Key manual = ''DOCS''" "sp_Name manual = ''Docs''" "sp_Type manual = ''global''"
  by (simp_all add: manual_def docs_def)

definition demo_tenant :: tenant where
  "demo_tenant =
     \<lparr>tn_spaces = [manual, diary],
      tn_permissions = (\<lambda>i. if i = ''7'' then [demo_permission] else []),
      tn_roles = [viewer],
      tn_assignments = (\<lambda>i. if i = ''7'' then [demo_assignment] else []),
      tn_fresh = ''43'', tn_reply = ''true''\<rparr>"

lemma demo_tenant_ok: "tenant_ok demo_tenant"
  using demo_permission_plain demo_assignment_plain
  by (simp add: tenant_ok_def demo_tenant_def small_def space_valid_def role_valid_def diary_def
      viewer_def zero_Space_def zero_Role_def valid_utf8_ascii is_ascii_def)

lemma space_sync_complete_witness:
  "sync_pages (ListResources ''space'' []
      (\<lambda>t. spaceList (newSpaceBuilder (tenant_client demo_base) True True [] []) \<lparr>tok_Size = 0, tok_Token = t\<rparr>)) [] [] demo_tenant =
    Some (Ret ([expected_space True manual], None), demo_tenant)"
  using space_sync_complete [OF demo_base_ok demo_tenant_ok, of "[]" True True "[]" "[]"]
  by (simp add: demo_tenant_def diary_def)


theorem role_grants_complete_witness:
  "sync_pages (ListGrants \<lparr>rid_ResourceType = ''space_role_assignment'', rid_Resource = ''7:r1''\<rparr>
      (\<lambda>t. assignmentGrants (tenant_client demo_base) demo_binding \<lparr>tok_Size = 0, tok_Token = t\<rparr>)) [] [] demo_tenant =
    Some (Ret ([NewGrant demo_binding ''assigned'' \<lparr>rid_ResourceType = ''user'', rid_Resource = ''a1''\<rparr> []], None), demo_tenant)"
  using role_grants_complete [OF demo_base_ok demo_tenant_ok _ _ demo_binding_listed] demo_space_id
  by (simp add: demo_tenant_def expected_role_grant_def demo_assignment_def)

end
