(* ===== verification/UserSync.thy ===== *)
theory UserSync
  imports Paging
begin

text \<open>
  The whole listing of users against a reference site: which users the sync lists and in which
  order, and that it ends.
\<close>

section \<open>The users that are listed\<close>

lemma userResource_valid:
  "user_valid u \<Longrightarrow> userResource u = Inr (expected_user u)"
  by (simp add: userResource_def NewUserResource_def NewResource_def WithResourceProfile_def
      NewStruct_def user_valid_def valid_utf8_ascii is_ascii_def WithResourceStatus_def
      WithUserTrait_def NewUserTrait_def WithEmail_def zero_UserTrait_def expected_user_def
      syncUserTraitToResource_def)

definition listed :: "ConfluenceUser list \<Rightarrow> Resource list" where
  "listed us = map expected_user (filter shouldIncludeUser us)"

lemma userResources_valid: "list_all user_valid us \<Longrightarrow> userResources us = Inr (listed us)"
  unfolding userResources_def listed_def
  by (rule try_map_Inr) (auto simp: list_all_iff userResource_valid)

lemma listed_append [simp]: "listed (xs @ ys) = listed xs @ listed ys" "listed [] = []"
  by (simp_all add: listed_def)

section \<open>Offsets of small lists\<close>

lemma offset_small: "strToInt tok = of_nat i \<Longrightarrow> i < 2000000000 \<Longrightarrow> offset tok = i"
  by (simp add: offset_def sint_small)

lemma incToken_small:
  assumes "strToInt tok = of_nat i" "0 < i + k" "i + k < 2000000000"
  shows "incToken tok (of_nat k) = itoa (of_nat (i + k))"
proof -
  have "(of_nat (i + k) :: goint) \<noteq> 0"
    using sint_small [OF assms(3)] assms(2) by (metis of_nat_0_eq_iff of_nat_0 sint_0 less_irrefl)
  then show ?thesis using assms(1) by (simp add: incToken_def Let_def)
qed

lemma sint_200 [simp]: "sint (200 :: goint) = 200"
  using sint_small [of 200] by simp

lemma go_len_less_200:
  assumes "length xs \<le> 200"
  shows "go_len xs <s (200 :: goint) \<longleftrightarrow> length xs < 200"
  using assms sint_small [of "length xs"] by (simp add: go_len_def word_sless_alt)

section \<open>The states of the listing\<close>

definition state_start :: "PageState \<Rightarrow> nat" where "state_start s = offset (ps_Token s)"

definition state_ok :: "site \<Rightarrow> PageState \<Rightarrow> bool" where
  "state_ok S s \<longleftrightarrow>
     state_plain s \<and> (\<exists>i < 1000000000. strToInt (ps_Token s) = of_nat i) \<and>
     ps_ResourceTypeID s \<in> {[], ''user'', ''group''} \<and>
     (ps_ResourceTypeID s = ''group'' \<longrightarrow> ps_ResourceID s \<in> grp_Id ` set (st_groups S))"

definition next_start :: "nat \<Rightarrow> bool \<Rightarrow> string" where
  "next_start i has_next = (if has_next then itoa (of_nat (i + 200)) else [])"

text \<open>What one call lists, and the states it leaves, on the stack of states.\<close>

definition page_out :: "site \<Rightarrow> PageState \<Rightarrow> Resource list" where
  "page_out S s =
     (if ps_ResourceTypeID s = [] then listed (window (state_start s) 200 (st_users S))
      else if ps_ResourceTypeID s = ''user'' then []
      else listed (window (state_start s) 200 (st_members S (ps_ResourceID s))))"

definition keep :: "PageState \<Rightarrow> bool \<Rightarrow> PageState list" where
  "keep s has_next = (if has_next then [s\<lparr>ps_Token := itoa (of_nat (state_start s + 200))\<rparr>] else [])"

definition page_next :: "site \<Rightarrow> PageState \<Rightarrow> PageState list" where
  "page_next S s =
     (let i = state_start s in
      if ps_ResourceTypeID s = [] then
        (if i + 200 \<le> length (st_users S) then keep s True else [placeholder])
      else if ps_ResourceTypeID s = ''user'' then
        rev (map group_state (window i 200 (st_groups S))) @ keep s (i + 200 < length (st_groups S))
      else keep s (i + 200 < length (st_members S (ps_ResourceID s))))"

definition user_out :: "site \<Rightarrow> Bag \<Rightarrow> Resource list" where
  "user_out S b = (case Current b of None \<Rightarrow> [] | Some s \<Rightarrow> page_out S s)"

definition user_next :: "site \<Rightarrow> Bag \<Rightarrow> Bag" where
  "user_next S b =
     (case Current b of
        None \<Rightarrow> b
      | Some s \<Rightarrow>
          (let i = state_start s in
           if ps_ResourceTypeID s = [] then
             (let b' = fst (Next (next_start i (i + 200 \<le> length (st_users S))) b)
              in if Current b' = None then Push placeholder b' else b')
           else if ps_ResourceTypeID s = ''user'' then
             fold Push (map group_state (window i 200 (st_groups S)))
               (fst (Next (next_start i (i + 200 < length (st_groups S))) b))
           else fst (Next (next_start i (i + 200 < length (st_members S (ps_ResourceID s)))) b)))"

definition user_nxt :: "site \<Rightarrow> Bag \<Rightarrow> Bag option" where
  "user_nxt S b = (if Current (user_next S b) = None then None else Some (user_next S b))"

text \<open>The search is the only state of its bag.\<close>

definition bag_ready :: "Bag \<Rightarrow> bool" where
  "bag_ready b \<longleftrightarrow> bag_plain b \<and> bag_ok b \<and> bag_currentState b \<noteq> None"

definition user_bag_ok :: "site \<Rightarrow> Bag \<Rightarrow> bool" where
  "user_bag_ok S b \<longleftrightarrow> site_ok S \<and> bag_ready b \<and> list_all (state_ok S) (stack_of b) \<and>
     (\<forall>s ss. stack_of b = s # ss \<longrightarrow> ss \<noteq> [] \<longrightarrow>
        list_all (\<lambda>t. ps_ResourceTypeID t \<noteq> []) (s # ss))"

lemma next_start_Nil [simp]: "next_start i has_next = [] \<longleftrightarrow> \<not> has_next"
  by (simp add: next_start_def)

lemma stack_user_next:
  assumes "bag_ok b" "stack_of b = s # ss" "ss \<noteq> [] \<Longrightarrow> ps_ResourceTypeID s \<noteq> []"
  shows "stack_of (user_next S b) = page_next S s @ ss \<and> bag_ok (user_next S b)"
proof -
  have cur: "Current b = Some s" using assms(2) by (simp add: Current_stack)
  note n = Next_stack [OF assms(1,2)]
  have stack: "stack_of (fst (Next (next_start (state_start s) h) b)) = keep s h @ ss" for h
    using n(3) by (simp add: keep_def next_start_def)
  note push = fold_Push [OF n(2)]
  consider "ps_ResourceTypeID s = []" "ss = []" | "ps_ResourceTypeID s = ''user''"
    | "ps_ResourceTypeID s \<noteq> []" "ps_ResourceTypeID s \<noteq> ''user''"
    using assms(3) by blast
  then show ?thesis
  proof cases
    case 1
    let ?h = "state_start s + 200 \<le> length (st_users S)"
    let ?b = "fst (Next (next_start (state_start s) ?h) b)"
    have b: "stack_of ?b = keep s ?h" "bag_ok ?b"
      using stack [of ?h] n(2) 1(2) by simp_all
    have un: "user_next S b = (if Current ?b = None then Push placeholder ?b else ?b)"
      by (simp add: user_next_def cur 1(1) Let_def)
    show ?thesis
    proof (cases ?h)
      case True
      then have "Current ?b \<noteq> None" using b(1) by (simp add: Current_stack keep_def)
      with True show ?thesis using b 1 by (auto simp: un page_next_def Let_def)
    next
      case False
      then have "Current ?b = None" "stack_of ?b = []" using b(1) by (simp_all add: Current_stack keep_def)
      with False show ?thesis
        using b(2) 1 by (simp add: un page_next_def Let_def stack_of_Push bag_ok_Push)
    qed
  next
    case 2
    then show ?thesis
      using push stack by (simp add: user_next_def cur page_next_def Let_def rev_map)
  next
    case 3
    then show ?thesis
      using n(2) stack by (simp add: user_next_def cur page_next_def Let_def)
  qed
qed


lemma user_bag_current:
  assumes "user_bag_ok S b"
  obtains s ss where "stack_of b = s # ss" "Current b = Some s" "state_ok S s" "bag_ok b"
    "ss \<noteq> [] \<Longrightarrow> ps_ResourceTypeID s \<noteq> []" "list_all (state_ok S) ss"
    "ss \<noteq> [] \<Longrightarrow> list_all (\<lambda>t. ps_ResourceTypeID t \<noteq> []) ss"
proof -
  obtain s where "bag_currentState b = Some s"
    using assms by (auto simp: user_bag_ok_def bag_ready_def)
  then obtain ss where "stack_of b = s # ss" "Current b = Some s"
    by (simp add: stack_of_def Current_def)
  then show thesis
    using that assms by (auto simp: user_bag_ok_def bag_ready_def)
qed

lemma state_ok_keep:
  assumes "state_ok S s" "h \<Longrightarrow> state_start s + 200 < 1000000000"
  shows "list_all (state_ok S) (keep s h)"
proof (cases h)
  case True
  have "valid_utf8 (itoa (of_nat (state_start s + 200)))"
    by (rule valid_utf8_ascii) (rule itoa_ascii)
  then show ?thesis
    using assms True by (auto simp: keep_def state_ok_def state_plain_def intro!: exI [of _ "state_start s + 200"])
qed (simp add: keep_def)

lemma state_ok_placeholder: "state_ok S placeholder"
  by (auto simp: state_ok_def state_plain_def placeholder_def valid_utf8_ascii is_ascii_def
      intro!: exI [of _ 0])

lemma state_ok_group:
  assumes "site_ok S" "g \<in> set (st_groups S)"
  shows "state_ok S (group_state g)"
proof -
  have "valid_utf8 (grp_Id g)"
    using assms by (auto simp: site_ok_def list_all_iff group_valid_def intro: id_valid)
  then show ?thesis
    using assms(2)
    by (auto simp: state_ok_def state_plain_def group_state_def valid_utf8_ascii is_ascii_def
        intro!: exI [of _ 0])
qed

lemma in_window: "x \<in> set (window i n xs) \<Longrightarrow> x \<in> set xs"
  by (auto simp: window_def dest: in_set_takeD in_set_dropD)

lemma state_members_small:
  assumes "site_ok S" "state_ok S s" "ps_ResourceTypeID s = ''group''"
  obtains g where "g \<in> set (st_groups S)" "ps_ResourceID s = grp_Id g"
    "small (st_members S (ps_ResourceID s))" "list_all user_valid (st_members S (ps_ResourceID s))"
  using assms by (auto simp: state_ok_def site_ok_def list_all_iff)

lemma page_next_ok:
  assumes "site_ok S" "state_ok S s"
  shows "list_all (state_ok S) (page_next S s)"
proof -
  have small: "small (st_users S)" "small (st_groups S)"
    using assms(1) by (simp_all add: site_ok_def)
  consider "ps_ResourceTypeID s = []" | "ps_ResourceTypeID s = ''user''" | "ps_ResourceTypeID s = ''group''"
    using assms(2) by (auto simp: state_ok_def)
  then show ?thesis
  proof cases
    case 1
    then show ?thesis
      using small state_ok_keep [OF assms(2)] state_ok_placeholder
      by (simp add: page_next_def Let_def small_def)
  next
    case 2
    have "list_all (state_ok S) (map group_state (window (state_start s) 200 (st_groups S)))"
      using state_ok_group [OF assms(1)] in_window by (fastforce simp: list_all_iff)
    moreover have "list_all (state_ok S) (keep s (state_start s + 200 < length (st_groups S)))"
      by (rule state_ok_keep [OF assms(2)]) (use small in \<open>simp add: small_def\<close>)
    ultimately show ?thesis
      using 2 by (auto simp: page_next_def Let_def list_all_iff)
  next
    case 3
    have "small (st_members S (ps_ResourceID s))"
      using state_members_small [OF assms 3] by metis
    then have keep: "list_all (state_ok S)
        (keep s (state_start s + 200 < length (st_members S (ps_ResourceID s))))"
      by (intro state_ok_keep [OF assms(2)]) (simp add: small_def)
    from 3 show ?thesis
      using keep by (simp add: page_next_def Let_def)
  qed
qed

lemma page_next_types:
  "ps_ResourceTypeID s \<noteq> [] \<Longrightarrow> list_all (\<lambda>t. ps_ResourceTypeID t \<noteq> []) (page_next S s)"
  by (auto simp: page_next_def Let_def keep_def list_all_iff group_state_def)

lemma page_next_search: "ps_ResourceTypeID s = [] \<Longrightarrow> \<exists>t. page_next S s = [t]"
  by (simp add: page_next_def Let_def keep_def)

lemma user_next_ok:
  assumes "user_bag_ok S b" "user_nxt S b = Some b'"
  shows "user_bag_ok S b'"
proof -
  obtain s ss where b: "stack_of b = s # ss" "Current b = Some s" "state_ok S s" "bag_ok b"
    "ss \<noteq> [] \<Longrightarrow> ps_ResourceTypeID s \<noteq> []" "list_all (state_ok S) ss"
    "ss \<noteq> [] \<Longrightarrow> list_all (\<lambda>t. ps_ResourceTypeID t \<noteq> []) ss"
    using user_bag_current [OF assms(1)] by metis
  have site: "site_ok S" using assms(1) by (simp add: user_bag_ok_def)
  have b': "b' = user_next S b" "Current b' \<noteq> None"
    using assms(2) by (auto simp: user_nxt_def split: if_splits)
  have st: "stack_of b' = page_next S s @ ss" "bag_ok b'"
    using stack_user_next [OF b(4,1,5), of S] by (simp_all add: b'(1))
  have all: "list_all (state_ok S) (stack_of b')"
    using page_next_ok [OF site b(3)] b(6) by (simp add: st(1))
  then have "bag_ready b'"
    using st(2) b'(2) by (auto simp: bag_ready_def bag_plain_def Current_def list_all_iff state_ok_def)
  moreover have "list_all (\<lambda>t. ps_ResourceTypeID t \<noteq> []) (stack_of b') \<or> (\<exists>t. stack_of b' = [t])"
  proof (cases "ps_ResourceTypeID s = []")
    case True
    then have "ss = []" using b(5) by blast
    then show ?thesis using page_next_search [OF True, of S] st(1) by simp
  next
    case False
    then show ?thesis using page_next_types [OF False, of S] b(7) st(1) by (cases "ss = []") auto
  qed
  ultimately show ?thesis
    using site all by (auto simp: user_bag_ok_def)
qed

section \<open>The order of the listing, and its end\<close>

text \<open>Groups are taken page by page, and within a page last first: they are popped off a stack.\<close>

function group_order :: "nat \<Rightarrow> 'a list \<Rightarrow> 'a list" where
  "group_order n xs = (if n = 0 \<or> length xs \<le> n then rev xs else rev (take n xs) @ group_order n (drop n xs))"
  by pat_completeness auto
termination by (relation "measure (\<lambda>(n, xs). length xs)") auto

declare group_order.simps [simp del]

lemma set_group_order: "set (group_order n xs) = set xs"
proof (induction n xs rule: group_order.induct)
  case (1 n xs)
  have "set (take n xs) \<union> set (drop n xs) = set xs"
    by (metis append_take_drop_id set_append)
  then show ?case
    using 1 by (subst group_order.simps) auto
qed

definition members_out :: "site \<Rightarrow> ConfluenceGroup list \<Rightarrow> Resource list" where
  "members_out S gs = concat (map (\<lambda>g. listed (st_members S (grp_Id g))) gs)"

definition state_out :: "site \<Rightarrow> PageState \<Rightarrow> Resource list" where
  "state_out S s =
     (if ps_ResourceTypeID s = [] then
        listed (drop (state_start s) (st_users S)) @ members_out S (group_order 200 (st_groups S))
      else if ps_ResourceTypeID s = ''user'' then
        members_out S (group_order 200 (drop (state_start s) (st_groups S)))
      else listed (drop (state_start s) (st_members S (ps_ResourceID s))))"

definition groups_weight :: "site \<Rightarrow> ConfluenceGroup list \<Rightarrow> nat" where
  "groups_weight S gs = (\<Sum>g\<leftarrow>gs. length (st_members S (grp_Id g)) + 2)"

definition state_weight :: "site \<Rightarrow> PageState \<Rightarrow> nat" where
  "state_weight S s =
     (if ps_ResourceTypeID s = [] then
        (length (st_users S) - state_start s) + 2 + groups_weight S (st_groups S)
      else if ps_ResourceTypeID s = ''user'' then
        1 + groups_weight S (drop (state_start s) (st_groups S))
      else 1 + (length (st_members S (ps_ResourceID s)) - state_start s))"

definition stack_out :: "site \<Rightarrow> PageState list \<Rightarrow> Resource list" where
  "stack_out S ss = concat (map (state_out S) ss)"

definition stack_weight :: "site \<Rightarrow> PageState list \<Rightarrow> nat" where
  "stack_weight S ss = sum_list (map (state_weight S) ss)"

lemma group_order_window:
  "0 < n \<Longrightarrow> group_order n (drop i xs) = rev (window i n xs) @
     (if i + n < length xs then group_order n (drop (i + n) xs) else [])"
  by (subst group_order.simps) (auto simp: window_def add.commute)

lemma members_out_append [simp]: "members_out S (xs @ ys) = members_out S xs @ members_out S ys"
  by (simp add: members_out_def)

lemma groups_weight_append [simp]:
  "groups_weight S (xs @ ys) = groups_weight S xs + groups_weight S ys"
  by (simp add: groups_weight_def)

lemma groups_weight_rev [simp]: "groups_weight S (rev xs) = groups_weight S xs"
  by (induction xs) (simp_all add: groups_weight_def)

lemma group_state_simps [simp]:
  "ps_ResourceTypeID (group_state g) = ''group''" "ps_ResourceID (group_state g) = grp_Id g"
  "ps_ResourceTypeID placeholder = ''user''"
  by (simp_all add: group_state_def placeholder_def)

lemma state_start_group [simp]: "state_start (group_state g) = 0" "state_start placeholder = 0"
  by (simp_all add: state_start_def group_state_def placeholder_def offset_def)

lemma stack_out_groups: "stack_out S (map group_state gs) = members_out S gs"
  by (simp add: stack_out_def members_out_def comp_def state_out_def)

lemma stack_weight_groups: "stack_weight S (map group_state gs) + length gs = groups_weight S gs"
  by (induction gs) (simp_all add: stack_weight_def groups_weight_def state_weight_def)

lemma state_start_keep:
  assumes "state_start s + 200 < 2000000000"
  shows "state_start (s\<lparr>ps_Token := itoa (of_nat (state_start s + 200))\<rparr>) = state_start s + 200"
proof -
  have "sint (of_nat (state_start s + 200) :: goint) = int (state_start s + 200)"
    by (rule sint_small) (use assms in simp)
  then show ?thesis by (simp add: state_start_def)
qed

lemma stack_out_append [simp]: "stack_out S (xs @ ys) = stack_out S xs @ stack_out S ys"
  "stack_out S [] = []" "stack_out S [s] = state_out S s"
  by (simp_all add: stack_out_def)

lemma stack_weight_append [simp]: "stack_weight S (xs @ ys) = stack_weight S xs + stack_weight S ys"
  "stack_weight S [] = 0" "stack_weight S [s] = state_weight S s"
  by (simp_all add: stack_weight_def)

lemma keep_False [simp]: "keep s False = []"
  by (simp add: keep_def)

lemma state_start_small: "state_ok S s \<Longrightarrow> state_start s < 1000000000"
  by (auto simp: state_ok_def state_start_def offset_small)

lemma keep_out:
  assumes "state_ok S s"
  shows "ps_ResourceTypeID s = [] \<Longrightarrow> stack_out S (keep s True) =
      listed (drop (state_start s + 200) (st_users S)) @ members_out S (group_order 200 (st_groups S))"
    "ps_ResourceTypeID s = ''user'' \<Longrightarrow> stack_out S (keep s True) =
      members_out S (group_order 200 (drop (state_start s + 200) (st_groups S)))"
    "ps_ResourceTypeID s = ''group'' \<Longrightarrow> stack_out S (keep s True) =
      listed (drop (state_start s + 200) (st_members S (ps_ResourceID s)))"
  using state_start_keep [of s] state_start_small [OF assms]
  by (simp_all add: keep_def state_out_def)

lemma keep_weight:
  assumes "state_ok S s"
  shows "ps_ResourceTypeID s = [] \<Longrightarrow> stack_weight S (keep s True) =
      (length (st_users S) - (state_start s + 200)) + 2 + groups_weight S (st_groups S)"
    "ps_ResourceTypeID s = ''user'' \<Longrightarrow> stack_weight S (keep s True) =
      1 + groups_weight S (drop (state_start s + 200) (st_groups S))"
    "ps_ResourceTypeID s = ''group'' \<Longrightarrow> stack_weight S (keep s True) =
      1 + (length (st_members S (ps_ResourceID s)) - (state_start s + 200))"
  using state_start_keep [of s] state_start_small [OF assms]
  by (simp_all add: keep_def state_weight_def)

lemma listed_window: "listed (window i n xs) @ listed (drop (i + n) xs) = listed (drop i xs)"
  by (simp only: listed_append [symmetric] window_drop)

lemma page_step_out:
  assumes "state_ok S s"
  shows "page_out S s @ stack_out S (page_next S s) = state_out S s"
proof -
  let ?i = "state_start s"
  consider "ps_ResourceTypeID s = []" | "ps_ResourceTypeID s = ''user''" | "ps_ResourceTypeID s = ''group''"
    using assms by (auto simp: state_ok_def)
  then show ?thesis
  proof cases
    case 1
    have "drop (?i + 200) (st_users S) = []" if "\<not> ?i + 200 \<le> length (st_users S)"
      using that by simp
    then show ?thesis
      using 1 keep_out(1) [OF assms 1] listed_window [of ?i 200 "st_users S"]
      by (auto simp: page_out_def page_next_def state_out_def Let_def simp flip: append_assoc)
  next
    case 2
    then show ?thesis
      using keep_out(2) [OF assms 2] group_order_window [of 200 ?i "st_groups S"]
      by (simp add: page_out_def page_next_def state_out_def Let_def stack_out_groups rev_map)
        (simp add: members_out_def)
  next
    case 3
    let ?ms = "st_members S (ps_ResourceID s)"
    have "listed (window ?i 200 ?ms) @ stack_out S (keep s (?i + 200 < length ?ms)) = listed (drop ?i ?ms)"
      using keep_out(3) [OF assms 3] listed_window [of ?i 200 ?ms]
      by (cases "?i + 200 < length ?ms") simp_all
    then show ?thesis
      using 3 by (simp add: page_out_def page_next_def state_out_def Let_def)
  qed
qed

lemma groups_weight_window:
  "groups_weight S (drop i gs) = groups_weight S (window i n gs) + groups_weight S (drop (i + n) gs)"
  by (metis groups_weight_append window_drop)

lemma page_step_weight:
  assumes "state_ok S s"
  shows "stack_weight S (page_next S s) < state_weight S s"
proof -
  let ?i = "state_start s"
  consider "ps_ResourceTypeID s = []" | "ps_ResourceTypeID s = ''user''" | "ps_ResourceTypeID s = ''group''"
    using assms by (auto simp: state_ok_def)
  then show ?thesis
  proof cases
    case 1
    then show ?thesis
      using keep_weight(1) [OF assms 1]
      by (auto simp: page_next_def state_weight_def Let_def)
  next
    case 2
    let ?w = "window ?i 200 (st_groups S)"
    have w: "stack_weight S (rev (map group_state ?w)) + length ?w = groups_weight S ?w"
      using stack_weight_groups [of S "rev ?w"] by (simp add: rev_map)
    have pos: "?i + 200 < length (st_groups S) \<Longrightarrow> 0 < length ?w" by (simp add: length_window)
    note kw = keep_weight(2) [OF assms 2] groups_weight_window [of S ?i "st_groups S" 200]
    show ?thesis
    proof (cases "?i + 200 < length (st_groups S)")
      case True
      then show ?thesis
        using w kw pos [OF True] 2
        by (simp add: page_next_def state_weight_def Let_def del: length_greater_0_conv)
    next
      case False
      then show ?thesis using w kw 2 by (simp add: page_next_def state_weight_def Let_def)
    qed
  next
    case 3
    then show ?thesis
      using keep_weight(3) [OF assms 3]
      by (cases "?i + 200 < length (st_members S (ps_ResourceID s))")
        (simp_all add: page_next_def state_weight_def Let_def)
  qed
qed

lemma user_walk:
  assumes "user_bag_ok S b"
  shows "walk (user_out S) (user_nxt S) b (stack_out S (stack_of b))"
  using assms
proof (induction "stack_weight S (stack_of b)" arbitrary: b rule: less_induct)
  case less
  obtain s ss where b: "stack_of b = s # ss" "Current b = Some s" "state_ok S s" "bag_ok b"
    "ss \<noteq> [] \<Longrightarrow> ps_ResourceTypeID s \<noteq> []"
    using user_bag_current [OF less.prems] by metis
  have st: "stack_of (user_next S b) = page_next S s @ ss"
    using stack_user_next [OF b(4,1,5), of S] by simp
  have out: "stack_out S (stack_of b) = user_out S b @ stack_out S (page_next S s @ ss)"
    using page_step_out [OF b(3)] stack_out_append(1) [of S "[s]" ss]
    by (simp add: b(1) user_out_def b(2))
  have weight: "stack_weight S (page_next S s @ ss) < stack_weight S (stack_of b)"
    using page_step_weight [OF b(3)] stack_weight_append(1) [of S "[s]" ss] by (simp add: b(1))
  show ?case
  proof (cases "user_nxt S b")
    case None
    then have "page_next S s @ ss = []"
      using st by (auto simp: user_nxt_def Current_stack split: if_splits list.splits)
    then have "stack_out S (stack_of b) = user_out S b" using out by simp
    then show ?thesis using walk.last_page [of "user_nxt S" b "user_out S", OF None] by simp
  next
    case (Some b')
    then have b': "b' = user_next S b" by (simp add: user_nxt_def split: if_splits)
    have "walk (user_out S) (user_nxt S) b' (stack_out S (stack_of b'))"
      using less.hyps [OF _ user_next_ok [OF less.prems Some]] weight st b' by simp
    then show ?thesis
      using walk.next_page [of "user_nxt S", OF Some] out st b' by simp
  qed
qed

section \<open>One call of the builder\<close>

lemma user_state_page:
  assumes "base_ok base" "user_bag_ok S b"
  shows "\<exists>res. userList (site_client base) \<lparr>tok_Size = 0, tok_Token = Marshal b\<rparr> S
      = (Ret (user_out S b, res, None), S) \<and>
    token_of res = (case user_nxt S b of None \<Rightarrow> [] | Some b' \<Rightarrow> Marshal b')"
proof -
  obtain s ss where b: "stack_of b = s # ss" "Current b = Some s" "state_ok S s" "bag_ok b"
    using user_bag_current [OF assms(2)] by metis
  have site: "site_ok S" and ready: "bag_ready b" using assms(2) by (simp_all add: user_bag_ok_def)
  obtain i where i: "strToInt (ps_Token s) = of_nat i" "i < 1000000000"
    using b(3) by (auto simp: state_ok_def)
  have start: "state_start s = i"
    unfolding state_start_def by (rule offset_small [OF i(1)]) (use i(2) in simp)
  define page where "page = (if ps_Token s = [] then ''0'' else ps_Token s)"
  have page: "strToInt page = of_nat i" "page \<noteq> []" "offset page = i"
  proof -
    show p: "strToInt page = of_nat i" and "page \<noteq> []" using i(1) by (auto simp: page_def)
    show "offset page = i" by (rule offset_small [OF p]) (use i(2) in simp)
  qed
  have inc: "incToken page (go_len xs) = itoa (of_nat (i + length xs))"
    if "xs \<noteq> []" "length xs \<le> 200" for xs :: "'a list"
    using incToken_small [OF page(1), of "length xs"] i(2) that by (simp add: go_len_def)
  have bag: "parsePageToken \<lparr>tok_Size = 0, tok_Token = Marshal b\<rparr> \<lparr>rid_ResourceType = [], rid_Resource = []\<rparr>
      = (b, page, 200, None)"
  proof -
    have "Unmarshal (Marshal b) empty_bag = (b, None)"
      using Unmarshal_Marshal [of b] ready by (simp add: bag_ready_def)
    then show ?thesis
      by (simp add: parsePageToken_def b(2) PageToken_def page_def ResourcesPageSize_def)
  qed
  have valid: "list_all user_valid (st_users S)" using site by (simp add: site_ok_def)
  have next_tok: "token_of (syncResults (Marshal (user_next S b)) annos)
      = (case user_nxt S b of None \<Rightarrow> [] | Some b' \<Rightarrow> Marshal b')" for annos
    by (simp add: user_nxt_def Marshal_def Current_def)
  have noerr: "snd (Next t b) = None" for t
    using Next_stack(1) [OF b(4,1)] .
  consider "ps_ResourceTypeID s = []" | "ps_ResourceTypeID s = ''user''" | "ps_ResourceTypeID s = ''group''"
    using b(3) by (auto simp: state_ok_def)
  then show ?thesis
  proof cases
    case 1
    let ?us = "window i 200 (st_users S)"
    have r: "GetUsersFromSearch (site_client base) page 200 S =
       (Ret (?us, if go_len ?us <s 200 then [] else incToken page (go_len ?us), Some no_limits, None), S)"
      using GetUsersFromSearch_site [OF assms(1) site, of page 200] page(3) by auto
    have tok: "(if go_len ?us <s 200 then [] else incToken page (go_len ?us))
        = next_start i (i + 200 \<le> length (st_users S))"
    proof (cases "i + 200 \<le> length (st_users S)")
      case True
      then have len: "length ?us = 200" by (simp add: length_window)
      then have "?us \<noteq> []" by (metis length_0_conv zero_neq_numeral)
      with len show ?thesis using True inc [of ?us] by (auto simp: go_len_less_200 next_start_def)
    next
      case False
      then have "length ?us < 200" by (simp add: length_window)
      then show ?thesis using False by (simp add: go_len_less_200 next_start_def)
    qed
    have res: "userResources ?us = Inr (listed ?us)"
      by (rule userResources_valid) (rule window_all [OF valid])
    obtain b' where nx: "Next (next_start i (i + 200 \<le> length (st_users S))) b = (b', None)"
      using noerr by (metis prod.collapse)
    have un: "user_next S b = (if Current b' = None then Push placeholder b' else b')"
      using nx by (simp add: user_next_def b(2) 1 Let_def start)
    show ?thesis
      using next_tok [unfolded un]
      by (simp add: userList_def bag ResourceTypeID_def b(2) 1 userList_search_def bindIO_apply r tok
          res nx user_page_def Let_def user_out_def page_out_def start un)
  next
    case 2
    let ?gs = "window i 200 (st_groups S)"
    have r: "GetGroups (site_client base) page 200 S =
       (Ret (?gs, if i + 200 < length (st_groups S) then incToken page (go_len ?gs) else [],
             Some no_limits, None), S)"
      using GetGroups_site [OF assms(1) site, of page 200] page(3) by auto
    have tok: "(if i + 200 < length (st_groups S) then incToken page (go_len ?gs) else [])
        = next_start i (i + 200 < length (st_groups S))"
      using inc [of ?gs] by (auto simp: next_start_def length_window simp flip: length_greater_0_conv)
    obtain b' where nx: "Next (next_start i (i + 200 < length (st_groups S))) b = (b', None)"
      using noerr by (metis prod.collapse)
    have un: "user_next S b = fold Push (map group_state ?gs) b'"
      using nx by (simp add: user_next_def b(2) 2 Let_def start)
    have lim: "limitPageSizeForGroups 200 = 200"
      by (simp add: limitPageSizeForGroups_def GroupPageSizeMaximum_def)
    show ?thesis
      using next_tok [unfolded un]
      by (simp add: userList_def bag ResourceTypeID_def b(2) 2 userList_groups_def bindIO_apply r tok
          nx user_page_def Let_def user_out_def page_out_def un lim page(2))
  next
    case 3
    obtain g where g: "g \<in> set (st_groups S)" "ps_ResourceID s = grp_Id g"
      "list_all user_valid (st_members S (grp_Id g))"
      using state_members_small [OF site b(3) 3] by metis
    let ?ms = "st_members S (grp_Id g)" and ?us = "window i 200 (st_members S (grp_Id g))"
    have r: "GetGroupMembers (site_client base) page 200 (grp_Id g) S =
       (Ret (?us, if i + 200 < length ?ms then incToken page (go_len ?us) else [],
             Some no_limits, None), S)"
      using GetGroupMembers_site [OF assms(1) site g(1), of page 200] page(3) by auto
    have tok: "(if i + 200 < length ?ms then incToken page (go_len ?us) else [])
        = next_start i (i + 200 < length ?ms)"
      using inc [of ?us] by (auto simp: next_start_def length_window simp flip: length_greater_0_conv)
    have res: "userResources ?us = Inr (listed ?us)"
      by (rule userResources_valid) (rule window_all [OF g(3)])
    obtain b' where nx: "Next (next_start i (i + 200 < length ?ms)) b = (b', None)"
      using noerr by (metis prod.collapse)
    have un: "user_next S b = b'"
      using nx by (simp add: user_next_def b(2) 3 Let_def start g(2))
    show ?thesis
      using next_tok [unfolded un]
      by (simp add: userList_def bag ResourceTypeID_def b(2) 3 userList_members_def bindIO_apply r tok
          res nx user_page_def Let_def user_out_def page_out_def start un g(2) flip: page_def)
  qed
qed

section \<open>The listing is a traversal\<close>

definition site_lister :: "url \<Rightarrow> (site, Resource) lister_op" where
  "site_lister base t = userList (site_client base) \<lparr>tok_Size = 0, tok_Token = t\<rparr>"

definition bag_of_token :: "string \<Rightarrow> Bag option" where
  "bag_of_token t = (case Unmarshal t empty_bag of (b, None) \<Rightarrow> Some b | _ \<Rightarrow> None)"

interpretation user_sync: traversal Marshal bag_of_token "\<lambda>b. base_ok base \<and> user_bag_ok S b"
  "site_lister base" "user_out S" "user_nxt S" "\<lambda>w. w = S" for base S
proof unfold_locales
  fix b assume "base_ok base \<and> user_bag_ok S b"
  then have "bag_ready b" by (simp add: user_bag_ok_def)
  then show "bag_of_token (Marshal b) = Some b"
    by (simp add: bag_of_token_def bag_ready_def Unmarshal_Marshal)
next
  fix b assume "base_ok base \<and> user_bag_ok S b"
  then show "Marshal b \<noteq> []"
    by (auto simp: Marshal_def user_bag_ok_def bag_ready_def json_Bag_nonempty)
next
  fix w :: site and b assume "w = S" "base_ok base \<and> user_bag_ok S b"
  then show "\<exists>res w'. site_lister base (Marshal b) w = (Ret (user_out S b, res, None), w') \<and>
      w' = S \<and> token_of res = (case user_nxt S b of None \<Rightarrow> [] | Some b' \<Rightarrow> Marshal b')"
    using user_state_page [of base S b] by (auto simp: site_lister_def)
next
  fix b b' assume "base_ok base \<and> user_bag_ok S b" "user_nxt S b = Some b'"
  then show "base_ok base \<and> user_bag_ok S b'" using user_next_ok by blast
qed

definition first_bag :: Bag where
  "first_bag = \<lparr>bag_states = None,
     bag_currentState = Some \<lparr>ps_Token = [], ps_ResourceTypeID = [], ps_ResourceID = []\<rparr>\<rparr>"

lemma first_bag_ok: "site_ok S \<Longrightarrow> user_bag_ok S first_bag"
  by (auto simp: user_bag_ok_def first_bag_def bag_ready_def bag_plain_def bag_ok_def stack_of_def
      states_list_def state_plain_def state_ok_def intro!: exI [of _ 0])

text \<open>The empty token starts in the state of the first bag.\<close>

lemma userList_first: "site_lister base [] = site_lister base (Marshal first_bag)"
proof -
  have u: "Unmarshal (Marshal first_bag) empty_bag = (first_bag, None)"
    by (rule Unmarshal_Marshal)
      (simp_all add: first_bag_def bag_plain_def bag_ok_def stack_of_def states_list_def state_plain_def)
  have "Push \<lparr>ps_Token = [], ps_ResourceTypeID = [], ps_ResourceID = []\<rparr> empty_bag = first_bag"
    by (simp add: Push_def empty_bag_def first_bag_def)
  then have "parsePageToken \<lparr>tok_Size = 0, tok_Token = []\<rparr> i = parsePageToken \<lparr>tok_Size = 0, tok_Token = Marshal first_bag\<rparr> i"
    if "i = \<lparr>rid_ResourceType = [], rid_Resource = []\<rparr>" for i
    unfolding parsePageToken_def that using u
    by (simp add: Unmarshal_def Current_def) (simp add: first_bag_def empty_bag_def)
  then show ?thesis
    by (simp add: fun_eq_iff site_lister_def userList_def)
qed

lemma sync_first:
  assumes "base_ok base" "site_ok S"
  shows "sync_pages (list_page failed unchanged (site_lister base)) [] acc S =
    sync_pages (list_page failed unchanged (site_lister base)) (Marshal first_bag) acc S"
proof -
  have nl: "user_nxt S first_bag \<noteq> Some first_bag"
    using walk_no_loop [OF user_walk [OF first_bag_ok [OF assms(2)]]] .
  obtain annos w' where "list_page failed unchanged (site_lister base) (Marshal first_bag) S =
      (Ret ((user_out S first_bag, case user_nxt S first_bag of None \<Rightarrow> [] | Some b' \<Rightarrow> Marshal b', annos),
        None), w')"
    using user_sync.list_page_state [where base = base and S = S and s = first_bag and w = S and failed = failed and unchanged = unchanged] nl assms first_bag_ok by blast
  moreover have "list_page failed unchanged (site_lister base) [] S =
      list_page failed unchanged (site_lister base) (Marshal first_bag) S"
    using calculation
    by (auto simp: list_page_def bindIO_apply userList_first Let_def
        split: go.splits prod.splits option.splits if_splits)
  ultimately show ?thesis
    by (subst (1 2) sync_pages.simps) simp
qed

text \<open>All the users a sync lists, in its order.\<close>

definition site_users :: "site \<Rightarrow> ConfluenceUser list" where
  "site_users S = st_users S @ concat (map (\<lambda>g. st_members S (grp_Id g)) (group_order 200 (st_groups S)))"

lemma set_site_users:
  "set (site_users S) = set (st_users S) \<union> (\<Union>g \<in> set (st_groups S). set (st_members S (grp_Id g)))"
  by (simp add: site_users_def set_group_order)

lemma user_sync_run:
  assumes "base_ok base" "site_ok S"
  shows "sync_pages (ListResources ''user'' parent
      (\<lambda>t. userList (site_client base) \<lparr>tok_Size = 0, tok_Token = t\<rparr>)) [] [] S =
    Some (Ret (listed (site_users S), None), S)"
proof -
  have out: "stack_out S (stack_of first_bag) = listed (site_users S)"
  proof -
    have "members_out S gs = listed (concat (map (\<lambda>g. st_members S (grp_Id g)) gs))" for gs
      by (induction gs) (simp_all add: members_out_def)
    then show ?thesis
      by (simp add: stack_of_def first_bag_def states_list_def state_out_def state_start_def offset_def
          site_users_def)
  qed
  have "sync_pages (list_page failed unchanged (site_lister base)) (Marshal first_bag) [] S =
      Some (Ret ([] @ stack_out S (stack_of first_bag), None), S)" for failed unchanged
    using user_sync.sync_walk [OF user_walk [OF first_bag_ok [OF assms(2)]] refl, of base failed unchanged "[]"]
      assms first_bag_ok by auto
  then show ?thesis
    using sync_first [OF assms, where acc = "[]"]
    by (simp add: out site_lister_def [abs_def] ListResources_def)
qed

section \<open>The sync of users\<close>

definition alice :: ConfluenceUser where
  "alice = \<lparr>usr_AccountId = ''a1'', usr_AccountType = ''atlassian'', usr_DisplayName = ''Alice'',
     usr_Email = ''alice@acme.com'', usr_Operations = [\<lparr>op_Operation = ''use'', op_TargetType = ''application''\<rparr>]\<rparr>"

definition bob :: ConfluenceUser where
  "bob = \<lparr>usr_AccountId = ''b1'', usr_AccountType = ''atlassian'', usr_DisplayName = ''Bob'',
     usr_Email = [], usr_Operations = []\<rparr>"

definition robot :: ConfluenceUser where
  "robot = \<lparr>usr_AccountId = ''r1'', usr_AccountType = ''app'', usr_DisplayName = ''Robot'',
     usr_Email = [], usr_Operations = []\<rparr>"

definition staff :: ConfluenceGroup where
  "staff = \<lparr>grp_Type = ''group'', grp_Name = ''staff'', grp_Id = ''g1''\<rparr>"

definition demo_site :: site where
  "demo_site = \<lparr>st_users = [alice, robot], st_groups = [staff], st_members = (\<lambda>_. [bob, robot])\<rparr>"

lemma demo_site_simps [simp]:
  "st_users demo_site = [alice, robot]" "st_groups demo_site = [staff]"
  "st_members demo_site g = [bob, robot]"
  by (simp_all add: demo_site_def)

lemma demo_humans [simp]: "shouldIncludeUser alice" "shouldIncludeUser bob" "\<not> shouldIncludeUser robot"
  by (simp_all add: shouldIncludeUser_def accountTypeAtlassian_def alice_def bob_def robot_def)

lemma demo_ids [simp]: "usr_AccountId alice = ''a1''" "usr_AccountId bob = ''b1''" "grp_Id staff = ''g1''"
  by (simp_all add: alice_def bob_def staff_def)

lemma demo_site_ok: "site_ok demo_site"
proof -
  have "user_valid alice" "user_valid bob" "user_valid robot"
    by (simp_all add: user_valid_def alice_def bob_def robot_def valid_utf8_ascii is_ascii_def)
  moreover have "group_valid staff"
    by (simp add: group_valid_def staff_def valid_utf8_ascii is_ascii_def id_char_def is_alnum_def
        is_lower_def is_digit_def)
  ultimately show ?thesis by (simp add: site_ok_def small_def)
qed

text \<open>
  C7. Against a site that answers search, group and member requests with pages of at most 200 elements
  (fewer than 10^9 of each, with names and ids of plain characters), a complete sync of users ends:
  the ListResources loop, which restarts userList with each page token it returned until the token is
  empty, finishes without error, without panic and without a change to the site, and lists exactly the
  users of the search followed by the members of every group in the order the pagination bag visits
  the groups, each run through shouldIncludeUser. The search, the group pages and the members of each
  group are interleaved by the states the code pushes on its bag and encodes in the token. The comment
  at user.go:109 describes another order, groups first and the search last; the code searches first.
\<close>

theorem user_sync_complete:
  assumes "base_ok base" "site_ok S"
  shows "sync_pages (ListResources ''user'' parent
      (\<lambda>t. userList (site_client base) \<lparr>tok_Size = 0, tok_Token = t\<rparr>)) [] [] S =
    Some (Ret (map expected_user (filter shouldIncludeUser
      (st_users S @ concat (map (\<lambda>g. st_members S (grp_Id g)) (group_order 200 (st_groups S))))), None), S)"
  using user_sync_run [OF assms, of parent] by (simp add: listed_def site_users_def)

theorem user_sync_complete_witness:
  "sync_pages (ListResources ''user'' []
      (\<lambda>t. userList (site_client demo_base) \<lparr>tok_Size = 0, tok_Token = t\<rparr>)) [] [] demo_site =
    Some (Ret ([expected_user alice, expected_user bob], None), demo_site)"
  using user_sync_complete [OF demo_base_ok demo_site_ok, of "[]"]
  by (simp add: group_order.simps)

end
