(* ===== verification/Group.thy ===== *)
theory Group
  imports Helpers
begin

text \<open>The group builder (\<open>pkg/connector/group.go\<close>).\<close>

definition groupMemberEntitlement :: string where "groupMemberEntitlement = ''member''"

definition groupResource :: "ConfluenceGroup \<Rightarrow> go_error + Resource" where
  "groupResource g =
     NewGroupResource (grp_Name g) resourceTypeGroup (grp_Id g)
       [WithResourceProfile
          [(''group_id'', PString (grp_Id g)),
           (''group_name'', PString (grp_Name g)),
           (''group_type'', PString (grp_Type g))]]"

text \<open>Both paged operations start from the bag in the token, or from one state for the groups.\<close>

definition group_bag :: "string \<Rightarrow> Bag \<times> go_error option" where
  "group_bag token =
     (case Unmarshal token empty_bag of
        (bag, Some e) \<Rightarrow> (bag, Some e)
      | (bag, None) \<Rightarrow>
          (if Current bag = None
           then Push \<lparr>ps_Token = [], ps_ResourceTypeID = rt_Id resourceTypeGroup, ps_ResourceID = []\<rparr> bag
           else bag, None))"

definition groupList :: "'w ConfluenceClient \<Rightarrow> Token \<Rightarrow> ('w, Resource) page_call" where
  "groupList c pageToken =
     (case group_bag (tok_Token pageToken) of
        (_, Some e) \<Rightarrow> ret ([], None, Some e)
      | (bag, None) \<Rightarrow>
          bindIO (GetGroups c (PageToken bag) ResourcesPageSize)
            (\<lambda>(groups, token, ratelimitData, err).
               let outputAnnotations = WithRateLimitAnnotations [ratelimitData] in
               case err of
                 Some e \<Rightarrow> ret ([], syncResults [] outputAnnotations, Some e)
               | None \<Rightarrow>
                   (case try_map groupResource groups of
                      Inl e \<Rightarrow> ret ([], syncResults [] outputAnnotations, Some e)
                    | Inr rv \<Rightarrow>
                        ret (rv, syncResults (snd (NextToken token bag)) outputAnnotations, None))))"

definition groupEntitlements :: "Resource \<Rightarrow> Entitlement list \<times> SyncOpResults option \<times> go_error option"
where
  "groupEntitlements res =
     ([NewAssignmentEntitlement (Some res) groupMemberEntitlement
         [WithGrantableTo [resourceTypeUser],
          WithDisplayName (res_DisplayName res @ '' Group Member''),
          WithEntDescription
            (''Is member of the '' @ res_DisplayName res @ '' group in Confluence'')]],
      syncResults [] [], None)"

definition member_grants :: "Resource \<Rightarrow> ConfluenceUser list \<Rightarrow> Grant list" where
  "member_grants res users =
     map (\<lambda>user. NewGrant res groupMemberEntitlement
            \<lparr>rid_ResourceType = rt_Id resourceTypeUser, rid_Resource = usr_AccountId user\<rparr> [])
       (filter shouldIncludeUser users)"

definition groupGrants :: "'w ConfluenceClient \<Rightarrow> Resource \<Rightarrow> Token \<Rightarrow> ('w, Grant) page_call" where
  "groupGrants c res pageToken =
     (case group_bag (tok_Token pageToken) of
        (_, Some e) \<Rightarrow> ret ([], None, Some e)
      | (bag, None) \<Rightarrow>
          deref (res_Id res) (\<lambda>rid.
            bindIO (GetGroupMembers c (PageToken bag) ResourcesPageSize (rid_Resource rid))
              (\<lambda>(users, token, ratelimitData, err).
                 let outputAnnotations = WithRateLimitAnnotations [ratelimitData] in
                 case err of
                   Some e \<Rightarrow> ret ([], syncResults [] outputAnnotations, Some e)
                 | None \<Rightarrow>
                     ret (member_grants res users,
                          syncResults (snd (NextToken token bag)) outputAnnotations, None))))"

definition groupGrant :: "'w ConfluenceClient \<Rightarrow> Resource \<Rightarrow> Entitlement \<Rightarrow>
    ('w, Grant list \<times> annotation list \<times> go_error option) io" where
  "groupGrant c who ent =
     deref (res_Id who) (\<lambda>pid. deref (ent_Resource ent) (\<lambda>res. deref (res_Id res) (\<lambda>rid.
       bindIO (AddUserToGroup c (rid_Resource pid) (rid_Resource rid))
         (\<lambda>(ratelimitData, err).
            let outputAnnotations = WithRateLimitAnnotations [ratelimitData] in
            case err of
              Some e \<Rightarrow> ret ([], outputAnnotations, Some e)
            | None \<Rightarrow> ret ([NewGrant res groupMemberEntitlement pid []], outputAnnotations, None)))))"

definition groupRevoke :: "'w ConfluenceClient \<Rightarrow> Grant \<Rightarrow>
    ('w, annotation list \<times> go_error option) io" where
  "groupRevoke c g =
     deref (gr_Principal g) (\<lambda>who. deref (res_Id who) (\<lambda>pid.
       deref (gr_Entitlement g) (\<lambda>ent. deref (ent_Resource ent) (\<lambda>res. deref (res_Id res) (\<lambda>rid.
         bindIO (RemoveUserFromGroup c (rid_Resource pid) (rid_Resource rid))
           (\<lambda>(ratelimitData, err). ret (WithRateLimitAnnotations [ratelimitData], err)))))))"

interpretation group_lister: lister "\<lambda>t. groupList c \<lparr>tok_Size = n, tok_Token = t\<rparr>" for c n
  by unfold_locales
    (auto simp: groupList_def Let_def elim!: lister_bind [rotated] lister_deref [rotated] split: lister_splits)

interpretation group_grant_lister: lister "\<lambda>t. groupGrants c res \<lparr>tok_Size = n, tok_Token = t\<rparr>" for c res n
  by unfold_locales
    (auto simp: groupGrants_def Let_def elim!: lister_bind [rotated] lister_deref [rotated] split: lister_splits)

end
