(* ===== verification/GroupSync.thy ===== *)
theory GroupSync
  imports UserSync Paging Group
begin

text \<open>
  The listings that follow offsets with a single page state in the bag, against a reference site:
  the groups, and the grants of a group. Both are interpretations of the paged listing.
\<close>

section \<open>Tokens that hold one offset\<close>

definition offset_state :: "nat \<Rightarrow> PageState" where
  "offset_state i =
     \<lparr>ps_Token = (if i = 0 then [] else itoa (of_nat i)), ps_ResourceTypeID = ''group'', ps_ResourceID = []\<rparr>"

definition offset_bag :: "nat \<Rightarrow> Bag" where
  "offset_bag i = \<lparr>bag_states = None, bag_currentState = Some (offset_state i)\<rparr>"

definition offset_token :: "nat \<Rightarrow> string" where "offset_token i = Marshal (offset_bag i)"

definition offset_of_token :: "string \<Rightarrow> nat option" where
  "offset_of_token t =
     (case Unmarshal t empty_bag of (b, None) \<Rightarrow> Some (offset (PageToken b)) | _ \<Rightarrow> None)"

lemma offset_state_small:
  assumes "offset_ok i"
  shows "offset (ps_Token (offset_state i)) = i" "strToInt (ps_Token (offset_state i)) = of_nat i"
  using assms by (simp_all add: offset_state_def offset_ok_def sint_small offset_small)

lemma offset_bag_ready: "bag_plain (offset_bag i) \<and> bag_ok (offset_bag i)"
  by (simp add: bag_plain_def bag_ok_def stack_of_def offset_bag_def states_list_def state_plain_def
      offset_state_def itoa_ascii valid_utf8_ascii is_ascii_def)

lemma Unmarshal_offset: "Unmarshal (offset_token i) b = (offset_bag i, None)"
  using offset_bag_ready [of i] unfolding offset_token_def
  by (auto intro!: Unmarshal_Marshal simp: offset_bag_def)

lemma offset_token_nonempty: "offset_token i \<noteq> []"
  by (simp add: offset_token_def Marshal_def offset_bag_def json_Bag_nonempty)

lemma PageToken_offset [simp]: "PageToken (offset_bag i) = ps_Token (offset_state i)"
  by (simp add: PageToken_def Current_def offset_bag_def)

interpretation offset_tokens: page_codec offset_token offset_of_token offset_ok
  by unfold_locales
    (simp_all add: offset_of_token_def Unmarshal_offset offset_state_small offset_token_nonempty)

text \<open>The bag that both operations start a page from, and the token they end it with.\<close>

lemma group_bag_offset:
  "group_bag (offset_token i) = (offset_bag i, None)" "group_bag [] = (offset_bag 0, None)"
  by (simp add: group_bag_def Unmarshal_offset Current_def) (simp_all add: offset_bag_def
      group_bag_def Unmarshal_def Current_def Push_def empty_bag_def offset_state_def)

lemma NextToken_offset:
  assumes "offset_ok i"
  shows "snd (NextToken (if more' then itoa (of_nat (i + 200)) else []) (offset_bag i))
     = (if more' then offset_token (i + 200) else [])"
  by (simp add: NextToken_def Next_def Pop_def Push_def offset_bag_def states_list_def Let_def
      offset_token_def offset_state_def Marshal_def)

section \<open>Groups\<close>

definition expected_group :: "ConfluenceGroup \<Rightarrow> Resource" where
  "expected_group g =
     \<lparr>res_Id = Some \<lparr>rid_ResourceType = ''group'', rid_Resource = grp_Id g\<rparr>,
      res_ParentResourceId = None, res_DisplayName = grp_Name g, res_Annotations = [AnyGroupTrait],
      res_Description = [],
      res_Profile = Some [(''group_id'', PString (grp_Id g)), (''group_name'', PString (grp_Name g)),
        (''group_type'', PString (grp_Type g))],
      res_Status = None\<rparr>"

lemma groupResource_valid: "group_valid g \<Longrightarrow> groupResource g = Inr (expected_group g)"
  by (simp add: groupResource_def NewGroupResource_def NewResource_def WithResourceProfile_def
      NewStruct_def group_valid_def id_valid valid_utf8_ascii is_ascii_def WithGroupTrait_def
      expected_group_def)

lemma incToken_window:
  assumes "offset_ok i" "i + 200 < length xs"
  shows "incToken (ps_Token (offset_state i)) (go_len (window i 200 xs)) = itoa (of_nat (i + 200))"
  using incToken_small [OF offset_state_small(2) [OF assms(1)], of 200] assms
  by (simp add: go_len_def length_window offset_ok_def)

lemma groupList_page:
  assumes "base_ok base" "site_ok S" "offset_ok i"
  shows "\<exists>res. groupList (site_client base) \<lparr>tok_Size = 0, tok_Token = offset_token i\<rparr> S
      = (Ret (map expected_group (window i 200 (st_groups S)), res, None), S) \<and>
    token_of res = (if i + 200 < length (st_groups S) then offset_token (i + 200) else [])"
proof -
  let ?gs = "window i 200 (st_groups S)" and ?has_next = "i + 200 < length (st_groups S)"
  have r: "GetGroups (site_client base) (ps_Token (offset_state i)) 200 S =
     (Ret (?gs, if ?has_next then itoa (of_nat (i + 200)) else [], Some no_limits, None), S)"
    using GetGroups_site [OF assms(1,2), of "ps_Token (offset_state i)" 200]
      offset_state_small(1) [OF assms(3)] incToken_window [OF assms(3), of "st_groups S"]
    by (auto split: if_splits)
  have "list_all group_valid ?gs" using assms(2) by (simp add: window_all site_ok_def)
  then have res: "try_map groupResource ?gs = Inr (map expected_group ?gs)"
    by (intro try_map_Inr) (auto simp: list_all_iff groupResource_valid)
  show ?thesis
    using NextToken_offset [OF assms(3), of ?has_next]
    by (simp add: groupList_def group_bag_offset ResourcesPageSize_def bindIO_apply r res Let_def)
qed

lemma groupList_first_page:
  assumes "base_ok base" "site_ok S"
  shows "\<exists>res. groupList (site_client base) \<lparr>tok_Size = 0, tok_Token = []\<rparr> S
      = (Ret (map expected_group (window 0 200 (st_groups S)), res, None), S) \<and>
    token_of res = (if 200 < length (st_groups S) then offset_token 200 else [])"
  using groupList_page [OF assms, of 0, unfolded add_0]
  by (simp add: groupList_def group_bag_offset offset_ok_def)

interpretation group_pages: paged_listing offset_token offset_of_token 200
  "\<lambda>t. groupList (site_client base) \<lparr>tok_Size = 0, tok_Token = t\<rparr>" "st_groups S"
  "map expected_group" "\<lambda>w. w = S \<and> base_ok base \<and> site_ok S" for base S
proof (unfold_locales, goal_cases)
  case (3 w i)
  then show ?case using groupList_page [of base S i] by auto
next
  case (4 w)
  then show ?case using groupList_first_page [of base S] by auto
qed (simp_all add: site_ok_def)

section \<open>Grants of a group\<close>

lemma groupGrants_page:
  assumes "base_ok base" "site_ok S" "g \<in> set (st_groups S)" "offset_ok i"
  defines "res0 \<equiv> expected_group g" and "ms \<equiv> st_members S (grp_Id g)"
  shows "\<exists>res. groupGrants (site_client base) res0 \<lparr>tok_Size = 0, tok_Token = offset_token i\<rparr> S
      = (Ret (member_grants res0 (window i 200 ms), res, None), S) \<and>
    token_of res = (if i + 200 < length ms then offset_token (i + 200) else [])"
proof -
  let ?us = "window i 200 ms" and ?has_next = "i + 200 < length ms"
  have r: "GetGroupMembers (site_client base) (ps_Token (offset_state i)) 200 (grp_Id g) S =
     (Ret (?us, if ?has_next then itoa (of_nat (i + 200)) else [], Some no_limits, None), S)"
    using GetGroupMembers_site [OF assms(1-3), of "ps_Token (offset_state i)" 200]
      offset_state_small(1) [OF assms(4)] incToken_window [OF assms(4), of ms]
    unfolding ms_def by (auto split: if_splits)
  show ?thesis
    using NextToken_offset [OF assms(4), of ?has_next]
    by (simp add: groupGrants_def group_bag_offset ResourcesPageSize_def bindIO_apply r Let_def res0_def
        expected_group_def)
qed

lemma groupGrants_first_page:
  assumes "base_ok base" "site_ok S" "g \<in> set (st_groups S)"
  shows "\<exists>res. groupGrants (site_client base) (expected_group g) \<lparr>tok_Size = 0, tok_Token = []\<rparr> S
      = (Ret (member_grants (expected_group g) (window 0 200 (st_members S (grp_Id g))), res, None), S) \<and>
    token_of res = (if 200 < length (st_members S (grp_Id g)) then offset_token 200 else [])"
  using groupGrants_page [OF assms, of 0, unfolded add_0]
  by (simp add: groupGrants_def group_bag_offset offset_ok_def)

interpretation member_pages: paged_listing offset_token offset_of_token 200
  "\<lambda>t. groupGrants (site_client base) (expected_group g) \<lparr>tok_Size = 0, tok_Token = t\<rparr>"
  "st_members S (grp_Id g)" "member_grants (expected_group g)"
  "\<lambda>w. w = S \<and> base_ok base \<and> site_ok S \<and> g \<in> set (st_groups S)" for base S g
proof (unfold_locales, goal_cases)
  case (3 w i)
  then show ?case using groupGrants_page [of base S g i] by auto
next
  case (4 w)
  then show ?case using groupGrants_first_page [of base S g] by auto
qed (auto simp: site_ok_def member_grants_def list_all_iff)

section \<open>The sync of groups and of their members\<close>

lemma group_sync_run:
  assumes "base_ok base" "site_ok S"
  shows "sync_pages (ListResources ''group'' parent
      (\<lambda>t. groupList (site_client base) \<lparr>tok_Size = 0, tok_Token = t\<rparr>)) [] [] S =
    Some (Ret (map expected_group (st_groups S), None), S)"
  using group_pages.all_pages [of S S base] assms unfolding ListResources_def by blast

lemma group_grants_run:
  assumes "base_ok base" "site_ok S" "g \<in> set (st_groups S)"
  shows "sync_pages (ListGrants \<lparr>rid_ResourceType = ''group'', rid_Resource = grp_Id g\<rparr>
      (\<lambda>t. groupGrants (site_client base) (expected_group g) \<lparr>tok_Size = 0, tok_Token = t\<rparr>)) [] [] S =
    Some (Ret (map (\<lambda>u. NewGrant (expected_group g) ''member''
        \<lparr>rid_ResourceType = ''user'', rid_Resource = usr_AccountId u\<rparr> [])
      (filter shouldIncludeUser (st_members S (grp_Id g))), None), S)"
  using member_pages.all_pages [of S S base g] assms
  by (auto simp: ListGrants_def Let_def member_grants_def groupMemberEntitlement_def)

lemma group_grants_complete:
  assumes "base_ok base" "site_ok S" "g \<in> set (st_groups S)"
  shows "sync_pages (ListGrants \<lparr>rid_ResourceType = ''group'', rid_Resource = grp_Id g\<rparr>
      (\<lambda>t. groupGrants (site_client base) (expected_group g) \<lparr>tok_Size = 0, tok_Token = t\<rparr>)) [] [] S =
    Some (Ret (map (\<lambda>u. NewGrant (expected_group g) ''member''
        \<lparr>rid_ResourceType = ''user'', rid_Resource = usr_AccountId u\<rparr> [])
      (filter shouldIncludeUser (st_members S (grp_Id g))), None), S)"
  using group_grants_run [OF assms] .

lemma group_grants_complete_witness:
  "sync_pages (ListGrants \<lparr>rid_ResourceType = ''group'', rid_Resource = ''g1''\<rparr>
      (\<lambda>t. groupGrants (site_client demo_base) (expected_group staff) \<lparr>tok_Size = 0, tok_Token = t\<rparr>))
      [] [] demo_site =
    Some (Ret ([NewGrant (expected_group staff) ''member''
        \<lparr>rid_ResourceType = ''user'', rid_Resource = ''b1''\<rparr> []], None), demo_site)"
  using group_grants_complete [OF demo_base_ok demo_site_ok, of staff]
  by simp

end
