(* ===== verification/FaultySync.thy ===== *)
theory FaultySync
  imports Faults SpaceSync GroupSync
begin

text \<open>
  The paged operations of the client and of the builders over a faulty connection, and whole syncs: one that
  reports no error has listed everything.
\<close>

section \<open>The client\<close>

abbreviation gives_error :: "(int \<Rightarrow> bool) \<Rightarrow> 'a \<times> 'b \<times> 'c \<times> go_error option \<Rightarrow> bool" where
  "gives_error P \<equiv> \<lambda>(_, _, _, err). failed_with P err"

lemma follows_GetGroups:
  "follows P (gives_error P) (GetGroups (faulty_client base serve) t n) (GetGroups (server_client base serve) t n)"
  unfolding GetGroups_def parse_faulty Let_def
  by (intro follows_rules) (auto simp: failed_with_def split: option.splits)

lemma follows_GetGroupMembers:
  "follows P (gives_error P) (GetGroupMembers (faulty_client base serve) t n g)
     (GetGroupMembers (server_client base serve) t n g)"
  unfolding GetGroupMembers_def parse_faulty Let_def
  by (intro follows_rules) (auto simp: failed_with_def split: option.splits)

lemma follows_GetUsersFromSearch:
  "follows P (gives_error P) (GetUsersFromSearch (faulty_client base serve) t n)
     (GetUsersFromSearch (server_client base serve) t n)"
  unfolding GetUsersFromSearch_def parse_faulty Let_def
  by (intro follows_rules) (auto simp: failed_with_def split: option.splits)

lemma follows_GetSpaces:
  "follows P (gives_error P) (GetSpaces (faulty_client base serve) n t) (GetSpaces (server_client base serve) n t)"
  unfolding GetSpaces_def parse_faulty Let_def
  by (intro follows_rules) (auto simp: failed_with_def split: option.splits)

lemma follows_GetSpacePermissions:
  "follows P (gives_error P) (GetSpacePermissions (faulty_client base serve) t n i)
     (GetSpacePermissions (server_client base serve) t n i)"
  unfolding GetSpacePermissions_def parse_faulty Let_def
  by (intro follows_rules) (auto simp: failed_with_def split: option.splits)

lemma follows_GetSpaceRoles:
  "follows P (gives_error P) (GetSpaceRoles (faulty_client base serve) i t n)
     (GetSpaceRoles (server_client base serve) i t n)"
  unfolding GetSpaceRoles_def parse_faulty Let_def
  by (intro follows_rules) (auto simp: failed_with_def split: option.splits)

lemma follows_GetSpaceRoleAssignments:
  "follows P (gives_error P) (GetSpaceRoleAssignments (faulty_client base serve) i r p ty t n)
     (GetSpaceRoleAssignments (server_client base serve) i r p ty t n)"
  unfolding GetSpaceRoleAssignments_def parse_faulty Let_def
  by (intro follows_rules) (auto simp: failed_with_def split: option.splits)

lemmas follows_client =
  follows_GetGroups [THEN follows_bind] follows_GetGroupMembers [THEN follows_bind]
  follows_GetUsersFromSearch [THEN follows_bind] follows_GetSpaces [THEN follows_bind]
  follows_GetSpacePermissions [THEN follows_bind] follows_GetSpaceRoles [THEN follows_bind]
  follows_GetSpaceRoleAssignments [THEN follows_bind]

section \<open>The builders\<close>

abbreviation page_failed :: "'a \<times> 'b \<times> go_error option \<Rightarrow> bool" where
  "page_failed \<equiv> \<lambda>(_, _, err). err \<noteq> None"

lemma follows_groupList:
  "follows P page_failed (groupList (faulty_client base serve) t) (groupList (server_client base serve) t)"
  unfolding groupList_def Let_def
  by (intro follows_rules follows_client) (auto simp: failed_with_def split: option.splits)

lemma follows_userList:
  "follows P page_failed (userList (faulty_client base serve) t) (userList (server_client base serve) t)"
  unfolding userList_def userList_search_def userList_groups_def userList_members_def user_page_def Let_def
  by (intro follows_rules follows_client) (auto simp: failed_with_def split: option.splits)

lemma newSpaceBuilder_simps [simp]:
  "sb_client (newSpaceBuilder c skip rbac nouns verbs) = c"
  "sb_skipPersonalSpaces (newSpaceBuilder c skip rbac nouns verbs) = skip"
  "sb_useRbac (newSpaceBuilder c skip rbac nouns verbs) = rbac"
  "sb_nouns (newSpaceBuilder c skip rbac nouns verbs) = nouns"
  "sb_verbs (newSpaceBuilder c skip rbac nouns verbs) = verbs"
  by (simp_all add: newSpaceBuilder_def)

lemma permission_grant_builder:
  "permission_grant (newSpaceBuilder c skip rbac nouns verbs) = permission_grant (newSpaceBuilder c' skip rbac nouns verbs)"
  by (simp add: permission_grant_def fun_eq_iff split: option.split)

lemma follows_spaceList:
  "follows P page_failed (spaceList (newSpaceBuilder (faulty_client base serve) skip rbac nouns verbs) t)
     (spaceList (newSpaceBuilder (server_client base serve) skip rbac nouns verbs) t)"
  unfolding spaceList_def Let_def newSpaceBuilder_simps
  by (intro follows_rules follows_client) (auto simp: failed_with_def split: option.splits)

lemma follows_spaceRoleList:
  assumes "\<not> P 404"
  shows "follows P page_failed (spaceRoleList (faulty_client base serve) parent t)
     (spaceRoleList (server_client base serve) parent t)"
  unfolding spaceRoleList_def Let_def
  by (intro follows_rules follows_client) (auto simp: failed_with_def assms split: option.splits)

lemma follows_groupGrants:
  "follows P page_failed (groupGrants (faulty_client base serve) res t) (groupGrants (server_client base serve) res t)"
  unfolding groupGrants_def Let_def
  by (intro follows_rules follows_client) (auto simp: failed_with_def split: option.splits)

lemma follows_spaceGrants:
  "follows P page_failed (spaceGrants (newSpaceBuilder (faulty_client base serve) skip rbac nouns verbs) res t)
     (spaceGrants (newSpaceBuilder (server_client base serve) skip rbac nouns verbs) res t)"
  unfolding spaceGrants_def Let_def newSpaceBuilder_simps
    permission_grant_builder [where c = "faulty_client base serve" and c' = "server_client base serve"]
  by (intro follows_rules follows_client) (auto simp: failed_with_def split: option.splits)

lemma follows_assignmentGrants:
  "follows P page_failed (assignmentGrants (faulty_client base serve) res t)
     (assignmentGrants (server_client base serve) res t)"
  unfolding assignmentGrants_def Let_def
  by (intro follows_rules follows_client) (auto simp: failed_with_def split: option.splits)

section \<open>Whole syncs\<close>

abbreviation service_failed :: "'a \<times> go_error option \<Rightarrow> bool" where
  "service_failed \<equiv> \<lambda>(_, err). err \<noteq> None"

lemma follows_list_page:
  assumes "follows P page_failed (list_op' t) (list_op t)"
  shows "follows P service_failed (list_page failed unchanged list_op' t) (list_page failed unchanged list_op t)"
  unfolding list_page_def Let_def
  by (rule assms [THEN follows_bind]) (intro follows_rules, auto)

text \<open>
  A sync over the faulty connection meets no fault and ends as it would over the reliable one, or ends
  with an error after some of its pages.
\<close>

definition sync_follows :: "schedule \<Rightarrow> 'r list \<Rightarrow> ('r list \<times> go_error option) go \<times> 's \<Rightarrow>
    (('r list \<times> go_error option) go \<times> 's \<times> schedule) option \<Rightarrow> bool" where
  "sync_follows fs acc r r' \<longleftrightarrow>
     (\<exists>k. quiet k fs \<and> r' = Some (fst r, snd r, drop k fs)) \<or>
     (\<exists>k part e s'. \<not> quiet k fs \<and> r' = Some (Ret (acc @ part, Some e), s', drop k fs) \<and>
        (\<forall>out err. fst r = Ret (out, err) \<longrightarrow> prefix (acc @ part) out))"

text \<open>The syncs that end, page by page.\<close>

inductive sync_run ::
    "(string \<Rightarrow> ('w, ('r list \<times> string \<times> annotation list) \<times> go_error option) io) \<Rightarrow> string \<Rightarrow> 'r list \<Rightarrow> 'w \<Rightarrow>
     ('r list \<times> go_error option) go \<times> 'w \<Rightarrow> bool"
  for service :: "string \<Rightarrow> ('w, ('r list \<times> string \<times> annotation list) \<times> go_error option) io" where
  panicked: "service t s = (Panic p, s') \<Longrightarrow> sync_run service t acc s (Panic p, s')"
| stopped: "service t s = (Ret ((out, nextToken, annos), Some e), s') \<Longrightarrow> sync_run service t acc s (Ret (acc, Some e), s')"
| finished: "service t s = (Ret ((out, [], annos), None), s') \<Longrightarrow> sync_run service t acc s (Ret (acc @ out, None), s')"
| continued: "service t s = (Ret ((out, nextToken, annos), None), s1) \<Longrightarrow> nextToken \<noteq> [] \<Longrightarrow>
    sync_run service nextToken (acc @ out) s1 r \<Longrightarrow> sync_run service t acc s r"

lemma sync_pages_run:
  fixes service :: "string \<Rightarrow> ('w, ('r list \<times> string \<times> annotation list) \<times> go_error option) io"
  assumes "sync_pages service t acc s = Some r"
  shows "sync_run service t acc s r"
proof (rule sync_pages.raw_induct [where P = sync_run, OF _ assms])
  fix sync and service :: "string \<Rightarrow> ('w, ('r list \<times> string \<times> annotation list) \<times> go_error option) io" and t acc s r
  assume IH: "\<And>service t acc s r. sync service t acc s = Some r \<Longrightarrow> sync_run service t acc s r"
    and run: "(case service t s of
        (Ret ((out, nextPageToken, x), None), w') \<Rightarrow>
          if nextPageToken = [] then Some (Ret (acc @ out, None), w')
          else sync service nextPageToken (acc @ out) w'
      | (Ret ((out, nextPageToken, x), Some e), w') \<Rightarrow> Some (Ret (acc, Some e), w')
      | (Panic p, w') \<Rightarrow> Some (Panic p, w')) = Some r"
  show "sync_run service t acc s r"
    using run
    by (auto split: prod.splits go.splits option.splits if_splits dest!: IH intro: sync_run.intros)
qed

lemma sync_run_prefix: "sync_run service t acc s r \<Longrightarrow> fst r = Ret (out, err) \<Longrightarrow> prefix acc out"
  by (induction rule: sync_run.induct) (auto dest: append_prefixD)

lemma sync_first_fault:
  assumes "service' t (s, fs) = (Ret a, s1, drop k fs)" "service_failed a" "\<not> quiet k fs" "sync_run service t acc s r"
  shows "sync_follows fs acc r (sync_pages service' t acc (s, fs))"
proof -
  obtain out "next" annos e where "a = ((out, next, annos), Some e)" using assms(2) by (cases a) auto
  then have "sync_pages service' t acc (s, fs) = Some (Ret (acc @ [], Some e), s1, drop k fs)"
    using assms(1) by (simp add: sync_pages.simps)
  moreover have "\<forall>out err. fst r = Ret (out, err) \<longrightarrow> prefix (acc @ []) out"
    using sync_run_prefix [OF assms(4)] by simp
  ultimately show ?thesis using assms(3) unfolding sync_follows_def by blast
qed

lemma sync_follows_later:
  assumes "quiet k fs" "sync_follows (drop k fs) (acc @ out) r r'"
  shows "sync_follows fs acc r r'"
  using assms(2) unfolding sync_follows_def
proof (elim disjE exE conjE)
  fix j assume "quiet j (drop k fs)" "r' = Some (fst r, snd r, drop j (drop k fs))"
  then have "quiet (j + k) fs \<and> r' = Some (fst r, snd r, drop (j + k) fs)"
    using assms(1) by (simp add: quiet_add_iff)
  then show "(\<exists>k. quiet k fs \<and> r' = Some (fst r, snd r, drop k fs)) \<or>
     (\<exists>k part e s'. \<not> quiet k fs \<and> r' = Some (Ret (acc @ part, Some e), s', drop k fs) \<and>
        (\<forall>out err. fst r = Ret (out, err) \<longrightarrow> prefix (acc @ part) out))" by blast
next
  fix j part e s'
  assume "\<not> quiet j (drop k fs)" "r' = Some (Ret ((acc @ out) @ part, Some e), s', drop j (drop k fs))"
    "\<forall>all err. fst r = Ret (all, err) \<longrightarrow> prefix ((acc @ out) @ part) all"
  then have "\<not> quiet (j + k) fs \<and> r' = Some (Ret (acc @ (out @ part), Some e), s', drop (j + k) fs) \<and>
      (\<forall>all err. fst r = Ret (all, err) \<longrightarrow> prefix (acc @ (out @ part)) all)"
    by (simp add: quiet_add_iff)
  then show "(\<exists>k. quiet k fs \<and> r' = Some (fst r, snd r, drop k fs)) \<or>
     (\<exists>k part e s'. \<not> quiet k fs \<and> r' = Some (Ret (acc @ part, Some e), s', drop k fs) \<and>
        (\<forall>out err. fst r = Ret (out, err) \<longrightarrow> prefix (acc @ part) out))" by blast
qed

lemma sync_run_follows:
  assumes "sync_run service t acc s r"
    and "\<And>t. follows P service_failed (service' t) (service t)" "schedule_ok P fs"
  shows "sync_follows fs acc r (sync_pages service' t acc (s, fs))"
  using assms(1,3)
proof (induction arbitrary: fs rule: sync_run.induct)
  case (panicked t s p s' acc)
  from panicked.hyps have run: "sync_run service t acc s (Panic p, s')" by (rule sync_run.panicked)
  show ?case
    using assms(2) [of t] panicked.prems
    by (cases rule: follows_cases [where s = s])
      (use panicked run in \<open>auto simp: sync_follows_def sync_pages.simps intro: sync_first_fault\<close>)
next
  case (stopped t s out "next" annos e s' acc)
  from stopped.hyps have run: "sync_run service t acc s (Ret (acc, Some e), s')" by (rule sync_run.stopped)
  show ?case
    using assms(2) [of t] stopped.prems
    by (cases rule: follows_cases [where s = s])
      (use stopped run in \<open>auto simp: sync_follows_def sync_pages.simps intro: sync_first_fault\<close>)
next
  case (finished t s out annos s' acc)
  from finished.hyps have run: "sync_run service t acc s (Ret (acc @ out, None), s')" by (rule sync_run.finished)
  show ?case
    using assms(2) [of t] finished.prems
    by (cases rule: follows_cases [where s = s])
      (use finished run in \<open>auto simp: sync_follows_def sync_pages.simps intro: sync_first_fault\<close>)
next
  case (continued t s out "next" annos s1 acc r)
  have run: "sync_run service t acc s r" by (rule sync_run.continued) (use continued in simp_all)
  show ?case
    using assms(2) [of t] continued.prems
  proof (cases rule: follows_cases [where s = s])
    case (same k r1 s2)
    then have "sync_pages service' t acc (s, fs) = sync_pages service' next (acc @ out) (s1, drop k fs)"
      using continued.hyps by (auto simp: sync_pages.simps [of service' t])
    then show ?thesis
      using continued.IH [of "drop k fs"] continued.prems sync_follows_later [OF same(1)] by simp
  next
    case (fault k a s')
    then show ?thesis by (blast intro: sync_first_fault run)
  qed
qed

lemma sync_follows:
  assumes "\<And>t. follows P service_failed (service' t) (service t)" "schedule_ok P fs"
    and "sync_pages service t acc s = Some r"
  shows "sync_follows fs acc r (sync_pages service' t acc (s, fs))"
  using sync_run_follows [OF sync_pages_run [OF assms(3)] assms(1,2)] .

section \<open>No silent loss\<close>

text \<open>The listings of resources and grants, for whichever client.\<close>

datatype resource_listing = Users | Groups | Spaces bool bool "string list" "string list" | Roles

fun list_resources :: "'w ConfluenceClient \<Rightarrow> resource_listing \<Rightarrow> ('w, Resource) lister_op" where
  "list_resources c Users t = userList c \<lparr>tok_Size = 0, tok_Token = t\<rparr>"
| "list_resources c Groups t = groupList c \<lparr>tok_Size = 0, tok_Token = t\<rparr>"
| "list_resources c (Spaces skip rbac nouns verbs) t =
     spaceList (newSpaceBuilder c skip rbac nouns verbs) \<lparr>tok_Size = 0, tok_Token = t\<rparr>"
| "list_resources c Roles t = spaceRoleList c None \<lparr>tok_Size = 0, tok_Token = t\<rparr>"

datatype grant_listing = Members Resource | Permissions bool bool "string list" "string list" Resource | Holders Resource

fun list_grants :: "'w ConfluenceClient \<Rightarrow> grant_listing \<Rightarrow> ('w, Grant) lister_op" where
  "list_grants c (Members res) t = groupGrants c res \<lparr>tok_Size = 0, tok_Token = t\<rparr>"
| "list_grants c (Permissions skip rbac nouns verbs res) t =
     spaceGrants (newSpaceBuilder c skip rbac nouns verbs) res \<lparr>tok_Size = 0, tok_Token = t\<rparr>"
| "list_grants c (Holders res) t = assignmentGrants c res \<lparr>tok_Size = 0, tok_Token = t\<rparr>"

lemma follows_list_resources:
  "kind = Roles \<longrightarrow> \<not> P 404 \<Longrightarrow>
   follows P page_failed (list_resources (faulty_client base serve) kind t) (list_resources (server_client base serve) kind t)"
  by (cases kind)
    (simp_all add: follows_userList follows_groupList follows_spaceList follows_spaceRoleList del: not_None_eq)

lemma follows_list_grants:
  "follows P page_failed (list_grants (faulty_client base serve) kind t) (list_grants (server_client base serve) kind t)"
  by (cases kind) (simp_all add: follows_groupGrants follows_spaceGrants follows_assignmentGrants del: not_None_eq)

lemma sync_follows_complete:
  assumes "sync_follows fs [] (Ret (rs, None), s') r"
  shows "(\<exists>k. quiet k fs \<and> r = Some (Ret (rs, None), s', drop k fs)) \<or>
    (\<exists>k part e s''. \<not> quiet k fs \<and> prefix part rs \<and> r = Some (Ret (part, Some e), s'', drop k fs))"
  using assms by (auto simp: sync_follows_def)

text \<open>
  C2. A sync of users, groups, spaces or space roles over a connection with faults (requests refused with
  a status outside 2xx, other than 404 for space roles, or handled with the answer lost, in any
  schedule), against any service, either meets no fault and ends as over the reliable connection, or
  ends with an error after having listed a prefix of what the reliable sync lists: a sync that reports
  no error has lost nothing.
\<close>

theorem resource_sync_no_loss:
  assumes "schedule_ok (\<lambda>code. kind = Roles \<longrightarrow> code \<noteq> 404) fs"
    and "sync_pages (ListResources ty parent (list_resources (server_client base serve) kind)) [] [] s
      = Some (Ret (rs, None), s')"
  defines "r \<equiv> sync_pages (ListResources ty parent (list_resources (faulty_client base serve) kind)) [] [] (s, fs)"
  shows "(\<exists>k. quiet k fs \<and> r = Some (Ret (rs, None), s', drop k fs)) \<or>
    (\<exists>k part e s''. \<not> quiet k fs \<and> prefix part rs \<and> r = Some (Ret (part, Some e), s'', drop k fs))"
proof -
  have "follows (\<lambda>code. kind = Roles \<longrightarrow> code \<noteq> 404) service_failed
      (ListResources ty parent (list_resources (faulty_client base serve) kind) t)
      (ListResources ty parent (list_resources (server_client base serve) kind) t)" for t
    unfolding ListResources_def by (rule follows_list_page, rule follows_list_resources) simp
  from sync_follows [OF this assms(1,2)] show ?thesis unfolding r_def by (rule sync_follows_complete)
qed

text \<open>
  C14. A sync of the grants of a group, of the permissions of a space or of the holders of a role over a
  connection with faults, against any service, either meets no fault and ends as over the reliable
  connection, or ends with an error after a prefix of the grants: no grant is lost without an error.
\<close>

theorem grant_sync_no_loss:
  assumes "schedule_ok (\<lambda>_. True) fs"
    and "sync_pages (ListGrants rid (list_grants (server_client base serve) kind)) [] [] s = Some (Ret (gs, None), s')"
  defines "r \<equiv> sync_pages (ListGrants rid (list_grants (faulty_client base serve) kind)) [] [] (s, fs)"
  shows "(\<exists>k. quiet k fs \<and> r = Some (Ret (gs, None), s', drop k fs)) \<or>
    (\<exists>k part e s''. \<not> quiet k fs \<and> prefix part gs \<and> r = Some (Ret (part, Some e), s'', drop k fs))"
proof -
  have "follows (\<lambda>_. True) service_failed (ListGrants rid (list_grants (faulty_client base serve) kind) t)
      (ListGrants rid (list_grants (server_client base serve) kind) t)" for t
    unfolding ListGrants_def Let_def by (rule follows_list_page, rule follows_list_grants)
  from sync_follows [OF this assms(1,2)] show ?thesis unfolding r_def by (rule sync_follows_complete)
qed

lemma tenant_gets: "safe_gets tenant_serve"
  by (simp add: safe_gets_def tenant_serve_def)

section \<open>A 404 in the middle of the roles\<close>

lemma spaceRoleList_quiet:
  assumes "base_ok base"
  shows "spaceRoleList (faulty_client base serve) None t (s, None # fs) =
    (case spaceRoleList (server_client base serve) None t s of (r, s') \<Rightarrow> (r, s', fs))"
proof -
  have p: "prepare_request (server_client base serve) (roles_url base cursor n) GET None
      = Inr (request_to (server_client base serve) GET (roles_url base cursor n) None)" for cursor n
    using prepare_roles [of "server_client base serve"] assms by simp
  have q: "quiet 1 (None # fs)" by (simp add: quiet_def)
  have "client_get (faulty_client base serve) (roles_url base cursor n) d v (s, None # fs) =
      (case client_get (server_client base serve) (roles_url base cursor n) d v s of (r, s') \<Rightarrow> (r, s', fs))"
    for cursor n and d :: "SpaceRolesResponse option decoder" and v
    using makeRequest_quiet [OF p q, of cursor n "Some d" v s] by (simp add: client_get_def)
  then show ?thesis
    by (auto simp: spaceRoleList_def GetSpaceRoles_def parse_roles bindIO_apply deref_def Let_def
        split: prod.splits go.splits option.splits sum.splits)
qed

lemma spaceRoleList_404:
  assumes "base_ok base"
  shows "\<exists>annos w'. spaceRoleList (faulty_client base serve) None t (s, Some (Refuse 404 body) # fs) =
    (Ret ([], syncResults [] annos, None), w')"
proof -
  let ?c = "faulty_client base serve"
  have "answered ?c GET (roles_url base (tok_Token t) ResourcesPageSize) None (s, Some (Refuse 404 body) # fs)
      (canned_response (404, body)) body (s, fs)"
    by (simp add: answered_def fetch_faulty faulty_def split: prod.split)
  then obtain rl w' where "GetSpaceRoles ?c [] (tok_Token t) ResourcesPageSize (s, Some (Refuse 404 body) # fs) =
      (Ret ([], [], rl, Some (http_error (roles_url base (tok_Token t) ResourcesPageSize) (canned_response (404, body)) body)), w')"
    using GetSpaceRoles_http_error [of ?c] assms by (fastforce simp: is_2xx_def)
  then show ?thesis
    by (auto simp: spaceRoleList_def bindIO_apply http_error_not_found Let_def)
qed

definition role_token :: "nat \<Rightarrow> string" where "role_token i = (if i = 0 then [] else cursor_token i)"

definition roles_until_404 :: "url \<Rightarrow> string \<Rightarrow> string \<Rightarrow> Resource list \<Rightarrow> tenant \<times> schedule \<Rightarrow>
    ((Resource list \<times> go_error option) go \<times> tenant \<times> schedule) option" where
  "roles_until_404 base parent = sync_pages (ListResources ''space_role'' parent
     (\<lambda>t. spaceRoleList (faulty_client base tenant_serve) None \<lparr>tok_Size = 0, tok_Token = t\<rparr>))"

lemma role_pages_until_404:
  assumes "base_ok base" "tenant_ok S" "i + j * 200 < length (tn_roles S)"
  shows "\<exists>w'. roles_until_404 base parent (role_token i) acc (S, replicate j None @ [Some (Refuse 404 body)]) =
    Some (Ret (acc @ map expected_role (window i (j * 200) (tn_roles S)), None), w')"
  using assms(3)
proof (induction j arbitrary: i acc)
  case 0
  obtain annos w' where "spaceRoleList (faulty_client base tenant_serve) None \<lparr>tok_Size = 0, tok_Token = role_token i\<rparr>
      (S, [Some (Refuse 404 body)]) = (Ret ([], syncResults [] annos, None), w')"
    using spaceRoleList_404 [OF assms(1), of tenant_serve "\<lparr>tok_Size = 0, tok_Token = role_token i\<rparr>" S body "[]"] by blast
  then show ?case
    by (simp add: roles_until_404_def sync_pages.simps [of _ "role_token i"] ListResources_def list_page_def bindIO_apply
        window_def Let_def)
next
  case (Suc j)
  have small: "length (tn_roles S) < 1000000000" using assms(2) by (simp add: tenant_ok_def small_def)
  have off: "offset (role_token i) = i" using Suc.prems small by (simp add: role_token_def offset_cursor)
  have more: "i + 200 < length (tn_roles S)" using Suc.prems by simp
  obtain res where page: "spaceRoleList (tenant_client base) None \<lparr>tok_Size = 0, tok_Token = role_token i\<rparr> S =
      (Ret (map expected_role (window i 200 (tn_roles S)), res, None), S)" "token_of res = role_token (i + 200)"
    using spaceRoleList_tenant [OF assms(1,2), of "role_token i"] more unfolding off next_cursor_def
    by (auto simp: role_token_def)
  have fresh: "role_token i \<noteq> role_token (i + 200)" "role_token (i + 200) \<noteq> []"
    using off small more offset_cursor [of "i + 200"] cursor_tokens.encode_nonempty [of "i + 200"]
    by (auto simp: role_token_def offset_ok_def)
  have "roles_until_404 base parent (role_token i) acc (S, replicate (Suc j) None @ [Some (Refuse 404 body)]) =
      roles_until_404 base parent (role_token (i + 200)) (acc @ map expected_role (window i 200 (tn_roles S)))
        (S, replicate j None @ [Some (Refuse 404 body)])"
    using spaceRoleList_quiet [OF assms(1), where serve = tenant_serve, folded tenant_client_def] page fresh
    by (simp add: roles_until_404_def sync_pages.simps [of _ "role_token i"] ListResources_def list_page_def bindIO_apply Let_def)
  moreover have "window i (Suc j * 200) xs = window i 200 xs @ window (i + 200) (j * 200) xs" for xs :: "SpaceRole list"
    by (simp add: window_def take_add add.commute)
  ultimately show ?case
    using Suc.IH [of "i + 200" "acc @ map expected_role (window i 200 (tn_roles S))"] Suc.prems by simp
qed

text \<open>
  C18. A 404 for any page of the space roles ends the sync without an error: when the pages before it were
  answered, exactly their roles are listed and the roles of this page and of all later ones are
  missing without notice. This is meant for tenants without the endpoint, whose first page is refused,
  but holds in the middle of a listing as well.
\<close>

theorem role_sync_truncated:
  assumes "base_ok base" "tenant_ok S" "j * 200 < length (tn_roles S)"
  shows "\<exists>w'. sync_pages (ListResources ''space_role'' parent
      (\<lambda>t. spaceRoleList (faulty_client base tenant_serve) None \<lparr>tok_Size = 0, tok_Token = t\<rparr>)) [] []
      (S, replicate j None @ [Some (Refuse 404 body)]) =
    Some (Ret (map expected_role (take (j * 200) (tn_roles S)), None), w')"
  using role_pages_until_404 [of base S 0 j parent "[]" body] assms
  by (simp add: roles_until_404_def role_token_def window_def)

section \<open>Examples\<close>

lemma demo_schedule_ok: "schedule_ok P [Some (Lose ''EOF'')]"
  by (simp add: schedule_ok_def)

theorem resource_sync_no_loss_witness:
  "\<exists>r. sync_pages (ListResources ''group'' [] (list_resources (faulty_client demo_base site_serve) Groups)) [] []
      (demo_site, [Some (Lose ''EOF'')]) = r \<and>
    ((\<exists>k. quiet k [Some (Lose ''EOF'')] \<and> r = Some (Ret ([expected_group staff], None), demo_site, drop k [Some (Lose ''EOF'')])) \<or>
     (\<exists>k part e s. \<not> quiet k [Some (Lose ''EOF'')] \<and> prefix part [expected_group staff] \<and>
        r = Some (Ret (part, Some e), s, drop k [Some (Lose ''EOF'')])))"
proof -
  have "list_resources (server_client demo_base site_serve) Groups =
      (\<lambda>t. groupList (site_client demo_base) \<lparr>tok_Size = 0, tok_Token = t\<rparr>)"
    by (simp add: fun_eq_iff site_client_def)
  then have "sync_pages (ListResources ''group'' [] (list_resources (server_client demo_base site_serve) Groups)) [] [] demo_site =
      Some (Ret ([expected_group staff], None), demo_site)"
    using group_pages.all_pages [of demo_site demo_site demo_base] demo_base_ok demo_site_ok
    by (auto simp: ListResources_def)
  from resource_sync_no_loss [OF demo_schedule_ok this] show ?thesis by blast
qed

theorem grant_sync_no_loss_witness:
  "\<exists>gs r. sync_pages (ListGrants \<lparr>rid_ResourceType = ''group'', rid_Resource = ''g1''\<rparr>
      (list_grants (faulty_client demo_base site_serve) (Members (expected_group staff)))) [] []
      (demo_site, [Some (Lose ''EOF'')]) = r \<and>
    ((\<exists>k. quiet k [Some (Lose ''EOF'')] \<and> r = Some (Ret (gs, None), demo_site, drop k [Some (Lose ''EOF'')])) \<or>
     (\<exists>k part e s. \<not> quiet k [Some (Lose ''EOF'')] \<and> prefix part gs \<and>
        r = Some (Ret (part, Some e), s, drop k [Some (Lose ''EOF'')])))"
proof -
  let ?rid = "\<lparr>rid_ResourceType = ''group'', rid_Resource = ''g1''\<rparr>"
  have "list_grants (server_client demo_base site_serve) (Members (expected_group staff)) =
      (\<lambda>t. groupGrants (site_client demo_base) (expected_group staff) \<lparr>tok_Size = 0, tok_Token = t\<rparr>)"
    by (simp add: fun_eq_iff site_client_def)
  then obtain gs where "sync_pages (ListGrants ?rid
      (list_grants (server_client demo_base site_serve) (Members (expected_group staff)))) [] [] demo_site =
      Some (Ret (gs, None), demo_site)"
    using member_pages.all_pages [of demo_site demo_site demo_base staff] demo_base_ok demo_site_ok
    by (auto simp: ListGrants_def demo_site_def)
  from grant_sync_no_loss [OF demo_schedule_ok this] show ?thesis by blast
qed

definition many_roles :: tenant where
  "many_roles = demo_tenant\<lparr>tn_roles := replicate 201 viewer\<rparr>"

lemma many_roles_ok: "tenant_ok many_roles"
  using demo_tenant_ok
  by (simp add: tenant_ok_def many_roles_def demo_tenant_def small_def list_all_iff)

theorem role_sync_truncated_witness:
  "\<exists>w'. sync_pages (ListResources ''space_role'' []
      (\<lambda>t. spaceRoleList (faulty_client demo_base tenant_serve) None \<lparr>tok_Size = 0, tok_Token = t\<rparr>)) [] []
      (many_roles, [None, Some (Refuse 404 ''gone'')]) =
    Some (Ret (replicate 200 (expected_role viewer), None), w') \<and> length (tn_roles many_roles) = 201"
proof -
  have roles: "tn_roles many_roles = replicate 201 viewer" by (simp add: many_roles_def)
  have "1 * 200 < length (tn_roles many_roles)" unfolding roles by simp
  note t = role_sync_truncated [OF demo_base_ok many_roles_ok this, of "[]" "''gone''"]
  have "take (1 * 200) (replicate 201 viewer) = replicate 200 viewer" unfolding take_replicate by simp
  then show ?thesis using t unfolding roles by (simp only: map_replicate length_replicate) simp
qed

end
