(* ===== verification/Config.thy ===== *)
theory Config
  imports Prelude
begin

text \<open>
  The configuration of the connector (\<open>pkg/config/config.go\<close>, \<open>conf.gen.go\<close>): its schema, built with
  the options of \<open>baton-sdk/pkg/field\<close>, the record a run is configured with, and the validation the
  SDK applies to that record before the connector is made. An option may panic while the package is
  initialised, so a field is a Go call. Of the rules a field can carry only \<open>is_required\<close> is set by
  this schema, and it has neither constraints nor field groups.
\<close>

section \<open>Fields and their options\<close>

datatype Variant = StringVariant | BoolVariant | StringSliceVariant

datatype field_value = StringValue string | BoolValue bool | StringSliceValue "string list"

text \<open>A rule set that is present is known by its \<open>is_required\<close>.\<close>

record SchemaField =
  fld_FieldName :: string
  fld_Required :: bool
  fld_DefaultValue :: field_value
  fld_SuggestedValue :: "field_value option"
  fld_Description :: string
  fld_Variant :: Variant
  fld_StringRules :: "bool option"
  fld_RepeatedStringRules :: "bool option"
  fld_Secret :: bool
  fld_DisplayName :: string
  fld_Placeholder :: string

type_synonym field_option = "SchemaField \<Rightarrow> SchemaField go"

definition field_WithRequired :: "bool \<Rightarrow> field_option" where
  "field_WithRequired required f =
     (let f' = f\<lparr>fld_Required := required\<rparr> in
      case fld_Variant f of
        BoolVariant \<Rightarrow>
          if required then Panic (''required cannot be set on bool field: '' @ fld_FieldName f) else Ret f'
      | StringVariant \<Rightarrow> Ret (f'\<lparr>fld_StringRules := Some required\<rparr>)
      | StringSliceVariant \<Rightarrow> Ret (f'\<lparr>fld_RepeatedStringRules := Some required\<rparr>))"

definition field_WithDescription :: "string \<Rightarrow> field_option" where
  "field_WithDescription description f = Ret (f\<lparr>fld_Description := description\<rparr>)"

definition field_WithDisplayName :: "string \<Rightarrow> field_option" where
  "field_WithDisplayName displayName f = Ret (f\<lparr>fld_DisplayName := displayName\<rparr>)"

definition field_WithDefaultValue :: "field_value \<Rightarrow> field_option" where
  "field_WithDefaultValue v f = Ret (f\<lparr>fld_DefaultValue := v\<rparr>)"

definition field_WithSuggestedValue :: "field_value \<Rightarrow> field_option" where
  "field_WithSuggestedValue v f = Ret (f\<lparr>fld_SuggestedValue := Some v\<rparr>)"

definition field_WithIsSecret :: "bool \<Rightarrow> field_option" where
  "field_WithIsSecret v f = Ret (f\<lparr>fld_Secret := v\<rparr>)"

definition field_WithPlaceholder :: "string \<Rightarrow> field_option" where
  "field_WithPlaceholder v f = Ret (f\<lparr>fld_Placeholder := v\<rparr>)"

fun apply_field_options :: "field_option list \<Rightarrow> field_option" where
  "apply_field_options [] f = Ret f"
| "apply_field_options (opt # opts) f =
     (case opt f of Ret f' \<Rightarrow> apply_field_options opts f' | Panic p \<Rightarrow> Panic p)"

definition new_field :: "string \<Rightarrow> Variant \<Rightarrow> field_value \<Rightarrow> SchemaField" where
  "new_field name v def =
     \<lparr>fld_FieldName = name, fld_Required = False, fld_DefaultValue = def, fld_SuggestedValue = None,
      fld_Description = [], fld_Variant = v, fld_StringRules = None, fld_RepeatedStringRules = None,
      fld_Secret = False, fld_DisplayName = [], fld_Placeholder = []\<rparr>"

definition StringField :: "string \<Rightarrow> field_option list \<Rightarrow> SchemaField go" where
  "StringField name opts = apply_field_options opts (new_field name StringVariant (StringValue []))"

definition BoolField :: "string \<Rightarrow> field_option list \<Rightarrow> SchemaField go" where
  "BoolField name opts =
     (case apply_field_options opts (new_field name BoolVariant (BoolValue False)) of
        Ret f \<Rightarrow>
          if fld_Required f
          then Panic (''requiring '' @ fld_FieldName f @ '' of type BoolField does not make sense'')
          else Ret f
      | Panic p \<Rightarrow> Panic p)"

definition StringSliceField :: "string \<Rightarrow> field_option list \<Rightarrow> SchemaField go" where
  "StringSliceField name opts =
     apply_field_options opts (new_field name StringSliceVariant (StringSliceValue []))"

section \<open>The schema\<close>

definition suggestedNouns :: "string list" where
  "suggestedNouns = [''space'']"

definition suggestedVerbs :: "string list" where
  "suggestedVerbs = [''administer'', ''create'', ''delete'', ''export'', ''read'', ''restrict_content'']"

definition apiKeyField :: "SchemaField go" where
  "apiKeyField = StringField ''api-key''
     [field_WithDescription ''The API key for your Confluence account'',
      field_WithDisplayName ''API Key'', field_WithRequired True, field_WithIsSecret True]"

definition domainUrlField :: "SchemaField go" where
  "domainUrlField = StringField ''domain-url''
     [field_WithDescription ''The domain URL for your Confluence account'',
      field_WithDisplayName ''Domain URL'', field_WithPlaceholder ''https://example.atlassian.net'',
      field_WithRequired True]"

definition usernameField :: "SchemaField go" where
  "usernameField = StringField ''username''
     [field_WithDescription ''The username for your Confluence account'',
      field_WithDisplayName ''Username'', field_WithPlaceholder ''user@example.com'',
      field_WithRequired True]"

definition skipPersonalSpacesField :: "SchemaField go" where
  "skipPersonalSpacesField = BoolField ''skip-personal-spaces''
     [field_WithDescription ''Skip syncing personal spaces and their permissions'',
      field_WithDisplayName ''Skip Personal Spaces'', field_WithRequired False]"

definition nounsField :: "SchemaField go" where
  "nounsField = StringSliceField ''noun''
     [field_WithDescription ''The nouns for your Confluence Space sync'',
      field_WithDisplayName ''Nouns'', field_WithSuggestedValue (StringSliceValue suggestedNouns),
      field_WithRequired False]"

definition verbsField :: "SchemaField go" where
  "verbsField = StringSliceField ''verb''
     [field_WithDescription ''The verbs for your Confluence Space sync'',
      field_WithDisplayName ''Verbs'', field_WithSuggestedValue (StringSliceValue suggestedVerbs),
      field_WithRequired False]"

definition useRbacField :: "SchemaField go" where
  "useRbacField = BoolField ''use-rbac''
     [field_WithDescription (''Use Confluence RBAC space roles INSTEAD of granular permissions. '' @
        ''WARNING: This will cause the connector to stop granular permissions (noun x verb) from syncing.''),
      field_WithDisplayName ''Use RBAC'', field_WithDefaultValue (BoolValue False)]"

text \<open>The variables of a package are initialised in order; the first panic ends the program.\<close>

fun go_all :: "'a go list \<Rightarrow> 'a list go" where
  "go_all [] = Ret []"
| "go_all (x # xs) =
     (case x of Panic p \<Rightarrow> Panic p
      | Ret a \<Rightarrow> (case go_all xs of Panic p \<Rightarrow> Panic p | Ret as \<Rightarrow> Ret (a # as)))"

definition ConfigurationFields :: "SchemaField list go" where
  "ConfigurationFields =
     go_all [apiKeyField, domainUrlField, usernameField, skipPersonalSpacesField, nounsField,
             verbsField, useRbacField]"

record field_Configuration =
  conf_Fields :: "SchemaField list"
  conf_DisplayName :: string
  conf_HelpUrl :: string
  conf_IconUrl :: string

definition Configuration :: "field_Configuration go" where
  "Configuration =
     (case ConfigurationFields of
        Panic p \<Rightarrow> Panic p
      | Ret fs \<Rightarrow>
          Ret \<lparr>conf_Fields = fs, conf_DisplayName = ''Confluence'',
               conf_HelpUrl = ''/docs/baton/confluence'',
               conf_IconUrl = ''/static/app-icons/confluence.svg''\<rparr>)"

section \<open>The configuration of a run\<close>

record cfg_Confluence =
  cfg_ApiKey :: string
  cfg_DomainUrl :: string
  cfg_Username :: string
  cfg_SkipPersonalSpaces :: bool
  cfg_Noun :: "string list"
  cfg_Verb :: "string list"
  cfg_UseRbac :: bool

text \<open>The fields of the struct with their \<open>mapstructure\<close> tags, as reflection finds them.\<close>

definition findFieldByTag :: "cfg_Confluence \<Rightarrow> string \<Rightarrow> field_value option" where
  "findFieldByTag c tag = map_of
     [(''api-key'', StringValue (cfg_ApiKey c)),
      (''domain-url'', StringValue (cfg_DomainUrl c)),
      (''username'', StringValue (cfg_Username c)),
      (''skip-personal-spaces'', BoolValue (cfg_SkipPersonalSpaces c)),
      (''noun'', StringSliceValue (cfg_Noun c)),
      (''verb'', StringSliceValue (cfg_Verb c)),
      (''use-rbac'', BoolValue (cfg_UseRbac c))] tag"

definition cfg_GetString :: "cfg_Confluence \<Rightarrow> string \<Rightarrow> string go" where
  "cfg_GetString c fieldName =
     (case findFieldByTag c fieldName of
        None \<Rightarrow> Ret [] | Some (StringValue v) \<Rightarrow> Ret v | Some _ \<Rightarrow> Panic ''wrong type'')"

definition cfg_GetBool :: "cfg_Confluence \<Rightarrow> string \<Rightarrow> bool go" where
  "cfg_GetBool c fieldName =
     (case findFieldByTag c fieldName of
        None \<Rightarrow> Ret False | Some (BoolValue v) \<Rightarrow> Ret v | Some _ \<Rightarrow> Panic ''wrong type'')"

definition cfg_GetStringSlice :: "cfg_Confluence \<Rightarrow> string \<Rightarrow> string list go" where
  "cfg_GetStringSlice c fieldName =
     (case findFieldByTag c fieldName of
        None \<Rightarrow> Ret [] | Some (StringSliceValue v) \<Rightarrow> Ret v | Some _ \<Rightarrow> Panic ''wrong type'')"

text \<open>No field has the type \<open>int\<close> or \<open>map[string]any\<close>: these two getters only know absent fields.\<close>

definition cfg_GetInt :: "cfg_Confluence \<Rightarrow> string \<Rightarrow> goint go" where
  "cfg_GetInt c fieldName =
     (case findFieldByTag c fieldName of None \<Rightarrow> Ret 0 | Some _ \<Rightarrow> Panic ''wrong type'')"

definition cfg_GetStringMap :: "cfg_Confluence \<Rightarrow> string \<Rightarrow> (string \<rightharpoonup> string) go" where
  "cfg_GetStringMap c fieldName =
     (case findFieldByTag c fieldName of None \<Rightarrow> Ret (\<lambda>_. None) | Some _ \<Rightarrow> Panic ''wrong type'')"

section \<open>Validation\<close>

definition zero_value_error :: "string \<Rightarrow> string \<Rightarrow> string" where
  "zero_value_error name type_name =
     ''field '' @ name @ '' of type '' @ type_name @ '' is marked as required but it has a zero-value''"

definition ValidateStringRules :: "bool option \<Rightarrow> string \<Rightarrow> string \<Rightarrow> string option" where
  "ValidateStringRules rules v name =
     (case rules of
        None \<Rightarrow> None
      | Some required \<Rightarrow> if required \<and> v = [] then Some (zero_value_error name ''string'') else None)"

definition ValidateRepeatedStringRules :: "bool option \<Rightarrow> string list \<Rightarrow> string \<Rightarrow> string option" where
  "ValidateRepeatedStringRules rules v name =
     (case rules of
        None \<Rightarrow> None
      | Some required \<Rightarrow> if required \<and> v = [] then Some (zero_value_error name ''[]string'') else None)"

text \<open>\<open>ValidateField\<close> on the value the configuration holds; a bool field has no rules.\<close>

definition validate_field :: "cfg_Confluence \<Rightarrow> SchemaField \<Rightarrow> string option go" where
  "validate_field c f =
     (case fld_Variant f of
        StringVariant \<Rightarrow>
          (case cfg_GetString c (fld_FieldName f) of
             Panic p \<Rightarrow> Panic p
           | Ret v \<Rightarrow> Ret (ValidateStringRules (fld_StringRules f) v (fld_FieldName f)))
      | BoolVariant \<Rightarrow>
          (case cfg_GetBool c (fld_FieldName f) of Panic p \<Rightarrow> Panic p | Ret v \<Rightarrow> Ret None)
      | StringSliceVariant \<Rightarrow>
          (case cfg_GetStringSlice c (fld_FieldName f) of
             Panic p \<Rightarrow> Panic p
           | Ret v \<Rightarrow> Ret (ValidateRepeatedStringRules (fld_RepeatedStringRules f) v (fld_FieldName f))))"

text \<open>\<open>field.Validate\<close>: the errors of all the fields together, or none.\<close>

definition field_Validate :: "field_Configuration \<Rightarrow> cfg_Confluence \<Rightarrow> string list option go" where
  "field_Validate conf c =
     (case go_all (map (validate_field c) (conf_Fields conf)) of
        Panic p \<Rightarrow> Panic p
      | Ret results \<Rightarrow>
          (let errors = concat (map (\<lambda>r. case r of None \<Rightarrow> [] | Some e \<Rightarrow> [e]) results)
           in Ret (if errors = [] then None else Some errors)))"

lemmas field_defs = field_WithRequired_def field_WithDescription_def field_WithDisplayName_def
  field_WithDefaultValue_def field_WithSuggestedValue_def field_WithIsSecret_def
  field_WithPlaceholder_def new_field_def StringField_def BoolField_def StringSliceField_def

lemma fields_built:
  "\<exists>f1 f2 f3 f4 f5 f6 f7. ConfigurationFields = Ret [f1, f2, f3, f4, f5, f6, f7] \<and>
     (\<forall>c. validate_field c f1 = Ret (ValidateStringRules (Some True) (cfg_ApiKey c) ''api-key'') \<and>
          validate_field c f2 = Ret (ValidateStringRules (Some True) (cfg_DomainUrl c) ''domain-url'') \<and>
          validate_field c f3 = Ret (ValidateStringRules (Some True) (cfg_Username c) ''username'') \<and>
          validate_field c f4 = Ret None \<and> validate_field c f5 = Ret None \<and>
          validate_field c f6 = Ret None \<and> validate_field c f7 = Ret None)"
  by (simp add: ConfigurationFields_def apiKeyField_def domainUrlField_def usernameField_def
      skipPersonalSpacesField_def nounsField_def verbsField_def useRbacField_def field_defs
      validate_field_def cfg_GetString_def cfg_GetBool_def cfg_GetStringSlice_def findFieldByTag_def
      ValidateRepeatedStringRules_def)

definition missing_fields :: "cfg_Confluence \<Rightarrow> string list" where
  "missing_fields c =
     map fst (filter (\<lambda>(name, v). v = [])
       [(''api-key'', cfg_ApiKey c), (''domain-url'', cfg_DomainUrl c), (''username'', cfg_Username c)])"

text \<open>
  C31. The configuration schema is built without a panic, and validating any configuration against it
  yields no error exactly when the API key, the domain URL and the username are all non-empty;
  otherwise it yields one error for each of them that is empty, in the order of the schema, and
  nothing for the optional fields.
\<close>

theorem Configuration_requires:
  "\<exists>conf. Configuration = Ret conf \<and> (\<forall>c. field_Validate conf c =
     Ret (if missing_fields c = [] then None
          else Some (map (\<lambda>name. zero_value_error name ''string'') (missing_fields c))))"
proof -
  obtain f1 f2 f3 f4 f5 f6 f7 where built: "ConfigurationFields = Ret [f1, f2, f3, f4, f5, f6, f7]"
    and validated: "\<And>c. validate_field c f1 = Ret (ValidateStringRules (Some True) (cfg_ApiKey c) ''api-key'')"
    "\<And>c. validate_field c f2 = Ret (ValidateStringRules (Some True) (cfg_DomainUrl c) ''domain-url'')"
    "\<And>c. validate_field c f3 = Ret (ValidateStringRules (Some True) (cfg_Username c) ''username'')"
    "\<And>c. validate_field c f4 = Ret None" "\<And>c. validate_field c f5 = Ret None"
    "\<And>c. validate_field c f6 = Ret None" "\<And>c. validate_field c f7 = Ret None"
    using fields_built by blast
  have "field_Validate \<lparr>conf_Fields = [f1, f2, f3, f4, f5, f6, f7], conf_DisplayName = n,
       conf_HelpUrl = h, conf_IconUrl = i\<rparr> c =
     Ret (if missing_fields c = [] then None
          else Some (map (\<lambda>name. zero_value_error name ''string'') (missing_fields c)))" for n h i c
    by (simp add: field_Validate_def validated ValidateStringRules_def missing_fields_def Let_def)
  then show ?thesis by (simp add: Configuration_def built)
qed

end
