(* ===== verification/Connector.thy ===== *)
theory Connector
  imports Config Group User Spaces SpaceRoles SpaceRoleAssignments
begin

text \<open>
  The connector itself (\<open>pkg/connector/connector.go\<close>), the function that builds it from the
  configuration of the command (\<open>cmd/baton-confluence/main.go\<close>), and the five builders as one state
  machine whose operations obey the contract of a lister.
\<close>

section \<open>Filtering the configured nouns and verbs\<close>

definition defaultNouns :: "string list" where
  "defaultNouns = [''attachment'', ''blogpost'', ''comment'', ''page'', resourceTypeSpaceID]"

definition defaultVerbs :: "string list" where
  "defaultVerbs = [''administer'', ''archive'', ''create'', ''delete'', ''export'', ''read'',
     ''restrict_content'', ''update'']"

definition filterArgs :: "string list \<Rightarrow> string list \<Rightarrow> go_error + string list" where
  "filterArgs args defaults =
     (if card (set args) = 0 then Inr defaults
      else case find (\<lambda>arg. arg \<notin> set defaults) args of
        Some arg \<Rightarrow> Inl (ErrText (''invalid input: '' @ arg))
      | None \<Rightarrow>
          (let validArgs = filter (\<lambda>arg. arg \<in> set args) defaults
           in if validArgs = [] then Inl (ErrText ''missing valid args'') else Inr validArgs))"

section \<open>The connector\<close>

record 'w Confluence =
  con_client :: "'w ConfluenceClient"
  con_domain :: string
  con_apiKey :: string
  con_userName :: string
  con_skipPersonalSpaces :: bool
  con_useRbac :: bool
  con_nouns :: "string list"
  con_verbs :: "string list"

definition New :: "go_error + 'w BaseHttpClient \<Rightarrow> string \<Rightarrow> string \<Rightarrow> string \<Rightarrow> bool \<Rightarrow> bool \<Rightarrow>
    string list \<Rightarrow> string list \<Rightarrow> go_error + 'w Confluence" where
  "New httpClient apiKey domainUrl username skipPersonalSpaces useRbac nouns verbs =
     (case NewConfluenceClient httpClient username apiKey domainUrl of
        Inl e \<Rightarrow> Inl e
      | Inr client \<Rightarrow>
     (case filterArgs nouns defaultNouns of
        Inl e \<Rightarrow> Inl e
      | Inr filteredNouns \<Rightarrow>
     (case filterArgs verbs defaultVerbs of
        Inl e \<Rightarrow> Inl e
      | Inr filteredVerbs \<Rightarrow>
          Inr \<lparr>con_client = client, con_domain = domainUrl, con_apiKey = apiKey,
               con_userName = username, con_skipPersonalSpaces = skipPersonalSpaces,
               con_useRbac = useRbac, con_nouns = filteredNouns, con_verbs = filteredVerbs\<rparr>)))"

record ConnectorMetadata =
  md_DisplayName :: string
  md_Description :: string
  md_Annotations :: "annotation list"

definition Metadata :: "'w Confluence \<Rightarrow> ConnectorMetadata" where
  "Metadata c =
     \<lparr>md_DisplayName = ''Confluence'',
      md_Description = ''Connector syncing Confluence users and groups to Baton'',
      md_Annotations = annos_Update (AnyExternalLink (con_domain c)) []\<rparr>"

definition Validate :: "'w Confluence \<Rightarrow> ('w, annotation list \<times> go_error option) io" where
  "Validate c =
     bindIO (if con_useRbac c then VerifyRbac (con_client c) else Verify (con_client c))
       (\<lambda>err. case err of
          Some e \<Rightarrow> ret ([], Some (ErrWrap ''confluence-connector: failed to validate API keys'' e))
        | None \<Rightarrow> ret ([], None))"

text \<open>\<open>Asset\<close>: no path, no reader, no error.\<close>

definition Asset :: "string \<times> unit option \<times> go_error option" where "Asset = ([], None, None)"

text \<open>The builders, in the order of \<open>ResourceSyncers\<close>, with the state each starts from.\<close>

datatype 'w syncer =
  GroupBuilder "'w ConfluenceClient"
| UserBuilder "'w ConfluenceClient"
| SpaceBuilder "'w spaceBuilder"
| SpaceRoleBuilder "'w ConfluenceClient"
| SpaceRoleAssignmentBuilder "'w ConfluenceClient" role_names

definition groupBuilder :: "'w ConfluenceClient \<Rightarrow> 'w syncer" where
  "groupBuilder c = GroupBuilder c"

definition userBuilder :: "'w ConfluenceClient \<Rightarrow> 'w syncer" where
  "userBuilder c = UserBuilder c"

definition newSpaceRoleBuilder :: "'w ConfluenceClient \<Rightarrow> 'w syncer" where
  "newSpaceRoleBuilder c = SpaceRoleBuilder c"

text \<open>The cache of role names starts empty.\<close>

definition newSpaceRoleAssignmentBuilder :: "'w ConfluenceClient \<Rightarrow> 'w syncer" where
  "newSpaceRoleAssignmentBuilder c = SpaceRoleAssignmentBuilder c []"

definition ResourceSyncers :: "'w Confluence \<Rightarrow> 'w syncer list" where
  "ResourceSyncers c =
     [groupBuilder (con_client c),
      userBuilder (con_client c),
      SpaceBuilder (newSpaceBuilder (con_client c) (con_skipPersonalSpaces c) (con_useRbac c)
                      (con_nouns c) (con_verbs c)),
      newSpaceRoleBuilder (con_client c),
      newSpaceRoleAssignmentBuilder (con_client c)]"

fun syncer_type :: "'w syncer \<Rightarrow> ResourceType" where
  "syncer_type (GroupBuilder _) = resourceTypeGroup"
| "syncer_type (UserBuilder _) = resourceTypeUser"
| "syncer_type (SpaceBuilder _) = spaceResourceType"
| "syncer_type (SpaceRoleBuilder _) = spaceRoleResourceType"
| "syncer_type (SpaceRoleAssignmentBuilder _ _) = spaceRoleAssignmentResourceType"

section \<open>The command\<close>

text \<open>\<open>cli.ConnectorOpts\<close>: an empty list means no filter.\<close>

definition SyncFilterIsExplicit :: "string list \<Rightarrow> bool" where
  "SyncFilterIsExplicit ids \<longleftrightarrow> length ids > 0"

definition WillSyncResourceType :: "string list \<Rightarrow> string \<Rightarrow> bool" where
  "WillSyncResourceType ids resourceTypeID \<longleftrightarrow>
     (if \<not> SyncFilterIsExplicit ids then True else resourceTypeID \<in> set ids)"

definition rbac_required :: go_error where
  "rbac_required = ErrStatus InvalidArgument
     (''confluence-connector: use-rbac must be enabled when syncing '' @ SpaceRoleResourceTypeID @
      '' or '' @ SpaceRoleAssignmentResourceTypeID @ '' resource types'')"

definition getConnector :: "go_error + 'w BaseHttpClient \<Rightarrow> cfg_Confluence \<Rightarrow> string list \<Rightarrow>
    go_error + 'w Confluence" where
  "getConnector httpClient cc syncResourceTypeIDs =
     (if SyncFilterIsExplicit syncResourceTypeIDs \<and>
         (WillSyncResourceType syncResourceTypeIDs SpaceRoleResourceTypeID \<or>
          WillSyncResourceType syncResourceTypeIDs SpaceRoleAssignmentResourceTypeID) \<and>
         \<not> cfg_UseRbac cc
      then Inl rbac_required
      else New httpClient (cfg_ApiKey cc) (cfg_DomainUrl cc) (cfg_Username cc)
             (cfg_SkipPersonalSpaces cc) (cfg_UseRbac cc) (cfg_Noun cc) (cfg_Verb cc))"

text \<open>
  C35. filterArgs, which goes through sets and two loops, is the specification: no arguments give the
  defaults; arguments that are all defaults give those defaults in the order of the defaults, each
  once; otherwise the error names the first unknown argument. The error for an empty result is never
  produced.
\<close>

theorem filterArgs_outcome:
  "filterArgs args defaults =
     (if args = [] then Inr defaults
      else if set args \<subseteq> set defaults then Inr (filter (\<lambda>d. d \<in> set args) defaults)
      else Inl (ErrText (''invalid input: '' @ hd (filter (\<lambda>a. a \<notin> set defaults) args))))"
proof -
  have "card (set args) = 0 \<longleftrightarrow> args = []" by simp
  moreover have "find P xs = (if filter P xs = [] then None else Some (hd (filter P xs)))" for P and xs :: "string list"
    by (induction xs) auto
  moreover have "filter (\<lambda>a. a \<notin> set defaults) args = [] \<longleftrightarrow> set args \<subseteq> set defaults"
    by (auto simp: filter_empty_conv)
  moreover have "filter (\<lambda>d. d \<in> set args) defaults \<noteq> []" if "args \<noteq> []" "set args \<subseteq> set defaults"
    using that by (cases args) (auto simp: filter_empty_conv)
  ultimately show ?thesis by (simp add: filterArgs_def Let_def)
qed

text \<open>What the configuration form suggests is accepted.\<close>

lemma suggested_names:
  "filterArgs suggestedNouns defaultNouns = Inr suggestedNouns"
  "filterArgs suggestedVerbs defaultVerbs = Inr suggestedVerbs"
  by (simp_all add: filterArgs_def suggestedNouns_def suggestedVerbs_def defaultNouns_def
      defaultVerbs_def resourceTypeSpaceID_def Let_def)

lemma Validate_accepts:
  "Validate con w = (Ret (annos, None), w') \<longleftrightarrow>
     annos = [] \<and> (if con_useRbac con then VerifyRbac (con_client con) w = (Ret None, w')
                    else Verify (con_client con) w = (Ret None, w'))"
  by (auto simp: Validate_def bindIO_def split: go.splits prod.splits option.splits if_splits)

lemma New_Inr:
  "New h key domain user skip rbac nouns verbs = Inr con \<longleftrightarrow>
     (\<exists>client ns vs. NewConfluenceClient h user key domain = Inr client \<and>
        filterArgs nouns defaultNouns = Inr ns \<and> filterArgs verbs defaultVerbs = Inr vs \<and>
        con = \<lparr>con_client = client, con_domain = domain, con_apiKey = key, con_userName = user,
               con_skipPersonalSpaces = skip, con_useRbac = rbac, con_nouns = ns, con_verbs = vs\<rparr>)"
  by (auto simp: New_def split: sum.splits)

lemma filterArgs_Inr:
  assumes "filterArgs args defaults = Inr vs" "defaults \<noteq> []" "distinct defaults"
  shows "vs \<noteq> [] \<and> set vs \<subseteq> set defaults \<and> distinct vs"
  using assms by (auto simp: filterArgs_def Let_def split: option.splits if_splits)

lemma default_lists: "defaultNouns \<noteq> []" "distinct defaultNouns" "defaultVerbs \<noteq> []" "distinct defaultVerbs"
  by (simp_all add: defaultNouns_def defaultVerbs_def resourceTypeSpaceID_def)

text \<open>
  C34. A connector created for a plain domain name has a client with the given credentials on the https
  base URL of that domain, and noun and verb lists that are not empty, without repetition, and drawn
  from the defaults.
\<close>

theorem New_connector:
  assumes "New (Inr http) key domain user skip rbac nouns verbs = Inr con" "plain_domain domain"
  shows "con_client con = \<lparr>client_user = user, client_apiKey = key, client_apiBase = https_base domain,
           client_wrapper = http\<rparr> \<and> base_ok (https_base domain) \<and>
    con_nouns con \<noteq> [] \<and> set (con_nouns con) \<subseteq> set defaultNouns \<and> distinct (con_nouns con) \<and>
    con_verbs con \<noteq> [] \<and> set (con_verbs con) \<subseteq> set defaultVerbs \<and> distinct (con_verbs con)"
  using assms(1) fallBackToHTTPS_plain [OF assms(2)] default_lists
    filterArgs_Inr [of nouns defaultNouns] filterArgs_Inr [of verbs defaultVerbs]
  by (auto simp: New_Inr NewConfluenceClient_def)

text \<open>
  C33. When space roles or role assignments are among the resource types selected for a sync, a connector
  is only created if RBAC is configured, and it is created in RBAC mode.
\<close>

theorem getConnector_rbac:
  assumes "getConnector h cc ids = Inr con"
    and "SpaceRoleResourceTypeID \<in> set ids \<or> SpaceRoleAssignmentResourceTypeID \<in> set ids"
  shows "con_useRbac con \<and> cfg_UseRbac cc"
  using assms
  by (auto simp: getConnector_def New_Inr SyncFilterIsExplicit_def WillSyncResourceType_def
      split: if_splits)

text \<open>
  C32. For every verb and noun a connector can be configured with, splitting the entitlement name made from
  them gives back that verb and noun, so Grant and Revoke address the operation the entitlement was
  made for.
\<close>

theorem configured_names_roundtrip:
  assumes "New h key domain user skip rbac nouns verbs = Inr con" "verb \<in> set (con_verbs con)" "noun \<in> set (con_nouns con)"
  shows "GetEntitlementComponents (createEntitlementName verb noun) = ret (verb, noun)"
proof -
  have "verb \<in> set defaultVerbs" "noun \<in> set defaultNouns"
    using assms default_lists filterArgs_Inr [of nouns defaultNouns] filterArgs_Inr [of verbs defaultVerbs]
    by (auto simp: New_Inr)
  then have "CHR ''-'' \<notin> set verb" "CHR ''-'' \<notin> set noun"
    by (auto simp: defaultVerbs_def defaultNouns_def resourceTypeSpaceID_def)
  then show ?thesis by (simp add: entitlement_name_roundtrip split_str_no_sep)
qed

section \<open>The operations of a builder\<close>

text \<open>\<open>ResourceSyncerV2.List\<close> of each builder, with the builder's state after the call.\<close>

fun syncer_List :: "'w syncer \<Rightarrow> ResourceId option \<Rightarrow> Token \<Rightarrow>
    ('w, (Resource list \<times> SyncOpResults option \<times> go_error option) \<times> 'w syncer) io" where
  "syncer_List (GroupBuilder c) parent t = bindIO (groupList c t) (\<lambda>r. ret (r, GroupBuilder c))"
| "syncer_List (UserBuilder c) parent t = bindIO (userList c t) (\<lambda>r. ret (r, UserBuilder c))"
| "syncer_List (SpaceBuilder b) parent t = bindIO (spaceList b t) (\<lambda>r. ret (r, SpaceBuilder b))"
| "syncer_List (SpaceRoleBuilder c) parent t =
     bindIO (spaceRoleList c parent t) (\<lambda>r. ret (r, SpaceRoleBuilder c))"
| "syncer_List (SpaceRoleAssignmentBuilder c names) parent t =
     bindIO (assignmentList c names parent t)
       (\<lambda>(r, names'). ret (r, SpaceRoleAssignmentBuilder c names'))"

fun syncer_Entitlements :: "'w syncer \<Rightarrow> Resource \<Rightarrow>
    Entitlement list \<times> SyncOpResults option \<times> go_error option" where
  "syncer_Entitlements (GroupBuilder _) res = groupEntitlements res"
| "syncer_Entitlements (UserBuilder _) res = userEntitlements res"
| "syncer_Entitlements (SpaceBuilder b) res = spaceEntitlements b res"
| "syncer_Entitlements (SpaceRoleBuilder _) res = spaceRoleEntitlements res"
| "syncer_Entitlements (SpaceRoleAssignmentBuilder _ _) res = assignmentEntitlements res"

fun syncer_Grants :: "'w syncer \<Rightarrow> Resource \<Rightarrow> Token \<Rightarrow> ('w, Grant) page_call" where
  "syncer_Grants (GroupBuilder c) res t = groupGrants c res t"
| "syncer_Grants (UserBuilder _) res t = ret (userGrants res)"
| "syncer_Grants (SpaceBuilder b) res t = spaceGrants b res t"
| "syncer_Grants (SpaceRoleBuilder _) res t = ret (spaceRoleGrants res)"
| "syncer_Grants (SpaceRoleAssignmentBuilder c _) res t = assignmentGrants c res t"

text \<open>A builder is one state machine: its world is the outside world and its own state.\<close>

definition syncer_step :: "ResourceId option \<Rightarrow> goint \<Rightarrow> ('w \<times> 'w syncer, Resource) lister_op" where
  "syncer_step parent n t ws =
     (case syncer_List (snd ws) parent \<lparr>tok_Size = n, tok_Token = t\<rparr> (fst ws) of
        (Ret (r, s'), w') \<Rightarrow> (Ret r, (w', s'))
      | (Panic p, w') \<Rightarrow> (Panic p, (w', snd ws)))"

lemma assignmentList_error:
  "assignmentList c names parent t w = (Ret ((rs, res, Some e), names'), w') \<Longrightarrow> rs = [] \<and> token_of res = []"
  by (auto simp: assignmentList_def bindIO_def Let_def
      split: go.splits prod.splits option.splits sum.splits if_splits)

interpretation syncers: lister "syncer_step parent n" for parent n
proof
  fix t and ws :: "'a \<times> 'a syncer" and rs res e ws'
  assume step: "syncer_step parent n t ws = (Ret (rs, res, Some e), ws')"
  let ?t = "\<lparr>tok_Size = n, tok_Token = t\<rparr>"
  obtain s' where run: "syncer_List (snd ws) parent ?t (fst ws) = (Ret ((rs, res, Some e), s'), fst ws')"
    using step by (auto simp: syncer_step_def split: go.splits prod.splits)
  show "rs = [] \<and> token_of res = []"
  proof (cases "snd ws")
    case (SpaceBuilder b)
    then show ?thesis
      using run by (auto simp: bindIO_def dest: space_lister.error_page split: go.splits prod.splits)
  next
    case (SpaceRoleAssignmentBuilder c names)
    then show ?thesis
      using run by (auto simp: bindIO_def dest: assignmentList_error split: go.splits prod.splits)
  qed (use run in \<open>auto simp: bindIO_def dest: group_lister.error_page user_lister.error_page
         role_lister.error_page split: go.splits prod.splits\<close>)
qed

definition of_type :: "string \<Rightarrow> Resource \<Rightarrow> bool" where
  "of_type ty r \<longleftrightarrow> (\<exists>rid. res_Id r = Some rid \<and> rid_ResourceType rid = ty)"

lemma apply_options_Id:
  "apply_resource_options opts r = Inr r' \<Longrightarrow>
   (\<And>opt a b. opt \<in> set opts \<Longrightarrow> opt a = Inr b \<Longrightarrow> res_Id b = res_Id a) \<Longrightarrow> res_Id r' = res_Id r"
proof (induction opts arbitrary: r)
  case (Cons opt opts)
  obtain r1 where r1: "opt r = Inr r1" "apply_resource_options opts r1 = Inr r'"
    using Cons.prems(1) by (auto split: sum.splits)
  have "res_Id r' = res_Id r1" by (rule Cons.IH [OF r1(2)]) (use Cons.prems(2) in auto)
  then show ?case using Cons.prems(2) [of opt r r1] r1(1) by simp
qed simp

lemma resource_types:
  "groupResource g = Inr r \<Longrightarrow> of_type ''group'' r"
  "userResource u = Inr r \<Longrightarrow> of_type ''user'' r"
  "spaceResource s rb = Inr r \<Longrightarrow> of_type ''space'' r"
  "spaceRoleResource ro = Inr r \<Longrightarrow> of_type ''space_role'' r"
  "spaceRoleAssignmentResource i sid rn sn = Inr r \<Longrightarrow> of_type ''space_role_assignment'' r"
  by (auto simp: of_type_def groupResource_def NewGroupResource_def NewResource_def WithResourceProfile_def
      WithGroupTrait_def userResource_eq expected_user_def spaceResource_Inr expected_space_def
      spaceRoleResource_def NewRoleResource_def WithDescription_def WithRoleTrait_def
      spaceRoleAssignmentResource_Inr split: sum.splits if_splits)


lemma listed_type:
  "groupList c t w = (Ret (rs, res, err), w') \<Longrightarrow> list_all (of_type ''group'') rs"
  "userList c t w = (Ret (rs, res, err), w') \<Longrightarrow> list_all (of_type ''user'') rs"
  "spaceList b t w = (Ret (rs, res, err), w') \<Longrightarrow> list_all (of_type ''space'') rs"
  "spaceRoleList c parent t w = (Ret (rs, res, err), w') \<Longrightarrow> list_all (of_type ''space_role'') rs"
  "assignmentList c names parent t w = (Ret ((rs, res, err), names'), w') \<Longrightarrow>
     list_all (of_type ''space_role_assignment'') rs"
proof -
  have user: "userResources us = Inr rs \<Longrightarrow> list_all (of_type ''user'') rs" for us rs
    unfolding userResources_def by (erule try_map_all) (rule resource_types)
  show "groupList c t w = (Ret (rs, res, err), w') \<Longrightarrow> list_all (of_type ''group'') rs"
    by (auto simp: groupList_def bindIO_def Let_def split: go.splits prod.splits option.splits sum.splits
        elim!: try_map_all intro: resource_types)
  show "userList c t w = (Ret (rs, res, err), w') \<Longrightarrow> list_all (of_type ''user'') rs"
    by (auto simp: userList_def userList_search_def userList_groups_def userList_members_def user_page_def
        bindIO_def deref_def Let_def user
        split: go.splits prod.splits option.splits sum.splits if_splits)
  show "spaceList b t w = (Ret (rs, res, err), w') \<Longrightarrow> list_all (of_type ''space'') rs"
    by (auto simp: spaceList_def bindIO_def Let_def split: go.splits prod.splits option.splits sum.splits
        elim!: try_map_all intro: resource_types)
  show "spaceRoleList c parent t w = (Ret (rs, res, err), w') \<Longrightarrow> list_all (of_type ''space_role'') rs"
    by (auto simp: spaceRoleList_def bindIO_def Let_def split: go.splits prod.splits option.splits sum.splits if_splits
        elim!: try_map_all intro: resource_types)
  show "assignmentList c names parent t w = (Ret ((rs, res, err), names'), w') \<Longrightarrow>
      list_all (of_type ''space_role_assignment'') rs"
    by (auto simp: assignmentList_def bindIO_def Let_def split: go.splits prod.splits option.splits sum.splits if_splits
        elim!: try_map_all intro: resource_types)
qed

lemma syncer_listed:
  assumes "syncer_List s parent t w = (Ret ((rs, res, err), s'), w')"
  shows "list_all (of_type (rt_Id (syncer_type s))) rs \<and> syncer_type s' = syncer_type s"
  using assms
  by (cases s) (auto simp: bindIO_def dest: listed_type split: go.splits prod.splits)

lemma syncer_types_distinct:
  "map (rt_Id \<circ> syncer_type) (ResourceSyncers con) =
     [''group'', ''user'', ''space'', ''space_role'', ''space_role_assignment'']"
  by (simp add: ResourceSyncers_def groupBuilder_def userBuilder_def newSpaceRoleBuilder_def
      newSpaceRoleAssignmentBuilder_def)

definition demo_http :: "http_request list BaseHttpClient" where
  "demo_http = canned_http (\<lambda>_. (200, ''{}''))"

definition demo_config :: cfg_Confluence where
  "demo_config = \<lparr>cfg_ApiKey = ''key'', cfg_DomainUrl = ''acme.atlassian.net'', cfg_Username = ''user'',
     cfg_SkipPersonalSpaces = False, cfg_Noun = [], cfg_Verb = [''read''], cfg_UseRbac = True\<rparr>"

lemma demo_domain: "plain_domain ''acme.atlassian.net''"
  by (simp add: plain_domain_def host_char_def is_alnum_def is_lower_def)

definition demo_connector :: "http_request list Confluence" where
  "demo_connector =
     \<lparr>con_client = \<lparr>client_user = ''user'', client_apiKey = ''key'',
        client_apiBase = https_base ''acme.atlassian.net'', client_wrapper = demo_http\<rparr>,
      con_domain = ''acme.atlassian.net'', con_apiKey = ''key'', con_userName = ''user'',
      con_skipPersonalSpaces = False, con_useRbac = True, con_nouns = defaultNouns, con_verbs = [''read'']\<rparr>"

lemma demo_New:
  "New (Inr demo_http) ''key'' ''acme.atlassian.net'' ''user'' False True [] [''read''] = Inr demo_connector"
  using fallBackToHTTPS_plain [OF demo_domain]
  by (simp add: New_def NewConfluenceClient_def filterArgs_def defaultVerbs_def demo_connector_def Let_def)

lemma demo_getConnector:
  "getConnector (Inr demo_http) demo_config [SpaceRoleResourceTypeID] = Inr demo_connector"
  using demo_New by (simp add: getConnector_def demo_config_def)

theorem New_connector_witness:
  "con_nouns demo_connector \<noteq> [] \<and> set (con_verbs demo_connector) \<subseteq> set defaultVerbs \<and>
   base_ok (client_apiBase (con_client demo_connector))"
  using New_connector [OF demo_New demo_domain] by (simp add: demo_connector_def)

theorem getConnector_rbac_witness: "con_useRbac demo_connector"
  using getConnector_rbac [OF demo_getConnector] by simp

theorem configured_names_roundtrip_witness:
  "GetEntitlementComponents (createEntitlementName ''read'' ''blogpost'') = ret (''read'', ''blogpost'')"
  by (rule configured_names_roundtrip [OF demo_New]) (simp_all add: demo_connector_def defaultNouns_def)

end
