(* ===== verification/AssignmentSync.thy ===== *)
theory AssignmentSync
  imports SpaceSync Connector
begin

text \<open>
  A complete sync of the role assignments of a space against the reference tenant: the builder keeps
  role names between the calls and carries the name of the space in its page token.
\<close>

section \<open>Names\<close>

definition role_label :: "SpaceRole list \<Rightarrow> string \<Rightarrow> string" where
  "role_label roles i =
     (case find (\<lambda>r. role_Id r = i) (rev roles) of
        Some r \<Rightarrow> if role_Name r = [] then i else role_Name r
      | None \<Rightarrow> i)"

definition tenant_names :: "tenant \<Rightarrow> role_names" where
  "tenant_names S = fold (\<lambda>r. AList.update (role_Id r) (role_Name r)) (window 0 200 (tn_roles S)) []"

lemma role_name_tenant: "role_name (tenant_names S) i = role_label (take 200 (tn_roles S)) i"
  by (simp add: role_name_def tenant_names_def map_of_role_names role_label_def window_def split: option.split)

lemma loadRoleNames_tenant:
  assumes "base_ok base" "tenant_ok S" "names \<in> {[], tenant_names S}"
  shows "loadRoleNames (tenant_client base) names S = (Ret (tenant_names S, None), S)"
  using GetSpaceRoles_tenant [where cursor = "[]" and n = 200, OF assms(1,2)] assms(3)
  by (auto simp: loadRoleNames_def ResourcesPageSize_def bindIO_apply tenant_names_def)

lemma space_display_tenant:
  assumes "base_ok base" "tenant_ok S" "list_all id_char i" "find (\<lambda>s. sp_Id s = i) (tn_spaces S) = Some s"
    and "cached \<in> {[], sp_Name s}"
  shows "space_display_name (tenant_client base) i cached S = (Ret (sp_Name s), S)"
  using GetSpaceById_tenant [OF assms(1-4)] assms(5)
  by (auto simp: space_display_name_def bindIO_apply)

section \<open>The listing\<close>

definition expected_binding :: "ResourceId \<Rightarrow> string \<Rightarrow> string \<Rightarrow> string \<Rightarrow> Resource" where
  "expected_binding sid spaceName roleName roleId =
     \<lparr>res_Id = Some \<lparr>rid_ResourceType = ''space_role_assignment'', rid_Resource = rid_Resource sid @ '':'' @ roleId\<rparr>,
      res_ParentResourceId = Some sid, res_DisplayName = roleName @ '' on '' @ spaceName,
      res_Annotations = [AnyScopeBindingTrait
        \<lparr>sbt_RoleId = Some \<lparr>rid_ResourceType = ''space_role'', rid_Resource = roleId\<rparr>,
         sbt_ScopeResourceId = Some sid\<rparr>],
      res_Description = [], res_Profile = None, res_Status = None\<rparr>"

lemma spaceRoleAssignmentResource_expected:
  "spaceRoleAssignmentResource roleId sid roleName spaceName = Inr (expected_binding sid spaceName roleName roleId)"
  by (simp add: spaceRoleAssignmentResource_Inr expected_binding_def)

definition listed_binding :: "tenant \<Rightarrow> ConfluenceSpace \<Rightarrow> string \<Rightarrow> Resource" where
  "listed_binding S s roleId =
     expected_binding \<lparr>rid_ResourceType = ''space'', rid_Resource = sp_Id s\<rparr> (sp_Name s)
       (role_label (take 200 (tn_roles S)) roleId) roleId"

definition listed_bindings :: "tenant \<Rightarrow> ConfluenceSpace \<Rightarrow> SpaceRoleAssignment list \<Rightarrow> Resource list" where
  "listed_bindings S s as = map (listed_binding S s) (unseen [] as)"

lemma set_listed_bindings: "set (listed_bindings S s as) = (\<lambda>a. listed_binding S s (sra_RoleId a)) ` set as"
  using unseen_props [of "[]" as] by (auto simp: listed_bindings_def image_image)

lemma assignmentList_tenant:
  assumes "base_ok base" "tenant_ok S" "space_at S s" "names \<in> {[], tenant_names S}"
    and "decode_page_token t = \<lparr>pt_Cursor = cur, pt_SpaceName = n\<rparr>" "n \<in> {[], sp_Name s}"
  defines "i \<equiv> offset cur" and "xs \<equiv> tn_assignments S (sp_Id s)"
  shows "\<exists>res. assignmentList (tenant_client base) names (Some \<lparr>rid_ResourceType = ''space'', rid_Resource = sp_Id s\<rparr>)
      \<lparr>tok_Size = 0, tok_Token = t\<rparr> S =
      (Ret ((listed_bindings S s (window i 200 xs), res, None), tenant_names S), S) \<and>
    token_of res = encode_page_token (next_cursor i 200 xs) (sp_Name s)"
proof -
  have all: "filter (assignment_selected [] [] []) xs = xs"
    by (simp add: assignment_selected_def)
  have get: "GetSpaceRoleAssignments (tenant_client base) (sp_Id s) [] [] [] cur 200 S =
      (Ret (window i 200 xs, next_cursor i 200 xs, Some no_limits, None), S)"
    using GetSpaceRoleAssignments_tenant [OF assms(1), of S "sp_Id s" "[]" "[]" "[]" cur 200] assms(2,3) all
    by (simp add: tenant_ok_def space_at_def i_def xs_def)
  have name: "space_display_name (tenant_client base) (sp_Id s) n S = (Ret (sp_Name s), S)"
    using space_display_tenant [OF assms(1,2), of "sp_Id s" s n] assms(3,6) by (simp add: space_at_def)
  have "try_map (\<lambda>roleId. spaceRoleAssignmentResource roleId \<lparr>rid_ResourceType = ''space'', rid_Resource = sp_Id s\<rparr>
      (role_name (tenant_names S) roleId) (sp_Name s)) is = Inr (map (listed_binding S s) is)" for "is"
    by (induction "is") (simp_all add: spaceRoleAssignmentResource_expected role_name_tenant listed_binding_def)
  then show ?thesis
    using get name loadRoleNames_tenant [OF assms(1,2,4)] assms(5)
    by (simp add: assignmentList_def resource_type_defs ResourcesPageSize_def bindIO_apply Let_def listed_bindings_def)
qed

section \<open>The pages\<close>

text \<open>A token for the next page holds the offset and the name of the space.\<close>

definition binding_token :: "string \<Rightarrow> nat \<Rightarrow> string" where
  "binding_token name i = encode_page_token (cursor_token i) (if valid_utf8 name then name else [])"

definition binding_offset :: "string \<Rightarrow> nat option" where
  "binding_offset t = Some (offset (pt_Cursor (decode_page_token t)))"

lemma cursor_token_nonempty: "cursor_token i \<noteq> []" "valid_utf8 (cursor_token i)"
  by (simp_all add: cursor_token_def valid_utf8_ascii itoa_ascii)

lemma decode_binding_token:
  "decode_page_token (binding_token name i) = \<lparr>pt_Cursor = cursor_token i, pt_SpaceName = if valid_utf8 name then name else []\<rparr>"
  "binding_token name i \<noteq> []"
  unfolding binding_token_def
  by (rule decode_encode_page_token; simp add: cursor_token_nonempty)+

interpretation binding_tokens: page_codec "binding_token name" binding_offset offset_ok for name
  by unfold_locales (simp_all add: binding_offset_def decode_binding_token offset_ok_def offset_cursor)

definition binding_builder :: "url \<Rightarrow> role_names \<Rightarrow> tenant syncer" where
  "binding_builder base = SpaceRoleAssignmentBuilder (tenant_client base)"

definition binding_step :: "ConfluenceSpace \<Rightarrow> (tenant \<times> tenant syncer, Resource) lister_op" where
  "binding_step s = syncer_step (Some \<lparr>rid_ResourceType = ''space'', rid_Resource = sp_Id s\<rparr>) 0"

lemma binding_step_tenant:
  assumes "base_ok base" "tenant_ok S" "space_at S s" "names \<in> {[], tenant_names S}"
    and "decode_page_token t = \<lparr>pt_Cursor = cur, pt_SpaceName = n\<rparr>" "n \<in> {[], sp_Name s}"
  defines "i \<equiv> offset cur" and "xs \<equiv> tn_assignments S (sp_Id s)"
  shows "\<exists>res. binding_step s t (S, binding_builder base names) =
      (Ret (listed_bindings S s (window i 200 xs), res, None), S, binding_builder base (tenant_names S)) \<and>
    token_of res = (if i + 200 < length xs then binding_token (sp_Name s) (i + 200) else [])"
proof -
  have "valid_utf8 (sp_Name s)"
    using found_space_valid [OF assms(2)] assms(3) by (auto simp: space_at_def space_valid_def)
  then show ?thesis
    using assignmentList_tenant [OF assms(1-6)]
    by (auto simp: binding_step_def syncer_step_def binding_builder_def bindIO_apply i_def xs_def next_cursor_def
        binding_token_def encode_page_token_def)
qed

interpretation binding_pages: page_series "binding_token (sp_Name s)" binding_offset 200 "binding_step s"
  "tn_assignments S (sp_Id s)" "listed_bindings S s"
  "\<lambda>ws. fst ws = S \<and> base_ok base \<and> tenant_ok S \<and> space_at S s \<and>
     (\<exists>names \<in> {[], tenant_names S}. snd ws = binding_builder base names)" for base S s
proof (unfold_locales, goal_cases)
  case (3 ws i)
  then obtain names where ws: "ws = (S, binding_builder base names)" "names \<in> {[], tenant_names S}"
    by (cases ws) auto
  have kept: "(if valid_utf8 (sp_Name s) then sp_Name s else []) \<in> {[], sp_Name s}" by simp
  show ?case
    using binding_step_tenant [OF _ _ _ ws(2) decode_binding_token(1) kept, of base i] 3 ws
    by (auto simp: offset_ok_def offset_cursor)
next
  case (4 ws)
  then obtain names where ws: "ws = (S, binding_builder base names)" "names \<in> {[], tenant_names S}"
    by (cases ws) auto
  then show ?case
    using binding_step_tenant [of base S s names "[]" "[]" "[]"] 4
    by (auto simp: decode_page_token_def zero_PageToken_def)
qed (auto simp: tenant_ok_def)

lemma bindings_distinct: "distinct (map res_Id (listed_bindings S s as))"
proof -
  have "res_Id (listed_binding S s i) = res_Id (listed_binding S s j) \<longleftrightarrow> i = j" for i j
    by (simp add: listed_binding_def expected_binding_def)
  then show ?thesis
    using unseen_props [of "[]" as]
    by (simp add: listed_bindings_def comp_def distinct_map inj_on_def)
qed

lemma assignment_sync_run:
  assumes "base_ok base" "tenant_ok S" "space_at S s" "names \<in> {[], tenant_names S}"
  shows "\<exists>rs names'. sync_pages (ListResources ''space_role_assignment'' parent
      (syncer_step (Some \<lparr>rid_ResourceType = ''space'', rid_Resource = sp_Id s\<rparr>) 0)) [] []
      (S, SpaceRoleAssignmentBuilder (tenant_client base) names) =
        Some (Ret (rs, None), S, SpaceRoleAssignmentBuilder (tenant_client base) names') \<and>
    names' \<in> {[], tenant_names S} \<and>
    set rs = (\<lambda>a. listed_binding S s (sra_RoleId a)) ` set (tn_assignments S (sp_Id s)) \<and>
    (length (tn_assignments S (sp_Id s)) \<le> 200 \<longrightarrow> distinct (map res_Id rs))"
proof -
  let ?xs = "tn_assignments S (sp_Id s)"
  let ?rs = "concat (map (listed_bindings S s) (chunks 200 ?xs))"
  have start: "fst (S, binding_builder base names) = S \<and> base_ok base \<and> tenant_ok S \<and> space_at S s \<and>
      (\<exists>names' \<in> {[], tenant_names S}. snd (S, binding_builder base names) = binding_builder base names')"
    using assms by auto
  obtain ws where run: "sync_pages (ListResources ''space_role_assignment'' parent (binding_step s)) [] []
      (S, binding_builder base names) = Some (Ret (?rs, None), ws)" "fst ws = S"
      "\<exists>names' \<in> {[], tenant_names S}. snd ws = binding_builder base names'"
    using binding_pages.all_chunks [OF start] unfolding ListResources_def by blast
  have whole: "set ?rs = (\<lambda>a. listed_binding S s (sra_RoleId a)) ` set ?xs"
    using arg_cong [OF concat_chunks [of 200 ?xs], of set] by (auto simp: set_listed_bindings image_iff)
  have short: "length ?xs \<le> 200 \<longrightarrow> distinct (map res_Id ?rs)"
    using bindings_distinct by (simp add: chunks_last)
  obtain names' where "ws = (S, binding_builder base names')" "names' \<in> {[], tenant_names S}"
    using run(2,3) by (cases ws) auto
  then show ?thesis
    using run(1) whole short unfolding binding_builder_def binding_step_def by blast
qed

text \<open>
  C11. Against a reference tenant a complete sync of the role assignments of a space, started by a new
  builder with an empty cache of role names, ends without error and leaves the tenant as it is. It
  lists exactly the roles that someone is assigned in the space, whatever the number of pages, each
  named after the role (or its id when the first 200 roles have no name for it) and the space; when
  the assignments fit a page, each once.
\<close>

theorem assignment_sync_complete:
  assumes "base_ok base" "tenant_ok S" "space_at S s"
  shows "\<exists>rs ws. sync_pages (ListResources ''space_role_assignment'' parent
      (syncer_step (Some \<lparr>rid_ResourceType = ''space'', rid_Resource = sp_Id s\<rparr>) 0)) [] []
      (S, newSpaceRoleAssignmentBuilder (tenant_client base)) = Some (Ret (rs, None), ws) \<and> fst ws = S \<and>
    set rs = (\<lambda>a. listed_binding S s (sra_RoleId a)) ` set (tn_assignments S (sp_Id s)) \<and>
    (length (tn_assignments S (sp_Id s)) \<le> 200 \<longrightarrow> distinct (map res_Id rs))"
  using assignment_sync_run [OF assms, of "[]" parent] unfolding newSpaceRoleAssignmentBuilder_def by fastforce

lemma manual_at_demo: "space_at demo_tenant manual"
  using demo_space_id by (simp add: space_at_def demo_tenant_def )

lemma demo_tenant_7 [simp]:
  "tn_assignments demo_tenant ''7'' = [demo_assignment]" "tn_permissions demo_tenant ''7'' = [demo_permission]"
  by (simp_all add: demo_tenant_def)

lemma listed_binding_demo: "listed_binding demo_tenant manual ''r1'' = demo_binding"
  using demo_binding_listed
  by (simp add: spaceRoleAssignmentResource_expected listed_binding_def role_label_def demo_tenant_def)

theorem assignment_sync_complete_witness:
  "\<exists>rs ws. sync_pages (ListResources ''space_role_assignment'' []
      (syncer_step (Some \<lparr>rid_ResourceType = ''space'', rid_Resource = ''7''\<rparr>) 0)) [] []
      (demo_tenant, newSpaceRoleAssignmentBuilder (tenant_client demo_base)) = Some (Ret (rs, None), ws) \<and>
    set rs = {demo_binding}"
  using assignment_sync_complete [OF demo_base_ok demo_tenant_ok manual_at_demo, of "[]"]
  by (auto simp: listed_binding_demo)

end
