(* ===== verification/Gateway.thy ===== *)
theory Gateway
  imports FaultySync AssignmentSync
begin

text \<open>
  Both halves of the API behind one address: users and groups are served by the site, spaces,
  permissions and roles by the tenant. A call of the connector does over the whole what it does over the
  half it needs, as long as it ends without an error there; stated once, for a service that forwards to
  another one.
\<close>

section \<open>Calls over a service that forwards\<close>

text \<open>
  What the call \<open>m\<close> does from \<open>s\<close>, unless it fails, \<open>m'\<close> does from every state that stands for \<open>s\<close>.
\<close>

definition simulates :: "('s \<Rightarrow> 'w \<Rightarrow> bool) \<Rightarrow> ('a \<Rightarrow> bool) \<Rightarrow> ('w, 'a) io \<Rightarrow> ('s, 'a) io \<Rightarrow> bool" where
  "simulates R failed m' m \<longleftrightarrow>
     (\<forall>s w a s'. R s w \<longrightarrow> m s = (Ret a, s') \<longrightarrow> \<not> failed a \<longrightarrow> (\<exists>w'. m' w = (Ret a, w') \<and> R s' w'))"

lemma simulatesD:
  "simulates R failed m' m \<Longrightarrow> R s w \<Longrightarrow> m s = (Ret a, s') \<Longrightarrow> \<not> failed a \<Longrightarrow> \<exists>w'. m' w = (Ret a, w') \<and> R s' w'"
  unfolding simulates_def by blast

named_theorems simulates_intros \<open>calls over a service that forwards\<close>

lemma simulates_ret [simulates_intros]: "simulates R F (ret a) (ret a)"
  by (simp add: simulates_def)

lemma simulates_panic [simulates_intros]: "simulates R F (panic p) (panic p)"
  by (simp add: simulates_def panic_def)

lemma simulates_bind:
  assumes "simulates R F m' m" "\<And>a. simulates R G (f' a) (f a)" "\<And>a. F a \<Longrightarrow> fails G (f a)"
  shows "simulates R G (bindIO m' f') (bindIO m f)"
  unfolding simulates_def
proof (intro allI impI)
  fix s w b s2 assume R: "R s w" and run: "bindIO m f s = (Ret b, s2)" and ok: "\<not> G b"
  obtain a s1 where m: "m s = (Ret a, s1)" and f: "f a s1 = (Ret b, s2)"
    using run by (auto simp: bindIO_def split: prod.splits go.splits)
  have "\<not> F a" using assms(3) [of a] f ok by (auto simp: fails_def ret_def)
  then obtain w1 where "m' w = (Ret a, w1)" "R s1 w1" using simulatesD [OF assms(1) R m] by blast
  moreover obtain w2 where "f' a w1 = (Ret b, w2)" "R s2 w2"
    using simulatesD [OF assms(2) \<open>R s1 w1\<close> f ok] by blast
  ultimately show "\<exists>w'. bindIO m' f' w = (Ret b, w') \<and> R s2 w'" by (simp add: bindIO_apply)
qed

lemma simulates_deref:
  assumes "\<And>a. p = Some a \<Longrightarrow> simulates R F (f' a) (f a)"
  shows "simulates R F (deref p f') (deref p f)"
  using assms by (cases p) (simp_all add: simulates_panic)

lemma simulates_split [simulates_intros]:
  "(\<And>a b. simulates R F (f' a b) (f a b)) \<Longrightarrow> simulates R F (case x of (a, b) \<Rightarrow> f' a b) (case x of (a, b) \<Rightarrow> f a b)"
  "(\<And>e. simulates R F (g' e) (g e)) \<Longrightarrow> (\<And>a. simulates R F (h' a) (h a)) \<Longrightarrow>
   simulates R F (case y of Inl e \<Rightarrow> g' e | Inr a \<Rightarrow> h' a) (case y of Inl e \<Rightarrow> g e | Inr a \<Rightarrow> h a)"
  "simulates R F m' m \<Longrightarrow> (\<And>a. simulates R F (k' a) (k a)) \<Longrightarrow>
   simulates R F (case z of None \<Rightarrow> m' | Some a \<Rightarrow> k' a) (case z of None \<Rightarrow> m | Some a \<Rightarrow> k a)"
  "simulates R F m1' m1 \<Longrightarrow> simulates R F m2' m2 \<Longrightarrow> simulates R F (if b then m1' else m2') (if b then m1 else m2)"
  by (auto split: prod.split sum.split option.split)

text \<open>Syncs: the pages of one that ends without an error.\<close>

lemma simulated_sync:
  assumes "sync_run service t acc s r"
    and "\<And>t. simulates R service_failed (service' t) (service t)"
    and "R s w" "r = (Ret (out, None), s')"
  shows "\<exists>w'. sync_pages service' t acc w = Some (Ret (out, None), w') \<and> R s' w'"
  using assms(1,3,4)
proof (induction arbitrary: w rule: sync_run.induct)
  case (finished t s out1 annos s1 acc)
  then obtain w' where "service' t w = (Ret ((out1, [], annos), None), w')" "R s1 w'"
    using simulatesD [OF assms(2) finished.prems(1) finished.hyps] by auto
  then show ?case using finished.prems by (auto simp: sync_pages.simps [of service' t])
next
  case (continued t s out1 nextToken annos s1 acc r)
  then obtain w1 where "service' t w = (Ret ((out1, nextToken, annos), None), w1)" "R s1 w1"
    using simulatesD [OF assms(2) continued.prems(1) continued.hyps(1)] by auto
  then show ?case
    using continued.IH [OF _ continued.prems(2), of w1] continued.hyps(2)
    by (auto simp: sync_pages.simps [of service' t])
qed simp_all

lemma simulates_list_page:
  assumes "simulates R page_failed (list_op' t) (list_op t)"
  shows "simulates R service_failed (list_page failed unchanged list_op' t) (list_page failed unchanged list_op t)"
  unfolding list_page_def Let_def
  by (rule assms [THEN simulates_bind]) (intro simulates_intros, auto)

section \<open>The interface\<close>

text \<open>Where a service succeeds, the one that forwards to it answers the same.\<close>

locale forwards =
  fixes serve' :: "'w service" and serve :: "'s service" and R :: "'s \<Rightarrow> 'w \<Rightarrow> bool"
  assumes forwarded: "R s w \<Longrightarrow> serve req s = (a, s') \<Longrightarrow> is_2xx (fst a) \<Longrightarrow> \<exists>w'. serve' req w = (a, w') \<and> R s' w'"
begin

lemma prepare_forwarded:
  "prepare_request (server_client base serve') u m b = prepare_request (server_client base serve) u m b"
  by (simp add: prepare_request_def)

lemma options_forwarded:
  "request_options (server_client base serve') target = request_options (server_client base serve) target"
  by (simp add: request_options_def fun_eq_iff)

lemma Do_forwarded:
  assumes "serve req s = (a, s1)" "serve' req w = (a, w1)"
  shows "\<exists>x. Do (server_http serve) req opts v s = (x, s1) \<and> Do (server_http serve') req opts v w = (x, w1)"
proof -
  obtain v' es where "run_options (opts 0) (canned_response a) v = (v', es)"
    by (cases "run_options (opts 0) (canned_response a) v")
  then show ?thesis
    by (simp add: Do_def fetch_server [where serve = serve, OF assms(1)] fetch_server [where serve = serve', OF assms(2)])
qed

lemma makeRequest_rejected:
  assumes "prepare_request (server_client base serve) u m b = Inr req" "serve req s = (a, s')" "\<not> is_2xx (fst a)"
    and "makeRequest (server_client base serve) u target v m b s = (Ret (v', rl, err), s'')"
  shows "err \<noteq> None"
proof -
  let ?c = "server_client base serve" and ?r = "canned_response a"
  have f: "fetch (client_wrapper ?c) req s = (Received ?r, s')" using fetch_server [where serve = serve, OF assms(2)] by simp
  obtain rl v' es where run: "run_options (request_options ?c target (time_Now (client_wrapper ?c) s')) ?r
      (zero_RateLimit, v) = ((rl, v'), es)" by (metis prod.collapse)
  have "resp_Body ?r = (snd a, None)" by simp
  from makeRequest_answer [OF assms(1) f this run] show ?thesis
    using assms(3,4) by (auto simp: answer_error_def)
qed

lemma makeRequest_forwarded [simulates_intros]:
  "simulates R (\<lambda>(_, _, err). err \<noteq> None)
     (makeRequest (server_client base serve') u target v m b) (makeRequest (server_client base serve) u target v m b)"
  unfolding simulates_def
proof (intro allI impI)
  fix s w x s2 assume R: "R s w" and run: "makeRequest (server_client base serve) u target v m b s = (Ret x, s2)"
    and ok: "\<not> (case x of (_, _, err) \<Rightarrow> err \<noteq> None)"
  obtain v' rl err where x: "x = (v', rl, err)" by (cases x)
  show "\<exists>w'. makeRequest (server_client base serve') u target v m b w = (Ret x, w') \<and> R s2 w'"
  proof (cases "prepare_request (server_client base serve) u m b")
    case (Inl e)
    then show ?thesis using run ok by (auto simp: makeRequest_def)
  next
    case (Inr req)
    obtain a s1 where a: "serve req s = (a, s1)" by (cases "serve req s")
    have "is_2xx (fst a)" using makeRequest_rejected [OF Inr a _ run [unfolded x]] ok x by auto
    then obtain w1 where w1: "serve' req w = (a, w1)" "R s1 w1" using forwarded [OF R a] by blast
    have "s2 = s1" using snd_makeRequest_server [OF Inr, of target v s] run a by simp
    then show ?thesis
      using run Inr Do_forwarded [OF a w1(1), of "request_options (server_client base serve) target" "(zero_RateLimit, v)"] w1(2)
      by (auto simp: makeRequest_def prepare_forwarded options_forwarded split: prod.splits option.splits)
  qed
qed

lemma get_forwarded [simulates_intros]:
  "simulates R (\<lambda>(_, _, err). err \<noteq> None)
     (client_get (server_client base serve') u d v) (client_get (server_client base serve) u d v)"
  unfolding client_get_def by (rule makeRequest_forwarded)

lemma parse_forwarded: "parse (server_client base serve') = parse (server_client base serve)"
  by (simp add: parse_def fun_eq_iff split: sum.split)

lemmas rules = simulates_intros simulates_deref get_forwarded [THEN simulates_bind] makeRequest_forwarded [THEN simulates_bind]

end

section \<open>The client and the builders\<close>

abbreviation listing_failed :: "'a \<times> 'b \<times> 'c \<times> go_error option \<Rightarrow> bool" where
  "listing_failed \<equiv> \<lambda>(_, _, _, err). err \<noteq> None"

context forwards
begin

lemma client_forwarded:
  "simulates R listing_failed (GetGroups (server_client base serve') tok n) (GetGroups (server_client base serve) tok n)"
  "simulates R listing_failed (GetGroupMembers (server_client base serve') tok n g)
     (GetGroupMembers (server_client base serve) tok n g)"
  "simulates R listing_failed (GetUsersFromSearch (server_client base serve') tok n)
     (GetUsersFromSearch (server_client base serve) tok n)"
  "simulates R listing_failed (GetSpaces (server_client base serve') n tok) (GetSpaces (server_client base serve) n tok)"
  "simulates R listing_failed (GetSpacePermissions (server_client base serve') tok n i)
     (GetSpacePermissions (server_client base serve) tok n i)"
  "simulates R listing_failed (GetSpaceRoles (server_client base serve') i tok n)
     (GetSpaceRoles (server_client base serve) i tok n)"
  "simulates R listing_failed (GetSpaceRoleAssignments (server_client base serve') i ro p ty tok n)
     (GetSpaceRoleAssignments (server_client base serve) i ro p ty tok n)"
  "simulates R (\<lambda>(_, _, err). err \<noteq> None) (GetSpaceById (server_client base serve') i)
     (GetSpaceById (server_client base serve) i)"
  unfolding GetGroups_def GetGroupMembers_def GetUsersFromSearch_def GetSpaces_def GetSpacePermissions_def
    GetSpaceRoles_def GetSpaceRoleAssignments_def GetSpaceById_def parse_forwarded Let_def
  by (intro rules; auto split: option.splits)+

lemmas client_rules = client_forwarded [THEN simulates_bind]

lemma builders_forwarded:
  "simulates R page_failed (groupList (server_client base serve') t) (groupList (server_client base serve) t)"
  "simulates R page_failed (userList (server_client base serve') t) (userList (server_client base serve) t)"
  "simulates R page_failed (spaceList (newSpaceBuilder (server_client base serve') skip rbac nouns verbs) t)
     (spaceList (newSpaceBuilder (server_client base serve) skip rbac nouns verbs) t)"
  "simulates R page_failed (groupGrants (server_client base serve') res t) (groupGrants (server_client base serve) res t)"
  "simulates R page_failed (spaceGrants (newSpaceBuilder (server_client base serve') skip rbac nouns verbs) res t)
     (spaceGrants (newSpaceBuilder (server_client base serve) skip rbac nouns verbs) res t)"
  "simulates R page_failed (assignmentGrants (server_client base serve') res t)
     (assignmentGrants (server_client base serve) res t)"
  unfolding groupList_def userList_def userList_search_def userList_groups_def userList_members_def user_page_def
    spaceList_def groupGrants_def spaceGrants_def assignmentGrants_def newSpaceBuilder_simps Let_def
    permission_grant_builder [where c = "server_client base serve'" and c' = "server_client base serve"]
  by (intro rules client_rules; auto split: option.splits)+

end

section \<open>The site and the tenant behind one address\<close>

definition tenant_path :: "string \<Rightarrow> bool" where
  "tenant_path p \<longleftrightarrow> prefix ''/wiki/api/v2/'' p \<or> prefix ''/wiki/rest/api/space/'' p"

definition confluence_serve :: "(site \<times> tenant) service" where
  "confluence_serve req w =
     (case w of (S, T) \<Rightarrow>
        if tenant_path (Path (req_URL req)) then (case tenant_serve req T of (a, T') \<Rightarrow> (a, S, T'))
        else (case site_serve req S of (a, S') \<Rightarrow> (a, S', T)))"

definition confluence_client :: "url \<Rightarrow> (site \<times> tenant) ConfluenceClient" where
  "confluence_client base = server_client base confluence_serve"

lemma site_paths:
  "\<not> tenant_path SearchUrlPath" "\<not> tenant_path GroupsListUrlPath" "\<not> tenant_path (getUsersByGroupIdUrlPath i)"
  "\<not> tenant_path groupBaseUrlPath"
  by (simp_all add: tenant_path_def SearchUrlPath_def GroupsListUrlPath_def getUsersByGroupIdUrlPath_def groupBaseUrlPath_def)

lemma site_succeeds:
  assumes "is_2xx (fst (fst (site_serve req S)))"
  shows "\<not> tenant_path (Path (req_URL req))"
proof (cases "req_Method req = GET")
  case True
  then show ?thesis
    using assms site_paths
    by (auto simp: site_serve_def site_answer_def is_2xx_def find_Some_iff Let_def split: if_splits option.splits)
next
  case False
  then show ?thesis
    using assms site_paths(4)
    by (auto simp: site_serve_def site_change_def is_2xx_def Let_def split: if_splits)
qed

lemma segment_after_prefix: "segment_after pre p = Some x \<Longrightarrow> prefix pre p"
  by (auto simp: segment_after_def Let_def split: if_splits)

lemma tenant_paths:
  "tenant_path SpacesListUrlPath" "tenant_path SpaceRolesUrlPath"
  "space_of_path p = Some x \<Longrightarrow> tenant_path p"
  "segment_after ''/wiki/rest/api/space/'' p = Some x \<Longrightarrow> tenant_path p"
  by (auto simp: tenant_path_def SpacesListUrlPath_def SpaceRolesUrlPath_def space_of_path_def
      dest!: segment_after_prefix elim!: prefixE)

lemma tenant_succeeds:
  assumes "is_2xx (fst (fst (tenant_serve req T)))"
  shows "tenant_path (Path (req_URL req))"
proof -
  let ?p = "Path (req_URL req)"
  have get: "is_2xx (fst (tenant_get T (req_URL req))) \<Longrightarrow> tenant_path ?p"
    using tenant_paths by (auto simp: tenant_get_def is_2xx_def Let_def split: if_splits option.splits prod.splits)
  have post: "is_2xx (fst (fst (tenant_post (req_URL req) body T))) \<Longrightarrow> tenant_path ?p" for body
    using tenant_paths(3)
    by (auto simp: tenant_post_def is_2xx_def split: if_splits option.splits prod.splits json.splits)
  have create: "is_2xx (fst (fst (tenant_create (req_URL req) body T))) \<Longrightarrow> tenant_path ?p" for body
    using tenant_paths(4)
    by (auto simp: tenant_create_def is_2xx_def split: if_splits option.splits prod.splits)
  have delete: "is_2xx (fst (fst (tenant_delete (req_URL req) T))) \<Longrightarrow> tenant_path ?p"
    using tenant_paths(4)
    by (auto simp: tenant_delete_def permission_of_path_def is_2xx_def split: option.splits prod.splits)
  show ?thesis
    using assms get post create delete
    by (auto simp: tenant_serve_def is_2xx_def split: http_method.splits option.splits if_splits)
qed

interpretation users: forwards confluence_serve site_serve "\<lambda>S w. w = (S, T)" for T
proof
  fix S w req a S' assume "w = (S, T)" "site_serve req S = (a, S')" "is_2xx (fst a)"
  then show "\<exists>w'. confluence_serve req w = (a, w') \<and> w' = (S', T)"
    using site_succeeds [of req S] by (simp add: confluence_serve_def)
qed

interpretation content: forwards confluence_serve tenant_serve "\<lambda>T w. w = (S, T)" for S
proof
  fix T w req a T' assume "w = (S, T)" "tenant_serve req T = (a, T')" "is_2xx (fst a)"
  then show "\<exists>w'. confluence_serve req w = (a, w') \<and> w' = (S, T')"
    using tenant_succeeds [of req T] by (simp add: confluence_serve_def)
qed

end
