(* ===== verification/Traces.thy ===== *)
theory Traces
  imports GoErrors
begin

text \<open>
  Sequences of calls that change the outside world, and what they do to an abstraction of it: the
  simulation of a specification, from single calls to sequences, once for every kind of request.
\<close>

text \<open>Calls one after the other, up to the first error.\<close>

fun run_calls :: "('e \<Rightarrow> ('w, go_error option) io) \<Rightarrow> 'e list \<Rightarrow> ('w, go_error option) io" where
  "run_calls call [] = ret None"
| "run_calls call (e # es) =
     bindIO (call e) (\<lambda>err. if err = None then run_calls call es else ret err)"

locale event_store =
  fixes call :: "'e \<Rightarrow> ('w, go_error option) io"
    and effect :: "'e \<Rightarrow> 'm \<Rightarrow> 'm"
    and abs :: "'w \<Rightarrow> 'm"
    and inv :: "'w \<Rightarrow> bool"
    and ok :: "'w \<Rightarrow> 'e \<Rightarrow> bool"
  assumes step: "inv w \<Longrightarrow> ok w e \<Longrightarrow>
      \<exists>w'. call e w = (Ret None, w') \<and> inv w' \<and> ok w' = ok w \<and> abs w' = effect e (abs w)"
begin

lemma trace:
  assumes "inv w" "list_all (ok w) es"
  shows "\<exists>w'. run_calls call es w = (Ret None, w') \<and> inv w' \<and> abs w' = fold effect es (abs w)"
  using assms
proof (induction es arbitrary: w)
  case (Cons e es)
  then obtain w1 where "call e w = (Ret None, w1)" "inv w1" "ok w1 = ok w" "abs w1 = effect e (abs w)"
    using step [of w e] by auto
  then show ?case using Cons.IH [of w1] Cons.prems by (simp add: bindIO_apply)
qed simp

end

section \<open>Attempts\<close>

text \<open>A sequence of calls is tried again from its start, up to \<open>n\<close> times more, until it reports no error.\<close>

fun run_attempts :: "nat \<Rightarrow> ('e \<Rightarrow> ('w, go_error option) io) \<Rightarrow> 'e list \<Rightarrow> ('w, go_error option) io" where
  "run_attempts 0 call es = run_calls call es"
| "run_attempts (Suc n) call es =
     bindIO (run_calls call es) (\<lambda>err. if err = None then ret None else run_attempts n call es)"

text \<open>
  Calls that may fail, with or without having had their effect; each failure uses up a fault. Where a
  sequence has the same effect twice as once, retrying it as often as there are faults has that effect.
\<close>

locale retried_store =
  fixes call :: "'e \<Rightarrow> ('w, go_error option) io"
    and effect :: "'e \<Rightarrow> 'm \<Rightarrow> 'm"
    and abs :: "'w \<Rightarrow> 'm"
    and inv :: "'w \<Rightarrow> bool"
    and ok :: "'w \<Rightarrow> 'e \<Rightarrow> bool"
    and faults :: "'w \<Rightarrow> nat"
  assumes attempt: "inv w \<Longrightarrow> ok w e \<Longrightarrow>
      \<exists>err w'. call e w = (Ret err, w') \<and> inv w' \<and> ok w' = ok w \<and>
        (abs w' = effect e (abs w) \<or> err \<noteq> None \<and> abs w' = abs w) \<and>
        (if err = None then faults w' \<le> faults w else faults w' < faults w)"
    and again: "fold effect es (fold effect es m) = fold effect es m"
begin

lemma redo: "fold effect es (fold effect (take k es) m) = fold effect es m"
proof -
  have "fold effect es m' = fold effect (drop k es) (fold effect (take k es) m')" for m'
    by (metis append_take_drop_id comp_apply fold_append)
  then show ?thesis by (simp add: again)
qed

text \<open>A run that stops has done some of the calls from the start; one that reports no error all of them.\<close>

lemma run:
  assumes "inv w" "list_all (ok w) es"
  shows "\<exists>err w' k. run_calls call es w = (Ret err, w') \<and> inv w' \<and> ok w' = ok w \<and>
    abs w' = fold effect (take k es) (abs w) \<and>
    (if err = None then k = length es \<and> faults w' \<le> faults w else faults w' < faults w)"
  using assms
proof (induction es arbitrary: w)
  case (Cons e es)
  obtain err w1 where c: "call e w = (Ret err, w1)" "inv w1" "ok w1 = ok w"
    "abs w1 = effect e (abs w) \<or> err \<noteq> None \<and> abs w1 = abs w"
    "if err = None then faults w1 \<le> faults w else faults w1 < faults w"
    using attempt [of w e] Cons.prems by auto
  show ?case
  proof (cases err)
    case None
    then obtain err' w' k where r: "run_calls call es w1 = (Ret err', w')" "inv w'" "ok w' = ok w1"
      "abs w' = fold effect (take k es) (abs w1)"
      "if err' = None then k = length es \<and> faults w' \<le> faults w1 else faults w' < faults w1"
      using Cons.IH [of w1] Cons.prems c(2,3) by auto
    have "faults w1 \<le> faults w" "abs w1 = effect e (abs w)" using None c(4,5) by simp_all
    then show ?thesis
      using None c(1,3) r
      by (intro exI [of _ err'] exI [of _ w'] exI [of _ "Suc k"]) (auto simp: bindIO_apply split: if_splits)
  next
    case (Some x)
    have "\<exists>k. abs w1 = fold effect (take k (e # es)) (abs w)"
      using c(4) by (auto intro: exI [of _ "Suc 0"] exI [of _ 0])
    then show ?thesis using Some c by (auto simp: bindIO_apply)
  qed
qed simp

lemma attempts:
  assumes "inv w" "list_all (ok w) es" "faults w \<le> n"
  shows "\<exists>w'. run_attempts n call es w = (Ret None, w') \<and> inv w' \<and> abs w' = fold effect es (abs w)"
  using assms
proof (induction n arbitrary: w)
  case 0
  then show ?case using run [of w es] by (auto split: if_splits)
next
  case (Suc n)
  obtain err w1 k where r: "run_calls call es w = (Ret err, w1)" "inv w1" "ok w1 = ok w"
    "abs w1 = fold effect (take k es) (abs w)"
    "if err = None then k = length es \<and> faults w1 \<le> faults w else faults w1 < faults w"
    using run [of w es] Suc.prems by auto
  show ?case
  proof (cases err)
    case None
    then show ?thesis using r by (simp add: bindIO_apply)
  next
    case (Some e)
    then have "faults w1 \<le> n" using r(5) Suc.prems(3) by simp
    then obtain w' where "run_attempts n call es w1 = (Ret None, w')" "inv w'" "abs w' = fold effect es (abs w1)"
      using Suc.IH [of w1] r(2,3) Suc.prems(2) by auto
    then show ?thesis using Some r(1,4) by (simp add: bindIO_apply redo)
  qed
qed

end

end
