(* ===== verification/RoleChanges.thy ===== *)
theory RoleChanges
  imports SpaceSync Traces
begin

text \<open>
  Granting and revoking space roles against a store of roles: what the calls do to who has which role.
  The contract of the store is a locale, with the effect of single calls proved in it, and as a store of events also that of
  sequences of them; the reference tenant provides it.
\<close>

section \<open>The contract of a store of roles\<close>

text \<open>
  The key under which a store knows a principal in a space, and the store: a principal has at most one
  role in a space, the search finds exactly that one, and a request sets it or, without a role id,
  removes it.
\<close>

type_synonym role_key = "string \<times> SpaceRoleAssignmentPrincipal"

definition role_key :: "ResourceId \<Rightarrow> ResourceId \<Rightarrow> role_key" where
  "role_key sid pid =
     (rid_Resource sid,
      \<lparr>rp_PrincipalType = (if rid_ResourceType pid = ''user'' then ''USER'' else ''GROUP''),
       rp_PrincipalId = rid_Resource pid\<rparr>)"

text \<open>
  Requests as events: what the connector is called with, and what each does to the map of the roles that
  the specification knows. A revocation of a role that the principal does not have does nothing.
\<close>

datatype role_event = GrantRole ResourceId ResourceId string | RevokeRole ResourceId ResourceId string

definition bound_role :: "ResourceId \<Rightarrow> string \<Rightarrow> Resource" where
  "bound_role sid r = projr (spaceRoleAssignmentResource r sid [] [])"

lemma bound_role: "spaceRoleAssignmentResource r sid [] [] = Inr (bound_role sid r)"
  by (simp add: bound_role_def spaceRoleAssignmentResource_Inr)

fun role_call :: "'w ConfluenceClient \<Rightarrow> role_event \<Rightarrow> ('w, go_error option) io" where
  "role_call c (GrantRole sid pid r) =
     bindIO (assignmentGrant c (principal_resource pid) (grant_entitlement (bound_role sid r) ''assigned''))
       (\<lambda>(_, _, e). ret e)"
| "role_call c (RevokeRole sid pid r) =
     bindIO (assignmentRevoke c (NewGrant (bound_role sid r) ''assigned'' pid [])) (\<lambda>(_, e). ret e)"

fun role_effect :: "role_event \<Rightarrow> (role_key \<rightharpoonup> string) \<Rightarrow> role_key \<rightharpoonup> string" where
  "role_effect (GrantRole sid pid r) m = m(role_key sid pid \<mapsto> r)"
| "role_effect (RevokeRole sid pid r) m =
     (if m (role_key sid pid) = Some r then m(role_key sid pid := None) else m)"

fun event_ok :: "(role_key \<Rightarrow> string \<Rightarrow> bool) \<Rightarrow> role_event \<Rightarrow> bool" where
  "event_ok known (GrantRole sid pid r) \<longleftrightarrow>
     known (role_key sid pid) r \<and> rid_ResourceType pid \<in> {''user'', ''group''}"
| "event_ok known (RevokeRole sid pid r) \<longleftrightarrow>
     known (role_key sid pid) r \<and> rid_ResourceType pid \<in> {''user'', ''group''}"

lemma role_key_parts:
  assumes "rid_ResourceType pid \<in> {''user'', ''group''}"
  shows "\<exists>p. role_key sid pid = (rid_Resource sid, p) \<and>
    p = \<lparr>rp_PrincipalType = rp_PrincipalType p, rp_PrincipalId = rid_Resource pid\<rparr> \<and>
    confluencePrincipalType (rid_ResourceType pid) = Inr (rp_PrincipalType p)"
  using assms by (auto simp: role_key_def confluencePrincipalType_def resource_type_defs)

locale role_store =
  fixes c :: "'w ConfluenceClient"
    and role_of :: "'w \<Rightarrow> role_key \<Rightarrow> string option"
    and inv :: "'w \<Rightarrow> bool"
    and known :: "role_key \<Rightarrow> string \<Rightarrow> bool"
  assumes lookup: "inv w \<Longrightarrow> known (s, p) r \<Longrightarrow>
      \<exists>existing cursor rl. GetSpaceRoleAssignments c s r (rp_PrincipalId p) (rp_PrincipalType p) [] 1 w =
        (Ret (existing, cursor, rl, None), w) \<and> (existing \<noteq> [] \<longleftrightarrow> role_of w (s, p) = Some r)"
    and assign: "inv w \<Longrightarrow> known (s, p) r \<Longrightarrow>
      \<exists>rl w'. SetSpaceRoleAssignment c s [\<lparr>set_Principal = p, set_RoleId = r\<rparr>] w = (Ret (rl, None), w') \<and>
        inv w' \<and> role_of w' = (role_of w)((s, p) \<mapsto> r)"
    and remove: "inv w \<Longrightarrow> known (s, p) r \<Longrightarrow>
      \<exists>rl w'. SetSpaceRoleAssignment c s [\<lparr>set_Principal = p, set_RoleId = []\<rparr>] w = (Ret (rl, None), w') \<and>
        inv w' \<and> role_of w' = (role_of w)((s, p) := None)"
begin

lemma grant:
  assumes "inv w" "known (role_key sid pid) r" "rid_ResourceType pid \<in> {''user'', ''group''}"
    and "spaceRoleAssignmentResource r sid roleName spaceName = Inr res"
    and "ent_Resource ent = Some res" "res_Id who = Some pid"
  shows "\<exists>annos w'. assignmentGrant c who ent w =
      (Ret (if role_of w (role_key sid pid) = Some r then [] else [NewGrant res ''assigned'' pid []], annos, None), w') \<and>
    inv w' \<and> role_of w' = (role_of w)(role_key sid pid \<mapsto> r) \<and>
    (role_of w (role_key sid pid) = Some r \<longrightarrow> annos = [AnyGrantAlreadyExists] \<and> w' = w)"
proof -
  obtain s p where key: "role_key sid pid = (s, p)" and sp: "s = rid_Resource sid"
      "p = \<lparr>rp_PrincipalType = rp_PrincipalType p, rp_PrincipalId = rid_Resource pid\<rparr>"
    and ty: "confluencePrincipalType (rid_ResourceType pid) = Inr (rp_PrincipalType p)"
    using role_key_parts [OF assms(3)] by metis
  have known: "known (s, p) r" using assms(2) key by simp
  obtain existing cursor rl where look: "GetSpaceRoleAssignments c s r (rid_Resource pid) (rp_PrincipalType p) [] 1 w =
      (Ret (existing, cursor, rl, None), w)" "existing \<noteq> [] \<longleftrightarrow> role_of w (s, p) = Some r"
    using lookup [OF assms(1) known] sp(2) by (metis SpaceRoleAssignmentPrincipal.select_convs(2))
  obtain rl' w' where set: "SetSpaceRoleAssignment c s [\<lparr>set_Principal = p, set_RoleId = r\<rparr>] w = (Ret (rl', None), w')"
    "inv w'" "role_of w' = (role_of w)((s, p) \<mapsto> r)"
    using assign [OF assms(1) known] by blast
  note g = assignmentGrant_steps [OF assms(4-6) ty, folded sp(1), OF look(1), folded sp(2), OF set(1)]
  show ?thesis
    using g look(2) set(2,3) assms(1) key by (cases "existing = []") (auto simp: fun_upd_idem)
qed

lemma revoke:
  assumes "inv w" "known (role_key sid pid) r" "rid_ResourceType pid \<in> {''user'', ''group''}"
    and "spaceRoleAssignmentResource r sid roleName spaceName = Inr res"
    and "gr_Entitlement g = Some ent" "ent_Resource ent = Some res" "gr_Principal g = Some who" "res_Id who = Some pid"
  shows "\<exists>annos w'. assignmentRevoke c g w = (Ret (annos, None), w') \<and> inv w' \<and>
    (if role_of w (role_key sid pid) = Some r then role_of w' = (role_of w)(role_key sid pid := None)
     else annos = [AnyGrantAlreadyRevoked] \<and> w' = w)"
proof -
  obtain s p where key: "role_key sid pid = (s, p)" and sp: "s = rid_Resource sid"
      "p = \<lparr>rp_PrincipalType = rp_PrincipalType p, rp_PrincipalId = rid_Resource pid\<rparr>"
    and ty: "confluencePrincipalType (rid_ResourceType pid) = Inr (rp_PrincipalType p)"
    using role_key_parts [OF assms(3)] by metis
  have known: "known (s, p) r" using assms(2) key by simp
  obtain existing cursor rl where look: "GetSpaceRoleAssignments c s r (rid_Resource pid) (rp_PrincipalType p) [] 1 w =
      (Ret (existing, cursor, rl, None), w)" "existing \<noteq> [] \<longleftrightarrow> role_of w (s, p) = Some r"
    using lookup [OF assms(1) known] sp(2) by (metis SpaceRoleAssignmentPrincipal.select_convs(2))
  obtain rl' w' where set: "SetSpaceRoleAssignment c s [\<lparr>set_Principal = p, set_RoleId = []\<rparr>] w = (Ret (rl', None), w')"
    "inv w'" "role_of w' = (role_of w)((s, p) := None)"
    using remove [OF assms(1) known] by blast
  note g = assignmentRevoke_steps [OF assms(4-8) ty, folded sp(1), OF look(1), folded sp(2), OF set(1)]
  show ?thesis
    using g look(2) set(2,3) assms(1) key by (cases "existing = []") auto
qed

end

sublocale role_store \<subseteq> event_store "role_call c" role_effect role_of inv "\<lambda>_. event_ok known"
proof
  fix w e assume w: "inv w" and e: "event_ok known e"
  show "\<exists>w'. role_call c e w = (Ret None, w') \<and> inv w' \<and> event_ok known = event_ok known \<and>
      role_of w' = role_effect e (role_of w)"
  proof (cases e)
    case (GrantRole sid pid r)
    then have "known (role_key sid pid) r" "rid_ResourceType pid \<in> {''user'', ''group''}" using e by auto
    from grant [OF w this bound_role, of "grant_entitlement (bound_role sid r) ''assigned''" "principal_resource pid"]
    show ?thesis using GrantRole by (auto simp: bindIO_apply)
  next
    case (RevokeRole sid pid r)
    then have "known (role_key sid pid) r" "rid_ResourceType pid \<in> {''user'', ''group''}" using e by auto
    from revoke [OF w this bound_role, of "NewGrant (bound_role sid r) ''assigned'' pid []"
        "grant_entitlement (bound_role sid r) ''assigned''" "principal_resource pid"]
    show ?thesis using RevokeRole by (auto simp: bindIO_apply split: if_splits)
  qed
qed

section \<open>The tenant as a store of roles\<close>

definition assignments_map :: "SpaceRoleAssignment list \<Rightarrow> SpaceRoleAssignmentPrincipal \<Rightarrow> string option" where
  "assignments_map as = map_of (map (\<lambda>a. (sra_Principal a, sra_RoleId a)) as)"

definition tenant_role :: "tenant \<Rightarrow> role_key \<Rightarrow> string option" where
  "tenant_role S = (\<lambda>(spaceId, who). assignments_map (tn_assignments S spaceId) who)"

definition assignments_ok :: "tenant \<Rightarrow> bool" where
  "assignments_ok S \<longleftrightarrow> (\<forall>i. list_all assignment_plain (tn_assignments S i) \<and>
     distinct (map sra_Principal (tn_assignments S i)))"

definition role_request_ok :: "role_key \<Rightarrow> string \<Rightarrow> bool" where
  "role_request_ok key r \<longleftrightarrow> list_all id_char (fst key) \<and> r \<noteq> [] \<and>
     rp_PrincipalType (snd key) \<noteq> [] \<and> rp_PrincipalId (snd key) \<noteq> [] \<and>
     assignment_plain \<lparr>sra_Principal = snd key, sra_RoleId = r\<rparr>"

text \<open>The filters of the search select exactly the assignment of the role to the principal.\<close>

lemma assignment_selected_key:
  assumes "r \<noteq> []" "rp_PrincipalType p \<noteq> []" "rp_PrincipalId p \<noteq> []"
  shows "assignment_selected r (rp_PrincipalId p) (rp_PrincipalType p) a \<longleftrightarrow>
    a = \<lparr>sra_Principal = p, sra_RoleId = r\<rparr>"
  using assms by (cases a; cases "sra_Principal a"; cases p) (auto simp: assignment_selected_def)

lemma assignments_map_iff:
  assumes "distinct (map sra_Principal as)"
  shows "assignments_map as p = Some r \<longleftrightarrow> \<lparr>sra_Principal = p, sra_RoleId = r\<rparr> \<in> set as"
proof -
  have dis: "distinct (map fst (map (\<lambda>a. (sra_Principal a, sra_RoleId a)) as))"
    using assms by (simp add: comp_def)
  have eq: "(p, r) = (sra_Principal a, sra_RoleId a) \<longleftrightarrow> \<lparr>sra_Principal = p, sra_RoleId = r\<rparr> = a" for a :: SpaceRoleAssignment
    by (cases a) simp
  have "assignments_map as p = Some r \<longleftrightarrow> (p, r) \<in> (\<lambda>a. (sra_Principal a, sra_RoleId a)) ` set as"
    using map_of_eq_Some_iff [OF dis, of p r] by (simp add: assignments_map_def)
  then show ?thesis by (simp only: image_iff eq) simp
qed

lemma assignments_map_removed:
  "assignments_map (filter (\<lambda>a. sra_Principal a \<noteq> p) as) = (assignments_map as)(p := None)"
  by (induction as) (auto simp: assignments_map_def fun_eq_iff)

lemma assignments_map_set_role:
  "assignments_map (set_role p r as) = (assignments_map as)(p := if r = [] then None else Some r)"
  using assignments_map_removed [of p as]
  by (auto simp: set_role_def assignments_map_def map_add_def fun_eq_iff split: option.splits)

lemma set_role_ok:
  assumes "list_all assignment_plain as" "distinct (map sra_Principal as)"
    and "r \<noteq> [] \<Longrightarrow> assignment_plain \<lparr>sra_Principal = p, sra_RoleId = r\<rparr>"
  shows "list_all assignment_plain (set_role p r as) \<and> distinct (map sra_Principal (set_role p r as))"
  using assms by (auto simp: set_role_def list_all_iff distinct_map_filter)

text \<open>The body the client posts is read back as the change it stands for.\<close>

lemma request_of_body:
  assumes "rp_PrincipalType p \<noteq> []"
  shows "apply_request (json_SetSpaceRoleAssignment \<lparr>set_Principal = p, set_RoleId = r\<rparr>) = set_role p r"
  by (cases p) (simp add: fun_eq_iff apply_request_def json_SetSpaceRoleAssignment_def member_def member_omitempty_def
      json_member_def json_text_def)

lemma SetSpaceRoleAssignment_tenant:
  assumes "base_ok base" "list_all id_char spaceId" "rp_PrincipalType p \<noteq> []"
    and "valid_utf8 (rp_PrincipalType p)" "valid_utf8 (rp_PrincipalId p)" "valid_utf8 r"
  shows "SetSpaceRoleAssignment (tenant_client base) spaceId [\<lparr>set_Principal = p, set_RoleId = r\<rparr>] S =
    (Ret (Some no_limits, None), update_assignments spaceId (set_role p r) S)"
proof -
  let ?b = "json_SetSpaceRoleAssignment \<lparr>set_Principal = p, set_RoleId = r\<rparr>"
  let ?u = "assignments_url base spaceId []"
  let ?S' = "update_assignments spaceId (set_role p r) S"
  have "plain (JArr [?b])"
    using assms(4-6) by (simp add: json_SetSpaceRoleAssignment_def member_def member_omitempty_def valid_utf8_ascii is_ascii_def)
  then have body: "json_parse (json_print (JArr [?b])) = Some (JArr [?b])" by (rule json_parse_print)
  have ans: "tenant_serve (request_to (server_client base tenant_serve) POST ?u
      (Some (json_print (JArr (map json_SetSpaceRoleAssignment [\<lparr>set_Principal = p, set_RoleId = r\<rparr>]))))) S
      = ((200, json_print (json_assignments [] [])), ?S')"
    using space_of_paths(2) [OF id_no_slash [OF assms(2)]]
    by (simp add: tenant_serve_def request_to_def tenant_post_def assignments_url_def body
        request_of_body [OF assms(3)] del: json_print.simps)
  have dec: "dec_AssignmentsResponse (json_assignments [] []) zero_AssignmentsResponse =
      (\<lparr>srar_Results = [], srar_Links = zero_Link\<lparr>link_Next := []\<rparr>\<rparr>, None)"
    using dec_assignments [of "[]" "[]"] by (simp add: json_assignments_def split: prod.splits)
  note dots = id_not_dots [OF assms(2), THEN conjunct1] id_not_dots [OF assms(2), THEN conjunct2]
  show ?thesis
    using SetSpaceRoleAssignment_served [where serve = tenant_serve and s = S and s' = ?S', OF assms(1) dots ans _ dec]
      plain_assignments [of "[]" "[]"]
    by (simp add: tenant_client_def)
qed

lemma tenant_role_update:
  "tenant_role (update_assignments i (set_role p r) S) = (tenant_role S)((i, p) := if r = [] then None else Some r)"
  by (auto simp: tenant_role_def update_assignments_def assignments_map_set_role fun_eq_iff)

lemma update_assignments_ok:
  assumes "assignments_ok S" "r \<noteq> [] \<Longrightarrow> assignment_plain \<lparr>sra_Principal = p, sra_RoleId = r\<rparr>"
  shows "assignments_ok (update_assignments i (set_role p r) S)"
  using assms set_role_ok [of "tn_assignments S i" r p]
  by (auto simp: assignments_ok_def update_assignments_def)

lemma assignments_find:
  assumes "assignments_ok S" "role_request_ok (s, p) r"
  shows "filter (assignment_selected r (rp_PrincipalId p) (rp_PrincipalType p)) (tn_assignments S s) \<noteq> [] \<longleftrightarrow>
    tenant_role S (s, p) = Some r"
  using assms assignments_map_iff [of "tn_assignments S s" p r]
  by (auto simp: assignments_ok_def role_request_ok_def tenant_role_def assignment_selected_key filter_empty_conv)

lemma limit_of_1 [simp]: "limit_of 1 = 1"
  by (simp add: limit_of_def)

lemma first_of_window: "window 0 (Suc 0) xs \<noteq> [] \<longleftrightarrow> xs \<noteq> []"
  by (simp add: window_def)

interpretation tenant_roles: role_store "tenant_client base" tenant_role
  "\<lambda>S. base_ok base \<and> assignments_ok S" role_request_ok for base
proof (unfold_locales, goal_cases)
  case (1 S s p r)
  then show ?case
    using GetSpaceRoleAssignments_tenant [of base S s r "rp_PrincipalId p" "rp_PrincipalType p" "[]" 1]
      assignments_find [of S s p r]
    by (simp add: assignments_ok_def role_request_ok_def first_of_window)
next
  case (2 S s p r)
  then show ?case
    using SetSpaceRoleAssignment_tenant [of base s p r S] update_assignments_ok [of S r p s]
    by (simp add: role_request_ok_def tenant_role_update assignment_plain_def)
next
  case (3 S s p r)
  then show ?case
    using SetSpaceRoleAssignment_tenant [of base s p "[]" S] update_assignments_ok [of S "[]" p s]
    by (simp add: role_request_ok_def tenant_role_update assignment_plain_def)
qed

section \<open>Granting and revoking on the tenant\<close>

text \<open>The next sync of the role lists the new holder, a group with the annotation that its members inherit.\<close>

definition role_sync :: "url \<Rightarrow> Resource \<Rightarrow> tenant \<Rightarrow> ((Grant list \<times> go_error option) go \<times> tenant) option" where
  "role_sync base res =
     sync_pages (ListGrants (case res_Id res of Some rid \<Rightarrow> rid | None \<Rightarrow> \<lparr>rid_ResourceType = [], rid_Resource = []\<rparr>)
       (\<lambda>t. assignmentGrants (tenant_client base) res \<lparr>tok_Size = 0, tok_Token = t\<rparr>)) [] []"

lemma role_holders_set_role:
  assumes "assignments_map as p \<noteq> Some r" "distinct (map sra_Principal as)" "r \<noteq> []"
    and "rp_PrincipalType p \<in> {''USER'', ''GROUP''}"
  shows "role_holders res r (set_role p r as) =
    role_holders res r as @ [expected_role_grant res \<lparr>sra_Principal = p, sra_RoleId = r\<rparr>]"
proof -
  have "sra_Principal a \<noteq> p" if "a \<in> set as" "sra_RoleId a = r" for a
  proof
    assume "sra_Principal a = p"
    then have "\<lparr>sra_Principal = p, sra_RoleId = r\<rparr> = a" using that(2) by simp
    then show False using that(1) assms(1) assignments_map_iff [OF assms(2), of p r] by simp
  qed
  then have "filter (\<lambda>a. sra_Principal a \<noteq> p \<and> sra_RoleId a = r \<and> rp_PrincipalType (sra_Principal a) \<in> {''USER'', ''GROUP''}) as =
      filter (\<lambda>a. sra_RoleId a = r \<and> rp_PrincipalType (sra_Principal a) \<in> {''USER'', ''GROUP''}) as"
    by (intro filter_cong) auto
  then show ?thesis
    using assms(3,4) by (auto simp: role_holders_def set_role_def conj_assoc)
qed

lemma update_tenant_ok:
  assumes "tenant_ok S" "length (tn_assignments S i) + 1 < 1000000000"
    and "assignment_plain \<lparr>sra_Principal = p, sra_RoleId = r\<rparr>"
  shows "tenant_ok (update_assignments i (set_role p r) S)"
proof -
  have "length (set_role p r as) \<le> length as + 1" for as
    using length_filter_le [of "\<lambda>a. sra_Principal a \<noteq> p" as] by (auto simp: set_role_def intro: le_SucI)
  then have "small (set_role p r (tn_assignments S i))"
    using assms(2) le_less_trans by (fastforce simp: small_def)
  moreover have "list_all assignment_plain (set_role p r (tn_assignments S i))"
    using assms(1,3) by (auto simp: set_role_def tenant_ok_def list_all_iff)
  ultimately show ?thesis using assms(1) by (simp add: tenant_ok_def update_assignments_def)
qed

lemma role_grant_new:
  assumes "base_ok base" "assignments_ok S" "role_request_ok (role_key sid pid) r"
    and "rid_ResourceType pid \<in> {''user'', ''group''}"
    and "spaceRoleAssignmentResource r sid roleName spaceName = Inr res"
    and "ent_Resource ent = Some res" "res_Id who = Some pid"
    and "tenant_role S (role_key sid pid) \<noteq> Some r"
  shows "\<exists>annos. assignmentGrant (tenant_client base) who ent S =
    (Ret ([NewGrant res ''assigned'' pid []], annos, None),
     update_assignments (rid_Resource sid) (set_role (snd (role_key sid pid)) r) S)"
proof -
  obtain p where key: "role_key sid pid = (rid_Resource sid, p)"
      "p = \<lparr>rp_PrincipalType = rp_PrincipalType p, rp_PrincipalId = rid_Resource pid\<rparr>"
    and ty: "confluencePrincipalType (rid_ResourceType pid) = Inr (rp_PrincipalType p)"
    using role_key_parts [OF assms(4)] by metis
  note ok = assms(3) [unfolded key(1)]
  let ?as = "tn_assignments S (rid_Resource sid)"
  let ?S' = "update_assignments (rid_Resource sid) (set_role p r) S"
  have ids: "list_all id_char (rid_Resource sid)" "r \<noteq> []" "rp_PrincipalType p \<noteq> []"
    "valid_utf8 (rp_PrincipalType p)" "valid_utf8 (rp_PrincipalId p)" "valid_utf8 r"
    using ok by (simp_all add: role_request_ok_def assignment_plain_def)
  have plain: "list_all assignment_plain ?as"
    using assms(2) by (simp add: assignments_ok_def)
  have none: "filter (assignment_selected r (rp_PrincipalId p) (rp_PrincipalType p)) ?as = []"
    using assignments_find [OF assms(2) ok] assms(8) key(1) by simp
  have look: "GetSpaceRoleAssignments (tenant_client base) (rid_Resource sid) r (rid_Resource pid) (rp_PrincipalType p) [] 1 S =
      (Ret ([], next_cursor 0 1 ([] :: SpaceRoleAssignment list), Some no_limits, None), S)"
    using GetSpaceRoleAssignments_tenant [OF assms(1) plain ids(1), of r "rp_PrincipalId p" "rp_PrincipalType p" "[]" 1] none key(2)
    by (simp add: window_def) (metis SpaceRoleAssignmentPrincipal.select_convs(2))
  have set: "SetSpaceRoleAssignment (tenant_client base) (rid_Resource sid) [\<lparr>set_Principal = p, set_RoleId = r\<rparr>] S =
      (Ret (Some no_limits, None), ?S')"
    using SetSpaceRoleAssignment_tenant [OF assms(1) ids(1,3-6)] .
  show ?thesis
    using assignmentGrant_steps [OF assms(5-7) ty look, folded key(2), OF set] key(1) by simp
qed

text \<open>
  C13. When a user or group that does not have a space role is granted it, Grant returns the new grant
  without error, and a complete sync of the grants of the role lists what it listed before followed by
  a grant of the role to that principal; for a group the sync's grant carries the annotation that its
  members inherit it, which the one returned by Grant lacks.
\<close>

theorem role_grant_visible:
  assumes "base_ok base" "tenant_ok S" "assignments_ok S" "role_request_ok (role_key sid pid) r"
    and "rid_ResourceType pid \<in> {''user'', ''group''}"
    and "spaceRoleAssignmentResource r sid roleName spaceName = Inr res"
    and "ent_Resource ent = Some res" "res_Id who = Some pid"
    and "tenant_role S (role_key sid pid) \<noteq> Some r" "length (tn_assignments S (rid_Resource sid)) + 1 < 1000000000"
  shows "\<exists>annos old S'.
    assignmentGrant (tenant_client base) who ent S = (Ret ([NewGrant res ''assigned'' pid []], annos, None), S') \<and>
    role_sync base res S = Some (Ret (old, None), S) \<and>
    role_sync base res S' = Some (Ret (old @ [NewGrant res ''assigned'' pid
      (if rid_ResourceType pid = ''group'' then [AnyGrantExpandable [''group:'' @ rid_Resource pid @ '':member'']] else [])],
      None), S')"
proof -
  define p where "p = snd (role_key sid pid)"
  have key: "role_key sid pid = (rid_Resource sid, p)"
    "p = \<lparr>rp_PrincipalType = if rid_ResourceType pid = ''user'' then ''USER'' else ''GROUP'', rp_PrincipalId = rid_Resource pid\<rparr>"
    by (simp_all add: p_def role_key_def)
  let ?as = "tn_assignments S (rid_Resource sid)"
  let ?S' = "update_assignments (rid_Resource sid) (set_role p r) S"
  have ids: "list_all id_char (rid_Resource sid)" "r \<noteq> []" "assignment_plain \<lparr>sra_Principal = p, sra_RoleId = r\<rparr>"
    using assms(4) unfolding key(1) by (simp_all add: role_request_ok_def)
  have plain: "distinct (map sra_Principal ?as)"
    using assms(3) by (simp add: assignments_ok_def)
  have granted: "\<exists>annos. assignmentGrant (tenant_client base) who ent S = (Ret ([NewGrant res ''assigned'' pid []], annos, None), ?S')"
    using role_grant_new [OF assms(1,3-9)] by (simp add: p_def)
  have sync: "role_sync base res T = Some (Ret (role_holders res r (tn_assignments T (rid_Resource sid)), None), T)" if "tenant_ok T" for T
    unfolding role_sync_def by (rule role_grants_tenant [OF assms(1) that ids(1,2) assms(6)])
  have "tenant_ok ?S'"
    using update_tenant_ok [OF assms(2,10) ids(3)] .
  moreover have "role_holders res r (tn_assignments ?S' (rid_Resource sid)) = role_holders res r ?as @
      [expected_role_grant res \<lparr>sra_Principal = p, sra_RoleId = r\<rparr>]"
    using role_holders_set_role [of ?as p r res] plain ids(2) assms(9) key
    by (simp add: update_assignments_def tenant_role_def)
  moreover have "expected_role_grant res \<lparr>sra_Principal = p, sra_RoleId = r\<rparr> = NewGrant res ''assigned'' pid
      (if rid_ResourceType pid = ''group'' then [AnyGrantExpandable [''group:'' @ rid_Resource pid @ '':member'']] else [])"
    using assms(5) key(2) by (cases pid) (auto simp: expected_role_grant_def)
  ultimately show ?thesis
    using granted sync [OF assms(2)] sync [of ?S'] by auto
qed


lemma demo_assignments_ok: "assignments_ok demo_tenant"
  using demo_assignment_plain by (simp add: assignments_ok_def demo_tenant_def)

definition demo_space_rid :: ResourceId where
  "demo_space_rid = \<lparr>rid_ResourceType = ''space'', rid_Resource = ''7''\<rparr>"

definition demo_who :: "string \<Rightarrow> ResourceId" where
  "demo_who i = \<lparr>rid_ResourceType = ''user'', rid_Resource = i\<rparr>"

definition demo_entitlement :: Entitlement where
  "demo_entitlement = new_entitlement PURPOSE_ASSIGNMENT (Some demo_binding) ''assigned''"

lemma demo_parts [simp]:
  "rid_ResourceType (demo_who i) = ''user''" "ent_Resource demo_entitlement = Some demo_binding"
  by (simp_all add: demo_who_def demo_entitlement_def new_entitlement_def)

lemma demo_request:
  "role_request_ok (role_key demo_space_rid (demo_who ''a1'')) ''r1''" "role_request_ok (role_key demo_space_rid (demo_who ''a2'')) ''r1''"
  using demo_space_id
  by (simp_all add: role_request_ok_def role_key_def demo_space_rid_def demo_who_def assignment_plain_def valid_utf8_ascii is_ascii_def)

lemma demo_roles:
  "tenant_role demo_tenant (role_key demo_space_rid (demo_who ''a1'')) = Some ''r1''"
  "tenant_role demo_tenant (role_key demo_space_rid (demo_who ''a2'')) = None"
  by (simp_all add: tenant_role_def role_key_def demo_space_rid_def demo_who_def assignments_map_def demo_tenant_def demo_assignment_def)

theorem role_grant_visible_witness:
  "\<exists>annos old S'.
    assignmentGrant (tenant_client demo_base) (principal_resource (demo_who ''a2'')) demo_entitlement demo_tenant =
      (Ret ([NewGrant demo_binding ''assigned'' (demo_who ''a2'') []], annos, None), S') \<and>
    role_sync demo_base demo_binding demo_tenant = Some (Ret (old, None), demo_tenant) \<and>
    role_sync demo_base demo_binding S' = Some (Ret (old @ [NewGrant demo_binding ''assigned'' (demo_who ''a2'') []], None), S')"
proof -
  have room: "length (tn_assignments demo_tenant (rid_Resource demo_space_rid)) + 1 < 1000000000"
    by (simp add: demo_tenant_def)
  have kind: "rid_ResourceType (demo_who ''a2'') \<in> {''user'', ''group''}" by simp
  have other: "tenant_role demo_tenant (role_key demo_space_rid (demo_who ''a2'')) \<noteq> Some ''r1''" by (simp add: demo_roles)
  show ?thesis
    using role_grant_visible [OF demo_base_ok demo_tenant_ok demo_assignments_ok demo_request(2) kind
        demo_binding_listed [folded demo_space_rid_def], of demo_entitlement "principal_resource (demo_who ''a2'')", OF _ _ other room]
    by simp
qed

definition demo_events :: "role_event list" where
  "demo_events =
     [GrantRole demo_space_rid (demo_who ''a2'') ''r1'', RevokeRole demo_space_rid (demo_who ''a1'') ''r1'',
      GrantRole demo_space_rid (demo_who ''a2'') ''r1'']"

lemma demo_events_ok: "list_all (event_ok role_request_ok) demo_events"
  by (simp add: demo_events_def demo_request)

lemma demo_keys_differ: "role_key demo_space_rid (demo_who ''a1'') \<noteq> role_key demo_space_rid (demo_who ''a2'')"
  by (simp add: role_key_def demo_who_def)


end
