(* ===== verification/GroupChanges.thy ===== *)
theory GroupChanges
  imports GroupSync Traces
begin

text \<open>
  Adding members to groups and removing them: the contract of a store of members is a locale, the
  reference site provides it, and what a change does is seen by the next sync of the group.
\<close>

section \<open>The contract of a store of members\<close>

text \<open>\<open>known w g a\<close>: the store has the group \<open>g\<close> and an account \<open>a\<close> that can become its member.\<close>

locale member_store =
  fixes c :: "'w ConfluenceClient"
    and members :: "'w \<Rightarrow> string \<Rightarrow> string set"
    and inv :: "'w \<Rightarrow> bool"
    and known :: "'w \<Rightarrow> string \<Rightarrow> string \<Rightarrow> bool"
  assumes add: "inv w \<Longrightarrow> known w g a \<Longrightarrow>
      \<exists>rl w'. AddUserToGroup c a g w = (Ret (rl, None), w') \<and> inv w' \<and> known w' = known w \<and>
        members w' = (members w)(g := insert a (members w g))"
    and remove: "inv w \<Longrightarrow> known w g a \<Longrightarrow>
      \<exists>rl w'. RemoveUserFromGroup c a g w = (Ret (rl, None), w') \<and> inv w' \<and> known w' = known w \<and>
        members w' = (members w)(g := members w g - {a})"
begin

lemma grant:
  assumes "inv w" "known w (rid_Resource gid) (rid_Resource pid)"
    and "res_Id who = Some pid" "ent_Resource ent = Some res" "res_Id res = Some gid"
  shows "\<exists>annos w'. groupGrant c who ent w = (Ret ([NewGrant res ''member'' pid []], annos, None), w') \<and>
    inv w' \<and> known w' = known w \<and>
    members w' = (members w)(rid_Resource gid := insert (rid_Resource pid) (members w (rid_Resource gid)))"
  using add [OF assms(1,2)] assms(3-5)
  by (auto simp: groupGrant_def bindIO_apply Let_def groupMemberEntitlement_def)

lemma revoke:
  assumes "inv w" "known w (rid_Resource gid) (rid_Resource pid)"
    and "gr_Principal g = Some who" "res_Id who = Some pid"
    and "gr_Entitlement g = Some ent" "ent_Resource ent = Some res" "res_Id res = Some gid"
  shows "\<exists>annos w'. groupRevoke c g w = (Ret (annos, None), w') \<and>
    inv w' \<and> known w' = known w \<and>
    members w' = (members w)(rid_Resource gid := members w (rid_Resource gid) - {rid_Resource pid})"
  using remove [OF assms(1,2)] assms(3-7) by (auto simp: groupRevoke_def bindIO_apply)

end

text \<open>Requests as events, and what they do to the sets of members.\<close>

datatype member_event = AddMember ResourceId ResourceId | RemoveMember ResourceId ResourceId

text \<open>The resource of a group as far as a change needs it.\<close>

definition group_ref :: "ResourceId \<Rightarrow> Resource" where
  "group_ref gid = principal_resource gid"

fun member_call :: "'w ConfluenceClient \<Rightarrow> member_event \<Rightarrow> ('w, go_error option) io" where
  "member_call c (AddMember gid pid) =
     bindIO (groupGrant c (principal_resource pid) (grant_entitlement (group_ref gid) ''member'')) (\<lambda>(_, _, e). ret e)"
| "member_call c (RemoveMember gid pid) =
     bindIO (groupRevoke c (NewGrant (group_ref gid) ''member'' pid [])) (\<lambda>(_, e). ret e)"

fun member_effect :: "member_event \<Rightarrow> (string \<Rightarrow> string set) \<Rightarrow> string \<Rightarrow> string set" where
  "member_effect (AddMember gid pid) m = m(rid_Resource gid := insert (rid_Resource pid) (m (rid_Resource gid)))"
| "member_effect (RemoveMember gid pid) m = m(rid_Resource gid := m (rid_Resource gid) - {rid_Resource pid})"

fun change_ok :: "(string \<Rightarrow> string \<Rightarrow> bool) \<Rightarrow> member_event \<Rightarrow> bool" where
  "change_ok known (AddMember gid pid) = known (rid_Resource gid) (rid_Resource pid)"
| "change_ok known (RemoveMember gid pid) = known (rid_Resource gid) (rid_Resource pid)"

sublocale member_store \<subseteq> event_store "member_call c" member_effect members inv "\<lambda>w. change_ok (known w)"
proof
  fix w e assume w: "inv w" and e: "change_ok (known w) e"
  have ref: "res_Id (group_ref gid) = Some gid" for gid by (simp add: group_ref_def)
  show "\<exists>w'. member_call c e w = (Ret None, w') \<and> inv w' \<and> change_ok (known w') = change_ok (known w) \<and>
      members w' = member_effect e (members w)"
  proof (cases e)
    case (AddMember gid pid)
    then have k: "known w (rid_Resource gid) (rid_Resource pid)" using e by simp
    from grant [OF w k, of "principal_resource pid" "grant_entitlement (group_ref gid) ''member''" "group_ref gid"]
    show ?thesis using AddMember ref by (auto simp: bindIO_apply)
  next
    case (RemoveMember gid pid)
    then have k: "known w (rid_Resource gid) (rid_Resource pid)" using e by simp
    from revoke [OF w k, of "NewGrant (group_ref gid) ''member'' pid []" "principal_resource pid"
        "grant_entitlement (group_ref gid) ''member''" "group_ref gid"]
    show ?thesis using RemoveMember ref by (auto simp: bindIO_apply)
  qed
qed

section \<open>The client on a site\<close>

definition membership_segs :: "string list" where
  "membership_segs = [''wiki'', ''rest'', ''api'', ''group'', ''userByGroupId'']"

lemma membership_path:
  "path_of membership_segs = groupBaseUrlPath" "good_segments membership_segs"
  "unescape EncodePath (path_of membership_segs) = Inr groupBaseUrlPath"
proof -
  show p: "path_of membership_segs = groupBaseUrlPath"
    by (simp add: membership_segs_def groupBaseUrlPath_def)
  show "good_segments membership_segs"
    by (simp add: good_segments_def membership_segs_def literal_segment is_lower_def is_upper_def)
  show "unescape EncodePath (path_of membership_segs) = Inr groupBaseUrlPath"
    unfolding p by (rule unescape_literal)
      (simp add: groupBaseUrlPath_def literal_char_def is_alnum_def is_lower_def is_upper_def is_digit_def)
qed

lemma AddUserToGroup_site:
  assumes "base_ok base" "g \<in> grp_Id ` set (st_groups S)" "known_user S a = Some u" "valid_utf8 a"
  shows "AddUserToGroup (site_client base) a g S = (Ret (Some no_limits, None), add_member g u S)"
proof -
  let ?pss = "[[(''groupId'', QString g)]]"
  let ?u = "endpoint_url base membership_segs groupBaseUrlPath ?pss"
  let ?j = "json_AddUserToGroup \<lparr>ab_AccountId = a\<rparr>"
  have known: "known_parameters ?pss" by (simp add: known_parameters_def)
  have "plain ?j"
    using assms(4) by (simp add: json_AddUserToGroup_def member_def valid_utf8_ascii is_ascii_def)
  then have "json_parse (json_print ?j) = Some ?j" by (rule json_parse_print)
  then have body: "account_of_body (json_print ?j) = a"
    by (simp add: account_of_body_def json_AddUserToGroup_def member_def json_member_def json_text_def)
  have q: "values_get (url_Query ?u) ''groupId'' = g"
    using values_get_snoc [of "[(''groupId'', QString g)]" base membership_segs groupBaseUrlPath "[]" "''groupId''"] by simp
  have ans: "site_serve (request_to (server_client base site_serve) POST ?u (Some (json_print ?j))) S
      = ((201, []), add_member g u S)"
    using assms(2,3) q body by (simp add: site_serve_def site_change_def request_to_def Let_def)
  have code: "(201::int) \<in> {200, 201, 204}" "POST \<noteq> GET" by simp_all
  note r = served_accepted [where serve = site_serve and s = S and s' = "add_member g u S",
      OF assms(1) membership_path(2,3) known ans code]
  show ?thesis
    using r(1) r(2) [where v = "()"] by (simp add: AddUserToGroup_def site_client_def membership_path(1) client_post_def bindIO_apply Let_def)
qed

lemma RemoveUserFromGroup_site:
  assumes "base_ok base" "g \<in> grp_Id ` set (st_groups S)"
  shows "RemoveUserFromGroup (site_client base) a g S = (Ret (Some no_limits, None), remove_member g a S)"
proof -
  let ?ps = "[(''groupId'', QString g), (''accountId'', QString a)]"
  let ?u = "endpoint_url base membership_segs groupBaseUrlPath [?ps]"
  have known: "known_parameters [?ps]" by (simp add: known_parameters_def)
  have q: "values_get (url_Query ?u) ''groupId'' = g" "values_get (url_Query ?u) ''accountId'' = a"
    using values_get_snoc [of ?ps base membership_segs groupBaseUrlPath "[]" "''groupId''"]
      values_get_snoc [of ?ps base membership_segs groupBaseUrlPath "[]" "''accountId''"] by simp_all
  have ans: "site_serve (request_to (server_client base site_serve) DELETE ?u None) S
      = ((204, []), remove_member g a S)"
    using assms(2) q by (simp add: site_serve_def site_change_def request_to_def Let_def)
  have code: "(204::int) \<in> {200, 201, 204}" "DELETE \<noteq> GET" by simp_all
  note r = served_accepted [where serve = site_serve and s = S and s' = "remove_member g a S",
      OF assms(1) membership_path(2,3) known ans code]
  show ?thesis
    using r(1) r(2) [where v = "()"] by (simp add: RemoveUserFromGroup_def site_client_def membership_path(1) client_delete_def bindIO_apply)
qed

section \<open>The site as a store of members\<close>

definition member_ids :: "site \<Rightarrow> string \<Rightarrow> string set" where
  "member_ids S g = usr_AccountId ` set (st_members S g)"

definition member_known :: "site \<Rightarrow> string \<Rightarrow> string \<Rightarrow> bool" where
  "member_known S g a \<longleftrightarrow> g \<in> grp_Id ` set (st_groups S) \<and> valid_utf8 a \<and> known_user S a \<noteq> None"

lemma known_user_id: "known_user S a = Some u \<Longrightarrow> usr_AccountId u = a \<and> u \<in> set (st_users S)"
  by (auto simp: known_user_def find_Some_iff)

lemma member_known_change [simp]:
  "member_known (add_member g u S) = member_known S" "member_known (remove_member g a S) = member_known S"
  by (simp_all add: member_known_def known_user_def add_member_def remove_member_def fun_eq_iff)

lemma member_ids_change:
  "member_ids (add_member g u S) = (member_ids S)(g := insert (usr_AccountId u) (member_ids S g))"
  "member_ids (remove_member g a S) = (member_ids S)(g := member_ids S g - {a})"
  by (auto simp: member_ids_def add_member_def remove_member_def fun_eq_iff)

interpretation site_members: member_store "site_client base" member_ids "\<lambda>S. base_ok base" member_known for base
proof (unfold_locales, goal_cases)
  case (1 S g a)
  then show ?case
    using AddUserToGroup_site [of base g S a] known_user_id [of S a]
    by (auto simp: member_known_def [of S] member_ids_change)
next
  case (2 S g a)
  then show ?case
    using RemoveUserFromGroup_site [of base g S a] by (simp add: member_known_def [of S] member_ids_change)
qed

section \<open>A change and the sync after it\<close>

text \<open>Adding a user who is no member appends one, and removing him gives back the site.\<close>

lemma add_then_remove:
  assumes "usr_AccountId u \<notin> member_ids S g"
  shows "st_members (add_member g u S) g = st_members S g @ [u]"
    "remove_member g (usr_AccountId u) (add_member g u S) = S"
proof -
  have "filter (\<lambda>v. usr_AccountId v \<noteq> usr_AccountId u) (st_members S g) = st_members S g"
    using assms unfolding member_ids_def filter_id_conv by (metis image_eqI)
  then show "st_members (add_member g u S) g = st_members S g @ [u]"
    "remove_member g (usr_AccountId u) (add_member g u S) = S"
    using assms by (auto simp: add_member_def remove_member_def member_ids_def)
qed

lemma add_member_ok:
  assumes "site_ok S" "u \<in> set (st_users S)" "small (st_members S g @ [u])"
  shows "site_ok (add_member g u S)"
  using assms by (auto simp: site_ok_def add_member_def list_all_iff)

definition group_grants :: "url \<Rightarrow> ConfluenceGroup \<Rightarrow> site \<Rightarrow> ((Grant list \<times> go_error option) go \<times> site) option" where
  "group_grants base g =
     sync_pages (ListGrants \<lparr>rid_ResourceType = ''group'', rid_Resource = grp_Id g\<rparr>
       (\<lambda>t. groupGrants (site_client base) (expected_group g) \<lparr>tok_Size = 0, tok_Token = t\<rparr>)) [] []"

lemma group_grants_site:
  assumes "base_ok base" "site_ok S" "g \<in> set (st_groups S)"
  shows "group_grants base g S = Some (Ret (member_grants (expected_group g) (st_members S (grp_Id g)), None), S)"
  using member_pages.all_pages [of S S base g] assms by (auto simp: group_grants_def ListGrants_def Let_def)

lemma member_grant_new:
  assumes "base_ok base" "site_ok S" "g \<in> set (st_groups S)" "known_user S (usr_AccountId u) = Some u"
    and "ent_Resource ent = Some (expected_group g)"
    and "res_Id who = Some \<lparr>rid_ResourceType = ''user'', rid_Resource = usr_AccountId u\<rparr>"
  shows "\<exists>annos. groupGrant (site_client base) who ent S =
    (Ret ([NewGrant (expected_group g) ''member'' \<lparr>rid_ResourceType = ''user'', rid_Resource = usr_AccountId u\<rparr> []], annos, None),
     add_member (grp_Id g) u S)"
proof -
  have "u \<in> set (st_users S)" "grp_Id g \<in> grp_Id ` set (st_groups S)" using known_user_id [OF assms(4)] assms(3) by simp_all
  moreover from this have "valid_utf8 (usr_AccountId u)"
    using assms(2) by (auto simp: site_ok_def list_all_iff user_valid_def)
  moreover have "res_Id (expected_group g) = Some \<lparr>rid_ResourceType = ''group'', rid_Resource = grp_Id g\<rparr>"
    by (simp add: expected_group_def)
  ultimately show ?thesis
    using AddUserToGroup_site [OF assms(1) _ assms(4), of "grp_Id g"] assms(5,6)
    by (simp add: groupGrant_def bindIO_apply Let_def groupMemberEntitlement_def)
qed

text \<open>
  C8. When a user that the site knows, whom shouldIncludeUser accepts and who is no member of a group is
  granted its member entitlement, Grant returns one grant without error, a complete sync of the grants
  of the group then lists what it listed before followed by exactly that grant, and revoking that
  grant gives back the site as it was.
\<close>

theorem group_grant_visible:
  assumes "base_ok base" "site_ok S" "g \<in> set (st_groups S)"
    and "known_user S (usr_AccountId u) = Some u" "shouldIncludeUser u"
    and "usr_AccountId u \<notin> usr_AccountId ` set (st_members S (grp_Id g))" "small (st_members S (grp_Id g) @ [u])"
    and "ent_Resource ent = Some (expected_group g)"
    and "res_Id who = Some \<lparr>rid_ResourceType = ''user'', rid_Resource = usr_AccountId u\<rparr>"
  shows "\<exists>annos annos' new old S'.
    groupGrant (site_client base) who ent S = (Ret ([new], annos, None), S') \<and>
    group_grants base g S = Some (Ret (old, None), S) \<and>
    group_grants base g S' = Some (Ret (old @ [new], None), S') \<and>
    groupRevoke (site_client base) new S' = (Ret (annos', None), S)"
proof -
  let ?pid = "\<lparr>rid_ResourceType = ''user'', rid_Resource = usr_AccountId u\<rparr>"
  let ?new = "NewGrant (expected_group g) ''member'' ?pid []" and ?S' = "add_member (grp_Id g) u S"
  have user: "u \<in> set (st_users S)" using known_user_id [OF assms(4)] by simp
  have here: "grp_Id g \<in> grp_Id ` set (st_groups S)" using assms(3) by simp
  have group: "res_Id (expected_group g) = Some \<lparr>rid_ResourceType = ''group'', rid_Resource = grp_Id g\<rparr>"
    by (simp add: expected_group_def)
  note change = add_then_remove [OF assms(6) [folded member_ids_def]]
  have grant: "\<exists>annos. groupGrant (site_client base) who ent S = (Ret ([?new], annos, None), ?S')"
    by (rule member_grant_new [OF assms(1-4,8,9)])
  have revoke: "\<exists>annos. groupRevoke (site_client base) ?new ?S' = (Ret (annos, None), S)"
    using RemoveUserFromGroup_site [OF assms(1), of "grp_Id g" ?S' "usr_AccountId u"] here group change(2)
    by (simp add: groupRevoke_def bindIO_apply add_member_def)
  have after: "group_grants base g ?S' =
      Some (Ret (member_grants (expected_group g) (st_members S (grp_Id g)) @ [?new], None), ?S')"
    using group_grants_site [OF assms(1) add_member_ok [OF assms(2) user assms(7)], of g] assms(3,5) change(1)
    by (simp add: add_member_def member_grants_def groupMemberEntitlement_def resource_type_defs)
  show ?thesis
    using grant revoke after group_grants_site [OF assms(1-3)] by blast
qed

section \<open>An example\<close>

definition carol :: ConfluenceUser where
  "carol = \<lparr>usr_AccountId = ''c1'', usr_AccountType = ''atlassian'', usr_DisplayName = ''Carol'',
     usr_Email = [], usr_Operations = []\<rparr>"

definition wide_site :: site where
  "wide_site = \<lparr>st_users = [alice, carol], st_groups = [staff], st_members = (\<lambda>_. [bob, robot])\<rparr>"

lemma wide_site_ok: "site_ok wide_site"
  using demo_site_ok
  by (simp add: site_ok_def wide_site_def demo_site_def user_valid_def carol_def small_def valid_utf8_ascii is_ascii_def)

lemma carol_known: "known_user wide_site ''c1'' = Some carol" "shouldIncludeUser carol" "usr_AccountId carol = ''c1''"
  by (simp_all add: known_user_def wide_site_def carol_def alice_def shouldIncludeUser_def accountTypeAtlassian_def)

definition staff_id :: ResourceId where
  "staff_id = \<lparr>rid_ResourceType = ''group'', rid_Resource = ''g1''\<rparr>"

definition user_id :: "string \<Rightarrow> ResourceId" where
  "user_id a = \<lparr>rid_ResourceType = ''user'', rid_Resource = a\<rparr>"

theorem group_grant_visible_witness:
  "\<exists>annos old new S'.
    groupGrant (site_client demo_base) (principal_resource (user_id ''c1''))
      (grant_entitlement (expected_group staff) ''member'') wide_site = (Ret ([new], annos, None), S') \<and>
    group_grants demo_base staff wide_site = Some (Ret (old, None), wide_site) \<and>
    group_grants demo_base staff S' = Some (Ret (old @ [new], None), S')"
proof -
  have here: "staff \<in> set (st_groups wide_site)" by (simp add: wide_site_def)
  have fresh: "usr_AccountId carol \<notin> usr_AccountId ` set (st_members wide_site (grp_Id staff))"
    by (simp add: carol_known wide_site_def bob_def robot_def)
  have room: "small (st_members wide_site (grp_Id staff) @ [carol])" by (simp add: small_def wide_site_def)
  show ?thesis
    using group_grant_visible [OF demo_base_ok wide_site_ok here _ carol_known(2) fresh room,
        of "grant_entitlement (expected_group staff) ''member''" "principal_resource (user_id ''c1'')"]
      carol_known(1,3)
    by (auto simp: user_id_def)
qed

end
