(* ===== verification/Access.thy ===== *)
theory Access
  imports AssignmentSync RoleChanges GroupChanges
begin

text \<open>
  What the syncs give together: the principals of the grants of a group are users that the sync of users
  lists, and the roles of a space with their grants are exactly who has which role there.
\<close>

definition grantee :: "Grant \<Rightarrow> ResourceId option" where
  "grantee g = Option.bind (gr_Principal g) res_Id"

lemma grantee_NewGrant [simp]: "grantee (NewGrant res e pid annos) = Some pid"
  by (simp add: grantee_def NewGrant_def)

text \<open>
  C17. The principal of every grant that a complete sync of a group lists is a user that the complete sync
  of users lists, whose ids are exactly those of the users that the search returns or that are a
  member of some group and that shouldIncludeUser accepts: no grant refers to a missing user, and
  nobody is missed by the switch from search to groups to members or by a page boundary.
\<close>

theorem group_grants_have_users:
  assumes "base_ok base" "site_ok S" "g \<in> set (st_groups S)"
  shows "\<exists>users grants.
    sync_pages (ListResources ''user'' parent (\<lambda>t. userList (site_client base) \<lparr>tok_Size = 0, tok_Token = t\<rparr>)) [] [] S =
      Some (Ret (users, None), S) \<and>
    group_grants base g S = Some (Ret (grants, None), S) \<and>
    grantee ` set grants \<subseteq> res_Id ` set users \<and>
    res_Id ` set users = (\<lambda>u. Some \<lparr>rid_ResourceType = ''user'', rid_Resource = usr_AccountId u\<rparr>) `
      {u. shouldIncludeUser u \<and> (u \<in> set (st_users S) \<or> (\<exists>g \<in> set (st_groups S). u \<in> set (st_members S (grp_Id g))))}"
proof -
  have users: "res_Id ` set (listed (site_users S)) =
      (\<lambda>u. Some \<lparr>rid_ResourceType = ''user'', rid_Resource = usr_AccountId u\<rparr>) `
        {u. shouldIncludeUser u \<and> (u \<in> set (st_users S) \<or> (\<exists>g \<in> set (st_groups S). u \<in> set (st_members S (grp_Id g))))}"
    by (auto simp: listed_def expected_user_def image_image set_site_users)
  have "grantee ` set (member_grants (expected_group g) (st_members S (grp_Id g))) =
      (\<lambda>u. Some \<lparr>rid_ResourceType = ''user'', rid_Resource = usr_AccountId u\<rparr>) `
        {u \<in> set (st_members S (grp_Id g)). shouldIncludeUser u}"
    by (auto simp: member_grants_def resource_type_defs image_image)
  then show ?thesis
    using user_sync_run [OF assms(1,2), of parent] group_grants_site [OF assms] users assms(3) by blast
qed

definition granted_role :: "SpaceRoleAssignment \<Rightarrow> string \<times> ResourceId" where
  "granted_role a =
     (sra_RoleId a,
      \<lparr>rid_ResourceType = (if rp_PrincipalType (sra_Principal a) = ''USER'' then ''user'' else ''group''),
       rid_Resource = rp_PrincipalId (sra_Principal a)\<rparr>)"

lemma grantee_expected [simp]: "grantee (expected_role_grant res a) = Some (snd (granted_role a))"
  by (simp add: expected_role_grant_def granted_role_def Let_def)

text \<open>
  C9. For a space of a reference tenant, the roles that the sync of role assignments lists, each with the
  grants that the sync of its holders lists, are together exactly who has which role in the space: a
  role and a user or group occur in them if and only if the tenant has that assignment.
\<close>

theorem role_access_complete:
  assumes "base_ok base" "tenant_ok S" "space_at S s"
    and "\<forall>a \<in> set (tn_assignments S (sp_Id s)). sra_RoleId a \<noteq> []"
  shows "\<exists>rs ws. sync_pages (ListResources ''space_role_assignment'' parent
      (syncer_step (Some \<lparr>rid_ResourceType = ''space'', rid_Resource = sp_Id s\<rparr>) 0)) [] []
      (S, newSpaceRoleAssignmentBuilder (tenant_client base)) = Some (Ret (rs, None), ws) \<and>
    {(i, pid). \<exists>r \<in> set rs. \<exists>gs. role_sync base r S = Some (Ret (gs, None), S) \<and>
        binding_of r = Inr (sp_Id s, i) \<and> Some pid \<in> grantee ` set gs} =
    granted_role `
      {a \<in> set (tn_assignments S (sp_Id s)). rp_PrincipalType (sra_Principal a) \<in> {''USER'', ''GROUP''}}"
proof -
  let ?as = "tn_assignments S (sp_Id s)" and ?sid = "\<lparr>rid_ResourceType = ''space'', rid_Resource = sp_Id s\<rparr>"
  let ?b = "\<lambda>a. listed_binding S s (sra_RoleId a)"
  obtain rs ws where run: "sync_pages (ListResources ''space_role_assignment'' parent (syncer_step (Some ?sid) 0)) [] []
      (S, newSpaceRoleAssignmentBuilder (tenant_client base)) = Some (Ret (rs, None), ws)" "set rs = ?b ` set ?as"
    using assignment_sync_run [OF assms(1-3), of "[]" parent] unfolding newSpaceRoleAssignmentBuilder_def by blast
  have ids: "list_all id_char (rid_Resource ?sid)" using assms(3) by (simp add: space_at_def)
  have res: "spaceRoleAssignmentResource i ?sid (role_label (take 200 (tn_roles S)) i) (sp_Name s) = Inr (listed_binding S s i)" for i
    by (simp add: spaceRoleAssignmentResource_expected listed_binding_def)
  have bind: "binding_of (listed_binding S s i) = Inr (sp_Id s, i)" for i
    using binding_of_listed [OF res] by simp
  have sync: "role_sync base (listed_binding S s i) S = Some (Ret (role_holders (listed_binding S s i) i ?as, None), S)"
    if "i \<noteq> []" for i
    using role_grants_tenant [OF assms(1,2) ids that res] by (simp add: role_sync_def)
  have who: "grantee ` set (role_holders res i ?as) =
      (\<lambda>a. Some (snd (granted_role a))) `
        {a \<in> set ?as. sra_RoleId a = i \<and> rp_PrincipalType (sra_Principal a) \<in> {''USER'', ''GROUP''}}" for res i
    by (simp add: role_holders_def image_image)
  have holders: "Some pid \<in> grantee ` set (role_holders res i ?as) \<longleftrightarrow>
      (i, pid) \<in> granted_role ` {a \<in> set ?as. rp_PrincipalType (sra_Principal a) \<in> {''USER'', ''GROUP''}}" for res i pid
    unfolding who by (auto simp: granted_role_def image_iff)
  have "(\<exists>r \<in> set rs. \<exists>gs. role_sync base r S = Some (Ret (gs, None), S) \<and>
        binding_of r = Inr (sp_Id s, i) \<and> Some pid \<in> grantee ` set gs) \<longleftrightarrow>
      (i, pid) \<in> granted_role ` {a \<in> set ?as. rp_PrincipalType (sra_Principal a) \<in> {''USER'', ''GROUP''}}"
    (is "?listed \<longleftrightarrow> ?held") for i pid
  proof
    assume ?listed
    then obtain a gs where a: "a \<in> set ?as" "i = sra_RoleId a" "role_sync base (?b a) S = Some (Ret (gs, None), S)"
      "Some pid \<in> grantee ` set gs"
      using run(2) bind by auto
    then show ?held using sync [of i] holders assms(4) by auto
  next
    assume held: ?held
    then obtain a where a: "a \<in> set ?as" "i = sra_RoleId a" by (auto simp: granted_role_def)
    then have "listed_binding S s i \<in> set rs" "i \<noteq> []" using run(2) assms(4) by auto
    moreover have "Some pid \<in> grantee ` set (role_holders (listed_binding S s i) i ?as)"
      using held unfolding holders .
    ultimately show ?listed using sync [of i] bind [of i] by blast
  qed
  then have "{(i, pid). \<exists>r \<in> set rs. \<exists>gs. role_sync base r S = Some (Ret (gs, None), S) \<and>
        binding_of r = Inr (sp_Id s, i) \<and> Some pid \<in> grantee ` set gs} =
    granted_role ` {a \<in> set ?as. rp_PrincipalType (sra_Principal a) \<in> {''USER'', ''GROUP''}}"
    by auto
  then show ?thesis using run(1) by blast
qed

section \<open>Examples\<close>

theorem group_grants_have_users_witness:
  "\<exists>users grants.
    sync_pages (ListResources ''user'' [] (\<lambda>t. userList (site_client demo_base) \<lparr>tok_Size = 0, tok_Token = t\<rparr>)) [] [] demo_site =
      Some (Ret (users, None), demo_site) \<and>
    group_grants demo_base staff demo_site = Some (Ret (grants, None), demo_site) \<and>
    grantee ` set grants \<subseteq> res_Id ` set users"
  using group_grants_have_users [OF demo_base_ok demo_site_ok, of staff "[]"] by (auto simp: demo_site_def)

theorem role_access_complete_witness:
  "\<exists>rs ws. sync_pages (ListResources ''space_role_assignment'' []
      (syncer_step (Some \<lparr>rid_ResourceType = ''space'', rid_Resource = ''7''\<rparr>) 0)) [] []
      (demo_tenant, newSpaceRoleAssignmentBuilder (tenant_client demo_base)) = Some (Ret (rs, None), ws) \<and>
    {(i, pid). \<exists>r \<in> set rs. \<exists>gs. role_sync demo_base r demo_tenant = Some (Ret (gs, None), demo_tenant) \<and>
        binding_of r = Inr (''7'', i) \<and> Some pid \<in> grantee ` set gs} = {(''r1'', demo_who ''a1'')}"
proof -
  have "tn_assignments demo_tenant (sp_Id manual) = [demo_assignment]" by (simp add: demo_tenant_def)
  moreover have "sra_RoleId demo_assignment \<noteq> []" by (simp add: demo_assignment_def)
  moreover have "granted_role ` {a \<in> {demo_assignment}. rp_PrincipalType (sra_Principal a) \<in> {''USER'', ''GROUP''}} =
      {(''r1'', demo_who ''a1'')}"
    by (auto simp: granted_role_def demo_assignment_def demo_who_def)
  ultimately show ?thesis
    using role_access_complete [OF demo_base_ok demo_tenant_ok manual_at_demo, of "[]"] by simp
qed

end
