(* ===== verification/FullSync.thy ===== *)
theory FullSync
  imports Gateway Access
begin

text \<open>
  A sync of the whole connector: the resources of every selected type, the children that they announce, and
  the grants of every resource, as the SDK's syncer goes through them (\<open>pkg/sync/syncer.go\<close>), against the
  site and the tenant behind one address. The SDK keeps what it finds in a file and may work on several
  jobs at a time; here they are lists, and one job follows the other.
\<close>

section \<open>The run\<close>

type_synonym 'w builders = "'w \<times> 'w syncer list"

definition has_type :: "string \<Rightarrow> 'w syncer \<Rightarrow> bool" where
  "has_type ty b \<longleftrightarrow> rt_Id (syncer_type b) = ty"

text \<open>All pages of a type under a parent; the builder of that type moves on, the others stay.\<close>

definition sync_type :: "string \<Rightarrow> ResourceId option \<Rightarrow> 'w builders \<Rightarrow>
    ((Resource list \<times> go_error option) go \<times> 'w builders) option" where
  "sync_type ty parent st =
     (case find (has_type ty) (snd st) of
        None \<Rightarrow> Some (Ret ([], Some (ErrStatus NotFound (''error: list resources with unknown resource type '' @ ty))), st)
      | Some b \<Rightarrow>
          map_option (\<lambda>(r, w', b'). (r, w', map (\<lambda>b. if has_type ty b then b' else b) (snd st)))
            (sync_pages (ListResources ty [] (syncer_step parent 0)) [] [] (fst st, b)))"

definition childResourceTypeIDs :: "Resource \<Rightarrow> string list" where
  "childResourceTypeIDs parent =
     List.map_filter (\<lambda>a. case a of AnyChildResourceType ty \<Rightarrow> Some ty | _ \<Rightarrow> None) (res_Annotations parent)"

text \<open>A job lists a type under a parent. The SDK moreover never schedules the same job twice.\<close>

definition childResourceActions :: "string list \<Rightarrow> Resource \<Rightarrow> (string \<times> ResourceId option) list" where
  "childResourceActions ids parent =
     map (\<lambda>ty. (ty, res_Id parent)) (filter (WillSyncResourceType ids) (childResourceTypeIDs parent))"

partial_function (option) sync_resources :: "string list \<Rightarrow> (string \<times> ResourceId option) list \<Rightarrow> Resource list \<Rightarrow>
    'w builders \<Rightarrow> ((Resource list \<times> go_error option) go \<times> 'w builders) option" where
  "sync_resources ids jobs acc st =
     (case jobs of
        [] \<Rightarrow> Some (Ret (acc, None), st)
      | (ty, parent) # rest \<Rightarrow>
          Option.bind (sync_type ty parent st) (\<lambda>(r, st').
            case r of
              Panic p \<Rightarrow> Some (Panic p, st')
            | Ret (rs, Some e) \<Rightarrow> Some (Ret (acc @ rs, Some e), st')
            | Ret (rs, None) \<Rightarrow>
                sync_resources ids (concat (map (childResourceActions ids) rs) @ rest) (acc @ rs) st'))"

text \<open>The grants of a resource, unless it or its type says to skip them.\<close>

definition shouldSkipEntitlementsAndGrants :: "Resource \<Rightarrow> ResourceType \<Rightarrow> bool" where
  "shouldSkipEntitlementsAndGrants r rt \<longleftrightarrow>
     AnySkipEntitlementsAndGrants \<in> set (res_Annotations r) \<or> AnySkipEntitlementsAndGrants \<in> set (rt_Annotations rt)"

definition sync_grants_of :: "Resource \<Rightarrow> 'w builders \<Rightarrow> ((Grant list \<times> go_error option) go \<times> 'w builders) option" where
  "sync_grants_of res st =
     (case find (has_type (id_type (res_Id res))) (snd st) of
        None \<Rightarrow> Some (Ret ([], Some (ErrStatus NotFound (''error: list grants with unknown resource type '' @ id_type (res_Id res)))), st)
      | Some b \<Rightarrow>
          if shouldSkipEntitlementsAndGrants res (syncer_type b) then Some (Ret ([], None), st)
          else map_option (\<lambda>(r, w'). (r, w', snd st))
            (sync_pages (ListGrants \<lparr>rid_ResourceType = id_type (res_Id res), rid_Resource = id_resource (res_Id res)\<rparr>
               (\<lambda>t. syncer_Grants b res \<lparr>tok_Size = 0, tok_Token = t\<rparr>)) [] [] (fst st)))"

fun sync_grants :: "Resource list \<Rightarrow> Grant list \<Rightarrow> 'w builders \<Rightarrow>
    ((Grant list \<times> go_error option) go \<times> 'w builders) option" where
  "sync_grants [] acc st = Some (Ret (acc, None), st)"
| "sync_grants (res # rest) acc st =
     Option.bind (sync_grants_of res st) (\<lambda>(r, st').
       case r of
         Panic p \<Rightarrow> Some (Panic p, st')
       | Ret (gs, Some e) \<Rightarrow> Some (Ret (acc @ gs, Some e), st')
       | Ret (gs, None) \<Rightarrow> sync_grants rest (acc @ gs) st')"

definition with_resources :: "Resource list \<Rightarrow> (Grant list \<times> go_error option) go \<Rightarrow>
    ((Resource list \<times> Grant list) \<times> go_error option) go" where
  "with_resources rs r = (case r of Panic p \<Rightarrow> Panic p | Ret (gs, err) \<Rightarrow> Ret ((rs, gs), err))"

definition full_sync :: "string list \<Rightarrow> 'w Confluence \<Rightarrow> 'w \<Rightarrow>
    (((Resource list \<times> Grant list) \<times> go_error option) go \<times> 'w builders) option" where
  "full_sync ids con w =
     (let bs = ResourceSyncers con;
          jobs = map (\<lambda>ty. (ty, None)) (filter (WillSyncResourceType ids) (map (\<lambda>b. rt_Id (syncer_type b)) bs))
      in Option.bind (sync_resources ids jobs [] (w, bs)) (\<lambda>(r, st).
           case r of
             Panic p \<Rightarrow> Some (Panic p, st)
           | Ret (rs, Some e) \<Rightarrow> Some (Ret ((rs, []), Some e), st)
           | Ret (rs, None) \<Rightarrow> map_option (\<lambda>(r, st). (with_resources rs r, st)) (sync_grants rs [] st)))"

section \<open>The builders behind one address\<close>

text \<open>A builder without a state of its own does over the whole what its operation does over a half.\<close>

lemma simulates_step:
  assumes "\<And>tok. syncer_List b parent tok = bindIO (m' tok) (\<lambda>r. ret (r, b))"
    and "simulates R F (m' \<lparr>tok_Size = 0, tok_Token = t\<rparr>) m"
  shows "simulates (\<lambda>s ws. R s (fst ws) \<and> snd ws = b) F (syncer_step parent 0 t) m"
  unfolding simulates_def
proof (intro allI impI, elim conjE)
  fix s ws a s' assume "R s (fst ws)" "snd ws = b" "m s = (Ret a, s')" "\<not> F a"
  then obtain w' where "m' \<lparr>tok_Size = 0, tok_Token = t\<rparr> (fst ws) = (Ret a, w')" "R s' w'"
    using simulatesD [OF assms(2)] by blast
  then show "\<exists>ws'. syncer_step parent 0 t ws = (Ret a, ws') \<and> R s' (fst ws') \<and> snd ws' = b"
    using \<open>snd ws = b\<close> by (simp add: syncer_step_def assms(1) bindIO_apply)
qed

lemma simulated_listing:
  assumes "\<And>t. simulates R page_failed (list_op' t) (list_op t)"
    and "sync_pages (ListResources ty parent list_op) [] [] s = Some (Ret (rs, None), s')" "R s w"
  shows "\<exists>w'. sync_pages (ListResources ty parent list_op') [] [] w = Some (Ret (rs, None), w') \<and> R s' w'"
proof -
  have "simulates R service_failed (ListResources ty parent list_op' t) (ListResources ty parent list_op t)" for t
    unfolding ListResources_def by (rule simulates_list_page) (rule assms(1))
  from simulated_sync [OF sync_pages_run [OF assms(2)] this assms(3) refl] show ?thesis .
qed

lemma simulated_granting:
  assumes "\<And>t. simulates R page_failed (list_op' t) (list_op t)"
    and "sync_pages (ListGrants rid list_op) [] [] s = Some (Ret (gs, None), s')" "R s w"
  shows "\<exists>w'. sync_pages (ListGrants rid list_op') [] [] w = Some (Ret (gs, None), w') \<and> R s' w'"
proof -
  have "simulates R service_failed (ListGrants rid list_op' t) (ListGrants rid list_op t)" for t
    unfolding ListGrants_def Let_def by (rule simulates_list_page) (rule assms(1))
  from simulated_sync [OF sync_pages_run [OF assms(2)] this assms(3) refl] show ?thesis .
qed

lemma whole_group_sync:
  assumes "base_ok base" "site_ok S"
  shows "sync_pages (ListResources ''group'' parent (syncer_step None 0)) [] [] ((S, T), GroupBuilder (confluence_client base)) =
    Some (Ret (map expected_group (st_groups S), None), (S, T), GroupBuilder (confluence_client base))"
proof -
  have "simulates (\<lambda>S ws. fst ws = (S, T) \<and> snd ws = GroupBuilder (confluence_client base)) page_failed
      (syncer_step None 0 t) (groupList (site_client base) \<lparr>tok_Size = 0, tok_Token = t\<rparr>)" for t
    by (rule simulates_step) (simp, unfold site_client_def confluence_client_def, rule users.builders_forwarded)
  from simulated_listing [OF this group_sync_run [OF assms]] show ?thesis by fastforce
qed

lemma whole_user_sync:
  assumes "base_ok base" "site_ok S"
  shows "sync_pages (ListResources ''user'' parent (syncer_step None 0)) [] [] ((S, T), UserBuilder (confluence_client base)) =
    Some (Ret (listed (site_users S), None), (S, T), UserBuilder (confluence_client base))"
proof -
  have "simulates (\<lambda>S ws. fst ws = (S, T) \<and> snd ws = UserBuilder (confluence_client base)) page_failed
      (syncer_step None 0 t) (userList (site_client base) \<lparr>tok_Size = 0, tok_Token = t\<rparr>)" for t
    by (rule simulates_step) (simp, unfold site_client_def confluence_client_def, rule users.builders_forwarded)
  from simulated_listing [OF this user_sync_run [OF assms]] show ?thesis by fastforce
qed

lemma whole_space_sync:
  assumes "base_ok base" "tenant_ok T"
  shows "sync_pages (ListResources ''space'' parent (syncer_step None 0)) [] []
      ((S, T), SpaceBuilder (newSpaceBuilder (confluence_client base) skip rbac nouns verbs)) =
    Some (Ret (map (expected_space rbac) (filter (\<lambda>s. skip \<longrightarrow> sp_Type s \<noteq> ''personal'') (tn_spaces T)), None),
      (S, T), SpaceBuilder (newSpaceBuilder (confluence_client base) skip rbac nouns verbs))"
proof -
  have "simulates (\<lambda>T ws. fst ws = (S, T) \<and> snd ws = SpaceBuilder (newSpaceBuilder (confluence_client base) skip rbac nouns verbs))
      page_failed (syncer_step None 0 t)
      (spaceList (newSpaceBuilder (tenant_client base) skip rbac nouns verbs) \<lparr>tok_Size = 0, tok_Token = t\<rparr>)" for t
    by (rule simulates_step) (simp, unfold tenant_client_def confluence_client_def, rule content.builders_forwarded)
  from simulated_listing [OF this space_sync_run [OF assms]] show ?thesis by fastforce
qed

text \<open>
  An error of these calls is not passed on: a 404 ends the list of roles, and a space without a name is
  shown by its id. They do the same over the whole because the tenant answers them.
\<close>

lemma simulates_strict:
  assumes "simulates R F m' m" "m s = (Ret a, s)" "\<not> F a"
  shows "simulates (\<lambda>x w. x = s \<and> R s w) (\<lambda>_. False) m' m"
  using assms unfolding simulates_def by fastforce

lemma whole_role_sync:
  assumes "base_ok base" "tenant_ok T"
  shows "sync_pages (ListResources ''space_role'' parent (syncer_step None 0)) [] []
      ((S, T), SpaceRoleBuilder (confluence_client base)) =
    Some (Ret (map expected_role (tn_roles T), None), (S, T), SpaceRoleBuilder (confluence_client base))"
proof -
  have roles: "simulates (\<lambda>x w. x = T \<and> w = (S, T)) (\<lambda>_. False)
      (GetSpaceRoles (confluence_client base) [] t n) (GetSpaceRoles (tenant_client base) [] t n)" for t n
    unfolding confluence_client_def tenant_client_def
    by (rule simulates_strict [OF content.client_forwarded(6) GetSpaceRoles_tenant [OF assms, unfolded tenant_client_def]]) simp
  have list: "simulates (\<lambda>x w. x = T \<and> w = (S, T)) page_failed (spaceRoleList (confluence_client base) None t)
      (spaceRoleList (tenant_client base) None t)" for t
    unfolding spaceRoleList_def Let_def by (intro simulates_intros roles [THEN simulates_bind]) auto
  have "simulates (\<lambda>T' ws. (T' = T \<and> fst ws = (S, T)) \<and> snd ws = SpaceRoleBuilder (confluence_client base)) page_failed
      (syncer_step None 0 t) (spaceRoleList (tenant_client base) None \<lparr>tok_Size = 0, tok_Token = t\<rparr>)" for t
    by (rule simulates_step [OF _ list]) simp
  from simulated_listing [OF this role_sync_run [OF assms]] show ?thesis by fastforce
qed

lemma whole_assignmentList:
  assumes "base_ok base" "tenant_ok T" "space_at T s" "parent = Some \<lparr>rid_ResourceType = ''space'', rid_Resource = sp_Id s\<rparr>"
  shows "simulates (\<lambda>x w. x = T \<and> w = (S, T)) (\<lambda>((_, _, err), _). err \<noteq> None)
    (assignmentList (confluence_client base) names parent t) (assignmentList (tenant_client base) names parent t)"
proof -
  let ?R = "\<lambda>x w. x = T \<and> w = (S, T)" and ?no = "\<lambda>_. False"
  have at: "list_all id_char (sp_Id s)" "find (\<lambda>s'. sp_Id s' = sp_Id s) (tn_spaces T) = Some s"
    "list_all assignment_plain (tn_assignments T (sp_Id s))"
    using assms(2,3) by (simp_all add: space_at_def tenant_ok_def)
  have roles: "simulates ?R ?no (GetSpaceRoles (confluence_client base) [] c n) (GetSpaceRoles (tenant_client base) [] c n)" for c n
    unfolding confluence_client_def tenant_client_def
    by (rule simulates_strict [OF content.client_forwarded(6) GetSpaceRoles_tenant [OF assms(1,2), unfolded tenant_client_def]]) simp
  have space: "simulates ?R ?no (GetSpaceById (confluence_client base) (sp_Id s)) (GetSpaceById (tenant_client base) (sp_Id s))"
    unfolding confluence_client_def tenant_client_def
    by (rule simulates_strict [OF content.client_forwarded(8) GetSpaceById_tenant [OF assms(1,2) at(1,2), unfolded tenant_client_def]]) simp
  have page: "simulates ?R ?no (GetSpaceRoleAssignments (confluence_client base) (sp_Id s) ro p ty c n)
      (GetSpaceRoleAssignments (tenant_client base) (sp_Id s) ro p ty c n)" for ro p ty c n
    unfolding confluence_client_def tenant_client_def
    by (rule simulates_strict [OF content.client_forwarded(7) GetSpaceRoleAssignments_tenant [OF assms(1) at(3,1), unfolded tenant_client_def]]) simp
  have load: "simulates ?R (\<lambda>(_, err). err \<noteq> None) (loadRoleNames (confluence_client base) names) (loadRoleNames (tenant_client base) names)" for names
    unfolding loadRoleNames_def by (intro simulates_intros roles [THEN simulates_bind]) auto
  have name: "simulates ?R ?no (space_display_name (confluence_client base) (sp_Id s) n) (space_display_name (tenant_client base) (sp_Id s) n)" for n
    unfolding space_display_name_def by (intro simulates_intros simulates_deref space [THEN simulates_bind]) auto
  show ?thesis
    unfolding assignmentList_def assms(4) option.case ResourceId.select_convs Let_def
    by (intro simulates_intros page [THEN simulates_bind] load [THEN simulates_bind] name [THEN simulates_bind]) auto
qed

lemma whole_binding_sync:
  assumes "base_ok base" "tenant_ok T" "space_at T s" "names \<in> {[], tenant_names T}"
  shows "\<exists>rs names'. sync_pages (ListResources ''space_role_assignment'' parent
      (syncer_step (Some \<lparr>rid_ResourceType = ''space'', rid_Resource = sp_Id s\<rparr>) 0)) [] []
      ((S, T), SpaceRoleAssignmentBuilder (confluence_client base) names) =
        Some (Ret (rs, None), (S, T), SpaceRoleAssignmentBuilder (confluence_client base) names') \<and>
    names' \<in> {[], tenant_names T} \<and>
    set rs = (\<lambda>a. listed_binding T s (sra_RoleId a)) ` set (tn_assignments T (sp_Id s))"
proof -
  let ?pid = "Some \<lparr>rid_ResourceType = ''space'', rid_Resource = sp_Id s\<rparr>"
  let ?R = "\<lambda>xs ws. \<exists>names. xs = (T, SpaceRoleAssignmentBuilder (tenant_client base) names) \<and>
    ws = ((S, T), SpaceRoleAssignmentBuilder (confluence_client base) names)"
  have step: "simulates ?R page_failed (syncer_step ?pid 0 t) (syncer_step ?pid 0 t)" for t
    unfolding simulates_def
  proof (intro allI impI, elim exE conjE)
    fix xs ws a xs' names
    assume eq: "xs = (T, SpaceRoleAssignmentBuilder (tenant_client base) names)"
      "ws = ((S, T), SpaceRoleAssignmentBuilder (confluence_client base) names)"
      and run: "syncer_step ?pid 0 t xs = (Ret a, xs')" and ok: "\<not> page_failed a"
    obtain names' T' where r: "assignmentList (tenant_client base) names ?pid \<lparr>tok_Size = 0, tok_Token = t\<rparr> T = (Ret (a, names'), T')"
      "xs' = (T', SpaceRoleAssignmentBuilder (tenant_client base) names')"
      using run eq by (auto simp: syncer_step_def bindIO_def split: go.splits prod.splits)
    have "T' = T \<and> assignmentList (confluence_client base) names ?pid \<lparr>tok_Size = 0, tok_Token = t\<rparr> (S, T) = (Ret (a, names'), S, T)"
      using simulatesD [OF whole_assignmentList [OF assms(1-3) refl] _ r(1), of "(S, T)" S] ok by (cases a) auto
    then show "\<exists>ws'. syncer_step ?pid 0 t ws = (Ret a, ws') \<and> (\<exists>names. xs' = (T, SpaceRoleAssignmentBuilder (tenant_client base) names) \<and>
        ws' = ((S, T), SpaceRoleAssignmentBuilder (confluence_client base) names))"
      using eq r by (simp add: syncer_step_def bindIO_apply)
  qed
  obtain rs names' where half: "sync_pages (ListResources ''space_role_assignment'' parent (syncer_step ?pid 0)) [] []
      (T, SpaceRoleAssignmentBuilder (tenant_client base) names) =
        Some (Ret (rs, None), T, SpaceRoleAssignmentBuilder (tenant_client base) names')"
    "names' \<in> {[], tenant_names T}" "set rs = (\<lambda>a. listed_binding T s (sra_RoleId a)) ` set (tn_assignments T (sp_Id s))"
    using assignment_sync_run [OF assms, of parent] by blast
  obtain ws' where whole: "sync_pages (ListResources ''space_role_assignment'' parent (syncer_step ?pid 0)) [] []
      ((S, T), SpaceRoleAssignmentBuilder (confluence_client base) names) = Some (Ret (rs, None), ws')"
    "?R (T, SpaceRoleAssignmentBuilder (tenant_client base) names') ws'"
    using simulated_listing [OF step half(1), of "((S, T), SpaceRoleAssignmentBuilder (confluence_client base) names)"] by blast
  then show ?thesis using half(2,3) by auto
qed

section \<open>Jobs that come to an end\<close>

text \<open>A job of the sync, with the jobs for the children it finds, ends and lists \<open>Y\<close>.\<close>

definition completes :: "string list \<Rightarrow> ('w builders \<Rightarrow> bool) \<Rightarrow> string \<times> ResourceId option \<Rightarrow> Resource set \<Rightarrow> bool" where
  "completes ids good job Y \<longleftrightarrow> (\<forall>acc rest st. good st \<longrightarrow>
     (\<exists>rs st'. good st' \<and> set rs = Y \<and> sync_resources ids (job # rest) acc st = sync_resources ids rest (acc @ rs) st'))"

lemma completes_jobs:
  assumes "\<And>j. j \<in> set jobs \<Longrightarrow> completes ids good j (Y j)" "good st"
  shows "\<exists>rs st'. good st' \<and> set rs = (\<Union>j \<in> set jobs. Y j) \<and>
    sync_resources ids (jobs @ rest) acc st = sync_resources ids rest (acc @ rs) st'"
  using assms
proof (induction jobs arbitrary: acc st)
  case Nil
  then show ?case by (intro exI [of _ "[]"] exI [of _ st]) simp
next
  case (Cons j jobs)
  obtain rs1 st1 where one: "good st1" "set rs1 = Y j"
    "sync_resources ids (j # jobs @ rest) acc st = sync_resources ids (jobs @ rest) (acc @ rs1) st1"
    using Cons.prems unfolding completes_def by (metis list.set_intros(1))
  obtain rs2 st2 where "good st2" "set rs2 = (\<Union>j \<in> set jobs. Y j)"
    "sync_resources ids (jobs @ rest) (acc @ rs1) st1 = sync_resources ids rest ((acc @ rs1) @ rs2) st2"
    using Cons.IH [OF Cons.prems(1) one(1), of "acc @ rs1"] by auto
  then show ?case using one by (intro exI [of _ "rs1 @ rs2"] exI [of _ st2]) simp
qed

lemma completes_job:
  assumes "\<And>st. good st \<Longrightarrow> \<exists>rs st'. sync_type ty parent st = Some (Ret (rs, None), st') \<and> good st' \<and> set rs = X"
    and "\<And>r c. r \<in> X \<Longrightarrow> c \<in> set (childResourceActions ids r) \<Longrightarrow> completes ids good c (Z c)"
  shows "completes ids good (ty, parent) (X \<union> (\<Union>r \<in> X. \<Union>c \<in> set (childResourceActions ids r). Z c))"
  unfolding completes_def
proof (intro allI impI)
  fix acc rest st assume "good st"
  then obtain rs st1 where run: "sync_type ty parent st = Some (Ret (rs, None), st1)" "good st1" "set rs = X"
    using assms(1) by blast
  let ?jobs = "concat (map (childResourceActions ids) rs)"
  have children: "completes ids good j (Z j)" if j: "j \<in> set ?jobs" for j
  proof -
    obtain r where "r \<in> X" "j \<in> set (childResourceActions ids r)" using j run(3) by auto
    then show ?thesis by (rule assms(2))
  qed
  have ends: "\<exists>rs' st2. good st2 \<and> set rs' = (\<Union>j \<in> set ?jobs. Z j) \<and>
      sync_resources ids (?jobs @ rest) (acc @ rs) st1 = sync_resources ids rest ((acc @ rs) @ rs') st2"
    by (rule completes_jobs [where good = good], rule children, assumption, rule run(2))
  obtain rs' st2 where last: "good st2" "set rs' = (\<Union>j \<in> set ?jobs. Z j)" and jobs_run:
    "sync_resources ids (?jobs @ rest) (acc @ rs) st1 = sync_resources ids rest ((acc @ rs) @ rs') st2"
    using ends by (elim exE conjE) (rule that)
  have "sync_resources ids ((ty, parent) # rest) acc st = sync_resources ids (?jobs @ rest) (acc @ rs) st1"
    by (subst sync_resources.simps) (simp add: run(1))
  also have "\<dots> = sync_resources ids rest (acc @ (rs @ rs')) st2" using jobs_run by simp
  finally show "\<exists>out st'. good st' \<and> set out = X \<union> (\<Union>r \<in> X. \<Union>c \<in> set (childResourceActions ids r). Z c) \<and>
      sync_resources ids ((ty, parent) # rest) acc st = sync_resources ids rest (acc @ out) st'"
    using last run(3) by (intro exI [of _ "rs @ rs'"] exI [of _ st2]) auto
qed

lemma sync_grants_all:
  assumes "\<And>r. r \<in> set rs \<Longrightarrow> \<exists>gs. sync_grants_of r st = Some (Ret (gs, None), st) \<and> set gs = G r"
  shows "\<exists>gs. sync_grants rs acc st = Some (Ret (acc @ gs, None), st) \<and> set gs = (\<Union>r \<in> set rs. G r)"
  using assms
proof (induction rs arbitrary: acc)
  case (Cons r rs)
  obtain gs1 where "sync_grants_of r st = Some (Ret (gs1, None), st)" "set gs1 = G r"
    using Cons.prems [of r] by auto
  moreover obtain gs2 where "sync_grants rs (acc @ gs1) st = Some (Ret ((acc @ gs1) @ gs2, None), st)"
    "set gs2 = (\<Union>r \<in> set rs. G r)"
    using Cons.IH [OF Cons.prems, of "acc @ gs1"] by auto
  ultimately show ?case by (intro exI [of _ "gs1 @ gs2"]) simp
qed simp

end
