(* ===== verification/Inventory.thy ===== *)
theory Inventory
  imports FullSync
begin

text \<open>
  What a sync of the whole connector finds: the resources and grants of the site and the tenant, exactly, and
  no grant that refers to something that was not listed.
\<close>

section \<open>What a complete sync finds\<close>

definition synced_spaces :: "'w Confluence \<Rightarrow> tenant \<Rightarrow> ConfluenceSpace set" where
  "synced_spaces con T = {s \<in> set (tn_spaces T). con_skipPersonalSpaces con \<longrightarrow> sp_Type s \<noteq> ''personal''}"

definition space_bindings :: "tenant \<Rightarrow> ConfluenceSpace \<Rightarrow> Resource set" where
  "space_bindings T s = (\<lambda>a. listed_binding T s (sra_RoleId a)) ` set (tn_assignments T (sp_Id s))"

definition selected :: "bool \<Rightarrow> 'a set \<Rightarrow> 'a set" where "selected b X = (if b then X else {})"

definition expected_resources :: "string list \<Rightarrow> 'w Confluence \<Rightarrow> site \<Rightarrow> tenant \<Rightarrow> Resource set" where
  "expected_resources ids con S T =
     (let on = WillSyncResourceType ids; spaces = synced_spaces con T in
      selected (on ''group'') (expected_group ` set (st_groups S)) \<union>
      selected (on ''user'') (expected_user ` {u \<in> set (site_users S). shouldIncludeUser u}) \<union>
      selected (on ''space'') (expected_space (con_useRbac con) ` spaces) \<union>
      selected (on ''space_role'') (expected_role ` set (tn_roles T)) \<union>
      selected (con_useRbac con \<and> on ''space'' \<and> on ''space_role_assignment'') (\<Union>s \<in> spaces. space_bindings T s))"

definition group_members :: "site \<Rightarrow> ConfluenceGroup \<Rightarrow> Grant set" where
  "group_members S g =
     (\<lambda>u. NewGrant (expected_group g) ''member'' \<lparr>rid_ResourceType = ''user'', rid_Resource = usr_AccountId u\<rparr> []) `
       {u \<in> set (st_members S (grp_Id g)). shouldIncludeUser u}"

definition space_permissions :: "'w Confluence \<Rightarrow> tenant \<Rightarrow> ConfluenceSpace \<Rightarrow> Grant set" where
  "space_permissions con T s = expected_permission_grant (expected_space False s) `
     {p \<in> set (tn_permissions T (sp_Id s)). permission_offered (con_nouns con) (con_verbs con) p}"

definition binding_holders :: "tenant \<Rightarrow> ConfluenceSpace \<Rightarrow> string \<Rightarrow> Grant set" where
  "binding_holders T s i = expected_role_grant (listed_binding T s i) `
     {a \<in> set (tn_assignments T (sp_Id s)). sra_RoleId a = i \<and> rp_PrincipalType (sra_Principal a) \<in> {''USER'', ''GROUP''}}"

definition expected_grants :: "string list \<Rightarrow> 'w Confluence \<Rightarrow> site \<Rightarrow> tenant \<Rightarrow> Grant set" where
  "expected_grants ids con S T =
     (let on = WillSyncResourceType ids; spaces = synced_spaces con T in
      selected (on ''group'') (\<Union>g \<in> set (st_groups S). group_members S g) \<union>
      selected (\<not> con_useRbac con \<and> on ''space'') (\<Union>s \<in> spaces. space_permissions con T s) \<union>
      selected (con_useRbac con \<and> on ''space'' \<and> on ''space_role_assignment'')
        (\<Union>s \<in> spaces. \<Union>a \<in> set (tn_assignments T (sp_Id s)). binding_holders T s (sra_RoleId a)))"

section \<open>The sync against a site and a tenant\<close>

definition whole_builders :: "url \<Rightarrow> (site \<times> tenant) Confluence \<Rightarrow> role_names \<Rightarrow> (site \<times> tenant) syncer list" where
  "whole_builders base con names =
     (let c = confluence_client base in
      [GroupBuilder c, UserBuilder c,
       SpaceBuilder (newSpaceBuilder c (con_skipPersonalSpaces con) (con_useRbac con) (con_nouns con) (con_verbs con)),
       SpaceRoleBuilder c, SpaceRoleAssignmentBuilder c names])"

lemma whole_builders_start:
  "con_client con = confluence_client base \<Longrightarrow> ResourceSyncers con = whole_builders base con []"
  by (simp add: ResourceSyncers_def whole_builders_def groupBuilder_def userBuilder_def newSpaceRoleBuilder_def
      newSpaceRoleAssignmentBuilder_def Let_def)

definition whole_state :: "url \<Rightarrow> (site \<times> tenant) Confluence \<Rightarrow> site \<Rightarrow> tenant \<Rightarrow> (site \<times> tenant) builders \<Rightarrow> bool" where
  "whole_state base con S T st \<longleftrightarrow> (\<exists>names \<in> {[], tenant_names T}. st = ((S, T), whole_builders base con names))"

lemma whole_sync_types:
  assumes "base_ok base" "site_ok S" "tenant_ok T" "whole_state base con S T st"
  shows "sync_type ''group'' None st = Some (Ret (map expected_group (st_groups S), None), st)"
    "sync_type ''user'' None st = Some (Ret (listed (site_users S), None), st)"
    "sync_type ''space'' None st = Some (Ret (map (expected_space (con_useRbac con))
       (filter (\<lambda>s. con_skipPersonalSpaces con \<longrightarrow> sp_Type s \<noteq> ''personal'') (tn_spaces T)), None), st)"
    "sync_type ''space_role'' None st = Some (Ret (map expected_role (tn_roles T), None), st)"
  using assms(4) whole_group_sync [OF assms(1,2)] whole_user_sync [OF assms(1,2)] whole_space_sync [OF assms(1,3)]
    whole_role_sync [OF assms(1,3)]
  by (auto simp: whole_state_def whole_builders_def sync_type_def has_type_def Let_def)

lemma whole_sync_no_parent:
  assumes "whole_state base con S T st"
  shows "sync_type ''space_role_assignment'' None st = Some (Ret ([], None), st)"
proof -
  have "sync_pages (ListResources ''space_role_assignment'' [] (syncer_step None 0)) [] [] (w, SpaceRoleAssignmentBuilder c names) =
      Some (Ret ([], None), w, SpaceRoleAssignmentBuilder c names)" for w :: "site \<times> tenant" and c names
    by (simp add: sync_pages.simps ListResources_def list_page_def syncer_step_def assignmentList_def bindIO_apply token_of_def)
  then show ?thesis
    using assms by (auto simp: whole_state_def whole_builders_def sync_type_def has_type_def Let_def)
qed

lemma whole_sync_bindings:
  assumes "base_ok base" "tenant_ok T" "space_at T s" "whole_state base con S T st"
  shows "\<exists>rs st'. sync_type ''space_role_assignment'' (Some \<lparr>rid_ResourceType = ''space'', rid_Resource = sp_Id s\<rparr>) st =
      Some (Ret (rs, None), st') \<and> whole_state base con S T st' \<and> set rs = space_bindings T s"
proof -
  obtain names where st: "st = ((S, T), whole_builders base con names)" "names \<in> {[], tenant_names T}"
    using assms(4) by (auto simp: whole_state_def)
  obtain rs names' where "sync_pages (ListResources ''space_role_assignment'' []
      (syncer_step (Some \<lparr>rid_ResourceType = ''space'', rid_Resource = sp_Id s\<rparr>) 0)) [] []
      ((S, T), SpaceRoleAssignmentBuilder (confluence_client base) names) =
        Some (Ret (rs, None), (S, T), SpaceRoleAssignmentBuilder (confluence_client base) names')"
    "names' \<in> {[], tenant_names T}" "set rs = space_bindings T s"
    using whole_binding_sync [OF assms(1-3) st(2), of "[]" S] unfolding space_bindings_def by blast
  then show ?thesis
    using st(1)
    by (intro exI [of _ rs] exI [of _ "((S, T), whole_builders base con names')"])
      (auto simp: whole_state_def whole_builders_def sync_type_def has_type_def Let_def)
qed

lemma childResourceActions_simps [simp]:
  "childResourceActions ids (expected_group g) = []" "childResourceActions ids (expected_user u) = []"
  "childResourceActions ids (expected_role r) = []" "childResourceActions ids (listed_binding T s i) = []"
  "childResourceActions ids (expected_space rbac s) =
     (if rbac \<and> WillSyncResourceType ids ''space_role_assignment''
      then [(''space_role_assignment'', Some \<lparr>rid_ResourceType = ''space'', rid_Resource = sp_Id s\<rparr>)] else [])"
  by (simp_all add: childResourceActions_def childResourceTypeIDs_def List.map_filter_simps expected_group_def expected_user_def
      expected_role_def listed_binding_def expected_binding_def expected_space_def)

text \<open>The connector is run against a well-formed site and tenant whose spaces can be found by their ids.\<close>

definition whole_ok :: "url \<Rightarrow> (site \<times> tenant) Confluence \<Rightarrow> site \<Rightarrow> tenant \<Rightarrow> bool" where
  "whole_ok base con S T \<longleftrightarrow> base_ok base \<and> con_client con = confluence_client base \<and> site_ok S \<and> tenant_ok T \<and>
     (\<forall>s \<in> synced_spaces con T. space_at T s \<and> (\<forall>a \<in> set (tn_assignments T (sp_Id s)). sra_RoleId a \<noteq> []))"

lemma same_space:
  assumes "whole_ok base con S T" "s \<in> synced_spaces con T" "s' \<in> synced_spaces con T" "sp_Id s' = sp_Id s"
  shows "s' = s"
proof -
  have "space_at T s" "space_at T s'" using assms by (simp_all add: whole_ok_def)
  then show ?thesis using assms(4) by (simp add: space_at_def)
qed

definition type_resources :: "string list \<Rightarrow> (site \<times> tenant) Confluence \<Rightarrow> site \<Rightarrow> tenant \<Rightarrow> string \<Rightarrow> Resource set" where
  "type_resources ids con S T ty =
     (if ty = ''group'' then expected_group ` set (st_groups S)
      else if ty = ''user'' then expected_user ` {u \<in> set (site_users S). shouldIncludeUser u}
      else if ty = ''space'' then expected_space (con_useRbac con) ` synced_spaces con T \<union>
        selected (con_useRbac con \<and> WillSyncResourceType ids ''space_role_assignment'')
          (\<Union>s \<in> synced_spaces con T. space_bindings T s)
      else if ty = ''space_role'' then expected_role ` set (tn_roles T)
      else {})"

lemma completes_leaf:
  assumes "\<And>st. good st \<Longrightarrow> sync_type ty parent st = Some (Ret (rs, None), st)" "set rs = X"
    and "\<And>r. r \<in> X \<Longrightarrow> childResourceActions ids r = []"
  shows "completes ids good (ty, parent) X"
proof -
  have "completes ids good (ty, parent) (X \<union> (\<Union>r \<in> X. \<Union>c \<in> set (childResourceActions ids r). {}))"
    by (rule completes_job) (use assms in auto)
  then show ?thesis by simp
qed

lemma whole_completes_bindings:
  assumes "whole_ok base con S T" "s \<in> synced_spaces con T"
  shows "completes ids (whole_state base con S T)
    (''space_role_assignment'', Some \<lparr>rid_ResourceType = ''space'', rid_Resource = sp_Id s\<rparr>) (space_bindings T s)"
proof -
  let ?good = "whole_state base con S T"
  have "completes ids ?good (''space_role_assignment'', Some \<lparr>rid_ResourceType = ''space'', rid_Resource = sp_Id s\<rparr>)
      (space_bindings T s \<union> (\<Union>r \<in> space_bindings T s. \<Union>c \<in> set (childResourceActions ids r). {}))"
    using assms whole_sync_bindings [where base = base and con = con and S = S and T = T and s = s]
    by (intro completes_job) (auto simp: whole_ok_def space_bindings_def)
  then show ?thesis by simp
qed

lemma whole_completes:
  assumes "whole_ok base con S T" "ty \<in> {''group'', ''user'', ''space'', ''space_role'', ''space_role_assignment''}"
  shows "completes ids (whole_state base con S T) (ty, None) (type_resources ids con S T ty)"
proof -
  let ?good = "whole_state base con S T"
  have ok: "base_ok base" "site_ok S" "tenant_ok T" using assms(1) by (simp_all add: whole_ok_def)
  note sync = whole_sync_types [OF ok]
  have "completes ids ?good (''group'', None) (expected_group ` set (st_groups S))"
    by (rule completes_leaf [OF sync(1)]) auto
  moreover have "completes ids ?good (''user'', None) (expected_user ` {u \<in> set (site_users S). shouldIncludeUser u})"
    by (rule completes_leaf [OF sync(2)]) (auto simp: listed_def)
  moreover have "completes ids ?good (''space_role'', None) (expected_role ` set (tn_roles T))"
    by (rule completes_leaf [OF sync(4)]) auto
  moreover have "completes ids ?good (''space_role_assignment'', None) {}"
    by (rule completes_leaf [OF whole_sync_no_parent]) auto
  moreover have "completes ids ?good (''space'', None) (type_resources ids con S T ''space'')"
  proof -
    let ?X = "expected_space (con_useRbac con) ` synced_spaces con T"
    let ?Z = "\<lambda>c :: string \<times> ResourceId option.
      \<Union>s \<in> {s \<in> synced_spaces con T. snd c = Some \<lparr>rid_ResourceType = ''space'', rid_Resource = sp_Id s\<rparr>}. space_bindings T s"
    note unique = same_space [OF assms(1)]
    then have Z: "?Z (ty, Some \<lparr>rid_ResourceType = ''space'', rid_Resource = sp_Id s\<rparr>) = space_bindings T s"
      if "s \<in> synced_spaces con T" for ty s using that by auto
    have "completes ids ?good (''space'', None) (?X \<union> (\<Union>r \<in> ?X. \<Union>c \<in> set (childResourceActions ids r). ?Z c))"
    proof (rule completes_job)
      fix st assume "?good st"
      then show "\<exists>rs st'. sync_type ''space'' None st = Some (Ret (rs, None), st') \<and> ?good st' \<and> set rs = ?X"
        using sync(3) by (auto simp: synced_spaces_def)
    next
      fix r c assume "r \<in> ?X" "c \<in> set (childResourceActions ids r)"
      then obtain s where s: "s \<in> synced_spaces con T"
        and c: "c = (''space_role_assignment'', Some \<lparr>rid_ResourceType = ''space'', rid_Resource = sp_Id s\<rparr>)"
        by (auto split: if_splits)
      show "completes ids ?good c (?Z c)"
        unfolding c Z [OF s] by (rule whole_completes_bindings [OF assms(1) s])
    qed
    moreover have "?X \<union> (\<Union>r \<in> ?X. \<Union>c \<in> set (childResourceActions ids r). ?Z c) = type_resources ids con S T ''space''"
      using Z by (auto simp: type_resources_def selected_def)
    ultimately show ?thesis by simp
  qed
  ultimately show ?thesis using assms(2) by (auto simp: type_resources_def)
qed

definition connector_types :: "string list" where
  "connector_types = [''group'', ''user'', ''space'', ''space_role'', ''space_role_assignment'']"

lemma Union_selected:
  "(\<Union>x \<in> {x. (x = a \<or> Q x) \<and> P x}. f x) = selected (P a) (f a) \<union> (\<Union>x \<in> {x. Q x \<and> P x}. f x)"
  by (auto simp: selected_def)

lemma expected_resources_types:
  "expected_resources ids con S T =
     (\<Union>ty \<in> {ty \<in> set connector_types. WillSyncResourceType ids ty}. type_resources ids con S T ty)"
proof -
  have "{ty \<in> set connector_types. WillSyncResourceType ids ty} = {ty. (ty = ''group'' \<or> ty = ''user'' \<or> ty = ''space'' \<or>
      ty = ''space_role'' \<or> ty = ''space_role_assignment'' \<or> False) \<and> WillSyncResourceType ids ty}"
    by (simp add: connector_types_def)
  then show ?thesis
    unfolding expected_resources_def Let_def
    by (simp only: Union_selected) (simp add: type_resources_def, simp add: selected_def Un_ac)
qed

lemma whole_resource_sync:
  assumes "whole_ok base con S T"
  shows "\<exists>rs st. sync_resources ids
      (map (\<lambda>ty. (ty, None)) (filter (WillSyncResourceType ids) connector_types))
      [] ((S, T), whole_builders base con []) = Some (Ret (rs, None), st) \<and>
    whole_state base con S T st \<and> set rs = expected_resources ids con S T"
proof -
  let ?tys = "filter (WillSyncResourceType ids) connector_types"
  let ?jobs = "map (\<lambda>ty. (ty, None :: ResourceId option)) ?tys"
  have start: "whole_state base con S T ((S, T), whole_builders base con [])" by (auto simp: whole_state_def)
  have jobs: "completes ids (whole_state base con S T) j (type_resources ids con S T (fst j))" if j: "j \<in> set ?jobs" for j
  proof -
    have "j = (fst j, None)" "fst j \<in> set connector_types" using j by auto
    then show ?thesis using whole_completes [OF assms, of "fst j" ids] by (simp only: connector_types_def list.set)
  qed
  have "\<exists>rs st. whole_state base con S T st \<and> set rs = (\<Union>j \<in> set ?jobs. type_resources ids con S T (fst j)) \<and>
      sync_resources ids (?jobs @ []) [] ((S, T), whole_builders base con []) = sync_resources ids [] ([] @ rs) st"
    by (rule completes_jobs [where good = "whole_state base con S T"], rule jobs, assumption, rule start)
  then obtain rs st where run: "whole_state base con S T st"
    "set rs = (\<Union>j \<in> set ?jobs. type_resources ids con S T (fst j))"
    "sync_resources ids ?jobs [] ((S, T), whole_builders base con []) = sync_resources ids [] rs st"
    by auto
  have "sync_resources ids [] rs st = Some (Ret (rs, None), st)" by (simp add: sync_resources.simps)
  moreover have "(\<Union>j \<in> set ?jobs. type_resources ids con S T (fst j)) = expected_resources ids con S T"
    unfolding expected_resources_types by auto
  ultimately show ?thesis using run by auto
qed

section \<open>The grants\<close>

lemma whole_skipped:
  assumes "whole_state base con S T st" "id_type (res_Id r) \<in> {''user'', ''space_role''}"
  shows "sync_grants_of r st = Some (Ret ([], None), st)"
  using assms
  by (auto simp: whole_state_def whole_builders_def sync_grants_of_def has_type_def shouldSkipEntitlementsAndGrants_def
      resourceTypeUser_def spaceRoleResourceType_def annotationsForUserResourceType_def spaceRoleAnnotations_def
      annos_Update_def resource_type_defs Let_def)

lemma whole_group_grants:
  assumes "whole_ok base con S T" "whole_state base con S T st" "g \<in> set (st_groups S)"
  shows "\<exists>gs. sync_grants_of (expected_group g) st = Some (Ret (gs, None), st) \<and> set gs = group_members S g"
proof -
  have ok: "base_ok base" "site_ok S" using assms(1) by (simp_all add: whole_ok_def)
  have "simulates (\<lambda>S w. w = (S, T)) page_failed (groupGrants (confluence_client base) (expected_group g) t)
      (groupGrants (site_client base) (expected_group g) t)" for t
    unfolding site_client_def confluence_client_def by (rule users.builders_forwarded)
  from simulated_granting [OF this group_grants_run [OF ok assms(3)] refl]
  show ?thesis
    using assms(2)
    by (auto simp: whole_state_def whole_builders_def sync_grants_of_def has_type_def shouldSkipEntitlementsAndGrants_def
        expected_group_def id_type_def id_resource_def resource_type_defs group_members_def Let_def)
qed

lemma whole_space_grants:
  assumes "whole_ok base con S T" "whole_state base con S T st" "s \<in> synced_spaces con T"
  shows "\<exists>gs. sync_grants_of (expected_space (con_useRbac con) s) st = Some (Ret (gs, None), st) \<and>
    set gs = selected (\<not> con_useRbac con) (space_permissions con T s)"
proof (cases "con_useRbac con")
  case True
  have "sync_pages (ListGrants rid (\<lambda>t. spaceGrants (newSpaceBuilder c skip True nouns verbs) res \<lparr>tok_Size = 0, tok_Token = t\<rparr>))
      [] [] w = Some (Ret ([], None), w)" for rid c skip nouns verbs res and w :: "site \<times> tenant"
    by (simp add: sync_pages.simps ListGrants_def list_page_def spaceGrants_def bindIO_apply token_of_def Let_def)
  then show ?thesis
    using assms(2) True
    by (auto simp: whole_state_def whole_builders_def sync_grants_of_def has_type_def shouldSkipEntitlementsAndGrants_def
        expected_space_def id_type_def id_resource_def resource_type_defs selected_def Let_def)
next
  case False
  have ok: "base_ok base" "tenant_ok T" "list_all id_char (sp_Id s)"
    using assms(1,3) by (simp_all add: whole_ok_def space_at_def)
  have "simulates (\<lambda>T w. w = (S, T)) page_failed
      (spaceGrants (newSpaceBuilder (confluence_client base) skip rbac nouns verbs) res t)
      (spaceGrants (newSpaceBuilder (tenant_client base) skip rbac nouns verbs) res t)" for skip rbac nouns verbs res t
    unfolding tenant_client_def confluence_client_def by (rule content.builders_forwarded)
  from simulated_granting [OF this space_grants_run [OF ok] refl]
  show ?thesis
    using assms(2) False
    by (auto simp: whole_state_def whole_builders_def sync_grants_of_def has_type_def shouldSkipEntitlementsAndGrants_def
        expected_space_def id_type_def id_resource_def resource_type_defs selected_def space_permissions_def Let_def)
qed

lemma whole_binding_grants:
  assumes "whole_ok base con S T" "whole_state base con S T st" "s \<in> synced_spaces con T"
    and "a \<in> set (tn_assignments T (sp_Id s))"
  shows "\<exists>gs. sync_grants_of (listed_binding T s (sra_RoleId a)) st = Some (Ret (gs, None), st) \<and>
    set gs = binding_holders T s (sra_RoleId a)"
proof -
  let ?r = "listed_binding T s (sra_RoleId a)" and ?sid = "\<lparr>rid_ResourceType = ''space'', rid_Resource = sp_Id s\<rparr>"
  have ok: "base_ok base" "tenant_ok T" "list_all id_char (rid_Resource ?sid)" "sra_RoleId a \<noteq> []"
    using assms(1,3,4) by (simp_all add: whole_ok_def space_at_def)
  have res: "spaceRoleAssignmentResource (sra_RoleId a) ?sid (role_label (take 200 (tn_roles T)) (sra_RoleId a)) (sp_Name s) = Inr ?r"
    by (simp add: spaceRoleAssignmentResource_expected listed_binding_def)
  have "simulates (\<lambda>T w. w = (S, T)) page_failed (assignmentGrants (confluence_client base) ?r t)
      (assignmentGrants (tenant_client base) ?r t)" for t
    unfolding tenant_client_def confluence_client_def by (rule content.builders_forwarded)
  from simulated_granting [OF this role_grants_tenant [OF ok res] refl]
  have sync: "sync_pages (ListGrants rid (\<lambda>t. assignmentGrants (confluence_client base) ?r \<lparr>tok_Size = 0, tok_Token = t\<rparr>)) [] [] (S, T) =
      Some (Ret (map (expected_role_grant ?r) (filter (\<lambda>b. sra_RoleId b = sra_RoleId a \<and>
        rp_PrincipalType (sra_Principal b) \<in> {''USER'', ''GROUP''}) (tn_assignments T (sp_Id s))), None), S, T)" for rid
    by (auto simp: role_holders_def)
  have id: "res_Id ?r = Some \<lparr>rid_ResourceType = ''space_role_assignment'', rid_Resource = sp_Id s @ '':'' @ sra_RoleId a\<rparr>"
    "AnySkipEntitlementsAndGrants \<notin> set (res_Annotations ?r)"
    by (simp_all add: listed_binding_def expected_binding_def)
  show ?thesis
    using assms(2) sync
    by (auto simp: whole_state_def whole_builders_def sync_grants_of_def has_type_def shouldSkipEntitlementsAndGrants_def id
        id_type_def id_resource_def resource_type_defs spaceRoleAssignmentsAnnotations_def annos_Update_def annos_Append_def
        binding_holders_def Let_def)
qed

text \<open>The grants that a resource of the sync has.\<close>

definition grants_found :: "(site \<times> tenant) builders \<Rightarrow> Resource \<Rightarrow> Grant set" where
  "grants_found st r = {x. \<exists>gs. sync_grants_of r st = Some (Ret (gs, None), st) \<and> x \<in> set gs}"

lemma grants_found_set: "sync_grants_of r st = Some (Ret (gs, None), st) \<Longrightarrow> grants_found st r = set gs"
  by (simp add: grants_found_def)

lemma found_users_roles: "id_type (res_Id (expected_user u)) = ''user''" "id_type (res_Id (expected_role ro)) = ''space_role''"
  by (simp_all add: expected_user_def expected_role_def id_type_def)

lemma whole_grants_found:
  assumes "whole_ok base con S T" "whole_state base con S T st"
  shows "g \<in> set (st_groups S) \<Longrightarrow> grants_found st (expected_group g) = group_members S g"
    "grants_found st (expected_user u) = {}" "grants_found st (expected_role ro) = {}"
    "s \<in> synced_spaces con T \<Longrightarrow>
       grants_found st (expected_space (con_useRbac con) s) = selected (\<not> con_useRbac con) (space_permissions con T s)"
    "s \<in> synced_spaces con T \<Longrightarrow> a \<in> set (tn_assignments T (sp_Id s)) \<Longrightarrow>
       grants_found st (listed_binding T s (sra_RoleId a)) = binding_holders T s (sra_RoleId a)"
proof -
  note set = grants_found_set [where st = st]
  show "g \<in> set (st_groups S) \<Longrightarrow> grants_found st (expected_group g) = group_members S g"
    using whole_group_grants [OF assms, of g] by (auto dest!: set)
  show "grants_found st (expected_user u) = {}" "grants_found st (expected_role ro) = {}"
    using whole_skipped [OF assms(2)] set by (simp_all add: found_users_roles)
  show "s \<in> synced_spaces con T \<Longrightarrow>
       grants_found st (expected_space (con_useRbac con) s) = selected (\<not> con_useRbac con) (space_permissions con T s)"
    using whole_space_grants [OF assms, of s] by (auto dest!: set)
  show "s \<in> synced_spaces con T \<Longrightarrow> a \<in> set (tn_assignments T (sp_Id s)) \<Longrightarrow>
       grants_found st (listed_binding T s (sra_RoleId a)) = binding_holders T s (sra_RoleId a)"
    using whole_binding_grants [OF assms, of s a] by (auto dest!: set)
qed

lemma expected_resources_cases:
  assumes "r \<in> expected_resources ids con S T"
  obtains (group) g where "r = expected_group g" "g \<in> set (st_groups S)"
  | (user) u where "r = expected_user u"
  | (space) s where "r = expected_space (con_useRbac con) s" "s \<in> synced_spaces con T"
  | (role) ro where "r = expected_role ro"
  | (binding) s a where "r = listed_binding T s (sra_RoleId a)" "s \<in> synced_spaces con T" "a \<in> set (tn_assignments T (sp_Id s))"
proof -
  have sub: "x \<in> selected c X \<Longrightarrow> x \<in> X" for x c and X :: "Resource set" by (simp add: selected_def split: if_splits)
  show thesis
    using assms that unfolding expected_resources_def Let_def space_bindings_def by (elim UnE) (drule sub, blast)+
qed

lemma whole_grants_end:
  assumes "whole_ok base con S T" "whole_state base con S T st" "r \<in> expected_resources ids con S T"
  shows "\<exists>gs. sync_grants_of r st = Some (Ret (gs, None), st) \<and> set gs = grants_found st r"
proof -
  have "\<exists>gs. sync_grants_of r st = Some (Ret (gs, None), st)"
    using assms(3)
  proof (cases rule: expected_resources_cases)
    case (group g)
    then show ?thesis using whole_group_grants [OF assms(1,2)] by blast
  next
    case (user u)
    then show ?thesis using whole_skipped [OF assms(2), of r] by (simp add: found_users_roles)
  next
    case (space s)
    then show ?thesis using whole_space_grants [OF assms(1,2)] by blast
  next
    case (role ro)
    then show ?thesis using whole_skipped [OF assms(2), of r] by (simp add: found_users_roles)
  next
    case (binding s a)
    then show ?thesis using whole_binding_grants [OF assms(1,2)] by blast
  qed
  then show ?thesis using grants_found_set by metis
qed

lemma expected_grants_found:
  assumes "whole_ok base con S T" "whole_state base con S T st"
  shows "(\<Union>r \<in> expected_resources ids con S T. grants_found st r) = expected_grants ids con S T"
proof -
  have space: "grants_found st (expected_space rbac s) = (if rbac then {} else space_permissions con T s)"
    if "s \<in> synced_spaces con T" "con_useRbac con = rbac" for s rbac
    using whole_grants_found(4) [OF assms that(1)] that(2) by (simp add: selected_def)
  show ?thesis
    unfolding expected_resources_def expected_grants_def Let_def selected_def space_bindings_def
    by (auto simp: whole_grants_found(1-3,5) [OF assms] space split: if_splits)
qed

lemma full_sync_run:
  assumes "whole_ok base con S T"
  shows "\<exists>rs gs st. full_sync ids con (S, T) = Some (Ret ((rs, gs), None), st) \<and> fst st = (S, T) \<and>
    set rs = expected_resources ids con S T \<and> set gs = expected_grants ids con S T"
proof -
  have types: "map (\<lambda>b. rt_Id (syncer_type b)) (ResourceSyncers con) = connector_types"
    using syncer_types_distinct [of con] by (simp add: connector_types_def comp_def)
  have start: "ResourceSyncers con = whole_builders base con []"
    using assms by (simp add: whole_ok_def whole_builders_start)
  obtain rs st where rs: "sync_resources ids (map (\<lambda>ty. (ty, None)) (filter (WillSyncResourceType ids) connector_types))
      [] ((S, T), whole_builders base con []) = Some (Ret (rs, None), st)"
    "whole_state base con S T st" "set rs = expected_resources ids con S T"
    using whole_resource_sync [OF assms, of ids] by blast
  obtain gs where gs: "sync_grants rs [] st = Some (Ret ([] @ gs, None), st)" "set gs = (\<Union>r \<in> set rs. grants_found st r)"
    using sync_grants_all [of rs st "grants_found st" "[]"] whole_grants_end [OF assms rs(2), of _ ids] rs(3) by blast
  have "fst st = (S, T)" using rs(2) by (auto simp: whole_state_def)
  moreover have "set gs = expected_grants ids con S T"
    using gs(2) rs(3) expected_grants_found [OF assms rs(2), of ids] by simp
  moreover have "full_sync ids con (S, T) = Some (Ret ((rs, gs), None), st)"
    using rs(1) gs(1) by (simp add: full_sync_def Let_def types start [symmetric] with_resources_def)
  ultimately show ?thesis using rs(3) by blast
qed


section \<open>Nothing dangles\<close>

text \<open>
  A static entitlement is offered by every resource of its type. Those of the connector have no
  annotations, of which the SDK makes copies.
\<close>

definition static_entitlement :: "Entitlement \<Rightarrow> Resource \<Rightarrow> Entitlement" where
  "static_entitlement ent res =
     ent\<lparr>ent_Id := NewEntitlementID (Some res) (ent_Slug ent), ent_Resource := Some res,
         ent_DisplayName := (if ent_DisplayName ent = [] then res_DisplayName res else ent_DisplayName ent),
         ent_Description := (if ent_Description ent = [] then res_Description res else ent_Description ent)\<rparr>"

fun static_entitlements :: "'w syncer \<Rightarrow> Entitlement list" where
  "static_entitlements (SpaceRoleAssignmentBuilder _ _) = fst StaticEntitlements"
| "static_entitlements _ = []"

definition entitlements_of :: "'w Confluence \<Rightarrow> Resource \<Rightarrow> Entitlement list" where
  "entitlements_of con res =
     (case find (has_type (id_type (res_Id res))) (ResourceSyncers con) of
        None \<Rightarrow> []
      | Some b \<Rightarrow> fst (syncer_Entitlements b res) @ map (\<lambda>ent. static_entitlement ent res) (static_entitlements b))"

definition on_entitlement :: "'w Confluence \<Rightarrow> Resource \<Rightarrow> Grant \<Rightarrow> bool" where
  "on_entitlement con res g \<longleftrightarrow>
     (\<exists>ent. gr_Entitlement g = Some ent \<and> ent_Resource ent = Some res \<and> ent_Id ent \<in> ent_Id ` set (entitlements_of con res))"

definition known_principals :: "site \<Rightarrow> ResourceId set" where
  "known_principals S =
     (\<lambda>g. \<lparr>rid_ResourceType = ''group'', rid_Resource = grp_Id g\<rparr>) ` set (st_groups S) \<union>
     (\<lambda>u. \<lparr>rid_ResourceType = ''user'', rid_Resource = usr_AccountId u\<rparr>) ` {u \<in> set (site_users S). shouldIncludeUser u}"

text \<open>Permissions and assignments are of users and groups that there are.\<close>

definition permission_holder :: "ConfluenceSpacePermission \<Rightarrow> ResourceId" where
  "permission_holder p = \<lparr>rid_ResourceType = pp_Type (perm_Principal p), rid_Resource = pp_Id (perm_Principal p)\<rparr>"

definition principals_known :: "site \<Rightarrow> tenant \<Rightarrow> bool" where
  "principals_known S T \<longleftrightarrow>
     (\<forall>s \<in> set (tn_spaces T).
        (\<forall>p \<in> set (tn_permissions T (sp_Id s)). pp_Type (perm_Principal p) \<in> {''user'', ''group''} \<longrightarrow>
           permission_holder p \<in> known_principals S) \<and>
        (\<forall>a \<in> set (tn_assignments T (sp_Id s)). rp_PrincipalType (sra_Principal a) \<in> {''USER'', ''GROUP''} \<longrightarrow>
           snd (granted_role a) \<in> known_principals S))"

lemma new_grant_on:
  "on_entitlement con res (NewGrant res name pid annos) \<longleftrightarrow>
     NewEntitlementID (Some res) name \<in> ent_Id ` set (entitlements_of con res)"
  by (simp add: on_entitlement_def NewGrant_def grant_entitlement_def)

lemma entitlement_ids:
  "NewEntitlementID (Some (expected_group g)) ''member'' \<in> ent_Id ` set (entitlements_of con (expected_group g))"
  "verb \<in> set (con_verbs con) \<Longrightarrow> noun \<in> set (con_nouns con) \<Longrightarrow> \<not> con_useRbac con \<Longrightarrow>
     NewEntitlementID (Some (expected_space False s)) (verb @ ''-'' @ noun) \<in> ent_Id ` set (entitlements_of con (expected_space False s))"
  "NewEntitlementID (Some (listed_binding T s i)) ''assigned'' \<in> ent_Id ` set (entitlements_of con (listed_binding T s i))"
proof -
  show "NewEntitlementID (Some (expected_group g)) ''member'' \<in> ent_Id ` set (entitlements_of con (expected_group g))"
    by (simp add: entitlements_of_def ResourceSyncers_def has_type_def groupBuilder_def expected_group_def id_type_def
        resource_type_defs groupEntitlements_def NewAssignmentEntitlement_def new_entitlement_def groupMemberEntitlement_def
        WithGrantableTo_def WithDisplayName_def WithEntDescription_def)
  show "NewEntitlementID (Some (listed_binding T s i)) ''assigned'' \<in> ent_Id ` set (entitlements_of con (listed_binding T s i))"
    by (simp add: entitlements_of_def ResourceSyncers_def has_type_def groupBuilder_def userBuilder_def newSpaceRoleBuilder_def
        newSpaceRoleAssignmentBuilder_def listed_binding_def expected_binding_def id_type_def
        resource_type_defs StaticEntitlements_def NewAssignmentEntitlement_def new_entitlement_def static_entitlement_def
        WithGrantableTo_def spaceRoleAssignmentEntitlement_def)
  assume names: "verb \<in> set (con_verbs con)" "noun \<in> set (con_nouns con)" "\<not> con_useRbac con"
  have "space_entitlement (expected_space False s) noun verb \<in> set (entitlements_of con (expected_space False s))"
    using names
    by (auto simp: entitlements_of_def ResourceSyncers_def has_type_def groupBuilder_def userBuilder_def expected_space_def
        id_type_def resource_type_defs spaceEntitlements_def newSpaceBuilder_def)
  then show "NewEntitlementID (Some (expected_space False s)) (verb @ ''-'' @ noun)
      \<in> ent_Id ` set (entitlements_of con (expected_space False s))"
    by (rule rev_image_eqI) (simp add: ent_Id_space_entitlement createEntitlementName_def separator_def)
qed

text \<open>
  A grant refers to resources that were listed: its principal, the resource of its entitlement, which
  offers that entitlement, and, when members inherit it, the group whose members they are.
\<close>

definition refers_to :: "'w Confluence \<Rightarrow> Resource set \<Rightarrow> Grant \<Rightarrow> bool" where
  "refers_to con rs x \<longleftrightarrow> grantee x \<in> res_Id ` rs \<and> (\<exists>r \<in> rs. on_entitlement con r x) \<and>
     (\<forall>es. AnyGrantExpandable es \<in> set (gr_Annotations x) \<longrightarrow>
        (\<forall>i \<in> set es. \<exists>r \<in> rs. i \<in> ent_Id ` set (entitlements_of con r)))"

lemma refers_to_new:
  assumes "Some pid \<in> res_Id ` rs" "res \<in> rs" "NewEntitlementID (Some res) name \<in> ent_Id ` set (entitlements_of con res)"
    and "annos = (if rid_ResourceType pid = ''group'' then [AnyGrantExpandable [''group:'' @ rid_Resource pid @ '':member'']] else [])"
    and "\<And>i. pid = \<lparr>rid_ResourceType = ''group'', rid_Resource = i\<rparr> \<Longrightarrow> \<exists>g. grp_Id g = i \<and> expected_group g \<in> rs"
  shows "refers_to con rs (NewGrant res name pid annos)"
proof -
  have "\<exists>r \<in> rs. i \<in> ent_Id ` set (entitlements_of con r)"
    if "AnyGrantExpandable es \<in> set annos" "i \<in> set es" for es i
  proof -
    have pid: "pid = \<lparr>rid_ResourceType = ''group'', rid_Resource = rid_Resource pid\<rparr>" "i = ''group:'' @ rid_Resource pid @ '':member''"
      using that assms(4) by (cases pid; auto split: if_splits)+
    then obtain g where "grp_Id g = rid_Resource pid" "expected_group g \<in> rs" using assms(5) by blast
    moreover have "NewEntitlementID (Some (expected_group g)) ''member'' = ''group:'' @ grp_Id g @ '':member''"
      by (simp add: NewEntitlementID_def expected_group_def id_type_def id_resource_def)
    ultimately show ?thesis using entitlement_ids(1) [of g con] pid(2) by metis
  qed
  moreover have "on_entitlement con res (NewGrant res name pid annos)" using assms(3) by (simp add: new_grant_on)
  moreover have "gr_Annotations (NewGrant res name pid annos) = annos" by (simp add: NewGrant_def)
  ultimately show ?thesis
    using assms(1,2) unfolding refers_to_def grantee_NewGrant by metis
qed

lemma expected_grants_refer:
  assumes "principals_known S T" "WillSyncResourceType ids ''group''" "WillSyncResourceType ids ''user''" "x \<in> expected_grants ids con S T"
  shows "refers_to con (expected_resources ids con S T) x"
proof -
  let ?rs = "expected_resources ids con S T"
  have groups: "expected_group g \<in> ?rs" if "g \<in> set (st_groups S)" for g
    using that assms(2) by (auto simp: expected_resources_def selected_def Let_def)
  have users: "expected_user u \<in> ?rs" if "u \<in> set (site_users S)" "shouldIncludeUser u" for u
    using that assms(3) by (auto simp: expected_resources_def selected_def Let_def)
  have listed: "Some pid \<in> res_Id ` ?rs" if "pid \<in> known_principals S" for pid
  proof -
    have ids: "res_Id (expected_group g) = Some \<lparr>rid_ResourceType = ''group'', rid_Resource = grp_Id g\<rparr>"
      "res_Id (expected_user u) = Some \<lparr>rid_ResourceType = ''user'', rid_Resource = usr_AccountId u\<rparr>" for g u
      by (simp_all add: expected_group_def expected_user_def)
    have "(\<exists>g \<in> set (st_groups S). Some pid = res_Id (expected_group g)) \<or>
        (\<exists>u \<in> {u \<in> set (site_users S). shouldIncludeUser u}. Some pid = res_Id (expected_user u))"
      using that unfolding known_principals_def ids by blast
    then show ?thesis using groups users by (elim disjE bexE) (auto intro: image_eqI)
  qed
  have group: "\<exists>g. grp_Id g = i \<and> expected_group g \<in> ?rs"
    if "\<lparr>rid_ResourceType = ''group'', rid_Resource = i\<rparr> \<in> known_principals S" for i
    using that groups by (auto simp: known_principals_def)
  consider (member) g u where "g \<in> set (st_groups S)" "u \<in> set (st_members S (grp_Id g))" "shouldIncludeUser u"
      "x = NewGrant (expected_group g) ''member'' \<lparr>rid_ResourceType = ''user'', rid_Resource = usr_AccountId u\<rparr> []"
    | (permission) s p where "\<not> con_useRbac con" "WillSyncResourceType ids ''space''" "s \<in> synced_spaces con T"
      "p \<in> set (tn_permissions T (sp_Id s))" "permission_offered (con_nouns con) (con_verbs con) p"
      "x = expected_permission_grant (expected_space False s) p"
    | (role) s a b where "con_useRbac con" "WillSyncResourceType ids ''space''" "WillSyncResourceType ids ''space_role_assignment''"
      "s \<in> synced_spaces con T" "a \<in> set (tn_assignments T (sp_Id s))" "b \<in> set (tn_assignments T (sp_Id s))"
      "rp_PrincipalType (sra_Principal b) \<in> {''USER'', ''GROUP''}" "x = expected_role_grant (listed_binding T s (sra_RoleId a)) b"
    using assms(4)
    unfolding expected_grants_def selected_def group_members_def space_permissions_def binding_holders_def Let_def
    by (auto split: if_splits)
  then show ?thesis
  proof cases
    case member
    then have "u \<in> set (site_users S)" by (auto simp: set_site_users)
    then have "\<lparr>rid_ResourceType = ''user'', rid_Resource = usr_AccountId u\<rparr> \<in> known_principals S"
      using member(3) by (auto simp: known_principals_def)
    then show ?thesis
      unfolding member(4) by (intro refers_to_new listed groups [OF member(1)] entitlement_ids(1)) simp_all
  next
    case permission
    have known: "permission_holder p \<in> known_principals S"
      using assms(1) permission(3-5) by (auto simp: principals_known_def synced_spaces_def permission_offered_def)
    have space: "expected_space False s \<in> ?rs"
      using permission(1-3) by (auto simp: expected_resources_def selected_def Let_def)
    have offered: "po_Key (perm_Operation p) \<in> set (con_verbs con)" "po_TargetType (perm_Operation p) \<in> set (con_nouns con)"
      using permission(5) by (simp_all add: permission_offered_def)
    show ?thesis
      unfolding permission(6) expected_permission_grant_def permission_holder_def [symmetric]
      using group known
      by (intro refers_to_new listed space entitlement_ids(2) offered permission(1)) (auto simp: permission_holder_def)
  next
    case role
    have known: "snd (granted_role b) \<in> known_principals S"
      using assms(1) role(4,6,7) by (auto simp: principals_known_def synced_spaces_def)
    have binding: "listed_binding T s (sra_RoleId a) \<in> ?rs"
      using role(1-5) by (auto simp: expected_resources_def selected_def space_bindings_def Let_def)
    have x: "x = NewGrant (listed_binding T s (sra_RoleId a)) ''assigned'' (snd (granted_role b))
        (if rid_ResourceType (snd (granted_role b)) = ''group''
         then [AnyGrantExpandable [''group:'' @ rid_Resource (snd (granted_role b)) @ '':member'']] else [])"
      by (simp add: role(8) expected_role_grant_def granted_role_def Let_def)
    show ?thesis
      unfolding x using group known by (intro refers_to_new listed binding entitlement_ids(3)) auto
  qed
qed


section \<open>Examples\<close>

definition whole_demo :: "bool \<Rightarrow> (site \<times> tenant) Confluence" where
  "whole_demo rbac =
     \<lparr>con_client = confluence_client demo_base, con_domain = ''demo'', con_apiKey = ''key'', con_userName = ''user'',
      con_skipPersonalSpaces = True, con_useRbac = rbac, con_nouns = [''space''], con_verbs = [''read'']\<rparr>"

lemma whole_demo_simps [simp]:
  "con_useRbac (whole_demo rbac) = rbac" "con_nouns (whole_demo rbac) = [''space'']" "con_verbs (whole_demo rbac) = [''read'']"
  "con_client (whole_demo rbac) = confluence_client demo_base"
  by (simp_all add: whole_demo_def)

lemma whole_demo_spaces: "synced_spaces (whole_demo rbac) demo_tenant = {manual}"
  by (auto simp: synced_spaces_def whole_demo_def demo_tenant_def diary_def)

lemma whole_demo_ok: "whole_ok demo_base (whole_demo rbac) demo_site demo_tenant"
  using demo_base_ok demo_site_ok demo_tenant_ok manual_at_demo
  by (simp add: whole_ok_def whole_demo_spaces)

lemma demo_users: "set (site_users demo_site) = {alice, bob, robot}"
  by (auto simp: set_site_users)

lemma principals_known_demo: "principals_known demo_site demo_tenant"
proof -
  have alice: "\<lparr>rid_ResourceType = ''user'', rid_Resource = ''a1''\<rparr> \<in> known_principals demo_site"
    by (auto simp: known_principals_def demo_users intro!: image_eqI [of _ _ alice])
  have "tn_permissions demo_tenant (sp_Id s) = (if s = manual then [demo_permission] else [])"
    "tn_assignments demo_tenant (sp_Id s) = (if s = manual then [demo_assignment] else [])" if "s \<in> set (tn_spaces demo_tenant)" for s
    using that by (auto simp: demo_tenant_def diary_def)
  then show ?thesis
    using alice
    by (auto simp: principals_known_def permission_holder_def granted_role_def demo_permission_def demo_assignment_def split: if_splits)
qed



end
