(* ===== verification/ChangesSynced.thy ===== *)
theory ChangesSynced
  imports Inventory RoleChanges GroupChanges
begin

text \<open>
  A change and the sync of the whole connector after it: what Grant answers is exactly what the next
  complete sync finds in addition to what the one before found.
\<close>

section \<open>Changes over a service that forwards\<close>

abbreviation change_rejected :: "'a \<times> 'b \<times> go_error option \<Rightarrow> bool" where
  "change_rejected \<equiv> \<lambda>(_, _, err). err \<noteq> None"

abbreviation call_rejected :: "'a \<times> go_error option \<Rightarrow> bool" where
  "call_rejected \<equiv> \<lambda>(_, err). err \<noteq> None"

context forwards
begin

lemma post_forwarded:
  "simulates R change_rejected (client_post (server_client base serve') u d v b) (client_post (server_client base serve) u d v b)"
  unfolding client_post_def by (rule makeRequest_forwarded)

lemma delete_forwarded:
  "simulates R change_rejected (client_delete (server_client base serve') u d v) (client_delete (server_client base serve) u d v)"
  unfolding client_delete_def by (rule makeRequest_forwarded)

lemma requests_forwarded:
  "simulates R call_rejected (AddUserToGroup (server_client base serve') a g) (AddUserToGroup (server_client base serve) a g)"
  "simulates R call_rejected (RemoveUserFromGroup (server_client base serve') a g)
     (RemoveUserFromGroup (server_client base serve) a g)"
  "simulates R call_rejected (SetSpaceRoleAssignment (server_client base serve') i as)
     (SetSpaceRoleAssignment (server_client base serve) i as)"
  "simulates R call_rejected (existing_assignments (server_client base serve') i r a ty)
     (existing_assignments (server_client base serve) i r a ty)"
  unfolding AddUserToGroup_def RemoveUserFromGroup_def SetSpaceRoleAssignment_def existing_assignments_def
    parse_forwarded Let_def
  by (intro rules client_rules post_forwarded [THEN simulates_bind] delete_forwarded [THEN simulates_bind];
      auto split: option.splits)+

lemma changes_forwarded:
  "simulates R change_rejected (groupGrant (server_client base serve') who ent) (groupGrant (server_client base serve) who ent)"
  "simulates R call_rejected (groupRevoke (server_client base serve') x) (groupRevoke (server_client base serve) x)"
  "simulates R change_rejected (assignmentGrant (server_client base serve') who ent)
     (assignmentGrant (server_client base serve) who ent)"
  "simulates R call_rejected (assignmentRevoke (server_client base serve') x) (assignmentRevoke (server_client base serve) x)"
  unfolding groupGrant_def groupRevoke_def assignmentGrant_def assignmentRevoke_def Let_def
  by (intro rules requests_forwarded [THEN simulates_bind]; auto split: option.splits sum.splits)+

end

lemma whole_changes:
  "groupGrant (site_client base) who ent S = (Ret (x, annos, None), S') \<Longrightarrow>
     groupGrant (confluence_client base) who ent (S, T) = (Ret (x, annos, None), S', T)"
  "groupRevoke (site_client base) g S = (Ret (annos, None), S') \<Longrightarrow>
     groupRevoke (confluence_client base) g (S, T) = (Ret (annos, None), S', T)"
  "assignmentGrant (tenant_client base) who ent T = (Ret (x, annos, None), T') \<Longrightarrow>
     assignmentGrant (confluence_client base) who ent (S, T) = (Ret (x, annos, None), S, T')"
  "assignmentRevoke (tenant_client base) g T = (Ret (annos, None), T') \<Longrightarrow>
     assignmentRevoke (confluence_client base) g (S, T) = (Ret (annos, None), S, T')"
  unfolding site_client_def tenant_client_def confluence_client_def
  using simulatesD [OF users.changes_forwarded(1) refl, of base who ent S "(x, annos, None)" S' T]
    simulatesD [OF users.changes_forwarded(2) refl, of base g S "(annos, None)" S' T]
    simulatesD [OF content.changes_forwarded(3) refl, of base who ent T "(x, annos, None)" T' S]
    simulatesD [OF content.changes_forwarded(4) refl, of base g T "(annos, None)" T' S]
  by auto

section \<open>Undoing a grant\<close>

lemma member_grant_undone:
  assumes "base_ok base" "g \<in> set (st_groups S)" "usr_AccountId u \<notin> member_ids S (grp_Id g)"
  shows "\<exists>annos. groupRevoke (site_client base)
      (NewGrant (expected_group g) ''member'' \<lparr>rid_ResourceType = ''user'', rid_Resource = usr_AccountId u\<rparr> [])
      (add_member (grp_Id g) u S) = (Ret (annos, None), S)"
proof -
  have "res_Id (expected_group g) = Some \<lparr>rid_ResourceType = ''group'', rid_Resource = grp_Id g\<rparr>"
    by (simp add: expected_group_def)
  moreover have "grp_Id g \<in> grp_Id ` set (st_groups (add_member (grp_Id g) u S))" using assms(2) by (simp add: add_member_def)
  ultimately show ?thesis
    using RemoveUserFromGroup_site [OF assms(1), of "grp_Id g" "add_member (grp_Id g) u S" "usr_AccountId u"]
      add_then_remove(2) [OF assms(3)]
    by (simp add: groupRevoke_def bindIO_apply)
qed

text \<open>A principal without a role in the space: granting one appends, and taking it away gives back the list.\<close>

lemma fresh_role:
  assumes "assignments_map as p = None" "r \<noteq> []"
  shows "set_role p r as = as @ [\<lparr>sra_Principal = p, sra_RoleId = r\<rparr>]"
    "set_role p [] (as @ [\<lparr>sra_Principal = p, sra_RoleId = r\<rparr>]) = as"
proof -
  have "sra_Principal a \<noteq> p" if "a \<in> set as" for a
    using assms(1) that by (auto simp: assignments_map_def map_of_eq_None_iff image_image)
  then have "filter (\<lambda>a. sra_Principal a \<noteq> p) as = as" by (simp add: filter_id_conv)
  then show "set_role p r as = as @ [\<lparr>sra_Principal = p, sra_RoleId = r\<rparr>]"
    "set_role p [] (as @ [\<lparr>sra_Principal = p, sra_RoleId = r\<rparr>]) = as"
    using assms(2) by (simp_all add: set_role_def)
qed

lemma update_assignments_twice:
  "update_assignments i f (update_assignments i g T) = update_assignments i (f \<circ> g) T"
  by (simp add: update_assignments_def)

lemma update_assignments_same: "f (tn_assignments T i) = tn_assignments T i \<Longrightarrow> update_assignments i f T = T"
  by (simp add: update_assignments_def fun_upd_idem)

lemma role_revoke_held:
  assumes "base_ok base" "assignments_ok T" "role_request_ok (role_key sid pid) r"
    and "rid_ResourceType pid \<in> {''user'', ''group''}"
    and "spaceRoleAssignmentResource r sid roleName spaceName = Inr res"
    and "tenant_role T (role_key sid pid) = Some r"
  shows "\<exists>annos'. assignmentRevoke (tenant_client base) (NewGrant res ''assigned'' pid annos) T =
    (Ret (annos', None), update_assignments (rid_Resource sid) (set_role (snd (role_key sid pid)) []) T)"
proof -
  obtain p where key: "role_key sid pid = (rid_Resource sid, p)"
      "p = \<lparr>rp_PrincipalType = rp_PrincipalType p, rp_PrincipalId = rid_Resource pid\<rparr>"
    and ty: "confluencePrincipalType (rid_ResourceType pid) = Inr (rp_PrincipalType p)"
    using role_key_parts [OF assms(4)] by metis
  note ok = assms(3) [unfolded key(1)]
  have ids: "list_all id_char (rid_Resource sid)" "rp_PrincipalType p \<noteq> []"
    "valid_utf8 (rp_PrincipalType p)" "valid_utf8 (rp_PrincipalId p)"
    using ok by (simp_all add: role_request_ok_def assignment_plain_def)
  obtain existing cursor rl where look: "GetSpaceRoleAssignments (tenant_client base) (rid_Resource sid) r
      (rid_Resource pid) (rp_PrincipalType p) [] 1 T = (Ret (existing, cursor, rl, None), T)" "existing \<noteq> []"
    using tenant_roles.lookup [OF conjI [OF assms(1,2)] ok] assms(6) key
    by (metis SpaceRoleAssignmentPrincipal.select_convs(2))
  have set: "SetSpaceRoleAssignment (tenant_client base) (rid_Resource sid) [\<lparr>set_Principal = p, set_RoleId = []\<rparr>] T =
      (Ret (Some no_limits, None), update_assignments (rid_Resource sid) (set_role p []) T)"
    by (rule SetSpaceRoleAssignment_tenant [OF assms(1) ids]) (simp add: valid_utf8_ascii is_ascii_def)
  show ?thesis
    using assignmentRevoke_steps [OF assms(5) _ _ _ _ ty look(1), folded key(2), OF _ _ _ _ set,
        of "NewGrant res ''assigned'' pid annos" "grant_entitlement res ''assigned''" "principal_resource pid"] look(2) key(1)
    by simp
qed

section \<open>A new member\<close>

definition member_grant_of :: "ConfluenceGroup \<Rightarrow> ConfluenceUser \<Rightarrow> Grant" where
  "member_grant_of g u =
     NewGrant (expected_group g) ''member'' \<lparr>rid_ResourceType = ''user'', rid_Resource = usr_AccountId u\<rparr> []"

text \<open>A group is known by its id.\<close>

definition only_group :: "site \<Rightarrow> ConfluenceGroup \<Rightarrow> bool" where
  "only_group S g \<longleftrightarrow> g \<in> set (st_groups S) \<and> (\<forall>g' \<in> set (st_groups S). grp_Id g' = grp_Id g \<longrightarrow> g' = g)"

lemma add_member_simps [simp]:
  "st_groups (add_member i u S) = st_groups S" "st_users (add_member i u S) = st_users S"
  "set (st_members (add_member i u S) j) = (if i = j then insert u (set (st_members S j)) else set (st_members S j))"
  by (auto simp: add_member_def)

lemma expected_after_member:
  assumes "u \<in> set (st_users S)" "shouldIncludeUser u" "only_group S g" "WillSyncResourceType ids ''group''"
  shows "expected_resources ids con (add_member (grp_Id g) u S) T = expected_resources ids con S T"
    "expected_grants ids con (add_member (grp_Id g) u S) T = insert (member_grant_of g u) (expected_grants ids con S T)"
proof -
  let ?S' = "add_member (grp_Id g) u S"
  have "set (site_users ?S') = set (site_users S)"
    using assms(1) by (auto simp: set_site_users split: if_splits)
  then show "expected_resources ids con ?S' T = expected_resources ids con S T"
    by (simp add: expected_resources_def)
  have members: "group_members ?S' g' = (if g' = g then insert (member_grant_of g u) (group_members S g') else group_members S g')"
    if "g' \<in> set (st_groups S)" for g'
    using assms(2,3) that
    by (auto simp: group_members_def member_grant_of_def only_group_def)
  have "(\<Union>g' \<in> set (st_groups S). group_members ?S' g') =
      insert (member_grant_of g u) (\<Union>g' \<in> set (st_groups S). group_members S g')"
    using assms(3) members by (auto simp: only_group_def split: if_splits)
  then show "expected_grants ids con ?S' T = insert (member_grant_of g u) (expected_grants ids con S T)"
    using assms(4) by (simp add: expected_grants_def selected_def Let_def)
qed

text \<open>The resources and grants that two syncs of the whole connector find, the second with one grant more.\<close>

definition syncs_to :: "string list \<Rightarrow> 'w Confluence \<Rightarrow> 'w \<Rightarrow> Resource set \<Rightarrow> Grant set \<Rightarrow> bool" where
  "syncs_to ids con w rs gs \<longleftrightarrow>
     (\<exists>out out' st. full_sync ids con w = Some (Ret ((out, out'), None), st) \<and> set out = rs \<and> set out' = gs)"

lemma whole_syncs_to:
  assumes "whole_ok base con S T"
  shows "syncs_to ids con (S, T) (expected_resources ids con S T) (expected_grants ids con S T)"
  using full_sync_run [OF assms, of ids] by (auto simp: syncs_to_def)

text \<open>
  C6. When a user that the site knows and the connector accepts and who is no member of a group is granted
  its member entitlement, Grant returns one grant, the next sync of the whole connector finds the
  resources that the one before would have found and its grants with exactly that grant in addition,
  and revoking it gives back the site as it was. The user is listed once more, as a member of the
  group, but as the resource that the search has listed.
\<close>

theorem member_grant_synced:
  assumes "whole_ok base con S T" "WillSyncResourceType ids ''group''"
    and "only_group S g" "known_user S (usr_AccountId u) = Some u" "shouldIncludeUser u"
    and "usr_AccountId u \<notin> member_ids S (grp_Id g)" "small (st_members S (grp_Id g) @ [u])"
    and "ent_Resource ent = Some (expected_group g)"
    and "res_Id who = Some \<lparr>rid_ResourceType = ''user'', rid_Resource = usr_AccountId u\<rparr>"
  shows "\<exists>annos annos' new S' rs gs.
    groupGrant (confluence_client base) who ent (S, T) = (Ret ([new], annos, None), S', T) \<and>
    syncs_to ids con (S, T) rs gs \<and> syncs_to ids con (S', T) rs (insert new gs) \<and>
    groupRevoke (confluence_client base) new (S', T) = (Ret (annos', None), S, T)"
proof -
  let ?S' = "add_member (grp_Id g) u S"
  have ok: "base_ok base" "site_ok S" and here: "g \<in> set (st_groups S)"
    using assms(1,3) by (simp_all add: whole_ok_def only_group_def)
  have user: "u \<in> set (st_users S)" using known_user_id [OF assms(4)] by simp
  have "whole_ok base con ?S' T"
    using assms(1) add_member_ok [OF ok(2) user assms(7)] by (simp add: whole_ok_def)
  note after = whole_syncs_to [OF this, of ids, unfolded expected_after_member [OF user assms(5,3,2)]]
  obtain annos where "groupGrant (site_client base) who ent S = (Ret ([member_grant_of g u], annos, None), ?S')"
    using member_grant_new [OF ok here assms(4,8,9)] by (auto simp: member_grant_of_def)
  moreover obtain annos' where "groupRevoke (site_client base) (member_grant_of g u) ?S' = (Ret (annos', None), S)"
    using member_grant_undone [OF ok(1) here assms(6)] by (auto simp: member_grant_of_def)
  ultimately show ?thesis
    using whole_changes(1,2) after whole_syncs_to [OF assms(1), of ids] by blast
qed

section \<open>A new holder of a role\<close>

definition role_grant_of :: "tenant \<Rightarrow> ConfluenceSpace \<Rightarrow> string \<Rightarrow> ResourceId \<Rightarrow> Grant" where
  "role_grant_of T s r pid = NewGrant (listed_binding T s r) ''assigned'' pid
     (if rid_ResourceType pid = ''group'' then [AnyGrantExpandable [''group:'' @ rid_Resource pid @ '':member'']] else [])"

definition space_rid :: "ConfluenceSpace \<Rightarrow> ResourceId" where
  "space_rid s = \<lparr>rid_ResourceType = ''space'', rid_Resource = sp_Id s\<rparr>"

lemma update_assignments_simps [simp]:
  "tn_spaces (update_assignments i f T) = tn_spaces T" "tn_roles (update_assignments i f T) = tn_roles T"
  "tn_permissions (update_assignments i f T) = tn_permissions T"
  "tn_assignments (update_assignments i f T) j = (if i = j then f (tn_assignments T j) else tn_assignments T j)"
  "synced_spaces con (update_assignments i f T) = synced_spaces con T"
  "listed_binding (update_assignments i f T) = listed_binding T"
  "space_at (update_assignments i f T) = space_at T"
  by (auto simp: update_assignments_def synced_spaces_def listed_binding_def space_at_def fun_eq_iff)

lemma space_permissions_update [simp]: "space_permissions con (update_assignments i f T) = space_permissions con T"
  by (simp add: space_permissions_def fun_eq_iff)

text \<open>The space with one assignment more.\<close>

lemma space_after_role:
  assumes "set (f (tn_assignments T (sp_Id s))) = insert a (set (tn_assignments T (sp_Id s)))"
    and "rp_PrincipalType (sra_Principal a) \<in> {''USER'', ''GROUP''}"
  shows "space_bindings (update_assignments (sp_Id s) f T) s = insert (listed_binding T s (sra_RoleId a)) (space_bindings T s)"
    "(\<Union>b \<in> set (tn_assignments (update_assignments (sp_Id s) f T) (sp_Id s)).
        binding_holders (update_assignments (sp_Id s) f T) s (sra_RoleId b)) =
     insert (expected_role_grant (listed_binding T s (sra_RoleId a)) a)
       (\<Union>b \<in> set (tn_assignments T (sp_Id s)). binding_holders T s (sra_RoleId b))"
  using assms by (auto simp: space_bindings_def binding_holders_def)

lemma Union_one:
  assumes "x \<in> X" "\<And>y. y \<in> X \<Longrightarrow> f y = (if y = x then insert a (g y) else g y)"
  shows "(\<Union>y \<in> X. f y) = insert a (\<Union>y \<in> X. g y)"
  using assms by (auto split: if_splits)

lemma expected_after_role:
  assumes "whole_ok base con S T" "s \<in> synced_spaces con T" "con_useRbac con"
    and "WillSyncResourceType ids ''space''" "WillSyncResourceType ids ''space_role_assignment''"
    and "set (f (tn_assignments T (sp_Id s))) = insert a (set (tn_assignments T (sp_Id s)))"
    and "rp_PrincipalType (sra_Principal a) \<in> {''USER'', ''GROUP''}"
  shows "expected_resources ids con S (update_assignments (sp_Id s) f T) =
      insert (listed_binding T s (sra_RoleId a)) (expected_resources ids con S T)"
    "expected_grants ids con S (update_assignments (sp_Id s) f T) =
      insert (expected_role_grant (listed_binding T s (sra_RoleId a)) a) (expected_grants ids con S T)"
proof -
  let ?T' = "update_assignments (sp_Id s) f T"
  have same: "s' = s" if "s' \<in> synced_spaces con T" "sp_Id s' = sp_Id s" for s'
    by (rule same_space [OF assms(1,2) that])
  note here = space_after_role [where f = f and T = T and s = s, OF assms(6,7)]
  have "(\<Union>s' \<in> synced_spaces con T. space_bindings ?T' s') =
      insert (listed_binding T s (sra_RoleId a)) (\<Union>s' \<in> synced_spaces con T. space_bindings T s')"
    by (rule Union_one [OF assms(2)]) (use here(1) same in \<open>auto simp: space_bindings_def\<close>)
  then show "expected_resources ids con S ?T' = insert (listed_binding T s (sra_RoleId a)) (expected_resources ids con S T)"
    using assms(3-5) by (simp add: expected_resources_def selected_def Let_def)
  have "(\<Union>s' \<in> synced_spaces con T. \<Union>b \<in> set (tn_assignments ?T' (sp_Id s')). binding_holders ?T' s' (sra_RoleId b)) =
      insert (expected_role_grant (listed_binding T s (sra_RoleId a)) a)
        (\<Union>s' \<in> synced_spaces con T. \<Union>b \<in> set (tn_assignments T (sp_Id s')). binding_holders T s' (sra_RoleId b))"
    by (rule Union_one [OF assms(2)]) (use here(2) same in \<open>auto simp: binding_holders_def\<close>)
  then show "expected_grants ids con S ?T' =
      insert (expected_role_grant (listed_binding T s (sra_RoleId a)) a) (expected_grants ids con S T)"
    using assms(3-5) by (simp add: expected_grants_def selected_def Let_def)
qed

text \<open>
  C5. In RBAC mode, when a user or group without a role in a space is granted one, Grant returns the new
  grant without error and the next sync of the whole connector finds exactly what the one before would
  have found and in addition the role in that space, if it was not held by anyone, and the grant of
  it, which for a group carries the annotation that its members inherit it; revoking that grant gives
  back the tenant as it was. No other resource or grant of any type changes.
\<close>

theorem role_grant_synced:
  assumes "whole_ok base con S T" "assignments_ok T" "s \<in> synced_spaces con T" "con_useRbac con"
    and "WillSyncResourceType ids ''space''" "WillSyncResourceType ids ''space_role_assignment''"
    and "role_request_ok (role_key (space_rid s) pid) r" "rid_ResourceType pid \<in> {''user'', ''group''}"
    and "tenant_role T (role_key (space_rid s) pid) = None" "length (tn_assignments T (sp_Id s)) + 1 < 1000000000"
    and "ent_Resource ent = Some (listed_binding T s r)" "res_Id who = Some pid"
  shows "\<exists>annos annos' T' rs gs.
    assignmentGrant (confluence_client base) who ent (S, T) =
      (Ret ([NewGrant (listed_binding T s r) ''assigned'' pid []], annos, None), S, T') \<and>
    syncs_to ids con (S, T) rs gs \<and>
    syncs_to ids con (S, T') (insert (listed_binding T s r) rs) (insert (role_grant_of T s r pid) gs) \<and>
    assignmentRevoke (confluence_client base) (role_grant_of T s r pid) (S, T') = (Ret (annos', None), S, T)"
proof -
  define p where "p = snd (role_key (space_rid s) pid)"
  let ?a = "\<lparr>sra_Principal = p, sra_RoleId = r\<rparr>" and ?as = "tn_assignments T (sp_Id s)"
  let ?T' = "update_assignments (sp_Id s) (set_role p r) T"
  have key: "role_key (space_rid s) pid = (sp_Id s, p)" "rid_Resource (space_rid s) = sp_Id s"
    "p = \<lparr>rp_PrincipalType = if rid_ResourceType pid = ''user'' then ''USER'' else ''GROUP'', rp_PrincipalId = rid_Resource pid\<rparr>"
    by (simp_all add: p_def role_key_def space_rid_def)
  have ok: "base_ok base" "tenant_ok T" using assms(1) by (simp_all add: whole_ok_def)
  have request: "r \<noteq> []" "assignment_plain ?a" using assms(7) by (simp_all add: key(1) role_request_ok_def)
  have "assignments_map ?as p = None" using assms(9) by (simp add: key(1) tenant_role_def)
  note fresh = fresh_role [OF this request(1)]
  have res: "spaceRoleAssignmentResource r (space_rid s) (role_label (take 200 (tn_roles T)) r) (sp_Name s) = Inr (listed_binding T s r)"
    by (simp add: spaceRoleAssignmentResource_expected listed_binding_def space_rid_def)
  have whole': "whole_ok base con S ?T'"
    using assms(1) update_tenant_ok [OF ok(2) assms(10) request(2)] fresh(1) request(1) by (auto simp: whole_ok_def)
  have grant: "expected_role_grant (listed_binding T s r) ?a = role_grant_of T s r pid"
    using assms(8) key(3) by (cases pid) (auto simp: expected_role_grant_def role_grant_of_def)
  have after: "syncs_to ids con (S, ?T') (insert (listed_binding T s r) (expected_resources ids con S T))
      (insert (role_grant_of T s r pid) (expected_grants ids con S T))"
    using whole_syncs_to [OF whole', of ids] grant fresh(1) key(3)
      expected_after_role [OF assms(1,3-6), of "set_role p r" ?a] by simp
  obtain annos where granted: "assignmentGrant (tenant_client base) who ent T =
      (Ret ([NewGrant (listed_binding T s r) ''assigned'' pid []], annos, None), ?T')"
    using role_grant_new [OF ok(1) assms(2,7,8) res assms(11,12)] assms(9) key(1,2) by auto
  have held: "assignments_ok ?T'" "tenant_role ?T' (role_key (space_rid s) pid) = Some r"
    using update_assignments_ok [OF assms(2), of r p] request tenant_role_update [of "sp_Id s" p r T] by (simp_all add: key(1))
  have "update_assignments (sp_Id s) (set_role p []) ?T' = T"
    unfolding update_assignments_twice by (rule update_assignments_same) (simp add: fresh)
  then obtain annos' where "assignmentRevoke (tenant_client base) (role_grant_of T s r pid) ?T' = (Ret (annos', None), T)"
    using role_revoke_held [OF ok(1) held(1) assms(7,8) res held(2)] key(1,2) unfolding role_grant_of_def by auto
  then show ?thesis
    using whole_changes(3,4) [where base = base and S = S] granted after whole_syncs_to [OF assms(1), of ids] by blast
qed

section \<open>Examples\<close>

lemma demo_all_selected: "WillSyncResourceType [] ty"
  by (simp add: WillSyncResourceType_def SyncFilterIsExplicit_def)

lemma wide_demo_ok: "whole_ok demo_base (whole_demo rbac) wide_site demo_tenant"
  using whole_demo_ok [of rbac] wide_site_ok by (simp add: whole_ok_def)

theorem member_grant_synced_witness:
  "\<exists>annos annos' new S' rs gs.
    groupGrant (confluence_client demo_base) (principal_resource (user_id ''c1''))
      (grant_entitlement (expected_group staff) ''member'') (wide_site, demo_tenant) = (Ret ([new], annos, None), S', demo_tenant) \<and>
    syncs_to [] (whole_demo True) (wide_site, demo_tenant) rs gs \<and>
    syncs_to [] (whole_demo True) (S', demo_tenant) rs (insert new gs) \<and>
    groupRevoke (confluence_client demo_base) new (S', demo_tenant) = (Ret (annos', None), wide_site, demo_tenant)"
proof -
  have here: "only_group wide_site staff" by (simp add: only_group_def wide_site_def)
  have fresh: "usr_AccountId carol \<notin> member_ids wide_site (grp_Id staff)"
    by (simp add: member_ids_def carol_known wide_site_def bob_def robot_def)
  have room: "small (st_members wide_site (grp_Id staff) @ [carol])" by (simp add: small_def wide_site_def)
  show ?thesis
    by (rule member_grant_synced [OF wide_demo_ok demo_all_selected here _ carol_known(2) fresh room])
      (simp_all add: carol_known user_id_def)
qed

theorem role_grant_synced_witness:
  "\<exists>annos annos' T' rs gs.
    assignmentGrant (confluence_client demo_base) (principal_resource (demo_who ''a2'')) demo_entitlement (demo_site, demo_tenant) =
      (Ret ([NewGrant demo_binding ''assigned'' (demo_who ''a2'') []], annos, None), demo_site, T') \<and>
    syncs_to [] (whole_demo True) (demo_site, demo_tenant) rs gs \<and>
    syncs_to [] (whole_demo True) (demo_site, T') (insert demo_binding rs)
      (insert (NewGrant demo_binding ''assigned'' (demo_who ''a2'') []) gs) \<and>
    assignmentRevoke (confluence_client demo_base) (NewGrant demo_binding ''assigned'' (demo_who ''a2'') []) (demo_site, T') =
      (Ret (annos', None), demo_site, demo_tenant)"
proof -
  have rid: "space_rid manual = demo_space_rid" by (simp add: space_rid_def demo_space_rid_def)
  have here: "manual \<in> synced_spaces (whole_demo True) demo_tenant" by (simp add: whole_demo_spaces)
  have room: "length (tn_assignments demo_tenant (sp_Id manual)) + 1 < 1000000000" by (simp add: demo_tenant_def)
  have grant: "role_grant_of demo_tenant manual ''r1'' (demo_who ''a2'') = NewGrant demo_binding ''assigned'' (demo_who ''a2'') []"
    by (simp add: role_grant_of_def listed_binding_demo)
  have kind: "rid_ResourceType (demo_who ''a2'') \<in> {''user'', ''group''}" by simp
  note demo = role_grant_synced [where s = manual and r = "''r1''" and pid = "demo_who ''a2''", OF whole_demo_ok demo_assignments_ok here _ demo_all_selected demo_all_selected _ kind _ room,
      unfolded rid listed_binding_demo grant]
  show ?thesis
    by (rule demo) (use demo_request(2) demo_roles(2) in \<open>simp_all add: listed_binding_demo\<close>)
qed

end
