(* ===== verification/PermissionChanges.thy ===== *)
theory PermissionChanges
  imports SpaceSync
begin

text \<open>
  Granting and revoking a permission of a space against the reference tenant: the endpoint that takes a
  key, the search over all pages, the lookup of the space for its key, and the deletion.
\<close>

section \<open>The search on a tenant\<close>

lemma limit_of_max [simp]: "limit_of maxResults = 250"
  using sint_small [of 250] by (simp add: limit_of_def maxResults_def)

lemma lists_permissions_tenant:
  assumes "base_ok base" "tenant_ok S" "list_all id_char i"
  shows "offset cursor = k \<Longrightarrow>
    lists_permissions (tenant_client base) i cursor S (drop k (tn_permissions S i))"
proof (induction "length (tn_permissions S i) - k" arbitrary: k cursor rule: less_induct)
  case less
  let ?xs = "tn_permissions S i"
  have get: "GetSpacePermissions (tenant_client base) cursor maxResults i S =
      (Ret (window k 250 ?xs, next_cursor k 250 ?xs, Some no_limits, None), S)"
    using GetSpacePermissions_tenant [OF assms, of cursor maxResults] less.prems by simp
  show ?case
  proof (cases "k + 250 < length ?xs")
    case True
    have "small ?xs" using assms(2) by (simp add: tenant_ok_def)
    then have "offset (next_cursor k 250 ?xs) = k + 250"
      using True by (simp add: next_cursor_def offset_cursor small_def)
    then have "lists_permissions (tenant_client base) i (next_cursor k 250 ?xs) S (drop (k + 250) ?xs)"
      using True by (intro less.hyps) simp_all
    moreover have "next_cursor k 250 ?xs \<noteq> []"
      using True by (simp add: next_cursor_def cursor_token_def)
    ultimately show ?thesis
      using more_permissions [OF get] window_drop [of k 250 ?xs] by metis
  next
    case False
    then have "window k 250 ?xs = drop k ?xs" by (simp add: window_def)
    then show ?thesis
      using last_permissions [of "tenant_client base" cursor i S "drop k ?xs"] get False by (simp add: next_cursor_def)
  qed
qed

lemma findSpacePermission_tenant:
  assumes "base_ok base" "tenant_ok S" "list_all id_char i"
  shows "\<exists>rl. findSpacePermission (tenant_client base) i key target pid pty S =
    Some (Ret (search_result (permission_matches key target pid pty) (tn_permissions S i) rl), S)"
proof -
  have "lists_permissions (tenant_client base) i [] S (tn_permissions S i)"
    using lists_permissions_tenant [OF assms, of "[]" 0] by simp
  from search_loop [OF this, where I = "\<lambda>w. w = S"]
  show ?thesis
    using GetSpacePermissions_tenant [OF assms] by (fastforce simp: findSpacePermission_def)
qed

section \<open>Deleting on a tenant\<close>

text \<open>The space is known to the tenant under its key, too.\<close>

definition space_known :: "tenant \<Rightarrow> ConfluenceSpace \<Rightarrow> bool" where
  "space_known S s \<longleftrightarrow> space_at S s \<and>
     list_all id_char (sp_Key s) \<and> find (\<lambda>s'. sp_Key s' = sp_Key s) (tn_spaces S) = Some s"

lemma permission_of_delete_path:
  assumes "list_all id_char key" "list_all id_char p"
  shows "permission_of_path (spacePermissionsUpdateUrlPath key p) = Some (key, p)"
  using segment_after_append [OF id_no_slash [OF assms(1)], of "''/permissions/'' @ p" "''/wiki/rest/api/space/''"]
    segment_after_append [OF id_no_slash [OF assms(2)], of "[]" "''/permissions/''"]
  by (simp add: permission_of_path_def spacePermissionsUpdateUrlPath_def)

lemma deleteSpacePermission_tenant:
  assumes "base_ok base" "tenant_ok S" "space_known S s" "list_all id_char (perm_Id p)"
    and "json_Unmarshal dec_bool (tn_reply S) False = (v, e)"
  shows "deleteSpacePermission (tenant_client base) (sp_Id s) (Some p) S =
    (Ret (reply_outcome (delete_url base (sp_Key s) (perm_Id p)) (tn_reply S) e),
     remove_permission (sp_Id s) (perm_Id p) S)"
proof -
  note known = assms(3) [unfolded space_known_def space_at_def]
  let ?c = "server_client base tenant_serve"
  have space: "tenant_serve (request_to ?c GET (space_url base (sp_Id s)) None) S = ((200, json_print (json_tenant_space s)), S)"
    using known by (simp add: tenant_get_def space_url_def space_of_paths id_no_slash Let_def)
  have delete: "tenant_serve (request_to ?c DELETE (delete_url base (sp_Key (space_view s)) (perm_Id p)) None) S =
      ((200, tn_reply S), remove_permission (sp_Id s) (perm_Id p) S)"
    using known assms(4)
    by (simp add: tenant_serve_def request_to_def tenant_delete_def delete_url_def permission_of_delete_path)
  have ids: "list_all id_char (sp_Id s)" "list_all id_char (sp_Key (space_view s))" using known by simp_all
  have pl: "plain (json_tenant_space s)"
    using found_space_valid [OF assms(2)] known by (blast intro: plain_tenant_space)
  have dec: "dec_ptr zero_Space dec_Space (json_tenant_space s) None = (Some (space_view s), None)"
    using dec_tenant_space [of s] by (simp add: json_tenant_space_def)
  show ?thesis
    using deleteSpacePermission_served [where serve = tenant_serve, OF assms(1) ids assms(4) space pl dec delete assms(5)]
    by (simp add: tenant_client_def)
qed

section \<open>Adding on a tenant\<close>

lemma requested_create_body:
  "requested_permission p (create_body key target principalId principalType) =
     \<lparr>perm_Id = p, perm_Principal = \<lparr>pp_Id = principalId, pp_Type = principalType\<rparr>,
      perm_Operation = \<lparr>po_Key = key, po_TargetType = target\<rparr>\<rparr>"
  by (simp add: requested_permission_def create_body_def json_CreateSpacePermission_def member_def json_member_def
      json_text_def Let_def)

lemma AddSpacePermission_tenant:
  assumes "base_ok base" "list_all id_char i" "principalType \<in> {''user'', ''group''}"
    and "valid_utf8 principalId" "valid_utf8 key" "valid_utf8 target"
  shows "AddSpacePermission (tenant_client base) i key target principalId principalType S =
    (case find (\<lambda>s. sp_Key s = i) (tn_spaces S) of
       None \<Rightarrow> (Ret (None, Some (not_found (create_url base i) ''not found'')), S)
     | Some s \<Rightarrow>
         (Ret (reply_outcome (create_url base i) (tn_reply S) (snd (json_Unmarshal dec_bool (tn_reply S) False))),
          add_permission (sp_Id s)
            \<lparr>perm_Id = tn_fresh S, perm_Principal = \<lparr>pp_Id = principalId, pp_Type = principalType\<rparr>,
             perm_Operation = \<lparr>po_Key = key, po_TargetType = target\<rparr>\<rparr> S))"
proof -
  let ?b = "create_body key target principalId principalType"
  have "plain ?b"
    using assms(3-6)
    by (auto simp: create_body_def json_CreateSpacePermission_def member_def valid_utf8_ascii is_ascii_def)
  then have body: "json_parse (json_print ?b) = Some ?b" by (rule json_parse_print)
  have path: "segment_after ''/wiki/rest/api/space/'' (spacePermissionsCreateUrlPath i) = Some (i, ''/permissions'')"
    using segment_after_append [OF id_no_slash [OF assms(2)], of "''/permissions''" "''/wiki/rest/api/space/''"]
    by (simp add: spacePermissionsCreateUrlPath_def)
  have ans: "tenant_serve (request_to (server_client base tenant_serve) POST (create_url base i) (Some (json_print ?b))) S =
      (case find (\<lambda>s. sp_Key s = i) (tn_spaces S) of
         None \<Rightarrow> ((404, ''not found''), S)
       | Some s \<Rightarrow> ((200, tn_reply S), add_permission (sp_Id s) (requested_permission (tn_fresh S) ?b) S))"
    by (simp add: tenant_serve_def request_to_def tenant_create_def create_url_def path body split: option.split)
  show ?thesis
  proof (cases "find (\<lambda>s. sp_Key s = i) (tn_spaces S)")
    case None
    then show ?thesis
      using AddSpacePermission_refused [where serve = tenant_serve and s = S and s' = S, OF assms(1-3)] ans
      by (simp add: tenant_client_def)
  next
    case (Some s)
    then show ?thesis
      using AddSpacePermission_served [where serve = tenant_serve and s = S, OF assms(1-3) _ surjective_pairing] ans
      by (simp add: tenant_client_def requested_create_body)
  qed
qed

text \<open>
  \<open>Grant\<close> gives the id of the space to an endpoint that takes its key: it changes the space whose key is
  that id, and fails when there is none.
\<close>

text \<open>
  C21. Grant of a space permission gives the id of the space to an endpoint that takes the key of a space:
  when no space has that id as its key, the call fails with a not-found error and changes nothing;
  otherwise the permission is added to the space with that key, and an error is reported exactly when
  the body of the reply is not a JSON bool.
\<close>

theorem space_grant_by_key:
  assumes "base_ok base" "sb_client b = tenant_client base" "list_all id_char i"
    and "ent_Slug ent = createEntitlementName verb noun" "CHR ''-'' \<notin> set verb" "CHR ''-'' \<notin> set noun"
    and "ent_Resource ent = Some res" "res_Id res = Some \<lparr>rid_ResourceType = ty, rid_Resource = i\<rparr>"
    and "res_Id who = Some pid" "rid_ResourceType pid \<in> {''user'', ''group''}"
    and "valid_utf8 (rid_Resource pid)" "valid_utf8 verb" "valid_utf8 noun"
  shows "\<exists>grants annos err S'. spaceGrant b who ent S = (Ret (grants, annos, err), S') \<and>
    (case find (\<lambda>s. sp_Key s = i) (tn_spaces S) of
       None \<Rightarrow> (\<exists>e. err = Some e \<and> is_not_found e) \<and> grants = [] \<and> S' = S
     | Some s \<Rightarrow>
         S' = add_permission (sp_Id s)
           \<lparr>perm_Id = tn_fresh S, perm_Principal = \<lparr>pp_Id = rid_Resource pid, pp_Type = rid_ResourceType pid\<rparr>,
            perm_Operation = \<lparr>po_Key = verb, po_TargetType = noun\<rparr>\<rparr> S \<and>
         (err = None \<longleftrightarrow> (\<exists>v. json_Unmarshal dec_bool (tn_reply S) False = (v, None))))"
proof -
  have slug: "GetEntitlementComponents (ent_Slug ent) = ret (verb, noun)"
    by (simp add: assms(4) entitlement_name_roundtrip [OF assms(5)] split_str_no_sep [OF assms(6)])
  obtain v e where reply: "json_Unmarshal dec_bool (tn_reply S) False = (v, e)" by fastforce
  show ?thesis
    using AddSpacePermission_tenant [OF assms(1,3,10,11,12,13), of S]
    by (cases "find (\<lambda>s. sp_Key s = i) (tn_spaces S)"; cases e)
      (simp_all add: spaceGrant_def assms(2,7-9) slug bindIO_apply Let_def not_found_def reply_outcome_def reply)
qed

section \<open>Revoke\<close>

text \<open>
  What \<open>Revoke\<close> does: without a matching permission it fails and changes nothing; otherwise the first match
  is deleted, and whether the call succeeds depends on the body of the reply alone.
\<close>


lemma manual_known: "space_known demo_tenant manual"
  using demo_space_id
  by (simp add: space_known_def space_at_def demo_tenant_def id_char_def is_alnum_def is_upper_def)

definition read_entitlement :: Entitlement where
  "read_entitlement = new_entitlement PURPOSE_PERMISSION (Some (expected_space False manual)) (createEntitlementName ''read'' ''space'')"

definition read_grant :: Grant where
  "read_grant =
     (NewGrant (expected_space False manual) [] \<lparr>rid_ResourceType = ''user'', rid_Resource = ''a1''\<rparr> [])
     \<lparr>gr_Entitlement := Some read_entitlement\<rparr>"

theorem space_grant_by_key_witness:
  "\<exists>annos e. spaceGrant (newSpaceBuilder (tenant_client demo_base) True False [''space''] [''read''])
      (principal_resource \<lparr>rid_ResourceType = ''user'', rid_Resource = ''a1''\<rparr>) read_entitlement demo_tenant =
    (Ret ([], annos, Some e), demo_tenant) \<and> is_not_found e"
proof -
  let ?b = "newSpaceBuilder (tenant_client demo_base) True False [''space''] [''read'']"
  have client: "sb_client ?b = tenant_client demo_base" by (simp add: newSpaceBuilder_def)
  have ent: "ent_Slug read_entitlement = createEntitlementName ''read'' ''space''"
    "ent_Resource read_entitlement = Some (expected_space False manual)"
    by (simp_all add: read_entitlement_def new_entitlement_def)
  have space: "res_Id (expected_space False manual) = Some \<lparr>rid_ResourceType = ''space'', rid_Resource = ''7''\<rparr>"
    by (simp add: expected_space_def)
  have dash: "CHR ''-'' \<notin> set ''read''" "CHR ''-'' \<notin> set ''space''" by simp_all
  show ?thesis
    using space_grant_by_key [OF demo_base_ok client demo_space_id ent(1) dash ent(2) space,
        of "principal_resource \<lparr>rid_ResourceType = ''user'', rid_Resource = ''a1''\<rparr>"
           "\<lparr>rid_ResourceType = ''user'', rid_Resource = ''a1''\<rparr>" demo_tenant]
    by (auto simp: demo_tenant_def diary_def zero_Space_def valid_utf8_ascii is_ascii_def)
qed


end
