(* ===== verification/FaultyChanges.thy ===== *)
theory FaultyChanges
  imports FaultySync RoleChanges GroupChanges
begin

text \<open>
  Grants and revocations over a faulty connection: a change that reports an error may or may not have
  been made, but trying again until there is no error makes the changes asked for.
\<close>

section \<open>Faults to come\<close>

definition pending :: "schedule \<Rightarrow> nat" where
  "pending fs = length (filter (\<lambda>f. f \<noteq> None) fs)"

lemma pending_split: "pending fs = pending (take k fs) + pending (drop k fs)"
  unfolding pending_def length_append [symmetric] filter_append [symmetric] by simp

lemma pending_drop: "pending (drop k fs) \<le> pending fs"
  using pending_split [of fs k] by simp

lemma pending_fault: "\<not> quiet k fs \<Longrightarrow> pending (drop k fs) < pending fs"
  using pending_split [of fs k] by (auto simp: quiet_def pending_def list_all_iff filter_empty_conv)

section \<open>The changes over a faulty connection\<close>

abbreviation change_failed :: "'a \<times> go_error option \<Rightarrow> bool" where
  "change_failed \<equiv> \<lambda>(_, err). err \<noteq> None"

lemma follows_SetSpaceRoleAssignment:
  "follows P (\<lambda>(_, err). failed_with P err) (SetSpaceRoleAssignment (faulty_client base serve) i as)
     (SetSpaceRoleAssignment (server_client base serve) i as)"
  unfolding SetSpaceRoleAssignment_def client_post_def parse_faulty Let_def
  by (intro follows_rules) (auto simp: failed_with_def split: option.splits)

lemma follows_AddUserToGroup:
  "follows P (\<lambda>(_, err). failed_with P err) (AddUserToGroup (faulty_client base serve) a g)
     (AddUserToGroup (server_client base serve) a g)"
  unfolding AddUserToGroup_def client_post_def parse_faulty Let_def
  by (intro follows_rules) (auto simp: failed_with_def split: option.splits)

lemma follows_RemoveUserFromGroup:
  "follows P (\<lambda>(_, err). failed_with P err) (RemoveUserFromGroup (faulty_client base serve) a g)
     (RemoveUserFromGroup (server_client base serve) a g)"
  unfolding RemoveUserFromGroup_def client_delete_def parse_faulty Let_def
  by (intro follows_rules) (auto simp: failed_with_def split: option.splits)

lemma follows_existing_assignments:
  "follows P (\<lambda>(_, err). failed_with P err) (existing_assignments (faulty_client base serve) i r a ty)
     (existing_assignments (server_client base serve) i r a ty)"
  unfolding existing_assignments_def
  by (intro follows_rules follows_client) (auto simp: failed_with_def split: option.splits)

lemmas follows_changes =
  follows_SetSpaceRoleAssignment [THEN follows_bind] follows_AddUserToGroup [THEN follows_bind]
  follows_RemoveUserFromGroup [THEN follows_bind] follows_existing_assignments [THEN follows_bind]

lemma follows_role_call:
  "follows P (\<lambda>err. err \<noteq> None) (role_call (faulty_client base serve) e) (role_call (server_client base serve) e)"
proof -
  have grant: "follows P (\<lambda>(_, _, err). err \<noteq> None) (assignmentGrant (faulty_client base serve) who ent)
      (assignmentGrant (server_client base serve) who ent)" for who ent
    unfolding assignmentGrant_def Let_def
    by (intro follows_rules follows_changes) (auto simp: failed_with_def split: option.splits)
  have revoke: "follows P change_failed (assignmentRevoke (faulty_client base serve) g)
      (assignmentRevoke (server_client base serve) g)" for g
    unfolding assignmentRevoke_def Let_def
    by (intro follows_rules follows_changes) (auto simp: failed_with_def split: option.splits)
  show ?thesis
    by (cases e; simp only: role_call.simps; intro grant [THEN follows_bind] revoke [THEN follows_bind] follows_rules) auto
qed

lemma follows_member_call:
  "follows P (\<lambda>err. err \<noteq> None) (member_call (faulty_client base serve) e) (member_call (server_client base serve) e)"
proof -
  have grant: "follows P (\<lambda>(_, _, err). err \<noteq> None) (groupGrant (faulty_client base serve) who ent)
      (groupGrant (server_client base serve) who ent)" for who ent
    unfolding groupGrant_def Let_def
    by (intro follows_rules follows_changes) (auto simp: failed_with_def split: option.splits)
  have revoke: "follows P change_failed (groupRevoke (faulty_client base serve) g)
      (groupRevoke (server_client base serve) g)" for g
    unfolding groupRevoke_def Let_def
    by (intro follows_rules follows_changes) (auto simp: failed_with_def split: option.splits)
  show ?thesis
    by (cases e; simp only: member_call.simps; intro grant [THEN follows_bind] revoke [THEN follows_bind] follows_rules) auto
qed

text \<open>Where a GET does not change the state of the service, a call changes it as it would without faults, or not.\<close>

lemma reads_existing_assignments:
  assumes "safe_gets serve"
  shows "reads (existing_assignments (faulty_client base serve) i r a ty) (existing_assignments (server_client base serve) i r a ty)"
  unfolding existing_assignments_def GetSpaceRoleAssignments_def parse_faulty
  by (intro effect_intros) (rule assms)+

lemma changes_SetSpaceRoleAssignment:
  "changes P (SetSpaceRoleAssignment (faulty_client base serve) i as) (SetSpaceRoleAssignment (server_client base serve) i as)"
  unfolding SetSpaceRoleAssignment_def client_post_def parse_faulty Let_def
  by (intro effect_intros changes_report) (auto split: prod.split)

lemma changes_AddUserToGroup:
  "changes P (AddUserToGroup (faulty_client base serve) a g) (AddUserToGroup (server_client base serve) a g)"
  unfolding AddUserToGroup_def client_post_def parse_faulty Let_def
  by (intro effect_intros changes_report) (auto split: prod.split)

lemma changes_RemoveUserFromGroup:
  "changes P (RemoveUserFromGroup (faulty_client base serve) a g) (RemoveUserFromGroup (server_client base serve) a g)"
  unfolding RemoveUserFromGroup_def client_delete_def parse_faulty Let_def
  by (intro effect_intros changes_report) (auto split: prod.split)

lemmas changes_client = changes_SetSpaceRoleAssignment changes_AddUserToGroup changes_RemoveUserFromGroup

lemma changes_role_call:
  assumes "safe_gets serve"
  shows "changes P (role_call (faulty_client base serve) e) (role_call (server_client base serve) e)"
proof -
  note existing = changes_bind [OF follows_existing_assignments reads_existing_assignments [OF assms]]
  have grant: "changes P (assignmentGrant (faulty_client base serve) who ent) (assignmentGrant (server_client base serve) who ent)"
    for who ent
    unfolding assignmentGrant_def Let_def
    by (intro effect_intros existing changes_client [THEN changes_report])
      (auto simp: failed_with_def split: option.splits prod.splits)
  have revoke: "changes P (assignmentRevoke (faulty_client base serve) g) (assignmentRevoke (server_client base serve) g)" for g
    unfolding assignmentRevoke_def Let_def
    by (intro effect_intros existing changes_client [THEN changes_report])
      (auto simp: failed_with_def split: option.splits prod.splits)
  show ?thesis
    by (cases e; simp only: role_call.simps; intro grant [THEN changes_report] revoke [THEN changes_report])
      (auto split: prod.splits)
qed

lemma changes_member_call:
  "changes P (member_call (faulty_client base serve) e) (member_call (server_client base serve) e)"
proof -
  have grant: "changes P (groupGrant (faulty_client base serve) who ent) (groupGrant (server_client base serve) who ent)"
    for who ent
    unfolding groupGrant_def Let_def
    by (intro effect_intros changes_client [THEN changes_report]) (auto split: option.splits prod.splits)
  have revoke: "changes P (groupRevoke (faulty_client base serve) g) (groupRevoke (server_client base serve) g)" for g
    unfolding groupRevoke_def Let_def
    by (intro effect_intros changes_client [THEN changes_report]) (auto split: option.splits prod.splits)
  show ?thesis
    by (cases e; simp only: member_call.simps; intro grant [THEN changes_report] revoke [THEN changes_report])
      (auto split: prod.splits)
qed

section \<open>Trying again\<close>

text \<open>One call: what it reports, what it changes, and how many faults are left.\<close>

lemma faulty_call:
  assumes "follows (\<lambda>_. True) (\<lambda>err. err \<noteq> None) call' call" "changes (\<lambda>_. True) call' call"
    and "schedule_ok (\<lambda>_. True) fs" "call s = (Ret None, s1)"
  shows "\<exists>err s' fs'. call' (s, fs) = (Ret err, s', fs') \<and> schedule_ok (\<lambda>_. True) fs' \<and>
    (s' = s1 \<or> err \<noteq> None \<and> s' = s) \<and> (if err = None then pending fs' \<le> pending fs else pending fs' < pending fs)"
  using assms(1,3)
proof (cases rule: follows_cases [where s = s])
  case (same k r s')
  then show ?thesis
    using assms(3,4) pending_drop [of k fs] by (intro exI [of _ None] exI [of _ s1] exI [of _ "drop k fs"]) simp
next
  case (fault k err s')
  then have "s' \<in> {s, s1}" using assms(2-4) unfolding changes_def by (metis fst_conv snd_conv)
  then show ?thesis
    using fault assms(3) pending_fault [OF fault(1)]
    by (intro exI [of _ err] exI [of _ s'] exI [of _ "drop k fs"]) auto
qed

text \<open>
  Under each key a sequence of role events either sets a fixed value or removes some roles, and so has the
  same effect twice as once; for each account of a group it either fixes or leaves the membership.
\<close>

lemma role_events_under_key:
  "(\<exists>c. \<forall>m. fold role_effect es m key = c) \<or>
   (\<exists>R. \<forall>m. fold role_effect es m key = (if m key \<in> Some ` R then None else m key))"
proof (induction es)
  case Nil
  show ?case by (intro disjI2 exI [of _ "{}"]) simp
next
  case (Cons e es)
  from Cons.IH show ?case
  proof (elim disjE exE)
    fix R assume R: "\<forall>m. fold role_effect es m key = (if m key \<in> Some ` R then None else m key)"
    show ?thesis
    proof (cases e)
      case (GrantRole sid pid r)
      show ?thesis
      proof (cases "role_key sid pid = key")
        case True
        then show ?thesis using R GrantRole by (intro disjI1 exI [of _ "if r \<in> R then None else Some r"]) auto
      next
        case False
        then show ?thesis using R GrantRole by (intro disjI2 exI [of _ R]) auto
      qed
    next
      case (RevokeRole sid pid r)
      show ?thesis
        using R RevokeRole
        by (intro disjI2 exI [of _ "if role_key sid pid = key then insert r R else R"]) auto
    qed
  qed auto
qed

lemma role_events_again: "fold role_effect es (fold role_effect es m) = fold role_effect es m"
proof
  fix key
  show "fold role_effect es (fold role_effect es m) key = fold role_effect es m key"
    using role_events_under_key [of es key] by auto
qed

lemma member_effect_at:
  "(\<exists>b. \<forall>m. a \<in> member_effect e m g \<longleftrightarrow> b) \<or> (\<forall>m. a \<in> member_effect e m g \<longleftrightarrow> a \<in> m g)"
  by (cases e; cases "a = rid_Resource (case e of AddMember gid pid \<Rightarrow> pid | RemoveMember gid pid \<Rightarrow> pid) \<and>
      g = rid_Resource (case e of AddMember gid pid \<Rightarrow> gid | RemoveMember gid pid \<Rightarrow> gid)") auto

lemma member_events_at:
  "(\<exists>b. \<forall>m. a \<in> fold member_effect es m g \<longleftrightarrow> b) \<or> (\<forall>m. a \<in> fold member_effect es m g \<longleftrightarrow> a \<in> m g)"
proof (induction es)
  case (Cons e es)
  from Cons.IH show ?case
  proof (elim disjE exE)
    assume same: "\<forall>m. a \<in> fold member_effect es m g \<longleftrightarrow> a \<in> m g"
    show ?thesis using member_effect_at [of a e g] by (simp add: same)
  qed auto
qed simp

lemma member_events_again: "fold member_effect es (fold member_effect es m) = fold member_effect es m"
proof
  fix g
  have "a \<in> fold member_effect es (fold member_effect es m) g \<longleftrightarrow> a \<in> fold member_effect es m g" for a
    using member_events_at [of a es g] by auto
  then show "fold member_effect es (fold member_effect es m) g = fold member_effect es m g" by blast
qed

interpretation retried_roles: retried_store "role_call (faulty_client base tenant_serve)" role_effect
  "\<lambda>w. tenant_role (fst w)" "\<lambda>w. base_ok base \<and> assignments_ok (fst w) \<and> schedule_ok (\<lambda>_. True) (snd w)"
  "\<lambda>_. event_ok role_request_ok" "\<lambda>w. pending (snd w)" for base
proof (unfold_locales, goal_cases)
  case (1 w e)
  obtain S fs where w: "w = (S, fs)" by (cases w)
  obtain S1 where step: "role_call (tenant_client base) e S = (Ret None, S1)" "assignments_ok S1"
    "tenant_role S1 = role_effect e (tenant_role S)"
    using tenant_roles.step [of base S e] 1 w by auto
  show ?case
    using faulty_call [OF follows_role_call changes_role_call [OF tenant_gets] _ step(1) [unfolded tenant_client_def], of fs]
      step(2,3) 1 w by fastforce
qed (rule role_events_again)

interpretation retried_members: retried_store "member_call (faulty_client base site_serve)" member_effect
  "\<lambda>w. member_ids (fst w)" "\<lambda>w. base_ok base \<and> schedule_ok (\<lambda>_. True) (snd w)"
  "\<lambda>w. change_ok (member_known (fst w))" "\<lambda>w. pending (snd w)" for base
proof (unfold_locales, goal_cases)
  case (1 w e)
  obtain S fs where w: "w = (S, fs)" by (cases w)
  obtain S1 where step: "member_call (site_client base) e S = (Ret None, S1)"
    "change_ok (member_known S1) = change_ok (member_known S)" "member_ids S1 = member_effect e (member_ids S)"
    using site_members.step [of base S e] 1 w by auto
  show ?case
    using faulty_call [OF follows_member_call changes_member_call _ step(1) [unfolded site_client_def], of fs]
      step(2,3) 1 w by fastforce
qed (rule member_events_again)


text \<open>
  C16. A sequence of grants and revocations of group memberships over a connection with faults, tried again
  from its start as often as the schedule has faults, ends without an error, and the members of every
  group are then exactly what the sequence does to sets of account ids.
\<close>

theorem member_changes_retried:
  assumes "base_ok base" "list_all (change_ok (member_known S)) es"
    and "schedule_ok (\<lambda>_. True) fs" "pending fs \<le> n"
  shows "\<exists>S' fs'. run_attempts n (member_call (faulty_client base site_serve)) es (S, fs) = (Ret None, S', fs') \<and>
    member_ids S' = fold member_effect es (member_ids S)"
  using retried_members.attempts [of base "(S, fs)" es n] assms by auto

section \<open>Examples\<close>

text \<open>The first request is refused, and the answer to the second is lost after the change was made.\<close>

definition demo_faults :: schedule where
  "demo_faults = [Some (Refuse 503 []), None, Some (Lose ''EOF'')]"

lemma demo_faults_ok: "schedule_ok (\<lambda>_. True) demo_faults" "pending demo_faults \<le> 2"
  by (simp_all add: demo_faults_def schedule_ok_def is_2xx_def pending_def)


theorem member_changes_retried_witness:
  "\<exists>S' fs'. run_attempts 2 (member_call (faulty_client demo_base site_serve))
      [AddMember staff_id (user_id ''a1''), AddMember staff_id (user_id ''c1''), RemoveMember staff_id (user_id ''a1'')]
      (wide_site, demo_faults) = (Ret None, S', fs') \<and> member_ids S' ''g1'' = {''b1'', ''r1'', ''c1''}"
proof -
  let ?es = "[AddMember staff_id (user_id ''a1''), AddMember staff_id (user_id ''c1''), RemoveMember staff_id (user_id ''a1'')]"
  have "list_all (change_ok (member_known wide_site)) ?es"
    by (simp add: staff_id_def user_id_def member_known_def known_user_def wide_site_def alice_def carol_def staff_def
        valid_utf8_ascii is_ascii_def)
  from member_changes_retried [OF demo_base_ok this demo_faults_ok]
  obtain S' fs' where run: "run_attempts 2 (member_call (faulty_client demo_base site_serve)) ?es (wide_site, demo_faults) =
      (Ret None, S', fs')" "member_ids S' = fold member_effect ?es (member_ids wide_site)" by blast
  have "member_ids wide_site ''g1'' = {''b1'', ''r1''}"
    by (simp add: member_ids_def wide_site_def bob_def robot_def)
  then have "member_ids S' ''g1'' = {''b1'', ''r1'', ''c1''}"
    unfolding run(2) by (auto simp: staff_id_def user_id_def)
  then show ?thesis using run(1) by blast
qed

end
