(* ===== verification/FaultyAssignments.thy ===== *)
theory FaultyAssignments
  imports FaultySync AssignmentSync
begin

text \<open>
  The sync of role assignments over a faulty connection. A page takes up to three requests: a fault in the
  first two is an error, while a space whose name cannot be fetched is shown by its id, so that only the
  names in the listing can differ.
\<close>

section \<open>The calls of a page\<close>

lemma reads_tenant:
  "reads (GetSpaceRoleAssignments (faulty_client base tenant_serve) i r p ty t n)
     (GetSpaceRoleAssignments (tenant_client base) i r p ty t n)"
  "reads (loadRoleNames (faulty_client base tenant_serve) names) (loadRoleNames (tenant_client base) names)"
  "reads (GetSpaceById (faulty_client base tenant_serve) i) (GetSpaceById (tenant_client base) i)"
  unfolding GetSpaceRoleAssignments_def loadRoleNames_def GetSpaceRoles_def GetSpaceById_def tenant_client_def parse_faulty Let_def
  by (intro effect_intros tenant_gets)+

lemma follows_loadRoleNames:
  "follows P (\<lambda>(_, err). err \<noteq> None) (loadRoleNames (faulty_client base serve) names)
     (loadRoleNames (server_client base serve) names)"
  unfolding loadRoleNames_def
  by (intro follows_rules follows_client) (auto simp: failed_with_def split: option.splits)

lemma follows_GetSpaceById:
  "follows P (\<lambda>(_, _, err). failed_with P err) (GetSpaceById (faulty_client base serve) i)
     (GetSpaceById (server_client base serve) i)"
  unfolding GetSpaceById_def parse_faulty
  by (intro follows_rules) (auto simp: failed_with_def split: option.splits)

definition shown_names :: "ConfluenceSpace \<Rightarrow> string set" where "shown_names s = {sp_Name s, sp_Id s}"

lemma faulty_display_name:
  assumes "base_ok base" "tenant_ok S" "space_at S s" "schedule_ok P fs" "n = [] \<or> n \<in> shown_names s"
  shows "\<exists>n' fs'. space_display_name (faulty_client base tenant_serve) (sp_Id s) n (S, fs) = (Ret n', S, fs') \<and>
    schedule_ok P fs' \<and> n' \<in> shown_names s"
proof (cases "n = []")
  case False
  then show ?thesis using assms(4,5) by (simp add: space_display_name_def)
next
  case True
  have get: "GetSpaceById (tenant_client base) (sp_Id s) S = (Ret (Some (space_view s), Some no_limits, None), S)"
    using GetSpaceById_tenant [OF assms(1,2)] assms(3) by (simp add: space_at_def)
  obtain r fs' where "GetSpaceById (faulty_client base tenant_serve) (sp_Id s) (S, fs) = (Ret r, S, fs')"
    "schedule_ok P fs'" "r = (Some (space_view s), Some no_limits, None) \<or> (case r of (_, _, err) \<Rightarrow> failed_with P err)"
    using reading_call [OF follows_GetSpaceById reads_tenant(3) [unfolded tenant_client_def] assms(4)
        get [unfolded tenant_client_def]] by blast
  then show ?thesis
    using True by (cases r) (auto simp: space_display_name_def bindIO_apply failed_with_def shown_names_def)
qed

definition binding_id :: "ConfluenceSpace \<Rightarrow> SpaceRoleAssignment \<Rightarrow> ResourceId option" where
  "binding_id s a = Some \<lparr>rid_ResourceType = ''space_role_assignment'', rid_Resource = sp_Id s @ '':'' @ sra_RoleId a\<rparr>"

lemma faulty_page:
  assumes "base_ok base" "tenant_ok S" "space_at S s" "schedule_ok P fs" "names \<in> {[], tenant_names S}"
    and "decode_page_token t = \<lparr>pt_Cursor = cur, pt_SpaceName = n\<rparr>" "n = [] \<or> n \<in> shown_names s"
  defines "xs \<equiv> tn_assignments S (sp_Id s)"
  shows "\<exists>rs res err names' fs'.
    assignmentList (faulty_client base tenant_serve) names (Some \<lparr>rid_ResourceType = ''space'', rid_Resource = sp_Id s\<rparr>)
      \<lparr>tok_Size = 0, tok_Token = t\<rparr> (S, fs) = (Ret ((rs, res, err), names'), S, fs') \<and> schedule_ok P fs' \<and>
    (err = None \<longrightarrow> names' = tenant_names S \<and> res_Id ` set rs = binding_id s ` set (window (offset cur) 200 xs) \<and>
       (\<exists>n' \<in> shown_names s. token_of res = encode_page_token (next_cursor (offset cur) 200 xs) n'))"
proof -
  let ?c = "faulty_client base tenant_serve" and ?sid = "\<lparr>rid_ResourceType = ''space'', rid_Resource = sp_Id s\<rparr>"
  let ?page = "(window (offset cur) 200 xs, next_cursor (offset cur) 200 xs, Some no_limits, None)"
  have all: "filter (assignment_selected [] [] []) xs = xs" by (simp add: assignment_selected_def)
  have get: "GetSpaceRoleAssignments (tenant_client base) (sp_Id s) [] [] [] cur 200 S = (Ret ?page, S)"
    using GetSpaceRoleAssignments_tenant [OF assms(1), of S "sp_Id s" "[]" "[]" "[]" cur 200] assms(2,3) all
    by (simp add: tenant_ok_def space_at_def xs_def)
  obtain a fs1 where a: "GetSpaceRoleAssignments ?c (sp_Id s) [] [] [] cur 200 (S, fs) = (Ret a, S, fs1)"
    "schedule_ok P fs1" "a = ?page \<or> gives_error P a"
    using reading_call [OF follows_GetSpaceRoleAssignments reads_tenant(1) [unfolded tenant_client_def] assms(4)
        get [unfolded tenant_client_def]] by blast
  obtain l fs2 where l: "loadRoleNames ?c names (S, fs1) = (Ret l, S, fs2)" "schedule_ok P fs2"
    "l = (tenant_names S, None) \<or> (case l of (_, err) \<Rightarrow> err \<noteq> None)"
    using reading_call [OF follows_loadRoleNames reads_tenant(2) [unfolded tenant_client_def] a(2)
        loadRoleNames_tenant [OF assms(1,2,5), unfolded tenant_client_def]] by blast
  obtain n' fs3 where n: "space_display_name ?c (sp_Id s) n (S, fs2) = (Ret n', S, fs3)" "schedule_ok P fs3" "n' \<in> shown_names s"
    using faulty_display_name [OF assms(1-3) l(2) assms(7)] by blast
  have map: "try_map (\<lambda>roleId. spaceRoleAssignmentResource roleId ?sid (role_name ns roleId) n') is =
      Inr (map (\<lambda>i. expected_binding ?sid n' (role_name ns i) i) is)" for ns "is"
    by (rule try_map_Inr) (simp add: spaceRoleAssignmentResource_expected)
  show ?thesis
  proof (cases "a = ?page")
    case False
    then obtain as nx rl e where "a = (as, nx, rl, Some e)"
      using a(3) by (cases a) (auto simp: failed_with_def)
    then show ?thesis
      using a assms(6) by (auto simp: assignmentList_def resource_type_defs ResourcesPageSize_def bindIO_apply Let_def)
  next
    case page: True
    show ?thesis
    proof (cases "l = (tenant_names S, None)")
      case False
      then obtain ns e where "l = (ns, Some e)" using l(3) by (cases l) auto
      then show ?thesis
        using a(1) l(1,2) page assms(6)
        by (auto simp: assignmentList_def resource_type_defs ResourcesPageSize_def bindIO_apply Let_def)
    next
      case True
      have "res_Id ` set (map (\<lambda>i. expected_binding ?sid n' (role_name (tenant_names S) i) i) (unseen [] as)) = binding_id s ` set as" for as
        using unseen_props [of "[]" as] by (auto simp: expected_binding_def binding_id_def image_image)
      then show ?thesis
        using a(1) l(1) page True n map assms(6)
        by (auto simp: assignmentList_def resource_type_defs ResourcesPageSize_def bindIO_apply Let_def)
    qed
  qed
qed

section \<open>The pages\<close>

definition token_at :: "ConfluenceSpace \<Rightarrow> nat \<Rightarrow> string \<Rightarrow> bool" where
  "token_at s i t \<longleftrightarrow> t = [] \<and> i = 0 \<or> (\<exists>n \<in> shown_names s. t = encode_page_token (cursor_token i) n)"

lemma shown_names_valid: "tenant_ok S \<Longrightarrow> space_at S s \<Longrightarrow> n \<in> shown_names s \<Longrightarrow> valid_utf8 n"
  using found_space_valid [of S "\<lambda>s'. sp_Id s' = sp_Id s" s]
  by (auto simp: shown_names_def space_at_def space_valid_def)

lemma token_at_decode:
  assumes "tenant_ok S" "space_at S s" "token_at s i t" "offset_ok i"
  shows "\<exists>cur n. decode_page_token t = \<lparr>pt_Cursor = cur, pt_SpaceName = n\<rparr> \<and> offset cur = i \<and> (n = [] \<or> n \<in> shown_names s)"
proof (cases "t = []")
  case True
  have "encode_page_token (cursor_token i) n \<noteq> []" if "n \<in> shown_names s" for n
    using decode_encode_page_token(2) cursor_token_nonempty shown_names_valid [OF assms(1,2) that] by blast
  then have "i = 0" using True assms(3) unfolding token_at_def by force
  then show ?thesis using True by (simp add: decode_page_token_def zero_PageToken_def)
next
  case False
  then obtain n where n: "n \<in> shown_names s" "t = encode_page_token (cursor_token i) n"
    using assms(3) by (auto simp: token_at_def)
  then have "decode_page_token t = \<lparr>pt_Cursor = cursor_token i, pt_SpaceName = n\<rparr>"
    using decode_encode_page_token(1) [of "cursor_token i" n] cursor_token_nonempty shown_names_valid [OF assms(1,2)] by simp
  moreover have "offset (cursor_token i) = i" using assms(4) by (simp add: offset_ok_def offset_cursor)
  ultimately show ?thesis using n(1) by blast
qed

abbreviation faulty_bindings :: "url \<Rightarrow> role_names \<Rightarrow> (tenant \<times> schedule) syncer" where
  "faulty_bindings base names \<equiv> SpaceRoleAssignmentBuilder (faulty_client base tenant_serve) names"

lemma exE5: "\<exists>a b c d e. P a b c d e \<Longrightarrow> (\<And>a b c d e. P a b c d e \<Longrightarrow> Q) \<Longrightarrow> Q"
  by blast

lemma exE4: "\<exists>a b c d. P a b c d \<Longrightarrow> (\<And>a b c d. P a b c d \<Longrightarrow> Q) \<Longrightarrow> Q"
  by blast

lemma faulty_bindings_run:
  assumes "base_ok base" "tenant_ok S" "space_at S s"
    and "schedule_ok P fs" "names \<in> {[], tenant_names S}" "token_at s i t" "offset_ok i"
  shows "\<exists>out err fs' names'. sync_pages (list_page failed unchanged
      (syncer_step (Some \<lparr>rid_ResourceType = ''space'', rid_Resource = sp_Id s\<rparr>) 0)) t acc
      ((S, fs), faulty_bindings base names) = Some (Ret (acc @ out, err), (S, fs'), faulty_bindings base names') \<and>
    res_Id ` set out \<subseteq> binding_id s ` set (drop i (tn_assignments S (sp_Id s))) \<and>
    (err = None \<longrightarrow> res_Id ` set out = binding_id s ` set (drop i (tn_assignments S (sp_Id s))))"
  using assms(4-7)
proof (induction "length (tn_assignments S (sp_Id s)) - i" arbitrary: i t acc fs names rule: less_induct)
  case less
  let ?xs = "tn_assignments S (sp_Id s)" and ?sid = "\<lparr>rid_ResourceType = ''space'', rid_Resource = sp_Id s\<rparr>"
  let ?step = "syncer_step (Some ?sid) 0"
  have small: "length ?xs < 1000000000" using assms(2) by (simp add: tenant_ok_def small_def)
  obtain cur n where t: "decode_page_token t = \<lparr>pt_Cursor = cur, pt_SpaceName = n\<rparr>" "offset cur = i" "n = [] \<or> n \<in> shown_names s"
    using token_at_decode [OF assms(2,3) less.prems(3,4)] by blast
  obtain rs res err names' fs' where p:
    "assignmentList (faulty_client base tenant_serve) names (Some ?sid) \<lparr>tok_Size = 0, tok_Token = t\<rparr> (S, fs) =
      (Ret ((rs, res, err), names'), S, fs')" "schedule_ok P fs'"
    "err = None \<longrightarrow> names' = tenant_names S \<and> res_Id ` set rs = binding_id s ` set (window i 200 ?xs) \<and>
       (\<exists>n' \<in> shown_names s. token_of res = encode_page_token (next_cursor i 200 ?xs) n')"
    by (rule exE5 [OF faulty_page [OF assms(1-3) less.prems(1,2) t(1,3), unfolded t(2)]]) (elim conjE, rule that)
  have step: "?step t ((S, fs), faulty_bindings base names) = (Ret (rs, res, err), (S, fs'), faulty_bindings base names')"
    by (simp add: syncer_step_def bindIO_apply p(1))
  show ?case
  proof (cases err)
    case (Some e)
    then have "sync_pages (list_page failed unchanged ?step) t acc ((S, fs), faulty_bindings base names) =
        Some (Ret (acc @ [], Some (ErrWrap failed e)), (S, fs'), faulty_bindings base names')"
      by (simp add: sync_pages.simps [of _ t] list_page_def bindIO_apply step Let_def)
    then show ?thesis by (intro exI conjI, assumption) simp_all
  next
    case None
    then obtain n' where next_token: "n' \<in> shown_names s" "token_of res = encode_page_token (next_cursor i 200 ?xs) n'"
      and names': "names' = tenant_names S" and rs: "res_Id ` set rs = binding_id s ` set (window i 200 ?xs)"
      using p(3) by blast
    show ?thesis
    proof (cases "i + 200 < length ?xs")
      case False
      then have "token_of res = []" using next_token(2) by (simp add: next_cursor_def encode_page_token_def)
      then have last: "sync_pages (list_page failed unchanged ?step) t acc ((S, fs), faulty_bindings base names) =
          Some (Ret (acc @ rs, None), (S, fs'), faulty_bindings base names')"
        by (auto simp: sync_pages.simps [of _ t] list_page_def bindIO_apply step None Let_def)
      have "window i 200 ?xs = drop i ?xs" using False by (simp add: window_def)
      then show ?thesis using last rs by (intro exI [of _ rs] exI [of _ None]) auto
    next
      case True
      have ok: "offset_ok (i + 200)" using True small by (simp add: offset_ok_def)
      have tok: "token_of res = encode_page_token (cursor_token (i + 200)) n'"
        using True next_token(2) by (simp add: next_cursor_def)
      then have at: "token_at s (i + 200) (token_of res)" using next_token(1) by (auto simp: token_at_def)
      obtain cur' n'' where dec': "decode_page_token (token_of res) = \<lparr>pt_Cursor = cur', pt_SpaceName = n''\<rparr>" "offset cur' = i + 200"
        using token_at_decode [OF assms(2,3) at ok] by blast
      have fresh: "token_of res \<noteq> t" using dec' t by auto
      have "token_of res \<noteq> []" using dec'(1,2) by (auto simp: decode_page_token_def zero_PageToken_def)
      then have next_page: "sync_pages (list_page failed unchanged ?step) t acc ((S, fs), faulty_bindings base names) =
          sync_pages (list_page failed unchanged ?step) (token_of res) (acc @ rs) ((S, fs'), faulty_bindings base names')"
        using fresh by (auto simp: sync_pages.simps [of _ t] list_page_def bindIO_apply step None Let_def)
      have known: "names' \<in> {[], tenant_names S}" and shorter: "length ?xs - (i + 200) < length ?xs - i"
        using True names' by auto
      obtain out err' fs'' names'' where rest: "sync_pages (list_page failed unchanged ?step) (token_of res) (acc @ rs)
          ((S, fs'), faulty_bindings base names') = Some (Ret ((acc @ rs) @ out, err'), (S, fs''), faulty_bindings base names'')"
        "res_Id ` set out \<subseteq> binding_id s ` set (drop (i + 200) ?xs)"
        "err' = None \<longrightarrow> res_Id ` set out = binding_id s ` set (drop (i + 200) ?xs)"
        by (rule exE4 [OF less.hyps [OF shorter p(2) known at ok, of "acc @ rs"]]) (elim conjE, rule that)
      have "set (drop i ?xs) = set (window i 200 ?xs) \<union> set (drop (i + 200) ?xs)"
        using window_drop [of i 200 ?xs] by (metis set_append)
      then have "res_Id ` set (rs @ out) \<subseteq> binding_id s ` set (drop i ?xs)"
        "err' = None \<longrightarrow> res_Id ` set (rs @ out) = binding_id s ` set (drop i ?xs)"
        using rs rest(2,3) by auto
      then show ?thesis using next_page rest(1) by (intro exI [of _ "rs @ out"]) auto
    qed
  qed
qed



end
