(* ===== verification/Spec2Isabelle.thy ===== *)
theory Spec2Isabelle
  imports ChangesSynced PermissionChanges FaultyChanges FaultyAssignments
begin

text \<open>
  A verification library for the Confluence connector of Baton (\<open>ConductorOne/baton-confluence\<close>): the
  Go program that lists the users, groups, spaces and space roles of an Atlassian Confluence tenant,
  says who holds which of them, and grants and revokes them.

  \<^bold>\<open>The program and how its parts interact.\<close>
  \<open>cmd/baton-confluence/main.go\<close> turns a validated configuration (\<open>pkg/config\<close>) into a connector
  (\<open>pkg/connector/connector.go\<close>), which holds one Confluence client and hands out five builders: groups
  (\<open>group.go\<close>), users (\<open>user.go\<close>), spaces (\<open>spaces.go\<close>), space roles (\<open>space_roles.go\<close>) and space role
  assignments (\<open>space_role_assignments.go\<close>). The SDK calls a builder's \<open>List\<close>, \<open>Entitlements\<close> and
  \<open>Grants\<close> page by page, giving back the page token of the last call until it is empty, and \<open>Grant\<close>
  and \<open>Revoke\<close> on demand. A builder calls the client (\<open>pkg/connector/client\<close>), which makes URLs
  (\<open>path.go\<close>), sends requests through the SDK's HTTP client (\<open>request.go\<close>), classifies the answers
  (\<open>ratelimit.go\<close>) and decodes their JSON (\<open>models.go\<close>).

  \<^bold>\<open>How it is modelled.\<close>
  A call that talks to the outside is a function \<open>'w \<Rightarrow> 'a go \<times> 'w\<close>: \<open>'w\<close> is the state of the outside
  world (the tenant, the network, the response cache), \<open>Ret\<close> a normal return with the tuple of the
  Go function's results, and \<open>Panic\<close> a run-time panic (a nil pointer, an index out of range). Errors
  are values of \<open>go_error\<close>, an absent one is \<open>None\<close>. Go's \<open>int\<close> is a 64-bit word, a string is a list of
  bytes, a struct a record, a pointer that may be nil an option. The builder of space role
  assignments has a cache of role names, which is passed and returned explicitly.

  \<^item> \<^bold>\<open>Prelude\<close>: the type of calls, machine integers, and the locales \<open>codec\<close> and \<open>page_codec\<close> of the
    textual encodings.
  \<^item> \<^bold>\<open>GoStrings, GoUrl, Json, JsonDecode, GoErrors\<close>: what the program uses of Go's standard library:
    \<open>strings\<close>, \<open>strconv\<close>, \<open>unicode/utf8\<close>, \<open>net/url\<close> (parsing, escaping, queries, reference
    resolution), \<open>encoding/json\<close> (printing, parsing, decoding into structs), and the error values.
  \<^item> \<^bold>\<open>Models\<close>: the structs of \<open>models.go\<close> with their JSON decoders and encoders.
  \<^item> \<^bold>\<open>RateLimit, Transport\<close>: \<open>ratelimit.go\<close> and the SDK's rate limit headers; \<open>Do\<close> of the SDK's HTTP
    client, with the transport, the cache and the clock as fields of the client.
  \<^item> \<^bold>\<open>Path, Endpoint, Request, Server\<close>: \<open>path.go\<close>; which URL a path and its options give;
    \<open>makeRequest\<close> of \<open>request.go\<close>; services, functions from a request and a state to an answer and a
    new state, which stand for the API in the syncs and the changes and for canned answers in the
    witnesses.
  \<^item> \<^bold>\<open>ClientUsers, ClientSpaces, ClientRoles\<close>: the operations of \<open>confluence.go\<close>, on users and groups, on
    spaces and their permissions, and on space roles.
  \<^item> \<^bold>\<open>Bag, Sdk, Builder\<close>: the SDK's pagination bag, its resources, entitlements, grants and
    annotations, and its paged listing; the locales \<open>lister\<close> (what an error of a listing may leave
    behind) and \<open>traversal\<close> (page tokens that walk through a state space and end).
  \<^item> \<^bold>\<open>Helpers, Group, User, Spaces, SpaceRoles, SpaceRoleAssignments\<close>: one theory per builder, each
    with its operations and the interpretation of \<open>lister\<close> on them.
  \<^item> \<^bold>\<open>Config, Connector\<close>: the configuration schema and its validation; the connector, and the five
    builders as one state machine.
  \<^item> \<^bold>\<open>Site, Paging, UserSync, GroupSync\<close>: a reference site of users, groups and members that answers the
    v1 endpoints by slices of its lists and changes members on demand; the locales \<open>page_series\<close> and
    \<open>paged_listing\<close> (listings that serve windows of a list); complete syncs of users, of groups and
    of the members of a group, as interpretations of \<open>traversal\<close> and \<open>paged_listing\<close>.
  \<^item> \<^bold>\<open>Tenant, SpaceSync, AssignmentSync\<close>: a reference tenant of spaces, permissions, roles and role
    assignments behind the v2 endpoints, which follow cursors, and complete syncs against it. The sync
    of role assignments also carries the state of its builder.
  \<^item> \<^bold>\<open>Traces, GroupChanges, RoleChanges, PermissionChanges\<close>: \<open>Grant\<close> and \<open>Revoke\<close>. The locale
    \<open>event_store\<close> lifts the effect of a call on an abstraction of the world to sequences of calls;
    the locales \<open>member_store\<close> and \<open>role_store\<close> are the contracts that the connector relies on, with
    what its calls do proved in them; the site and the tenant interpret them.
  \<^item> \<^bold>\<open>Access\<close>: what the syncs give together, who has which role and which users the grants refer to.
  \<^item> \<^bold>\<open>Faults, FaultySync, FaultyAssignments, FaultyChanges\<close>: the same services behind an unreliable
    connection, where a schedule says which requests are refused and which answers are lost. \<open>follows\<close> and \<open>changes\<close>
    compare a call over it with the same call without faults and are proved of the operations from
    their parts; syncs (that of role assignments with its page tokens and its cache in
    FaultyAssignments) and, by the locale \<open>retried_store\<close> of Traces, repeated changes rest on them.
  \<^item> \<^bold>\<open>Gateway, FullSync, Inventory, ChangesSynced\<close>: the site and the tenant behind one address, as the tenant of a
    customer is. The locale \<open>forwards\<close> (a service that answers as another one where that one succeeds),
    interpreted on the site and on the tenant, carries the syncs over to the whole; a sync of the whole
    connector, from its list of builders over resources and their children to grants; what it finds, and
    what it finds after a change.

  \<^bold>\<open>What the lemmas show.\<close>
  A complete sync of every kind of resource and grant ends, leaves the tenant as it is, and finds
  exactly the expected resources and grants. Sequences of grants and revocations of roles and
  memberships simulate a finite map and sets of members; what a grant returns is what the next sync
  lists, up to the annotation of a role granted to a group, and revoking it gives back the old state.
  A sync of the whole connector finds exactly the resources and grants of the selected types; as long as
  permissions and assignments are of users and groups that the connector lists, none of its grants refers
  to a principal, an entitlement or an expanded group that is not listed. After a new member or a new
  holder of a role it finds that grant in addition, and nothing else has changed.
  The syncs of role assignments and of their holders together list exactly who has which role in a
  space, and the grants of groups refer to listed users. Over a connection with faults a sync that
  reports no error has listed everything, with at most a space's name replaced by its id in the sync of
  role assignments, except that a 404 ends the sync of space roles at any page
  without an error; and changes that are tried again until they report no error are made exactly as
  asked for. Revoking a space permission searches all pages, ends, and deletes exactly the first
  match; granting one addresses the space by key. The search for a permission is the search of the
  concatenated pages, and never ends against a server that always has another page; every answer of the
  server is classified, and whether it can be retried is decided by its status alone, although comments in
  \<open>ratelimit.go\<close> and \<open>request.go\<close> want a \<open>Retry-After\<close> header to make any 5xx recoverable; no request leaves the configured host and no id changes its endpoint; the operations of the five builders return resources
  of their own type and no partial page with an error; grants of a space are on entitlements the
  space offers; bags, page tokens, cursors, entitlement names and offsets survive their encodings; the
  bag refines a stack; query parameters do not depend on the order of a Go map; the configuration is
  validated as its schema says and a connector only has nouns and verbs that exist.

  \<^bold>\<open>Bounds.\<close>
  No fuel is used; the number of attempts at a change is that of the faults to come. Loops over slices are structural recursion; the search of a permission and the sync of the SDK
  have no bound in the code and are partial functions, whose value \<open>None\<close> is a call that never returns.
  The complete syncs are proved for lists of fewer than \<open>10^9\<close> elements, so that offsets stay far
  from the end of 64 bits, with pages of the sizes the code asks for (200, 100 where it leaves the size to
  the client's default, 250 in the search for a permission). Ids of spaces and groups are letters,
  digits and hyphens, so that they need no escaping in a path. What \<open>incToken\<close> does is stated
  with the bound at which it wraps. Cursors of the reference tenant are offsets; it answers
  with pages of the size asked for.

  \<^bold>\<open>Parameters.\<close>
  \<open>http.Client.Do\<close>, the response cache, the clock and the calendar layouts of \<open>time.Parse\<close> are not under
  \<open>src/\<close> or are the outside: they are fields of \<open>BaseHttpClient\<close> and occur universally quantified. The
  reference site and tenant, and the witnesses, instantiate them by a service: the API is what its
  documentation says of paging, links, filters and role changes, and the body of the answer to a change
  of a permission is left open. A fault refuses a request with a status outside 2xx, or loses the answer of
  one that was handled.

  \<^bold>\<open>Not modelled.\<close>
  Logging and the debug printing of responses; contexts and cancellation; metrics and the SDK's optional
  client-side rate limiter; the command runner of the SDK (flags, processes, gRPC, the files of a sync, its
  parallel workers and the expansion of grants);
  the wire format of protobuf messages; a second reading of the clock within one extraction of rate limit
  data; the nesting limit of \<open>encoding/json\<close> and its reuse of an array under a repeated key; the details a gRPC status carries besides code and message; the generator call of
  \<open>pkg/config/gen\<close>, the linter import of \<open>tools\<close>, and the test server of \<open>test\<close>.
\<close>

text \<open>
  C28. Every resource that List of any of the five builders returns, with or without an error, has an id of
  the builder's own resource type, and the builder is still a builder of that type afterwards.
\<close>

theorem syncer_lists_its_type:
  assumes "syncer_List s parent t w = (Ret ((rs, res, err), s'), w')"
  shows "list_all (\<lambda>r. map_option rid_ResourceType (res_Id r) = Some (rt_Id (syncer_type s))) rs \<and>
    syncer_type s' = syncer_type s"
  using syncer_listed [OF assms] by (auto simp: of_type_def list_all_iff)

theorem syncer_lists_its_type_witness:
  "\<exists>rs res s'. syncer_List (GroupBuilder (site_client demo_base)) None
      \<lparr>tok_Size = 0, tok_Token = offset_token 0\<rparr> demo_site = (Ret ((rs, res, None), s'), demo_site) \<and> rs \<noteq> [] \<and>
    list_all (\<lambda>r. map_option rid_ResourceType (res_Id r) = Some ''group'') rs"
proof -
  have "offset_ok 0" by (simp add: offset_ok_def)
  then obtain res where run: "groupList (site_client demo_base) \<lparr>tok_Size = 0, tok_Token = offset_token 0\<rparr> demo_site
      = (Ret ([expected_group staff], res, None), demo_site)"
    using groupList_page [OF demo_base_ok demo_site_ok, of 0] by (auto simp: window_def)
  then have step: "syncer_List (GroupBuilder (site_client demo_base)) None
      \<lparr>tok_Size = 0, tok_Token = offset_token 0\<rparr> demo_site =
      (Ret (([expected_group staff], res, None), GroupBuilder (site_client demo_base)), demo_site)"
    by (simp add: bindIO_apply)
  show ?thesis
    using syncer_lists_its_type [OF step] step by auto
qed

text \<open>
  C29. When listing resources through any builder ends in an error, the reply carries no resources and no
  next token, or it is the SDK's own refusal of a page that returned its own token: a partial page is
  never passed on together with an error of the connector.
\<close>

theorem listing_errors:
  assumes "ListResources ty parent_name (syncer_step parent n) t (w, s) = (Ret ((rs, next, annos), Some e), ws')"
  shows "rs = [] \<and> next = [] \<or> (\<exists>msg. e = ErrStatus Internal msg) \<and> t \<noteq> [] \<and> next = t"
  using syncers.list_page_error [OF assms [unfolded ListResources_def]] by auto

theorem listing_errors_witness:
  "\<exists>annos e ws'. ListResources ''user'' [] (syncer_step None 0) ''{'' ([], UserBuilder (demo_client (\<lambda>_. (200, ''{}'')))) =
     (Ret (([], [], annos), Some e), ws')"
proof -
  have "json_parse ''{'' = None" by code_simp
  then have "Unmarshal ''{'' empty_bag = (empty_bag, Some (ErrWrap ''page token corrupt'' (ErrJson SyntaxError)))"
    by (simp add: Unmarshal_def json_Unmarshal_def)
  then have "\<exists>annos e ws'. ListResources ''user'' [] (syncer_step None 0) ''{''
     ([], UserBuilder (demo_client (\<lambda>_. (200, ''{}'')))) = (Ret (([], [], annos), Some e), ws') \<and> e = e"
    by (simp add: ListResources_def list_page_def syncer_step_def userList_def parsePageToken_def bindIO_apply Let_def
        annotations_of_def)
  then obtain annos e ws' where run: "ListResources ''user'' [] (syncer_step None 0) ''{''
     ([], UserBuilder (demo_client (\<lambda>_. (200, ''{}'')))) = (Ret (([], [], annos), Some e), ws')"
    by blast
  show ?thesis using listing_errors [OF run] run by blast
qed

end
